(* ===== verification/Prelude.thy ===== *)
theory Prelude
  imports Main "HOL-Library.Char_ord" "HOL-Library.List_Lexorder"
    "HOL-Library.Product_Lexorder" "HOL-Library.Option_ord" "HOL-Library.Sublist"
begin

text \<open>
  Shared vocabulary of the development: the exceptions the kernel raises, the error monad
  (\<open>kernel_error + 'a\<close>, \<open>Inl\<close> for a raised exception), the row-list primitives that SQL
  statements become, and the generic lemmas about them.  A string is a list of characters
  and stands for a Python \<open>str\<close> whose code points lie below 256; the lexicographic order of
  \<^theory_text>\<open>HOL-Library.List_Lexorder\<close> on them is both Python's string order and SQLite's
  BINARY collation.
\<close>

named_theorems error_simps \<open>inversion of error-monad expressions\<close>
named_theorems row_simps \<open>row-list primitives\<close>

section \<open>Exceptions and the error monad\<close>

datatype kernel_error =
    ValueError string
  | TypeError string
  | KeyError string
  | RuntimeError string
  | OverflowError string
  | LedgerConflict string
  | LedgerSchemaError string
  | IntegrityError string
  | ProgrammingError string
  | WorkflowValidationError string
  | AdapterRegistryError string
  | AttributeError string
  | AssertionError
  | OSError string
  | PromptRegistryError string
  | MissingPromptError string
  | PromptHashMismatchError string
  | InactivePromptError string
  | SurfaceProfileError string

definition bindE :: "'e + 'a \<Rightarrow> ('a \<Rightarrow> 'e + 'b) \<Rightarrow> 'e + 'b" where
  "bindE m f = (case m of Inl e \<Rightarrow> Inl e | Inr x \<Rightarrow> f x)"

definition guardE :: "bool \<Rightarrow> 'e \<Rightarrow> 'e + unit" where
  "guardE b e = (if b then Inr () else Inl e)"

text \<open>\<open>for x in xs: s = f(x, s)\<close>, stopping at the first exception.\<close>

fun foldE :: "('x \<Rightarrow> 's \<Rightarrow> 'e + 's) \<Rightarrow> 'x list \<Rightarrow> 's \<Rightarrow> 'e + 's" where
  "foldE f [] s = Inr s"
| "foldE f (x # xs) s = bindE (f x s) (foldE f xs)"

text \<open>A list comprehension whose body may raise.\<close>

fun mapE :: "('x \<Rightarrow> 'e + 'y) \<Rightarrow> 'x list \<Rightarrow> 'e + 'y list" where
  "mapE f [] = Inr []"
| "mapE f (x # xs) = bindE (f x) (\<lambda>y. bindE (mapE f xs) (\<lambda>ys. Inr (y # ys)))"

lemma bindE_simps [simp]:
  "bindE (Inl e) f = Inl e"
  "bindE (Inr x) f = f x"
  by (simp_all add: bindE_def)

lemma bindE_eq_Inr [error_simps]: "bindE m f = Inr y \<longleftrightarrow> (\<exists>x. m = Inr x \<and> f x = Inr y)"
  by (cases m) auto

lemma bindE_eq_Inl [error_simps]:
  "bindE m f = Inl e \<longleftrightarrow> m = Inl e \<or> (\<exists>x. m = Inr x \<and> f x = Inl e)"
  by (cases m) auto

lemma bindE_assoc: "bindE (bindE m f) g = bindE m (\<lambda>x. bindE (f x) g)"
  by (cases m) auto

lemma bindE_cong [fundef_cong]:
  "m = m' \<Longrightarrow> (\<And>x. m' = Inr x \<Longrightarrow> f x = g x) \<Longrightarrow> bindE m f = bindE m' g"
  by (cases m') auto

lemma guardE_eq [error_simps]:
  "guardE b e = Inr u \<longleftrightarrow> b"
  "guardE b e = Inl e' \<longleftrightarrow> \<not> b \<and> e = e'"
  by (auto simp: guardE_def)

lemma guardE_simps [simp]: "guardE True e = Inr ()" "guardE False e = Inl e"
  by (simp_all add: guardE_def)

lemma if_Inl_eq_Inr [error_simps]:
  "(if b then Inl e else m) = Inr y \<longleftrightarrow> \<not> b \<and> m = Inr y"
  "(if b then m else Inl e) = Inr y \<longleftrightarrow> b \<and> m = Inr y"
  by auto

lemma foldE_append: "foldE f (xs @ ys) s = bindE (foldE f xs s) (foldE f ys)"
  by (induction xs arbitrary: s) (auto simp: bindE_def split: sum.split)

text \<open>An invariant kept by every iteration is kept by the loop.\<close>

lemma foldE_invariant:
  assumes "foldE f xs s = Inr s'" and "I s"
    and "\<And>x t t'. x \<in> set xs \<Longrightarrow> I t \<Longrightarrow> f x t = Inr t' \<Longrightarrow> I t'"
  shows "I s'"
  using assms
proof (induction xs arbitrary: s)
  case Nil
  then show ?case by simp
next
  case (Cons x xs)
  from Cons.prems(1) obtain t where t: "f x s = Inr t" and rest: "foldE f xs t = Inr s'"
    by (auto simp: bindE_eq_Inr)
  have "I t" using Cons.prems(2,3) t by (meson list.set_intros(1))
  with rest show ?case
    by (rule Cons.IH) (use Cons.prems(3) in auto)
qed

lemma mapE_length: "mapE f xs = Inr ys \<Longrightarrow> length ys = length xs"
  by (induction xs arbitrary: ys) (auto simp: bindE_eq_Inr)

section \<open>Rows of a table\<close>

text \<open>
  A table is the list of its rows in \<open>rowid\<close> order (rows are only ever appended or
  rewritten in place).  \<open>UPDATE ... WHERE P\<close> rewrites the rows that satisfy \<open>P\<close>;
  \<open>SELECT ... LIMIT 1\<close> followed by \<open>fetchone()\<close> is the first row of the selection.
\<close>

definition update_where :: "('r \<Rightarrow> bool) \<Rightarrow> ('r \<Rightarrow> 'r) \<Rightarrow> 'r list \<Rightarrow> 'r list" where
  "update_where P f rows = map (\<lambda>r. if P r then f r else r) rows"

definition fetchone :: "'r list \<Rightarrow> 'r option" where
  "fetchone rows = (case rows of [] \<Rightarrow> None | r # _ \<Rightarrow> Some r)"

definition select_one :: "('r \<Rightarrow> bool) \<Rightarrow> 'r list \<Rightarrow> 'r option" where
  "select_one P rows = fetchone (filter P rows)"

definition fetchlast :: "'r list \<Rightarrow> 'r option" where
  "fetchlast rows = fetchone (rev rows)"

lemma update_where_simps [row_simps]:
  "length (update_where P f rows) = length rows"
  "map k (update_where P f rows) = map (\<lambda>r. if P r then k (f r) else k r) rows"
  "set (update_where P f rows) = (\<lambda>r. if P r then f r else r) ` set rows"
  by (auto simp: update_where_def)

lemma update_where_map_key:
  "(\<And>r. P r \<Longrightarrow> k (f r) = k r) \<Longrightarrow> map k (update_where P f rows) = map k rows"
  by (simp add: update_where_def)

lemma update_where_nth:
  "i < length rows \<Longrightarrow> update_where P f rows ! i = (if P (rows ! i) then f (rows ! i) else rows ! i)"
  by (simp add: update_where_def)

lemma update_where_none: "(\<And>r. r \<in> set rows \<Longrightarrow> \<not> P r) \<Longrightarrow> update_where P f rows = rows"
  by (simp add: update_where_def map_idI)

lemma fetchone_simps [simp]: "fetchone [] = None" "fetchone (r # rs) = Some r"
  by (simp_all add: fetchone_def)

lemma fetchone_None [row_simps]: "fetchone rows = None \<longleftrightarrow> rows = []"
  by (cases rows) auto

lemma fetchone_Some: "fetchone rows = Some r \<Longrightarrow> r \<in> set rows"
  by (cases rows) auto

lemma fetchlast_Some: "fetchlast rows = Some r \<Longrightarrow> r \<in> set rows"
  unfolding fetchlast_def using fetchone_Some by fastforce

lemma fetchlast_None [row_simps]: "fetchlast rows = None \<longleftrightarrow> rows = []"
  by (simp add: fetchlast_def fetchone_None)

lemma select_one_Some: "select_one P rows = Some r \<Longrightarrow> r \<in> set rows \<and> P r"
  unfolding select_one_def by (drule fetchone_Some) simp

lemma select_one_None [row_simps]: "select_one P rows = None \<longleftrightarrow> (\<forall>r \<in> set rows. \<not> P r)"
  by (auto simp: select_one_def fetchone_None filter_empty_conv)

lemma select_one_append:
  "select_one P (xs @ ys) = (case select_one P xs of None \<Rightarrow> select_one P ys | Some r \<Rightarrow> Some r)"
  by (induction xs) (auto simp: select_one_def)

lemma distinct_map_unique:
  "distinct (map k rows) \<Longrightarrow> r \<in> set rows \<Longrightarrow> s \<in> set rows \<Longrightarrow> k r = k s \<Longrightarrow> r = s"
  by (metis distinct_map inj_onD)

lemma select_one_key:
  assumes "distinct (map k rows)" "r \<in> set rows"
  shows "select_one (\<lambda>r. k r = k' \<and> Q r) rows = Some r \<longleftrightarrow> k r = k' \<and> Q r"
proof
  assume r: "k r = k' \<and> Q r"
  show "select_one (\<lambda>r. k r = k' \<and> Q r) rows = Some r"
  proof (cases "select_one (\<lambda>r. k r = k' \<and> Q r) rows")
    case None
    then have False using r assms(2) by (auto simp: select_one_None)
    then show ?thesis ..
  next
    case (Some s)
    then have "s \<in> set rows" and "k s = k'" by (auto dest: select_one_Some)
    with r have "s = r" using distinct_map_unique[OF assms(1) _ assms(2)] by simp
    with Some show ?thesis by simp
  qed
qed (auto dest: select_one_Some)

lemma select_one_id:
  assumes "distinct (map k rows)" "r \<in> set rows" "k r = k'"
  shows "select_one (\<lambda>r. k r = k') rows = Some r"
  using select_one_key[OF assms(1,2), where Q = "\<lambda>_. True" and k' = k'] assms(3) by simp

section \<open>Ordered selections\<close>

text \<open>
  \<open>ORDER BY key LIMIT 1\<close> is the head of the stable sort; \<open>ORDER BY key DESC LIMIT 1\<close> its
  last element (every descending query of the ledger ends its key with the primary key, so
  ties do not arise).
\<close>

lemma fetchone_sort_min:
  assumes "fetchone (sort_key k rows) = Some r" "s \<in> set rows"
  shows "k r \<le> k s"
proof -
  obtain rs where rs: "sort_key k rows = r # rs"
    using assms(1) by (cases "sort_key k rows") auto
  have "sorted (map k (r # rs))" using sorted_sort_key[of k rows] by (simp add: rs)
  moreover have "s \<in> set (r # rs)" using assms(2) set_sort[of k rows] by (simp add: rs)
  ultimately show ?thesis by auto
qed

lemma fetchlast_sort_max:
  assumes "fetchlast (sort_key k rows) = Some r" "s \<in> set rows"
  shows "k s \<le> k r"
proof -
  obtain rs where "rev (sort_key k rows) = r # rs"
    using assms(1) by (cases "rev (sort_key k rows)") (auto simp: fetchlast_def)
  then have rs: "sort_key k rows = rev rs @ [r]" by (metis rev.simps(2) rev_swap)
  have "sorted (map k (rev rs @ [r]))" using sorted_sort_key[of k rows] by (simp add: rs)
  moreover have "s \<in> set (rev rs @ [r])" using assms(2) set_sort[of k rows] by (simp add: rs)
  ultimately show ?thesis by (auto simp: sorted_append)
qed

section \<open>Options and strings\<close>

definition the_or :: "'a \<Rightarrow> 'a option \<Rightarrow> 'a" where
  "the_or d x = (case x of None \<Rightarrow> d | Some v \<Rightarrow> v)"

text \<open>SQL \<open>COALESCE(a, b)\<close>, which is also Python's \<open>a if a is not None else b\<close>.\<close>

definition coalesce :: "'a option \<Rightarrow> 'a option \<Rightarrow> 'a option" where
  "coalesce a b = (case a of None \<Rightarrow> b | Some x \<Rightarrow> Some x)"

lemma the_or_simps [simp]: "the_or d None = d" "the_or d (Some v) = v"
  by (simp_all add: the_or_def)

lemma coalesce_simps [simp]: "coalesce None b = b" "coalesce (Some x) b = Some x"
  by (simp_all add: coalesce_def)

text \<open>Python \<open>a or b\<close> on an optional string: the empty string is false.\<close>

definition str_or :: "string option \<Rightarrow> string \<Rightarrow> string" where
  "str_or a b = (case a of None \<Rightarrow> b | Some s \<Rightarrow> if s = [] then b else s)"

definition starts_with :: "string \<Rightarrow> string \<Rightarrow> bool" where
  "starts_with p s \<longleftrightarrow> take (length p) s = p"

lemma starts_with_prefix: "starts_with p s \<longleftrightarrow> prefix p s"
  unfolding starts_with_def by (metis append_take_drop_id prefix_def append_eq_conv_conj)

fun join_with :: "string \<Rightarrow> string list \<Rightarrow> string" where
  "join_with sep [] = []"
| "join_with sep [x] = x"
| "join_with sep (x # y # ys) = x @ sep @ join_with sep (y # ys)"

end
