(* ===== verification/Timestamps.thy ===== *)
theory Timestamps
  imports Py_Values
begin

text \<open>
  Timestamps of the ledger.  Columns hold ISO-8601 text; SQL compares and sorts that text,
  while lease checks parse it.  A Python \<open>datetime\<close> is its wall clock in microseconds since
  0001-01-01T00:00 with an optional UTC offset; an instant is a \<open>utc\<close>.  The calendar is
  CPython's (\<open>_ymd2ord\<close>, \<open>_ord2ymd\<close>), the parser covers the extended calendar format
  \<open>YYYY-MM-DD[?HH[:MM[:SS[.f*]]]][Z|+-HH:MM]\<close> of \<open>datetime.fromisoformat\<close>; the ISO week and
  basic (separator-free) formats are outside the model and read as malformed.

  The main facts: parsing inverts rendering, and on rendered timestamps the text order used
  by SQL is the order of the instants used by the lease checks.
\<close>

section \<open>Instants\<close>

datatype utc = Utc (micros: int)

instantiation utc :: linorder
begin

definition less_eq_utc :: "utc \<Rightarrow> utc \<Rightarrow> bool" where
  "less_eq_utc a b \<longleftrightarrow> micros a \<le> micros b"

definition less_utc :: "utc \<Rightarrow> utc \<Rightarrow> bool" where
  "less_utc a b \<longleftrightarrow> micros a < micros b"

instance
  by intro_classes (auto simp: less_eq_utc_def less_utc_def intro: utc.expand)

end

text \<open>A \<open>datetime\<close> value: wall clock and offset from UTC (\<open>None\<close> for a naive one).\<close>

datatype pydatetime = PyDatetime (wall: int) (utc_offset: "int option")

abbreviation day_micros :: int where "day_micros \<equiv> 86400000000"

definition max_micros :: int where "max_micros = 3652059 * day_micros"

definition in_range :: "utc \<Rightarrow> bool" where
  "in_range t \<longleftrightarrow> 0 \<le> micros t \<and> micros t < max_micros"

definition checked_utc :: "int \<Rightarrow> kernel_error + utc" where
  "checked_utc us = (if in_range (Utc us) then Inr (Utc us)
     else Inl (OverflowError ''date value out of range''))"

text \<open>\<open>t + timedelta(seconds=n)\<close>.\<close>

definition add_seconds :: "utc \<Rightarrow> int \<Rightarrow> kernel_error + utc" where
  "add_seconds t n = checked_utc (micros t + n * 1000000)"

section \<open>Calendar\<close>

definition is_leap :: "nat \<Rightarrow> bool" where
  "is_leap y \<longleftrightarrow> y mod 4 = 0 \<and> (y mod 100 \<noteq> 0 \<or> y mod 400 = 0)"

definition days_before_year :: "nat \<Rightarrow> nat" where
  "days_before_year y = (let p = y - 1 in p * 365 + p div 4 - p div 100 + p div 400)"

definition month_lengths :: "bool \<Rightarrow> nat list" where
  "month_lengths leap = [31, if leap then 29 else 28, 31, 30, 31, 30, 31, 31, 30, 31, 30, 31]"

definition days_in_month :: "bool \<Rightarrow> nat \<Rightarrow> nat" where
  "days_in_month leap m = month_lengths leap ! (m - 1)"

definition days_before_month :: "bool \<Rightarrow> nat \<Rightarrow> nat" where
  "days_before_month leap m = sum_list (take (m - 1) (month_lengths leap))"

text \<open>Days since 0001-01-01 (CPython's ordinal minus one).\<close>

definition ymd_to_day :: "nat \<Rightarrow> nat \<Rightarrow> nat \<Rightarrow> nat" where
  "ymd_to_day y m d = days_before_year y + days_before_month (is_leap y) m + (d - 1)"

text \<open>Month and day of the 0-based day \<open>n\<close> of a year.\<close>

fun md_scan :: "nat \<Rightarrow> nat list \<Rightarrow> nat \<Rightarrow> nat \<times> nat" where
  "md_scan m [] n = (m, n + 1)"
| "md_scan m (l # ls) n = (if n < l then (m, n + 1) else md_scan (m + 1) ls (n - l))"

definition day_to_md :: "bool \<Rightarrow> nat \<Rightarrow> nat \<times> nat" where
  "day_to_md leap n = md_scan 1 (month_lengths leap) n"

definition day_to_ymd :: "nat \<Rightarrow> nat \<times> nat \<times> nat" where
  "day_to_ymd n =
    (let n400 = n div 146097; r400 = n mod 146097;
         n100 = r400 div 36524; r100 = r400 mod 36524;
         n4 = r100 div 1461; r4 = r100 mod 1461;
         n1 = r4 div 365; r1 = r4 mod 365;
         y = n400 * 400 + 1 + n100 * 100 + n4 * 4 + n1
     in if n1 = 4 \<or> n100 = 4 then (y - 1, 12, 31)
        else (let leap = (n1 = 3 \<and> (n4 \<noteq> 24 \<or> n100 = 3)); (m, d) = day_to_md leap r1
              in (y, m, d)))"

definition valid_ymd :: "nat \<Rightarrow> nat \<Rightarrow> nat \<Rightarrow> bool" where
  "valid_ymd y m d \<longleftrightarrow> 1 \<le> y \<and> y \<le> 9999 \<and> 1 \<le> m \<and> m \<le> 12 \<and> 1 \<le> d \<and> d \<le> days_in_month (is_leap y) m"

section \<open>Rendering\<close>

fun pad :: "nat \<Rightarrow> nat \<Rightarrow> string" where
  "pad 0 n = []"
| "pad (Suc w) n = digit_char ((n div 10 ^ w) mod 10) # pad w n"

text \<open>\<open>t.isoformat(timespec="microseconds")\<close> of a UTC datetime.\<close>

definition isoformat :: "utc \<Rightarrow> string" where
  "isoformat t =
    (let us = nat (micros t);
         (y, m, d) = day_to_ymd (us div 86400000000);
         s = us div 1000000
     in pad 4 y @ ''-'' @ pad 2 m @ ''-'' @ pad 2 d @ ''T'' @ pad 2 (s div 3600 mod 24) @ '':'' @
        pad 2 (s div 60 mod 60) @ '':'' @ pad 2 (s mod 60) @ ''.'' @ pad 6 (us mod 1000000) @
        ''+00:00'')"

section \<open>Parsing\<close>

definition take_number :: "nat \<Rightarrow> string \<Rightarrow> (nat \<times> string) option" where
  "take_number w s =
     (if w \<le> length s \<and> list_all is_digit (take w s)
      then Some (digits_value (take w s), drop w s) else None)"

definition expect :: "char \<Rightarrow> string \<Rightarrow> string option" where
  "expect c s = (case s of [] \<Rightarrow> None | x # r \<Rightarrow> if x = c then Some r else None)"

text \<open>\<open>[:MM[:SS[.f+]]]\<close> after the hour: minutes, seconds, microseconds; all must be consumed.\<close>

definition parse_fraction :: "string \<Rightarrow> nat option" where
  "parse_fraction s =
     (if s = [] then Some 0
      else if (hd s = CHR ''.'' \<or> hd s = CHR '','') \<and> tl s \<noteq> [] \<and> list_all is_digit (tl s)
      then Some (digits_value (take 6 (tl s)) * 10 ^ (6 - min 6 (length (tl s))))
      else None)"

definition parse_clock :: "string \<Rightarrow> (nat \<times> nat \<times> nat \<times> nat) option" where
  "parse_clock s = (case take_number 2 s of None \<Rightarrow> None | Some (h, s1) \<Rightarrow>
     if s1 = [] then Some (h, 0, 0, 0)
     else (case expect CHR '':'' s1 of None \<Rightarrow> None | Some s2 \<Rightarrow>
      (case take_number 2 s2 of None \<Rightarrow> None | Some (mi, s3) \<Rightarrow>
       if s3 = [] then Some (h, mi, 0, 0)
       else (case expect CHR '':'' s3 of None \<Rightarrow> None | Some s4 \<Rightarrow>
        (case take_number 2 s4 of None \<Rightarrow> None | Some (sec, s5) \<Rightarrow>
         (case parse_fraction s5 of None \<Rightarrow> None | Some us \<Rightarrow> Some (h, mi, sec, us)))))))"

definition is_tz_char :: "char \<Rightarrow> bool" where
  "is_tz_char c \<longleftrightarrow> c = CHR ''+'' \<or> c = CHR ''-'' \<or> c = CHR ''Z''"

definition clock_micros :: "nat \<times> nat \<times> nat \<times> nat \<Rightarrow> int" where
  "clock_micros = (\<lambda>(h, mi, sec, us). ((int h * 60 + int mi) * 60 + int sec) * 1000000 + int us)"

definition parse_offset :: "string \<Rightarrow> int option option" where
  "parse_offset s =
     (if s = [] then Some None
      else if s = ''Z'' then Some (Some 0)
      else if hd s = CHR ''Z'' then None
      else (case parse_clock (tl s) of None \<Rightarrow> None
        | Some c \<Rightarrow> if clock_micros c < day_micros
            then Some (Some (if hd s = CHR ''-'' then - clock_micros c else clock_micros c)) else None))"

definition parse_date :: "string \<Rightarrow> ((nat \<times> nat \<times> nat) \<times> string) option" where
  "parse_date s = (case take_number 4 s of None \<Rightarrow> None | Some (y, s1) \<Rightarrow>
     (case expect CHR ''-'' s1 of None \<Rightarrow> None | Some s2 \<Rightarrow>
      (case take_number 2 s2 of None \<Rightarrow> None | Some (m, s3) \<Rightarrow>
       (case expect CHR ''-'' s3 of None \<Rightarrow> None | Some s4 \<Rightarrow>
        (case take_number 2 s4 of None \<Rightarrow> None | Some (d, s5) \<Rightarrow>
          if valid_ymd y m d then Some ((y, m, d), s5) else None)))))"

definition valid_clock :: "nat \<times> nat \<times> nat \<times> nat \<Rightarrow> bool" where
  "valid_clock = (\<lambda>(h, mi, sec, us). h < 24 \<and> mi < 60 \<and> sec < 60)"

text \<open>\<open>datetime.fromisoformat\<close>; \<open>None\<close> is its ValueError.\<close>

definition fromisoformat :: "string \<Rightarrow> pydatetime option" where
  "fromisoformat s = (case parse_date s of None \<Rightarrow> None | Some ((y, m, d), r) \<Rightarrow>
     (let day = int (ymd_to_day y m d) * day_micros in
      if r = [] then Some (PyDatetime day None)
      else (let t = tl r;
                body = takeWhile (\<lambda>c. \<not> is_tz_char c) t;
                zone = dropWhile (\<lambda>c. \<not> is_tz_char c) t
            in case parse_clock body of None \<Rightarrow> None | Some c \<Rightarrow>
               if valid_clock c
               then (case parse_offset zone of None \<Rightarrow> None
                  | Some off \<Rightarrow> Some (PyDatetime (day + clock_micros c) off))
               else None)))"

section \<open>What the source does with them\<close>

text \<open>
  The environment of one operation: successive readings of the system clock, the supply of
  \<open>uuid4().hex\<close> strings (drawn in order; the ledger state counts the draws) and the host's
  local UTC offset for a wall clock.
\<close>

record env =
  clock :: "nat \<Rightarrow> utc"
  uuid_hex :: "nat \<Rightarrow> string"
  local_offset :: "int \<Rightarrow> int"

text \<open>A \<open>datetime | str | None\<close> argument.\<close>

datatype ts_arg = TsNone | TsText string | TsDatetime pydatetime

text \<open>\<open>value.replace(tzinfo=UTC)\<close> for a naive datetime, \<open>astimezone(UTC)\<close> otherwise.\<close>

definition datetime_to_utc :: "pydatetime \<Rightarrow> kernel_error + utc" where
  "datetime_to_utc v = (case utc_offset v of
     None \<Rightarrow> checked_utc (wall v) | Some off \<Rightarrow> checked_utc (wall v - off))"

definition iso_timestamp :: "utc \<Rightarrow> ts_arg \<Rightarrow> kernel_error + string" where
  "iso_timestamp now v = (case v of
     TsNone \<Rightarrow> Inr (isoformat now)
   | TsText s \<Rightarrow> Inr s
   | TsDatetime d \<Rightarrow> bindE (datetime_to_utc d) (\<lambda>t. Inr (isoformat t)))"

text \<open>The ledger's \<open>_coerce_datetime\<close> on column text: a naive text is read in the host's zone.\<close>

definition coerce_datetime :: "env \<Rightarrow> string \<Rightarrow> kernel_error + utc" where
  "coerce_datetime E s = (case fromisoformat s of
     None \<Rightarrow> Inl (ValueError (''Invalid isoformat string: '' @ repr_str s))
   | Some v \<Rightarrow> (case utc_offset v of
       None \<Rightarrow> checked_utc (wall v - local_offset E (wall v))
     | Some off \<Rightarrow> checked_utc (wall v - off)))"

text \<open>
  The policy module's \<open>_coerce_datetime\<close>: surrounding space is dropped, a trailing \<open>Z\<close> is
  rewritten, and a naive text is read as UTC.
\<close>

definition policy_coerce_datetime :: "ts_arg \<Rightarrow> kernel_error + utc option" where
  "policy_coerce_datetime v = (case v of
     TsNone \<Rightarrow> Inr None
   | TsDatetime d \<Rightarrow> bindE (datetime_to_utc d) (\<lambda>t. Inr (Some t))
   | TsText s \<Rightarrow>
      (let t = strip s;
           t' = (if t \<noteq> [] \<and> last t = CHR ''Z'' then butlast t @ ''+00:00'' else t)
       in case fromisoformat t' of
            None \<Rightarrow> Inl (ValueError (''Invalid isoformat string: '' @ repr_str t'))
          | Some d \<Rightarrow> bindE (datetime_to_utc d) (\<lambda>t. Inr (Some t))))"

section \<open>The calendar is inverted exactly\<close>

lemma md_scan_correct:
  assumes "n < sum_list ls" "md_scan i ls n = (m, d)"
  shows "i \<le> m \<and> m < i + length ls \<and> 1 \<le> d \<and> d \<le> ls ! (m - i) \<and> sum_list (take (m - i) ls) + (d - 1) = n"
  using assms
proof (induction ls arbitrary: i n)
  case Nil
  then show ?case by simp
next
  case (Cons l ls)
  show ?case
  proof (cases "n < l")
    case True
    with Cons.prems show ?thesis by auto
  next
    case False
    with Cons.prems have "i + 1 \<le> m \<and> m < i + 1 + length ls \<and> 1 \<le> d \<and> d \<le> ls ! (m - (i + 1)) \<and>
        sum_list (take (m - (i + 1)) ls) + (d - 1) = n - l"
      by (intro Cons.IH) auto
    moreover from this have "m - i = Suc (m - (i + 1))" by arith
    ultimately show ?thesis using False by auto
  qed
qed

lemma month_lengths_simps [simp]:
  "length (month_lengths leap) = 12"
  "sum_list (month_lengths leap) = (if leap then 366 else 365)"
  by (simp_all add: month_lengths_def)

lemma day_to_md_correct:
  assumes "n < (if leap then 366 else 365)" "day_to_md leap n = (m, d)"
  shows "1 \<le> m" "m \<le> 12" "1 \<le> d" "d \<le> days_in_month leap m"
    "days_before_month leap m + (d - 1) = n"
  using md_scan_correct[of n "month_lengths leap" 1 m d] assms
  by (auto simp: day_to_md_def days_in_month_def days_before_month_def)

lemma year_parts:
  fixes a b c e :: nat
  assumes "e < 4" "c < 25" "b < 4"
  shows "(400 * a + 100 * b + 4 * c + e) div 4 = 100 * a + 25 * b + c"
    and "(400 * a + 100 * b + 4 * c + e) div 100 = 4 * a + b"
    and "(400 * a + 100 * b + 4 * c + e) div 400 = a"
proof -
  show "(400 * a + 100 * b + 4 * c + e) div 4 = 100 * a + 25 * b + c"
    using assms by (intro div_nat_eqI) simp_all
  show "(400 * a + 100 * b + 4 * c + e) div 100 = 4 * a + b"
    using assms by (intro div_nat_eqI) simp_all
  show "(400 * a + 100 * b + 4 * c + e) div 400 = a"
    using assms by (intro div_nat_eqI) simp_all
qed

lemma days_before_year_parts:
  assumes "e < 4" "c < 25" "b < 4"
  shows "days_before_year (400 * a + 100 * b + 4 * c + e + 1) = 146097 * a + 36524 * b + 1461 * c + 365 * e"
  using year_parts[OF assms, of a] by (simp add: days_before_year_def Let_def)

lemma is_leap_parts:
  fixes a b c e :: nat
  assumes "e < 4" "c < 25" "b < 4"
  shows "is_leap (400 * a + 100 * b + 4 * c + e + 1) \<longleftrightarrow> e = 3 \<and> (c \<noteq> 24 \<or> b = 3)"
proof -
  let ?y = "400 * a + 100 * b + 4 * c + e + 1"
  have "?y = (e + 1) + (100 * a + 25 * b + c) * 4" by simp
  then have "?y mod 4 = (e + 1) mod 4" by (metis mod_mult_self1)
  then have m4: "?y mod 4 = 0 \<longleftrightarrow> e = 3" using assms(1) by (cases "e = 3") auto
  have "?y = (4 * c + e + 1) + (4 * a + b) * 100" by simp
  then have "?y mod 100 = (4 * c + e + 1) mod 100" by (metis mod_mult_self1)
  then have m100: "?y mod 100 = 0 \<longleftrightarrow> 4 * c + e + 1 = 100"
    using assms by (cases "4 * c + e + 1 = 100") auto
  have "?y = (100 * b + 4 * c + e + 1) + a * 400" by simp
  then have "?y mod 400 = (100 * b + 4 * c + e + 1) mod 400" by (metis mod_mult_self1)
  then have m400: "?y mod 400 = 0 \<longleftrightarrow> 100 * b + 4 * c + e + 1 = 400"
    using assms by (cases "100 * b + 4 * c + e + 1 = 400") auto
  show ?thesis unfolding is_leap_def m4 m100 m400 using assms by arith
qed

lemma day_to_ymd_correct:
  assumes "n < 3652059" "day_to_ymd n = (y, m, d)"
  shows "valid_ymd y m d" "ymd_to_day y m d = n"
proof -
  define a r b s c t e u where
    "a = n div 146097" "r = n mod 146097" "b = r div 36524" "s = r mod 36524"
    "c = s div 1461" "t = s mod 1461" "e = t div 365" "u = t mod 365"
  note defs = this
  have n: "n = 146097 * a + 36524 * b + 1461 * c + 365 * e + u"
    unfolding defs by presburger
  have bounds: "r < 146097" "s < 36524" "t < 1461" "u < 365" unfolding defs by simp_all
  have r: "r = 36524 * b + s" and s: "s = 1461 * c + t" and t: "t = 365 * e + u"
    unfolding defs by presburger+
  have b: "b \<le> 4" and c: "c < 25" and e: "e \<le> 4" using bounds r s t by linarith+
  have a: "a \<le> 24" using n assms(1) by linarith
  let ?Y = "400 * a + 100 * b + 4 * c + e"
  have ymd: "day_to_ymd n = (if e = 4 \<or> b = 4 then (?Y, 12, 31)
      else let leap = (e = 3 \<and> (c \<noteq> 24 \<or> b = 3)); (m, d) = day_to_md leap u in (?Y + 1, m, d))"
    unfolding day_to_ymd_def Let_def defs by (simp add: algebra_simps)
  have "valid_ymd y m d \<and> ymd_to_day y m d = n"
  proof (cases "e = 4 \<or> b = 4")
    case True
    then have ym: "y = ?Y" "m = 12" "d = 31" using ymd assms(2) by auto
    obtain b' c' e' where p: "?Y = 400 * a + 100 * b' + 4 * c' + e' + 1" "e' < 4" "c' < 25" "b' < 4"
      and leap: "e' = 3 \<and> (c' \<noteq> 24 \<or> b' = 3)"
      and m: "146097 * a + 36524 * b' + 1461 * c' + 365 * e' + 365 = n"
    proof (cases "b = 4")
      case True
      with bounds r have "s = 0" by linarith
      with s t have "c = 0" "e = 0" "u = 0" by linarith+
      with True n that[of 3 24 3] show ?thesis by simp
    next
      case False
      with True have e4: "e = 4" by simp
      with t bounds have "u = 0" by linarith
      have "c \<le> 23" using s bounds t e4 by linarith
      with False b e4 n \<open>u = 0\<close> that[of b c 3] show ?thesis by simp
    qed
    have "is_leap y" using is_leap_parts[OF p(2-4), of a] leap ym(1) p(1) by simp
    moreover have "days_before_year y = n - 365"
      using days_before_year_parts[OF p(2-4), of a] ym(1) p(1) m by simp
    moreover have "y \<le> 9999"
    proof (rule ccontr)
      assume "\<not> y \<le> 9999"
      then have "10000 \<le> ?Y" using ym by simp
      with m assms(1) p show False by linarith
    qed
    ultimately show ?thesis using ym m p(1) by (simp add: valid_ymd_def ymd_to_day_def days_before_month_def
        days_in_month_def month_lengths_def)
  next
    case False
    let ?leap = "e = 3 \<and> (c \<noteq> 24 \<or> b = 3)"
    from False have lt: "e < 4" "b < 4" using b e by auto
    obtain m' d' where md: "day_to_md ?leap u = (m', d')" by fastforce
    with False ymd assms(2) have ym: "y = ?Y + 1" "m = m'" "d = d'" by (auto simp: Let_def)
    have "u < (if ?leap then 366 else 365)" using bounds by simp
    note md_ok = day_to_md_correct[OF this md]
    have "is_leap y \<longleftrightarrow> ?leap" using is_leap_parts[OF lt(1) c lt(2), of a] ym by simp
    moreover have "days_before_year y = n - u"
      using days_before_year_parts[OF lt(1) c lt(2), of a] ym n by simp
    moreover have "y \<le> 9999" using n a lt c ym assms(1) by linarith
    ultimately show ?thesis using md_ok ym n by (simp add: valid_ymd_def ymd_to_day_def)
  qed
  then show "valid_ymd y m d" "ymd_to_day y m d = n" by auto
qed


section \<open>Text order is time order\<close>

lemma days_before_year_Suc:
  assumes "1 \<le> y"
  shows "days_before_year (Suc y) = days_before_year y + (if is_leap y then 366 else 365)"
proof -
  obtain p where y: "y = Suc p" using assms by (cases y) auto
  define A B C where "A = (4 dvd y)" "B = (100 dvd y)" "C = (400 dvd y)"
  note ABC = this
  have d4: "y div 4 = (if A then Suc (p div 4) else p div 4)"
    and d100: "y div 100 = (if B then Suc (p div 100) else p div 100)"
    and d400: "y div 400 = (if C then Suc (p div 400) else p div 400)"
    unfolding y ABC by (simp_all only: div_Suc dvd_eq_mod_eq_0)
  have i1: "A" if "B" using that unfolding ABC by (rule dvd_trans [rotated]) simp
  have i2: "B" if "C" using that unfolding ABC by (rule dvd_trans [rotated]) simp
  have leap: "is_leap y \<longleftrightarrow> A \<and> (\<not> B \<or> C)"
    by (simp add: is_leap_def dvd_eq_mod_eq_0 ABC)
  have le: "p div 100 \<le> p" by simp
  have "days_before_year y = p * 365 + p div 4 - p div 100 + p div 400"
    and "days_before_year (Suc y) = y * 365 + y div 4 - y div 100 + y div 400"
    by (simp_all add: days_before_year_def Let_def y)
  then have eqs: "days_before_year (Suc y) = y * 365 + (if A then Suc (p div 4) else p div 4)
      - (if B then Suc (p div 100) else p div 100) + (if C then Suc (p div 400) else p div 400)"
    "days_before_year y = p * 365 + p div 4 - p div 100 + p div 400"
    by (simp_all only: d4 d100 d400)
  have y365: "y * 365 = p * 365 + 365" by (simp add: y)
  consider "\<not> A" "\<not> B" "\<not> C" | "A" "\<not> B" "\<not> C" | "A" "B" "\<not> C" | "A" "B" "C"
    using i1 i2 by blast
  then show ?thesis
  proof cases
    case 1
    then show ?thesis unfolding eqs leap using y365 le by (simp only: if_True if_False simp_thms; linarith)
  next
    case 2
    then show ?thesis unfolding eqs leap using y365 le by (simp only: if_True if_False simp_thms; linarith)
  next
    case 3
    then show ?thesis unfolding eqs leap using y365 le by (simp only: if_True if_False simp_thms; linarith)
  next
    case 4
    then show ?thesis unfolding eqs leap using y365 le by (simp only: if_True if_False simp_thms; linarith)
  qed
qed

lemma days_before_year_mono: "1 \<le> y \<Longrightarrow> days_before_year y \<le> days_before_year (y + k)"
proof (induction k)
  case (Suc k)
  then show ?case using days_before_year_Suc[of "y + k"] by (auto split: if_splits)
qed simp

lemma days_before_month_step:
  assumes "1 \<le> m" "m < m'" "m' \<le> 13"
  shows "days_before_month leap m + days_in_month leap m \<le> days_before_month leap m'"
proof -
  have "days_before_month leap m + days_in_month leap m = sum_list (take m (month_lengths leap))"
    using assms take_Suc_conv_app_nth[of "m - 1" "month_lengths leap"]
    by (simp add: days_before_month_def days_in_month_def)
  also have "\<dots> \<le> sum_list (take (m + (m' - 1 - m)) (month_lengths leap))"
    by (simp only: take_add sum_list_append)
  also have "m + (m' - 1 - m) = m' - 1" using assms by simp
  finally show ?thesis by (simp add: days_before_month_def)
qed

lemma ymd_day_in_year:
  assumes "valid_ymd y m d"
  shows "days_before_month (is_leap y) m + (d - 1) < (if is_leap y then 366 else 365)"
  using days_before_month_step[of m 13 "is_leap y"] assms
  by (auto simp: valid_ymd_def days_before_month_def[of _ 13])

lemma ymd_to_day_mono:
  assumes "valid_ymd y m d" "valid_ymd y' m' d'" "(y, m, d) < (y', m', d')"
  shows "ymd_to_day y m d < ymd_to_day y' m' d'"
proof -
  have "y < y' \<or> y = y' \<and> (m < m' \<or> m = m' \<and> d < d')" using assms(3) by auto
  then consider "y < y'" | "y = y'" "m < m'" | "y = y'" "m = m'" "d < d'" by blast
  then show ?thesis
  proof cases
    case 1
    then have "days_before_year (Suc y) \<le> days_before_year y'"
      using days_before_year_mono[of "Suc y" "y' - Suc y"] by simp
    then show ?thesis using ymd_day_in_year[OF assms(1)] days_before_year_Suc[of y] assms(1)
      by (auto simp: ymd_to_day_def valid_ymd_def split: if_splits)
  next
    case 2
    then have "days_before_month (is_leap y) m + days_in_month (is_leap y) m \<le> days_before_month (is_leap y) m'"
      using assms(1,2) by (intro days_before_month_step) (auto simp: valid_ymd_def)
    with 2 assms(1,2) show ?thesis by (auto simp: ymd_to_day_def valid_ymd_def)
  next
    case 3
    with assms show ?thesis by (auto simp: ymd_to_day_def valid_ymd_def)
  qed
qed

lemma day_to_ymd_mono:
  assumes "n < n'" "n' < 3652059"
  shows "day_to_ymd n < day_to_ymd n'"
proof (rule ccontr)
  obtain y m d where a: "day_to_ymd n = (y, m, d)" by (cases "day_to_ymd n") auto
  obtain y' m' d' where b: "day_to_ymd n' = (y', m', d')" by (cases "day_to_ymd n'") auto
  note A = day_to_ymd_correct[OF _ a] and B = day_to_ymd_correct[OF assms(2) b]
  assume "\<not> day_to_ymd n < day_to_ymd n'"
  then consider "(y', m', d') < (y, m, d)" | "(y', m', d') = (y, m, d)"
    unfolding a b by (metis less_linear)
  then show False
    using ymd_to_day_mono[of y' m' d' y m d] A B assms by cases auto
qed

lemma digit_char_less [simp]: "a < 10 \<Longrightarrow> b < 10 \<Longrightarrow> digit_char a < digit_char b \<longleftrightarrow> a < b"
  by (simp add: less_char_def)

lemma digit_char_eq [simp]: "a < 10 \<Longrightarrow> b < 10 \<Longrightarrow> digit_char a = digit_char b \<longleftrightarrow> a = b"
  by (metis of_char_digit_char add_left_cancel)

lemma pad_mod: "w \<le> v \<Longrightarrow> pad w (n mod 10 ^ v) = pad w n"
proof (induction w)
  case (Suc w)
  obtain k where v: "v = w + Suc k" using Suc.prems by (metis add_Suc_right less_imp_Suc_add Suc_le_lessD)
  have "(n mod 10 ^ v) div 10 ^ w mod 10 = n div 10 ^ w mod 10"
    unfolding v power_add by (simp add: mod_mult2_eq)
  with Suc show ?case by simp
qed simp

lemma append_less_append [simp]: "xs @ s < xs @ t \<longleftrightarrow> s < (t :: string)"
  by (induction xs) auto

lemma pad_less: "m < n \<Longrightarrow> n < 10 ^ w \<Longrightarrow> pad w m @ s < pad w n @ t"
proof (induction w arbitrary: m n)
  case (Suc w)
  have top: "n div 10 ^ w < 10" "m div 10 ^ w < 10"
    using Suc.prems by (simp_all add: less_mult_imp_div_less mult.commute)
  have "m div 10 ^ w \<le> n div 10 ^ w" using Suc.prems(1) by (simp add: div_le_mono)
  then consider "m div 10 ^ w < n div 10 ^ w" | "m div 10 ^ w = n div 10 ^ w" by linarith
  then show ?case
  proof cases
    case 2
    then have "m mod 10 ^ w < n mod 10 ^ w"
      using Suc.prems(1) by (metis div_mult_mod_eq nat_add_left_cancel_less)
    then have "pad w (m mod 10 ^ w) @ s < pad w (n mod 10 ^ w) @ t" by (rule Suc.IH) simp
    with 2 show ?thesis by (simp add: pad_mod)
  qed (use top in simp)
qed simp

lemma div_mod_less:
  "(x::nat) < x' \<Longrightarrow> x div k < x' div k \<or> x div k = x' div k \<and> x mod k < x' mod k"
  by (metis div_le_mono div_mult_mod_eq le_neq_implies_less less_imp_le_nat nat_add_left_cancel_less)


lemma nat_micros_range:
  "in_range t \<Longrightarrow> nat (micros t) div 86400000000 < 3652059"
  by (auto simp: in_range_def max_micros_def nat_less_iff intro!: div_less_iff_less_mult [THEN iffD2])

lemma valid_ymd_bounds:
  assumes "valid_ymd y m d"
  shows "y < 10 ^ 4" "m < 100" "d < 100"
proof -
  have m: "1 \<le> m" "m \<le> 12" using assms by (auto simp: valid_ymd_def)
  have "m = 1 \<or> m = 2 \<or> m = 3 \<or> m = 4 \<or> m = 5 \<or> m = 6 \<or> m = 7 \<or> m = 8 \<or> m = 9 \<or> m = 10 \<or> m = 11 \<or> m = 12"
    using m by presburger
  then have "days_in_month (is_leap y) m \<le> 31" by (auto simp: days_in_month_def month_lengths_def)
  with assms show "y < 10 ^ 4" "m < 100" "d < 100" by (auto simp: valid_ymd_def)
qed

lemma isoformat_less:
  assumes "in_range t" "in_range t'" "t < t'"
  shows "isoformat t < isoformat t'"
proof -
  define us us' where us_defs: "us = nat (micros t)" "us' = nat (micros t')"
  have less: "us < us'" using assms by (auto simp: us_defs less_utc_def in_range_def)
  define D D' where D_defs: "D = us div 86400000000" "D' = us' div 86400000000"
  have D': "D' < 3652059" using nat_micros_range[OF assms(2)] by (simp add: D_defs us_defs)
  have D: "D < 3652059" using nat_micros_range[OF assms(1)] by (simp add: D_defs us_defs)
  obtain y m d where a: "day_to_ymd D = (y, m, d)" by (cases "day_to_ymd D") auto
  obtain y' m' d' where b: "day_to_ymd D' = (y', m', d')" by (cases "day_to_ymd D'") auto
  note A = day_to_ymd_correct(1)[OF D a] and B = day_to_ymd_correct(1)[OF D' b]
  have days: "y' < 10 ^ 4" "m' < 10 ^ 2" "d' < 10 ^ 2"
    using valid_ymd_bounds[OF B] by simp_all
  define S S' M M' H H' where SM_defs: "S = us div 1000000" "S' = us' div 1000000"
    "M = S div 60" "M' = S' div 60" "H = M div 60" "H' = M' div 60"
  have D_H: "D = H div 24" "D' = H' div 24"
    by (simp_all add: D_defs SM_defs div_mult2_eq [symmetric])
  have H_eq: "S div 3600 = H" "S' div 3600 = H'" by (simp_all add: SM_defs div_mult2_eq [symmetric])
  have iso: "isoformat t = pad 4 y @ ''-'' @ pad 2 m @ ''-'' @ pad 2 d @ ''T'' @ pad 2 (H mod 24) @ '':'' @
      pad 2 (M mod 60) @ '':'' @ pad 2 (S mod 60) @ ''.'' @ pad 6 (us mod 1000000) @ ''+00:00''"
    "isoformat t' = pad 4 y' @ ''-'' @ pad 2 m' @ ''-'' @ pad 2 d' @ ''T'' @ pad 2 (H' mod 24) @ '':'' @
      pad 2 (M' mod 60) @ '':'' @ pad 2 (S' mod 60) @ ''.'' @ pad 6 (us' mod 1000000) @ ''+00:00''"
    using a b H_eq by (simp_all add: isoformat_def Let_def us_defs D_defs SM_defs)
  have us: "S < S' \<or> S = S' \<and> us mod 1000000 < us' mod 1000000"
    unfolding SM_defs using less by (rule div_mod_less)
  have M: "S < S' \<Longrightarrow> M < M' \<or> M = M' \<and> S mod 60 < S' mod 60"
    unfolding SM_defs by (rule div_mod_less)
  have H: "M < M' \<Longrightarrow> H < H' \<or> H = H' \<and> M mod 60 < M' mod 60"
    unfolding SM_defs by (rule div_mod_less)
  have Dd: "H < H' \<Longrightarrow> D < D' \<or> D = D' \<and> H mod 24 < H' mod 24"
    unfolding D_H by (rule div_mod_less)
  consider "D < D'" | "D = D'" "H mod 24 < H' mod 24" | "H = H'" "M mod 60 < M' mod 60"
    | "M = M'" "S mod 60 < S' mod 60" | "S = S'" "us mod 1000000 < us' mod 1000000"
    using us M H Dd by blast
  then show ?thesis
  proof cases
    case 1
    then have "(y, m, d) < (y', m', d')" using day_to_ymd_mono[OF _ D'] a b by metis
    then have "y < y' \<or> y = y' \<and> (m < m' \<or> m = m' \<and> d < d')" by auto
    then consider "y < y'" | "y = y'" "m < m'" | "y = y'" "m = m'" "d < d'" by blast
    then show ?thesis unfolding iso using days by cases (simp_all add: pad_less del: pad.simps)
  next
    case 2
    then have "(y', m', d') = (y, m, d)" using a b by simp
    then show ?thesis unfolding iso using 2 by (simp add: pad_less del: pad.simps)
  next
    case 3
    then have "(y', m', d') = (y, m, d)" using a b D_H by simp
    then show ?thesis unfolding iso using 3 by (simp add: pad_less del: pad.simps)
  next
    case 4
    then have "H = H'" by (simp add: SM_defs)
    then have "(y', m', d') = (y, m, d)" using a b D_H by simp
    then show ?thesis unfolding iso using 4 \<open>H = H'\<close> by (simp add: pad_less del: pad.simps)
  next
    case 5
    then have "H = H'" "M = M'" by (simp_all add: SM_defs)
    then have "(y', m', d') = (y, m, d)" using a b D_H by simp
    then show ?thesis unfolding iso using 5 \<open>H = H'\<close> \<open>M = M'\<close> by (simp add: pad_less del: pad.simps)
  qed
qed

lemma isoformat_less_iff:
  assumes "in_range t" "in_range t'"
  shows "isoformat t < isoformat t' \<longleftrightarrow> t < t'"
  using isoformat_less[OF assms] isoformat_less[OF assms(2,1)] by (metis less_asym less_linear)

lemma isoformat_le_iff:
  "in_range t \<Longrightarrow> in_range t' \<Longrightarrow> isoformat t \<le> isoformat t' \<longleftrightarrow> t \<le> t'"
  using isoformat_less_iff[of t' t] by (simp add: not_less [symmetric])

section \<open>Parsing inverts rendering\<close>

lemma pad_length [simp]: "length (pad w n) = w"
  by (induction w) auto

lemma pad_digits [simp]: "list_all is_digit (pad w n)"
  by (induction w) auto

lemma digits_value_Cons: "digits_value (c # s) = digit_value c * 10 ^ length s + digits_value s"
  by (induction s rule: rev_induct) (auto simp: digits_value_def algebra_simps)

lemma digits_value_pad: "digits_value (pad w n) = n mod 10 ^ w"
proof (induction w)
  case 0
  then show ?case by (simp add: digits_value_def)
next
  case (Suc w)
  then show ?case using mod_mult2_eq[of n "10 ^ w" 10] by (simp add: digits_value_Cons ac_simps)
qed

lemma take_number_pad [simp]: "n < 10 ^ w \<Longrightarrow> take_number w (pad w n @ s) = Some (n, s)"
  by (simp add: take_number_def digits_value_pad)

lemma expect_Cons [simp]: "expect c (c # s) = Some s"
  by (simp add: expect_def)

lemma pad_not_tz: "c \<in> set (pad w n) \<Longrightarrow> \<not> is_tz_char c"
  using pad_digits[of w n] unfolding list_all_iff by (auto simp: is_digit_def is_tz_char_def)

lemma parse_date_isoformat:
  "valid_ymd y m d \<Longrightarrow> m < 100 \<Longrightarrow> d < 100 \<Longrightarrow>
   parse_date (pad 4 y @ ''-'' @ pad 2 m @ ''-'' @ pad 2 d @ s) = Some ((y, m, d), s)"
  by (simp add: parse_date_def valid_ymd_def del: pad.simps)

lemma parse_clock_isoformat:
  assumes "h < 100" "mi < 100" "sec < 100" "us < 1000000"
  shows "parse_clock (pad 2 h @ '':'' @ pad 2 mi @ '':'' @ pad 2 sec @ ''.'' @ pad 6 us) =
    Some (h, mi, sec, us)"
  using assms by (simp add: parse_clock_def parse_fraction_def digits_value_pad pad_length
      flip: length_greater_0_conv del: pad.simps)


lemma clock_fields:
  fixes us :: nat
  shows "us = us div 86400000000 * 86400000000 +
    ((us div 1000000 div 3600 mod 24 * 60 + us div 1000000 div 60 mod 60) * 60 + us div 1000000 mod 60) * 1000000 +
    us mod 1000000"
proof -
  define S M H where SMH: "S = us div 1000000" "M = S div 60" "H = M div 60"
  have "us div 86400000000 = H div 24" "us div 1000000 div 3600 = H"
    by (simp_all add: SMH div_mult2_eq [symmetric])
  moreover have "us = S * 1000000 + us mod 1000000" by (simp add: SMH)
  moreover have "S = M * 60 + S mod 60" unfolding SMH(2) by simp
  moreover have "M = H * 60 + M mod 60" unfolding SMH(3) by simp
  moreover have "H = H div 24 * 24 + H mod 24" by simp
  ultimately show ?thesis unfolding SMH(1)[symmetric] SMH(2)[symmetric] by (simp only: algebra_simps; linarith)
qed

lemma fromisoformat_isoformat:
  assumes "in_range t"
  shows "fromisoformat (isoformat t) = Some (PyDatetime (micros t) (Some 0))"
proof -
  define us where "us = nat (micros t)"
  obtain y m d where ymd: "day_to_ymd (us div 86400000000) = (y, m, d)"
    by (cases "day_to_ymd (us div 86400000000)") auto
  have D: "us div 86400000000 < 3652059" using nat_micros_range[OF assms] by (simp add: us_def)
  note ok = day_to_ymd_correct[OF D ymd]
  note bounds = valid_ymd_bounds[OF ok(1)]
  define h mi sec f where fields: "h = us div 1000000 div 3600 mod 24" "mi = us div 1000000 div 60 mod 60"
    "sec = us div 1000000 mod 60" "f = us mod 1000000"
  define body where "body = pad 2 h @ '':'' @ pad 2 mi @ '':'' @ pad 2 sec @ ''.'' @ pad 6 f"
  have lt: "h < 24" "mi < 60" "sec < 60" "f < 1000000" by (simp_all add: fields)
  have iso: "isoformat t = pad 4 y @ ''-'' @ pad 2 m @ ''-'' @ pad 2 d @ (''T'' @ body @ ''+00:00'')"
    using ymd by (simp add: isoformat_def Let_def us_def fields body_def del: pad.simps)
  have date: "parse_date (isoformat t) = Some ((y, m, d), ''T'' @ body @ ''+00:00'')"
    unfolding iso using ok(1) bounds(2,3) by (rule parse_date_isoformat)
  have body_ok: "c \<in> set body \<Longrightarrow> \<not> is_tz_char c" for c
    by (auto simp: body_def is_tz_char_def[of "CHR '':''"] is_tz_char_def[of "CHR ''.''"]
        simp del: pad.simps dest: pad_not_tz)
  have split: "takeWhile (\<lambda>c. \<not> is_tz_char c) (body @ ''+00:00'') = body"
    "dropWhile (\<lambda>c. \<not> is_tz_char c) (body @ ''+00:00'') = ''+00:00''"
    using body_ok by (simp_all add: takeWhile_append dropWhile_append is_tz_char_def[of "CHR ''+''"])
  have clock: "parse_clock body = Some (h, mi, sec, f)"
    unfolding body_def using lt by (intro parse_clock_isoformat) simp_all
  have zone: "parse_offset ''+00:00'' = Some (Some 0)" by code_simp
  have "us = (us div 86400000000) * 86400000000 + ((h * 60 + mi) * 60 + sec) * 1000000 + f"
    unfolding fields by (rule clock_fields)
  then have "int us = int (us div 86400000000) * day_micros + clock_micros (h, mi, sec, f)"
    unfolding clock_micros_def by simp
  then have "micros t = int (ymd_to_day y m d) * day_micros + clock_micros (h, mi, sec, f)"
    using assms ok(2) by (simp add: us_def in_range_def)
  then show ?thesis using date split clock zone lt
    by (simp add: fromisoformat_def valid_clock_def)
qed

lemma coerce_datetime_isoformat [simp]: "in_range t \<Longrightarrow> coerce_datetime E (isoformat t) = Inr t"
  by (simp add: coerce_datetime_def fromisoformat_isoformat checked_utc_def)

end
