(* ===== verification/Contracts.thy ===== *)
theory Contracts
  imports Timestamps
begin

text \<open>
  The domain contracts of \<^verbatim>\<open>contracts.py\<close> (and the approval receipt of
  \<^verbatim>\<open>policy.py\<close>): the enumerations with the strings they are stored as, and the
  dataclasses as records.  A \<open>StrEnum\<close> member is a constructor; \<open>..._value\<close> is its
  \<open>.value\<close> and \<open>..._of\<close> the class call that reads a stored string back (\<open>None\<close> where it
  raises ValueError).  A field annotated \<open>dict[str, Any]\<close> is a list of items in insertion
  order.  \<open>..._plain\<close> is \<^verbatim>\<open>to_plain_data\<close> of the dataclass, the value whose canonical JSON
  text the ledger stores.
\<close>

section \<open>Enumerations\<close>

datatype StageType = ST_AGENT_WORK | ST_AGENT_GATE | ST_A2A_REVIEW_LOOP | ST_HUMAN_GATE |
  ST_SYSTEM_ACTION | ST_WAIT_SCHEDULE | ST_RECOVERY | ST_BLOCKED

fun stage_type_value :: "StageType \<Rightarrow> string" where
  "stage_type_value ST_AGENT_WORK = ''agent_work''"
| "stage_type_value ST_AGENT_GATE = ''agent_gate''"
| "stage_type_value ST_A2A_REVIEW_LOOP = ''a2a_review_loop''"
| "stage_type_value ST_HUMAN_GATE = ''human_gate''"
| "stage_type_value ST_SYSTEM_ACTION = ''system_action''"
| "stage_type_value ST_WAIT_SCHEDULE = ''wait_schedule''"
| "stage_type_value ST_RECOVERY = ''recovery''"
| "stage_type_value ST_BLOCKED = ''blocked''"

definition all_stage_type :: "StageType list" where
  "all_stage_type = [ST_AGENT_WORK, ST_AGENT_GATE, ST_A2A_REVIEW_LOOP, ST_HUMAN_GATE,
     ST_SYSTEM_ACTION, ST_WAIT_SCHEDULE, ST_RECOVERY, ST_BLOCKED]"

definition stage_type_of :: "string \<Rightarrow> StageType option" where
  "stage_type_of s = find (\<lambda>x. stage_type_value x = s) all_stage_type"

lemma stage_type_of_value [simp]: "stage_type_of (stage_type_value x) = Some x"
  by (cases x) (simp_all add: stage_type_of_def all_stage_type_def)

lemma stage_type_value_inject [simp]: "stage_type_value x = stage_type_value y \<longleftrightarrow> x = y"
  by (metis stage_type_of_value option.inject)

datatype WorkflowStatus = WF_PENDING | WF_RUNNING | WF_WAITING_ON_AGENT | WF_WAITING_ON_HUMAN |
  WF_WAITING_ON_SCHEDULE | WF_RETRYING | WF_BLOCKED | WF_POLICY_DENIED |
  WF_FINAL_APPROVAL_REQUIRED | WF_DONE | WF_CANCELLED

fun workflow_status_value :: "WorkflowStatus \<Rightarrow> string" where
  "workflow_status_value WF_PENDING = ''pending''"
| "workflow_status_value WF_RUNNING = ''running''"
| "workflow_status_value WF_WAITING_ON_AGENT = ''waiting_on_agent''"
| "workflow_status_value WF_WAITING_ON_HUMAN = ''waiting_on_human''"
| "workflow_status_value WF_WAITING_ON_SCHEDULE = ''waiting_on_schedule''"
| "workflow_status_value WF_RETRYING = ''retrying''"
| "workflow_status_value WF_BLOCKED = ''blocked''"
| "workflow_status_value WF_POLICY_DENIED = ''policy_denied''"
| "workflow_status_value WF_FINAL_APPROVAL_REQUIRED = ''final_approval_required''"
| "workflow_status_value WF_DONE = ''done''"
| "workflow_status_value WF_CANCELLED = ''cancelled''"

definition all_workflow_status :: "WorkflowStatus list" where
  "all_workflow_status = [WF_PENDING, WF_RUNNING, WF_WAITING_ON_AGENT,
     WF_WAITING_ON_HUMAN, WF_WAITING_ON_SCHEDULE, WF_RETRYING, WF_BLOCKED,
     WF_POLICY_DENIED, WF_FINAL_APPROVAL_REQUIRED, WF_DONE, WF_CANCELLED]"

definition workflow_status_of :: "string \<Rightarrow> WorkflowStatus option" where
  "workflow_status_of s = find (\<lambda>x. workflow_status_value x = s) all_workflow_status"

lemma workflow_status_of_value [simp]: "workflow_status_of (workflow_status_value x) = Some x"
  by (cases x) (simp_all add: workflow_status_of_def all_workflow_status_def)

lemma workflow_status_value_inject [simp]: "workflow_status_value x = workflow_status_value y \<longleftrightarrow> x = y"
  by (metis workflow_status_of_value option.inject)

datatype StageRunStatus = SR_QUEUED | SR_CLAIMED | SR_STARTED | SR_WAITING |
  SR_WAITING_ON_CHILD | SR_WAITING_ON_HUMAN | SR_VALIDATING | SR_SUCCEEDED | SR_FAILED |
  SR_INVALID_OUTPUT | SR_TIMED_OUT | SR_BLOCKED | SR_APPROVAL_REQUIRED | SR_APPROVAL_DENIED |
  SR_SUPERSEDED

fun run_status_value :: "StageRunStatus \<Rightarrow> string" where
  "run_status_value SR_QUEUED = ''queued''"
| "run_status_value SR_CLAIMED = ''claimed''"
| "run_status_value SR_STARTED = ''started''"
| "run_status_value SR_WAITING = ''waiting''"
| "run_status_value SR_WAITING_ON_CHILD = ''waiting_on_child''"
| "run_status_value SR_WAITING_ON_HUMAN = ''waiting_on_human''"
| "run_status_value SR_VALIDATING = ''validating''"
| "run_status_value SR_SUCCEEDED = ''succeeded''"
| "run_status_value SR_FAILED = ''failed''"
| "run_status_value SR_INVALID_OUTPUT = ''invalid_output''"
| "run_status_value SR_TIMED_OUT = ''timed_out''"
| "run_status_value SR_BLOCKED = ''blocked''"
| "run_status_value SR_APPROVAL_REQUIRED = ''approval_required''"
| "run_status_value SR_APPROVAL_DENIED = ''approval_denied''"
| "run_status_value SR_SUPERSEDED = ''superseded''"

definition all_run_status :: "StageRunStatus list" where
  "all_run_status = [SR_QUEUED, SR_CLAIMED, SR_STARTED, SR_WAITING, SR_WAITING_ON_CHILD,
     SR_WAITING_ON_HUMAN, SR_VALIDATING, SR_SUCCEEDED, SR_FAILED, SR_INVALID_OUTPUT,
     SR_TIMED_OUT, SR_BLOCKED, SR_APPROVAL_REQUIRED, SR_APPROVAL_DENIED, SR_SUPERSEDED]"

definition run_status_of :: "string \<Rightarrow> StageRunStatus option" where
  "run_status_of s = find (\<lambda>x. run_status_value x = s) all_run_status"

lemma run_status_of_value [simp]: "run_status_of (run_status_value x) = Some x"
  by (cases x) (simp_all add: run_status_of_def all_run_status_def)

lemma run_status_value_inject [simp]: "run_status_value x = run_status_value y \<longleftrightarrow> x = y"
  by (metis run_status_of_value option.inject)

datatype FailureClass = FC_RUNTIME_FAILURE | FC_ADAPTER_UNAVAILABLE | FC_INVALID_OUTPUT |
  FC_DETERMINISTIC_TEST_FAILURE | FC_HUMAN_REJECTION | FC_POLICY_DENIAL | FC_STALE_LEASE |
  FC_MISSING_DEPENDENCY | FC_DOMAIN_BLOCKED | FC_UNKNOWN_SIDE_EFFECT_STATE

fun failure_value :: "FailureClass \<Rightarrow> string" where
  "failure_value FC_RUNTIME_FAILURE = ''runtime_failure''"
| "failure_value FC_ADAPTER_UNAVAILABLE = ''adapter_unavailable''"
| "failure_value FC_INVALID_OUTPUT = ''invalid_output''"
| "failure_value FC_DETERMINISTIC_TEST_FAILURE = ''deterministic_test_failure''"
| "failure_value FC_HUMAN_REJECTION = ''human_rejection''"
| "failure_value FC_POLICY_DENIAL = ''policy_denial''"
| "failure_value FC_STALE_LEASE = ''stale_lease''"
| "failure_value FC_MISSING_DEPENDENCY = ''missing_dependency''"
| "failure_value FC_DOMAIN_BLOCKED = ''domain_blocked''"
| "failure_value FC_UNKNOWN_SIDE_EFFECT_STATE = ''unknown_side_effect_state''"

definition all_failure :: "FailureClass list" where
  "all_failure = [FC_RUNTIME_FAILURE, FC_ADAPTER_UNAVAILABLE, FC_INVALID_OUTPUT,
     FC_DETERMINISTIC_TEST_FAILURE, FC_HUMAN_REJECTION, FC_POLICY_DENIAL, FC_STALE_LEASE,
     FC_MISSING_DEPENDENCY, FC_DOMAIN_BLOCKED, FC_UNKNOWN_SIDE_EFFECT_STATE]"

definition failure_of :: "string \<Rightarrow> FailureClass option" where
  "failure_of s = find (\<lambda>x. failure_value x = s) all_failure"

lemma failure_of_value [simp]: "failure_of (failure_value x) = Some x"
  by (cases x) (simp_all add: failure_of_def all_failure_def)

lemma failure_value_inject [simp]: "failure_value x = failure_value y \<longleftrightarrow> x = y"
  by (metis failure_of_value option.inject)

datatype RiskClass = RISK_READ_ONLY | RISK_LOCAL_DRAFT | RISK_REVIEW_ONLY | RISK_INTERNAL_STATE
  | RISK_EXTERNAL_EFFECT | RISK_PRODUCTION_EFFECT | RISK_FINANCIAL_EFFECT | RISK_AUTH_EFFECT |
  RISK_DESTRUCTIVE_EFFECT | RISK_FORBIDDEN

fun risk_value :: "RiskClass \<Rightarrow> string" where
  "risk_value RISK_READ_ONLY = ''read_only''"
| "risk_value RISK_LOCAL_DRAFT = ''local_draft''"
| "risk_value RISK_REVIEW_ONLY = ''review_only''"
| "risk_value RISK_INTERNAL_STATE = ''internal_state''"
| "risk_value RISK_EXTERNAL_EFFECT = ''external_effect''"
| "risk_value RISK_PRODUCTION_EFFECT = ''production_effect''"
| "risk_value RISK_FINANCIAL_EFFECT = ''financial_effect''"
| "risk_value RISK_AUTH_EFFECT = ''auth_effect''"
| "risk_value RISK_DESTRUCTIVE_EFFECT = ''destructive_effect''"
| "risk_value RISK_FORBIDDEN = ''forbidden''"

definition all_risk :: "RiskClass list" where
  "all_risk = [RISK_READ_ONLY, RISK_LOCAL_DRAFT, RISK_REVIEW_ONLY, RISK_INTERNAL_STATE,
     RISK_EXTERNAL_EFFECT, RISK_PRODUCTION_EFFECT, RISK_FINANCIAL_EFFECT,
     RISK_AUTH_EFFECT, RISK_DESTRUCTIVE_EFFECT, RISK_FORBIDDEN]"

definition risk_of :: "string \<Rightarrow> RiskClass option" where
  "risk_of s = find (\<lambda>x. risk_value x = s) all_risk"

lemma risk_of_value [simp]: "risk_of (risk_value x) = Some x"
  by (cases x) (simp_all add: risk_of_def all_risk_def)

lemma risk_value_inject [simp]: "risk_value x = risk_value y \<longleftrightarrow> x = y"
  by (metis risk_of_value option.inject)

datatype AdapterFamily = FAMILY_RUNTIME | FAMILY_SURFACE | FAMILY_HOST | FAMILY_LANE

fun family_value :: "AdapterFamily \<Rightarrow> string" where
  "family_value FAMILY_RUNTIME = ''runtime''"
| "family_value FAMILY_SURFACE = ''surface''"
| "family_value FAMILY_HOST = ''host''"
| "family_value FAMILY_LANE = ''lane''"

definition all_family :: "AdapterFamily list" where
  "all_family = [FAMILY_RUNTIME, FAMILY_SURFACE, FAMILY_HOST, FAMILY_LANE]"

definition family_of :: "string \<Rightarrow> AdapterFamily option" where
  "family_of s = find (\<lambda>x. family_value x = s) all_family"

lemma family_of_value [simp]: "family_of (family_value x) = Some x"
  by (cases x) (simp_all add: family_of_def all_family_def)

lemma family_value_inject [simp]: "family_value x = family_value y \<longleftrightarrow> x = y"
  by (metis family_of_value option.inject)

definition active_lease :: "StageRunStatus \<Rightarrow> bool" where
  "active_lease st \<longleftrightarrow> st \<in> {SR_CLAIMED, SR_STARTED, SR_WAITING, SR_WAITING_ON_CHILD, SR_VALIDATING}"

section \<open>Workflow definitions\<close>

record PromptRef =
  pr_id :: string
  pr_kind :: string
  pr_version :: string
  pr_registry :: string
  pr_render_mode :: string
  pr_required :: bool
  pr_content_hash :: "string option"

record Transition =
  from_stage :: string
  tr_on :: string
  to_stage :: "string option"
  tr_terminal :: "string option"
  tr_guard :: "string option"
  tr_label :: "string option"

record StageDef =
  sd_id :: string
  sd_type :: StageType
  sd_adapter :: string
  sd_outcomes :: "string list"
  sd_actors :: mapping_items
  sd_inputs :: mapping_items
  sd_outputs :: mapping_items
  sd_prompt_refs :: "PromptRef list"
  sd_no_prompt_reason :: "string option"
  sd_policy :: mapping_items
  sd_budget :: mapping_items
  sd_retry :: mapping_items
  sd_lease :: mapping_items
  sd_timeout_seconds :: "int option"
  sd_surface :: mapping_items

record WorkflowDef =
  wd_id :: string
  wd_version :: string
  wd_name :: string
  wd_stages :: "StageDef list"
  wd_transitions :: "Transition list"
  wd_schema :: string
  wd_owner :: "string option"
  wd_description :: "string option"
  wd_inputs :: mapping_items
  wd_defaults :: mapping_items
  wd_actors :: mapping_items
  wd_artifacts :: mapping_items
  wd_policies :: mapping_items
  wd_compatibility :: mapping_items

section \<open>Runtime contracts\<close>

record ArtifactRef =
  af_id :: string
  af_role :: string
  af_uri :: string
  af_content_hash :: string
  af_mime_type :: string
  af_size_bytes :: "int option"
  af_created_by :: "string option"
  af_visibility :: string

record Receipt =
  rcpt_id :: string
  rcpt_kind :: string
  rcpt_workflow_id :: string
  rcpt_instance_id :: string
  rcpt_stage_id :: string
  rcpt_stage_run_id :: string
  rcpt_status :: string
  rcpt_summary :: string
  rcpt_created_at :: string
  rcpt_artifact_refs :: "ArtifactRef list"
  rcpt_context_packet_ref :: "string option"
  rcpt_prompt_provenance :: mapping_items
  rcpt_runtime_provenance :: mapping_items
  rcpt_policy_snapshot :: mapping_items
  rcpt_residual_risk :: "string option"
  rcpt_next_action :: "string option"

record ResolvedLeasePolicy =
  lp_lease_seconds :: int
  lp_source :: string
  lp_source_ref :: string
  lp_actor_ref :: "string option"

record WorkflowInstance =
  inst_id :: string
  inst_workflow_def_id :: string
  inst_workflow_version :: string
  inst_status :: WorkflowStatus
  inst_input_hash :: string
  inst_current_stage_id :: "string option"
  inst_idempotency_key :: "string option"
  inst_recovery_epoch :: int

record StageRun =
  run_id :: string
  run_instance_id :: string
  run_stage_id :: string
  run_status :: StageRunStatus
  run_attempt :: int
  run_adapter_id :: "string option"
  run_actor_ref :: "string option"
  run_lease_token :: "string option"
  run_lease_seconds :: "int option"
  run_lease_source :: "string option"
  run_lease_source_ref :: "string option"
  run_receipt_id :: "string option"
  run_failure_class :: "FailureClass option"
  run_retry_after_at :: "string option"
  run_idempotency_key :: "string option"

record AdapterInvocation =
  inv_id :: string
  inv_workflow_id :: string
  inv_instance_id :: string
  inv_stage_run_id :: string
  inv_family :: AdapterFamily
  inv_adapter_id :: string
  inv_operation :: string
  inv_input_ref :: "string option"
  inv_context_packet_ref :: "string option"
  inv_idempotency_key :: "string option"

record AdapterResult =
  res_invocation_id :: string
  res_status :: string
  res_outputs :: mapping_items
  res_artifact_refs :: "ArtifactRef list"
  res_receipt_ref :: "string option"
  res_residual_risk :: "string option"
  res_next_hint :: "string option"

text \<open>The \<open>decision\<close> field may also hold a plain text, a choice the gate's stage declares.\<close>

datatype ApprovalDecision = APPROVED | REJECTED | REVISE | PARK | DECISION_TEXT string

fun approval_decision_value :: "ApprovalDecision \<Rightarrow> string" where
  "approval_decision_value APPROVED = ''approved''"
| "approval_decision_value REJECTED = ''rejected''"
| "approval_decision_value REVISE = ''revise''"
| "approval_decision_value PARK = ''park''"
| "approval_decision_value (DECISION_TEXT s) = s"

record HumanApprovalReceipt =
  ap_approval_id :: string
  ap_gate_id :: string
  ap_human_ref :: string
  ap_canonical_surface :: string
  ap_decision :: ApprovalDecision
  ap_exact_action_approved :: string
  ap_action_fingerprint :: string
  ap_evidence_refs :: "string list"
  ap_constraints :: mapping_items
  ap_created_at :: ts_arg
  ap_expires_at :: ts_arg
  ap_revoked_at :: ts_arg
  ap_message_ref :: "string option"

section \<open>Plain data\<close>

text \<open>\<open>datetime.isoformat()\<close> with its default time spec, of any wall clock and offset.\<close>

definition fraction_text :: "nat \<Rightarrow> string" where
  "fraction_text us = (if us = 0 then [] else ''.'' @ pad 6 us)"

definition offset_text :: "int \<Rightarrow> string" where
  "offset_text off = (let u = nat (abs off); s = u div 1000000; f = u mod 1000000 in
     (if off < 0 then ''-'' else ''+'') @ pad 2 (s div 3600) @ '':'' @ pad 2 (s div 60 mod 60) @
     (if s mod 60 = 0 \<and> f = 0 then [] else '':'' @ pad 2 (s mod 60) @ fraction_text f))"

definition datetime_isoformat :: "pydatetime \<Rightarrow> string" where
  "datetime_isoformat v =
    (let us = nat (wall v);
         (y, m, d) = day_to_ymd (us div 86400000000);
         s = us div 1000000
     in pad 4 y @ ''-'' @ pad 2 m @ ''-'' @ pad 2 d @ ''T'' @ pad 2 (s div 3600 mod 24) @ '':'' @
        pad 2 (s div 60 mod 60) @ '':'' @ pad 2 (s mod 60) @ fraction_text (us mod 1000000) @
        (case utc_offset v of None \<Rightarrow> [] | Some off \<Rightarrow> offset_text off))"

fun ts_plain :: "ts_arg \<Rightarrow> pyval" where
  "ts_plain TsNone = PNone"
| "ts_plain (TsText s) = PStr s"
| "ts_plain (TsDatetime d) = PStr (datetime_isoformat d)"

definition artifact_plain :: "ArtifactRef \<Rightarrow> pyval" where
  "artifact_plain a = PDict
     [(''artifact_id'', PStr (af_id a)), (''role'', PStr (af_role a)), (''uri'', PStr (af_uri a)),
      (''content_hash'', PStr (af_content_hash a)), (''mime_type'', PStr (af_mime_type a)),
      (''size_bytes'', opt_int (af_size_bytes a)), (''created_by'', opt_str (af_created_by a)),
      (''visibility'', PStr (af_visibility a))]"

definition receipt_plain :: "Receipt \<Rightarrow> pyval" where
  "receipt_plain r = PDict
     [(''receipt_id'', PStr (rcpt_id r)), (''kind'', PStr (rcpt_kind r)),
      (''workflow_id'', PStr (rcpt_workflow_id r)), (''instance_id'', PStr (rcpt_instance_id r)),
      (''stage_id'', PStr (rcpt_stage_id r)), (''stage_run_id'', PStr (rcpt_stage_run_id r)),
      (''status'', PStr (rcpt_status r)), (''summary'', PStr (rcpt_summary r)),
      (''created_at'', PStr (rcpt_created_at r)),
      (''artifact_refs'', PList (map artifact_plain (rcpt_artifact_refs r))),
      (''context_packet_ref'', opt_str (rcpt_context_packet_ref r)),
      (''prompt_provenance'', PDict (rcpt_prompt_provenance r)),
      (''runtime_provenance'', PDict (rcpt_runtime_provenance r)),
      (''policy_snapshot'', PDict (rcpt_policy_snapshot r)),
      (''residual_risk'', opt_str (rcpt_residual_risk r)),
      (''next_action'', opt_str (rcpt_next_action r))]"

definition invocation_plain :: "AdapterInvocation \<Rightarrow> pyval" where
  "invocation_plain i = PDict
     [(''invocation_id'', PStr (inv_id i)), (''workflow_id'', PStr (inv_workflow_id i)),
      (''instance_id'', PStr (inv_instance_id i)), (''stage_run_id'', PStr (inv_stage_run_id i)),
      (''adapter_family'', PStr (family_value (inv_family i))), (''adapter_id'', PStr (inv_adapter_id i)),
      (''operation'', PStr (inv_operation i)), (''input_ref'', opt_str (inv_input_ref i)),
      (''context_packet_ref'', opt_str (inv_context_packet_ref i)),
      (''idempotency_key'', opt_str (inv_idempotency_key i))]"

definition approval_plain :: "HumanApprovalReceipt \<Rightarrow> pyval" where
  "approval_plain a = PDict
     [(''approval_id'', PStr (ap_approval_id a)), (''gate_id'', PStr (ap_gate_id a)),
      (''human_ref'', PStr (ap_human_ref a)), (''canonical_surface'', PStr (ap_canonical_surface a)),
      (''decision'', PStr (approval_decision_value (ap_decision a))),
      (''exact_action_approved'', PStr (ap_exact_action_approved a)),
      (''action_fingerprint'', PStr (ap_action_fingerprint a)),
      (''evidence_refs'', str_list (ap_evidence_refs a)), (''constraints'', PDict (ap_constraints a)),
      (''created_at'', ts_plain (ap_created_at a)), (''expires_at'', ts_plain (ap_expires_at a)),
      (''revoked_at'', ts_plain (ap_revoked_at a)),
      (''transcript_or_message_ref'', opt_str (ap_message_ref a))]"

end
