(* ===== verification/Sha256.thy ===== *)
theory Sha256
  imports Py_Values "HOL-Library.Word"
begin

text \<open>
  \<open>hashlib.sha256(text.encode("utf-8")).hexdigest()\<close>: the digest the ledger compares receipts
  with and the policy engine binds approvals to.  It is the FIPS 180-4 computation on 32-bit
  words with their wrap-around; the general facts are about the shape of the digest.
\<close>

unbundle bit_operations_syntax

type_synonym w32 = "32 word"

definition utf8 :: "string \<Rightarrow> nat list" where
  "utf8 s = concat (map (\<lambda>c. let n = (of_char c :: nat) in
     if n < 128 then [n] else [192 + n div 64, 128 + n mod 64]) s)"

definition initial_hash :: "w32 list" where
  "initial_hash =
    [1779033703, 3144134277, 1013904242, 2773480762, 1359893119, 2600822924, 528734635,
     1541459225]"

definition round_constants :: "w32 list" where
  "round_constants =
    [1116352408, 1899447441, 3049323471, 3921009573, 961987163, 1508970993, 2453635748,
     2870763221, 3624381080, 310598401, 607225278, 1426881987, 1925078388, 2162078206,
     2614888103, 3248222580, 3835390401, 4022224774, 264347078, 604807628, 770255983,
     1249150122, 1555081692, 1996064986, 2554220882, 2821834349, 2952996808, 3210313671,
     3336571891, 3584528711, 113926993, 338241895, 666307205, 773529912, 1294757372,
     1396182291, 1695183700, 1986661051, 2177026350, 2456956037, 2730485921, 2820302411,
     3259730800, 3345764771, 3516065817, 3600352804, 4094571909, 275423344, 430227734,
     506948616, 659060556, 883997877, 958139571, 1322822218, 1537002063, 1747873779,
     1955562222, 2024104815, 2227730452, 2361852424, 2428436474, 2756734187, 3204031479,
     3329325298]"

definition rotr :: "nat \<Rightarrow> w32 \<Rightarrow> w32" where
  "rotr n w = (drop_bit n w) OR (push_bit (32 - n) w)"

definition small_sigma0 :: "w32 \<Rightarrow> w32" where
  "small_sigma0 x = rotr 7 x XOR rotr 18 x XOR drop_bit 3 x"

definition small_sigma1 :: "w32 \<Rightarrow> w32" where
  "small_sigma1 x = rotr 17 x XOR rotr 19 x XOR drop_bit 10 x"

definition big_sigma0 :: "w32 \<Rightarrow> w32" where
  "big_sigma0 x = rotr 2 x XOR rotr 13 x XOR rotr 22 x"

definition big_sigma1 :: "w32 \<Rightarrow> w32" where
  "big_sigma1 x = rotr 6 x XOR rotr 11 x XOR rotr 25 x"

definition choose_bits :: "w32 \<Rightarrow> w32 \<Rightarrow> w32 \<Rightarrow> w32" where
  "choose_bits x y z = (x AND y) XOR (NOT x AND z)"

definition majority_bits :: "w32 \<Rightarrow> w32 \<Rightarrow> w32 \<Rightarrow> w32" where
  "majority_bits x y z = (x AND y) XOR (x AND z) XOR (y AND z)"

text \<open>Padding: a one bit, zeros up to 56 mod 64, and the bit length in eight bytes.\<close>

fun big_endian :: "nat \<Rightarrow> nat \<Rightarrow> nat list" where
  "big_endian 0 n = []"
| "big_endian (Suc w) n = (n div 256 ^ w) mod 256 # big_endian w n"

definition pad_message :: "nat list \<Rightarrow> nat list" where
  "pad_message m = m @ [128] @ replicate ((119 - length m mod 64) mod 64) 0 @ big_endian 8 (8 * length m)"

fun words_of :: "nat list \<Rightarrow> w32 list" where
  "words_of (a # b # c # d # r) =
     of_nat (((a * 256 + b) * 256 + c) * 256 + d) # words_of r"
| "words_of _ = []"

text \<open>The message schedule, newest word first.\<close>

fun extend_schedule :: "nat \<Rightarrow> w32 list \<Rightarrow> w32 list" where
  "extend_schedule 0 ws = ws"
| "extend_schedule (Suc n) ws = extend_schedule n
     ((small_sigma1 (ws ! 1) + ws ! 6 + small_sigma0 (ws ! 14) + ws ! 15) # ws)"

definition schedule :: "w32 list \<Rightarrow> w32 list" where
  "schedule block = rev (extend_schedule 48 (rev block))"

type_synonym working = "w32 \<times> w32 \<times> w32 \<times> w32 \<times> w32 \<times> w32 \<times> w32 \<times> w32"

definition sha_round :: "w32 \<times> w32 \<Rightarrow> working \<Rightarrow> working" where
  "sha_round = (\<lambda>(k, w) (a, b, c, d, e, f, g, h).
     let t1 = h + big_sigma1 e + choose_bits e f g + k + w;
         t2 = big_sigma0 a + majority_bits a b c
     in (t1 + t2, a, b, c, d + t1, e, f, g))"

definition compress :: "working \<Rightarrow> w32 list \<Rightarrow> working" where
  "compress s block = (case s of (a, b, c, d, e, f, g, h) \<Rightarrow>
     (case fold sha_round (zip round_constants (schedule block)) s of
        (a', b', c', d', e', f', g', h') \<Rightarrow>
          (a + a', b + b', c + c', d + d', e + e', f + f', g + g', h + h')))"

function blocks :: "w32 list \<Rightarrow> w32 list list" where
  "blocks ws = (if length ws < 16 then [] else take 16 ws # blocks (drop 16 ws))"
  by pat_completeness auto
termination by (relation "measure length") auto

declare blocks.simps [simp del]

definition initial_state :: working where
  "initial_state = (initial_hash ! 0, initial_hash ! 1, initial_hash ! 2, initial_hash ! 3,
     initial_hash ! 4, initial_hash ! 5, initial_hash ! 6, initial_hash ! 7)"

definition word_hex :: "w32 \<Rightarrow> string" where
  "word_hex w = concat (map hex2 (big_endian 4 (unat w)))"

definition sha256_hex :: "string \<Rightarrow> string" where
  "sha256_hex text =
     (case foldl compress initial_state (blocks (words_of (pad_message (utf8 text)))) of
        (a, b, c, d, e, f, g, h) \<Rightarrow> concat (map word_hex [a, b, c, d, e, f, g, h]))"

lemma prod_cases8: "\<exists>a b c d e f g h. (x :: working) = (a, b, c, d, e, f, g, h)"
  by (metis surj_pair)

section \<open>The shape of padding and of digests\<close>

lemma big_endian_length [simp]: "length (big_endian w n) = w"
  by (induction w) auto

lemma pad_message_length: "64 dvd length (pad_message m)"
proof -
  define q r where "q = length m div 64" "r = length m mod 64"
  note qr = this
  have len: "length m = 64 * q + r" and r: "r < 64" by (simp_all add: qr)
  have "r + (119 - r) mod 64 = 55 \<or> r + (119 - r) mod 64 = 119"
  proof (cases "r \<le> 55")
    case True
    then have "119 - r = (55 - r) + 64" by simp
    then have "(119 - r) mod 64 = 55 - r" using True by (simp only: mod_add_self2) simp
    then show ?thesis using True by simp
  next
    case False
    then show ?thesis using r by simp
  qed
  then have "length (pad_message m) = 64 * (q + 1) \<or> length (pad_message m) = 64 * (q + 2)"
    unfolding pad_message_def qr(2)[symmetric] by (auto simp: len)
  then show ?thesis by (metis dvd_triv_left)
qed

lemma pad_message_extends: "take (length m) (pad_message m) = m"
  by (simp add: pad_message_def)

lemma hex_char_digit: "d < 16 \<Longrightarrow> hex_char d \<in> set ''0123456789abcdef''"
proof -
  have "list_all (\<lambda>d. hex_char d \<in> set ''0123456789abcdef'') [0..<16]" by code_simp
  then show "d < 16 \<Longrightarrow> hex_char d \<in> set ''0123456789abcdef''"
    unfolding list_all_iff set_upt by simp
qed

lemma big_endian_byte: "b \<in> set (big_endian w n) \<Longrightarrow> b < 256"
  by (induction w) auto

lemma word_hex_shape: "length (word_hex w) = 8 \<and> set (word_hex w) \<subseteq> set ''0123456789abcdef''"
proof -
  have "length (concat (map hex2 bs)) = 2 * length bs" for bs
    by (induction bs) (auto simp: hex2_def)
  moreover have "set (hex2 b) \<subseteq> set ''0123456789abcdef''" if "b < 256" for b
    using that hex_char_digit[of "b div 16"] hex_char_digit[of "b mod 16"] by (auto simp: hex2_def)
  ultimately show ?thesis
    using big_endian_byte[of _ 4 "unat w"] unfolding word_hex_def set_concat set_map by fastforce
qed

lemma sha256_hex_shape:
  "length (sha256_hex t) = 64 \<and> set (sha256_hex t) \<subseteq> set ''0123456789abcdef''"
proof -
  obtain a b c d e f g h where
    state: "foldl compress initial_state (blocks (words_of (pad_message (utf8 t)))) = (a, b, c, d, e, f, g, h)"
    using prod_cases8 by blast
  have hex: "sha256_hex t = concat (map word_hex [a, b, c, d, e, f, g, h])"
    unfolding sha256_hex_def state by (simp only: prod.case)
  have "length (concat (map word_hex ws)) = 8 * length ws" for ws
    by (induction ws) (simp_all add: word_hex_shape)
  moreover have "set (concat (map word_hex ws)) \<subseteq> set ''0123456789abcdef''" for ws
    unfolding set_concat set_map using word_hex_shape by blast
  moreover have "8 * length [a, b, c, d, e, f, g, h] = 64" by simp
  ultimately show ?thesis unfolding hex by (simp only:)
qed

end
