(* ===== verification/Policy.thy ===== *)
theory Policy
  imports Contracts Sha256
begin

text \<open>
  \<^verbatim>\<open>policy.py\<close>: the exact action a gate is about, its fingerprint, the validation of a human
  approval against it, and the policy engine's decision.  Every call that parses a timestamp may
  raise, so the results are in the error monad; \<open>now\<close> falls back on the clock of the
  environment.
\<close>

section \<open>Requests and decisions\<close>

datatype GateDecision = ALLOW | ALLOW_WITH_RECEIPT | REQUIRE_HUMAN | DENY

fun gate_decision_value :: "GateDecision \<Rightarrow> string" where
  "gate_decision_value ALLOW = ''allow''"
| "gate_decision_value ALLOW_WITH_RECEIPT = ''allow_with_receipt''"
| "gate_decision_value REQUIRE_HUMAN = ''require_human''"
| "gate_decision_value DENY = ''deny''"

datatype HardGate = GATE_PUBLIC_PUBLISH | GATE_DEPLOY | GATE_LIVE_TRADE | GATE_AUTH | GATE_MONEY
  | GATE_EXTERNAL_SEND | GATE_DESTRUCTIVE_CHANGE

fun hard_gate_value :: "HardGate \<Rightarrow> string" where
  "hard_gate_value GATE_PUBLIC_PUBLISH = ''public_publish''"
| "hard_gate_value GATE_DEPLOY = ''deploy''"
| "hard_gate_value GATE_LIVE_TRADE = ''live_trade''"
| "hard_gate_value GATE_AUTH = ''auth''"
| "hard_gate_value GATE_MONEY = ''money''"
| "hard_gate_value GATE_EXTERNAL_SEND = ''external_send''"
| "hard_gate_value GATE_DESTRUCTIVE_CHANGE = ''destructive_change''"

definition hard_gate_risk :: "RiskClass \<Rightarrow> bool" where
  "hard_gate_risk r \<longleftrightarrow> r \<in> {RISK_EXTERNAL_EFFECT, RISK_PRODUCTION_EFFECT, RISK_FINANCIAL_EFFECT,
     RISK_AUTH_EFFECT, RISK_DESTRUCTIVE_EFFECT}"

definition allow_with_receipt_risk :: "RiskClass \<Rightarrow> bool" where
  "allow_with_receipt_risk r \<longleftrightarrow> r \<in> {RISK_READ_ONLY, RISK_LOCAL_DRAFT, RISK_REVIEW_ONLY, RISK_INTERNAL_STATE}"

definition implemented_transition_guards :: "string list" where
  "implemented_transition_guards = [''policy_approved'', ''has_required_artifacts'', ''within_retry_budget'',
     ''within_revision_budget'', ''within_ping_pong_budget'', ''within_research_iteration_budget'',
     ''within_resume_budget'']"

definition fail_closed_transition_guards :: "string list" where
  "fail_closed_transition_guards = [''lease_not_expired'']"

definition allowed_transition_guards :: "string list" where
  "allowed_transition_guards = implemented_transition_guards @ fail_closed_transition_guards"

record ActionRequest =
  rq_action :: string
  rq_target_ref :: string
  rq_arguments :: mapping_items
  rq_artifact_hashes :: "string list"
  rq_context_packet_digest :: "string option"
  rq_risk_classes :: "RiskClass list"
  rq_hard_gates :: "HardGate list"
  rq_workflow_id :: string
  rq_instance_id :: string
  rq_stage_id :: string
  rq_stage_run_id :: "string option"
  rq_workflow_definition_hash :: "string option"
  rq_allowed_decisions :: "string list"
  rq_state_constraints :: mapping_items
  rq_expires_at :: ts_arg
  rq_actor_ref :: "string option"
  rq_adapter_ref :: "string option"
  rq_evidence_refs :: "string list"
  rq_forbidden_actions :: "string list"
  rq_side_effects_known :: bool
  rq_side_effects_ambiguous :: bool

record PolicyGate =
  pg_gate_id :: string
  pg_workflow_id :: string
  pg_instance_id :: string
  pg_stage_id :: string
  pg_requested_action :: string
  pg_action_fingerprint :: string
  pg_risk_classes :: "RiskClass list"
  pg_decision :: string
  pg_evidence_refs :: "string list"
  pg_approval_receipt_ref :: "string option"
  pg_decision_reason :: "string option"

section \<open>Fingerprints\<close>

text \<open>\<open>_canonical_data\<close> on plain data: mappings with their keys sorted, recursively.\<close>

fun canonical_data :: "pyval \<Rightarrow> pyval" where
  "canonical_data (PList xs) = PList (map canonical_data xs)"
| "canonical_data (PDict m) = PDict (sort_key fst (map (\<lambda>(k, v). (k, canonical_data v)) m))"
| "canonical_data v = v"

definition canonical_timestamp :: "ts_arg \<Rightarrow> kernel_error + string option" where
  "canonical_timestamp v = bindE (policy_coerce_datetime v) (\<lambda>t. Inr (map_option isoformat t))"

text \<open>The payload whose JSON text is digested, given the canonical expiry.\<close>

definition fingerprint_payload :: "ActionRequest \<Rightarrow> string option \<Rightarrow> pyval" where
  "fingerprint_payload r expires = PDict
     [(''action'', PStr (rq_action r)),
      (''target_ref'', PStr (rq_target_ref r)),
      (''arguments'', canonical_data (PDict (rq_arguments r))),
      (''artifact_hashes'', str_list (rq_artifact_hashes r)),
      (''context_packet_digest'', opt_str (rq_context_packet_digest r)),
      (''risk_classes'', str_list (sort (map risk_value (rq_risk_classes r)))),
      (''hard_gates'', str_list (sort (map hard_gate_value (rq_hard_gates r)))),
      (''authority'', PDict
         [(''workflow_id'', PStr (rq_workflow_id r)),
          (''instance_id'', PStr (rq_instance_id r)),
          (''stage_id'', PStr (rq_stage_id r)),
          (''stage_run_id'', opt_str (rq_stage_run_id r)),
          (''workflow_definition_hash'', opt_str (rq_workflow_definition_hash r)),
          (''allowed_decisions'', str_list (sort (rq_allowed_decisions r))),
          (''state_constraints'', canonical_data (PDict (rq_state_constraints r))),
          (''expires_at'', opt_str expires)])]"

definition fingerprint_request :: "ActionRequest \<Rightarrow> kernel_error + string" where
  "fingerprint_request r = bindE (canonical_timestamp (rq_expires_at r)) (\<lambda>expires.
     Inr (sha256_hex (json_text (fingerprint_payload r expires))))"

section \<open>Approvals\<close>

definition validate_approval :: "env \<Rightarrow> HumanApprovalReceipt option \<Rightarrow> string \<Rightarrow> string option \<Rightarrow> ts_arg \<Rightarrow>
    kernel_error + (bool \<times> string)" where
  "validate_approval E approval expected_fingerprint expected_action now = (case approval of
     None \<Rightarrow> Inr (False, ''missing approval receipt'')
   | Some a \<Rightarrow>
      if dict_get (ap_constraints a) ''test_only'' = PBool True
      then Inr (False, ''test-only approval cannot authorize live actions'')
      else if ap_decision a \<noteq> APPROVED
      then Inr (False, ''approval decision is '' @ approval_decision_value (ap_decision a))
      else if expected_action \<noteq> None \<and> expected_action \<noteq> Some (ap_exact_action_approved a)
      then Inr (False, ''approval does not name the exact action'')
      else if ap_action_fingerprint a \<noteq> expected_fingerprint
      then Inr (False, ''approval fingerprint does not match action'')
      else bindE (policy_coerce_datetime now) (\<lambda>given.
        let current = the_or (clock E 0) given in
        bindE (policy_coerce_datetime (ap_revoked_at a)) (\<lambda>revoked.
        if (case revoked of None \<Rightarrow> False | Some t \<Rightarrow> t \<le> current)
        then Inr (False, ''approval has been revoked'')
        else bindE (policy_coerce_datetime (ap_expires_at a)) (\<lambda>expires.
          if (case expires of None \<Rightarrow> False | Some t \<Rightarrow> t \<le> current)
          then Inr (False, ''approval has expired'')
          else Inr (True, ''approval matches action'')))))"

definition test_only_constraints :: "string \<Rightarrow> mapping_items" where
  "test_only_constraints key =
     [(''test_only'', PBool True), (''non_live'', PBool True),
      (''allowed_scope'', PStr ''fixtures/tests/local_review_packets''),
      (''idempotency_key'', PStr key),
      (''forbidden_live_effects'', str_list (map hard_gate_value
        [GATE_PUBLIC_PUBLISH, GATE_DEPLOY, GATE_LIVE_TRADE, GATE_AUTH, GATE_MONEY, GATE_EXTERNAL_SEND,
         GATE_DESTRUCTIVE_CHANGE]))]"

definition build_test_only_suman_approval :: "ActionRequest \<Rightarrow> ApprovalDecision \<Rightarrow> string list \<Rightarrow> ts_arg \<Rightarrow>
    string option \<Rightarrow> kernel_error + HumanApprovalReceipt" where
  "build_test_only_suman_approval r decision evidence_refs created_at idempotency_key =
     bindE (fingerprint_request r) (\<lambda>fp.
     let key = str_or idempotency_key (''test-only:'' @ fp) in
     Inr \<lparr>ap_approval_id = ''test-suman-'' @ take 16 (sha256_hex key), ap_gate_id = ''test-gate-'' @ take 16 fp,
       ap_human_ref = ''Suman(test)'', ap_canonical_surface = ''local_test_fixture'', ap_decision = decision,
       ap_exact_action_approved = rq_action r, ap_action_fingerprint = fp, ap_evidence_refs = evidence_refs,
       ap_constraints = test_only_constraints key, ap_created_at = created_at, ap_expires_at = TsNone,
       ap_revoked_at = TsNone, ap_message_ref = Some (''local-test-fixture://'' @ key)\<rparr>)"

section \<open>The policy engine\<close>

definition decide :: "env \<Rightarrow> ActionRequest \<Rightarrow> string \<Rightarrow> HumanApprovalReceipt option \<Rightarrow> ts_arg \<Rightarrow>
    kernel_error + (GateDecision \<times> string \<times> string option)" where
  "decide E r fp approval now =
     (if rq_action r \<in> set (rq_forbidden_actions r) \<or> RISK_FORBIDDEN \<in> set (rq_risk_classes r)
      then Inr (DENY, ''action is forbidden by policy'', None)
      else if \<not> rq_side_effects_known r \<or> rq_side_effects_ambiguous r
      then bindE (validate_approval E approval fp (Some (rq_action r)) now) (\<lambda>(valid, reason).
        if valid then Inr (ALLOW, ''human approved ambiguous side effect'', map_option ap_approval_id approval)
        else Inr (REQUIRE_HUMAN, ''side effects are unknown or ambiguous'', None))
      else if rq_hard_gates r \<noteq> [] \<or> (\<exists>k \<in> set (rq_risk_classes r). hard_gate_risk k)
      then bindE (validate_approval E approval fp (Some (rq_action r)) now) (\<lambda>(valid, reason).
        if valid then Inr (ALLOW, ''human approval matches hard-gated action'', map_option ap_approval_id approval)
        else Inr (REQUIRE_HUMAN, reason, None))
      else if \<forall>k \<in> set (rq_risk_classes r). allow_with_receipt_risk k
      then Inr (ALLOW_WITH_RECEIPT, ''allowed with receipt'', None)
      else Inr (REQUIRE_HUMAN, ''risk class requires human review'', None))"

definition evaluate :: "env \<Rightarrow> ActionRequest \<Rightarrow> HumanApprovalReceipt option \<Rightarrow> ts_arg \<Rightarrow> kernel_error + PolicyGate" where
  "evaluate E r approval now =
     bindE (fingerprint_request r) (\<lambda>fp.
     bindE (decide E r fp approval now) (\<lambda>(decision, reason, approval_ref).
     Inr \<lparr>pg_gate_id = ''gate-'' @ take 16 fp, pg_workflow_id = rq_workflow_id r, pg_instance_id = rq_instance_id r,
       pg_stage_id = rq_stage_id r, pg_requested_action = rq_action r, pg_action_fingerprint = fp,
       pg_risk_classes = rq_risk_classes r, pg_decision = gate_decision_value decision,
       pg_evidence_refs = rq_evidence_refs r, pg_approval_receipt_ref = approval_ref,
       pg_decision_reason = Some reason\<rparr>))"

end
