(* ===== verification/Py_Dicts.thy ===== *)
theory Py_Dicts
  imports Policy
begin

text \<open>
  The untyped helpers of \<^verbatim>\<open>_helpers.py\<close> that several components share: dict updates,
  \<open>_string_tuple\<close>, the order-preserving deduplications, dotted paths and name normalisation.
\<close>

section \<open>Dicts\<close>

text \<open>\<open>m[k] = v\<close>: an existing key keeps its place.\<close>

definition dict_set :: "mapping_items \<Rightarrow> string \<Rightarrow> pyval \<Rightarrow> mapping_items" where
  "dict_set m k v = (if has_key m k then map (\<lambda>(k', v'). (k', if k' = k then v else v')) m else m @ [(k, v)])"

definition dict_update :: "mapping_items \<Rightarrow> mapping_items \<Rightarrow> mapping_items" where
  "dict_update m items = fold (\<lambda>(k, v) d. dict_set d k v) items m"

lemma map_of_dict_set: "map_of (dict_set m k v) = (map_of m)(k \<mapsto> v)"
proof
  fix j
  have "map_of (map (\<lambda>(k', v'). (k', if k' = k then v else v')) m) j =
      map_option (\<lambda>v'. if j = k then v else v') (map_of m j)"
    by (induction m) auto
  then show "map_of (dict_set m k v) j = ((map_of m)(k \<mapsto> v)) j"
    by (auto simp: dict_set_def has_key_def map_add_def split: option.splits)
qed

lemma dict_get_set [simp]: "dict_get (dict_set m k v) j = (if j = k then v else dict_get m j)"
  by (simp add: dict_get_def map_of_dict_set)

text \<open>\<open>m.get(k, default)\<close>.\<close>

definition dict_get_or :: "mapping_items \<Rightarrow> string \<Rightarrow> pyval \<Rightarrow> pyval" where
  "dict_get_or m k d = (case map_of m k of None \<Rightarrow> d | Some v \<Rightarrow> v)"

text \<open>Python's \<open>a or b\<close> on values.\<close>

definition py_or :: "pyval \<Rightarrow> pyval \<Rightarrow> pyval" where
  "py_or a b = (if truthy a then a else b)"

section \<open>Sequences of texts\<close>

fun type_name :: "pyval \<Rightarrow> string" where
  "type_name PNone = ''NoneType''" | "type_name (PBool b) = ''bool''" | "type_name (PInt i) = ''int''"
| "type_name (PStr s) = ''str''" | "type_name (PList xs) = ''list''" | "type_name (PDict m) = ''dict''"

definition string_tuple :: "pyval \<Rightarrow> kernel_error + string list" where
  "string_tuple v = (case v of
     PNone \<Rightarrow> Inr [] | PStr s \<Rightarrow> Inr [s] | PList xs \<Rightarrow> Inr (map py_str xs) | PDict m \<Rightarrow> Inr (map fst m)
   | _ \<Rightarrow> Inl (TypeError (repr_str (type_name v) @ '' object is not iterable'')))"

definition dedupe :: "'a list \<Rightarrow> 'a list" where
  "dedupe xs = fold (\<lambda>x acc. if x \<in> set acc then acc else acc @ [x]) xs []"

definition dedupe_strings :: "string list \<Rightarrow> string list" where
  "dedupe_strings xs = fold (\<lambda>x acc. if x = [] \<or> x \<in> set acc then acc else acc @ [x]) xs []"

lemma dedupe_fold_set: "set (fold (\<lambda>x acc. if x \<in> set acc then acc else acc @ [x]) xs acc) = set acc \<union> set xs"
  by (induction xs arbitrary: acc) auto

lemma set_dedupe [simp]: "set (dedupe xs) = set xs"
  by (simp add: dedupe_def dedupe_fold_set)

lemma dedupe_Nil [simp]: "dedupe xs = [] \<longleftrightarrow> xs = []"
  using set_dedupe[of xs] by (metis set_empty)

lemma dedupe_strings_fold_set:
  "set (fold (\<lambda>x acc. if x = [] \<or> x \<in> set acc then acc else acc @ [x]) xs acc) = set acc \<union> (set xs - {[]})"
  by (induction xs arbitrary: acc) auto

lemma set_dedupe_strings [simp]: "set (dedupe_strings xs) = set xs - {[]}"
  by (simp add: dedupe_strings_def dedupe_strings_fold_set)

lemma distinct_dedupe [simp]: "distinct (dedupe xs)"
proof -
  have "distinct acc \<Longrightarrow> distinct (fold (\<lambda>x acc. if x \<in> set acc then acc else acc @ [x]) xs acc)" for acc
    by (induction xs arbitrary: acc) auto
  then show ?thesis by (simp add: dedupe_def)
qed

section \<open>Names and paths\<close>

text \<open>\<open>value.strip().lower().replace("-", "_").replace(" ", "_")\<close>.\<close>

definition normalize_policy_name :: "string \<Rightarrow> string" where
  "normalize_policy_name s = replace_char (CHR '' '') (CHR ''_'') (replace_char (CHR ''-'') (CHR ''_'') (lower (strip s)))"

fun path_walk :: "string list \<Rightarrow> pyval \<Rightarrow> pyval" where
  "path_walk [] v = v"
| "path_walk (p # ps) v = (case mapping_of v of None \<Rightarrow> PNone | Some m \<Rightarrow> path_walk ps (dict_get m p))"

definition path_get :: "mapping_items \<Rightarrow> string \<Rightarrow> pyval" where
  "path_get root path = path_walk (split_on (CHR ''.'') path) (PDict root)"

definition remove_prefix :: "string \<Rightarrow> string \<Rightarrow> string" where
  "remove_prefix p s = (if starts_with p s then drop (length p) s else s)"

end
