(* ===== verification/Adapter_Registry.thy ===== *)
theory Adapter_Registry
  imports Py_Dicts
begin

text \<open>
  \<^verbatim>\<open>adapter_registry.py\<close>: what the kernel knows of an adapter before it invokes it.  The adapter
  object itself is code outside the kernel; an adapter is known by its id here, and invoking it
  is a parameter of the kernel's step.
\<close>

record AdapterRegistration =
  rg_adapter_id :: string
  rg_family :: AdapterFamily
  rg_operations :: "string list"
  rg_side_effects :: "RiskClass list"
  rg_replay_safe :: bool
  rg_requires_idempotency_key :: bool
  rg_default_timeout_seconds :: "int option"
  rg_proof_capabilities :: "string list"
  rg_metadata :: mapping_items

text \<open>What an adapter says of itself (\<open>capabilities()\<close>).\<close>

record AdapterCapabilities =
  cap_adapter_id :: string
  cap_family :: AdapterFamily
  cap_operations :: "string list"
  cap_metadata :: mapping_items

text \<open>The four class methods \<open>from_..._adapter\<close> differ in the defaults of the last two arguments only.\<close>

definition from_adapter :: "AdapterCapabilities \<Rightarrow> RiskClass list \<Rightarrow> bool \<Rightarrow> AdapterRegistration" where
  "from_adapter c side_effects replay_safe = \<lparr>rg_adapter_id = cap_adapter_id c, rg_family = cap_family c,
     rg_operations = cap_operations c, rg_side_effects = side_effects, rg_replay_safe = replay_safe,
     rg_requires_idempotency_key = True, rg_default_timeout_seconds = None, rg_proof_capabilities = [],
     rg_metadata = cap_metadata c\<rparr>"

definition supports :: "AdapterRegistration \<Rightarrow> string \<Rightarrow> bool" where
  "supports r operation \<longleftrightarrow> operation \<in> set (rg_operations r)"

type_synonym registry = "AdapterRegistration list"

definition registered :: "registry \<Rightarrow> string \<Rightarrow> AdapterRegistration option" where
  "registered g adapter_id = find (\<lambda>r. rg_adapter_id r = adapter_id) g"

definition register :: "AdapterRegistration \<Rightarrow> registry \<Rightarrow> kernel_error + registry" where
  "register r g = (if registered g (rg_adapter_id r) \<noteq> None
     then Inl (AdapterRegistryError (''duplicate adapter registration: '' @ rg_adapter_id r))
     else Inr (g @ [r]))"

definition new_registry :: "AdapterRegistration list \<Rightarrow> kernel_error + registry" where
  "new_registry rs = foldE register rs []"

definition adapter_family_for_stage :: "StageType \<Rightarrow> string \<Rightarrow> AdapterFamily" where
  "adapter_family_for_stage t ref =
     (if t = ST_HUMAN_GATE \<or> starts_with ''surface.'' ref then FAMILY_SURFACE
      else if starts_with ''host.'' ref then FAMILY_HOST
      else if starts_with ''runtime.'' ref \<or> t \<in> {ST_AGENT_WORK, ST_AGENT_GATE, ST_A2A_REVIEW_LOOP} then FAMILY_RUNTIME
      else FAMILY_LANE)"

definition resolve :: "registry \<Rightarrow> string \<Rightarrow> StageType \<Rightarrow> kernel_error + AdapterRegistration" where
  "resolve g ref t = (case registered g ref of
     None \<Rightarrow> Inl (AdapterRegistryError (''missing adapter registration: '' @ ref))
   | Some r \<Rightarrow> let expected = adapter_family_for_stage t ref in
       if rg_family r \<noteq> expected
       then Inl (AdapterRegistryError (''adapter family mismatch: stage expects '' @ family_value expected @
              '', registration is '' @ family_value (rg_family r)))
       else Inr r)"

definition validate_ref :: "registry \<Rightarrow> string \<Rightarrow> kernel_error + unit" where
  "validate_ref g ref = guardE (registered g ref \<noteq> None)
     (AdapterRegistryError (''missing adapter registration: '' @ ref))"

section \<open>Resolution\<close>

lemma registered_Some: "registered g i = Some r \<Longrightarrow> r \<in> set g \<and> rg_adapter_id r = i"
  by (auto simp: registered_def find_Some_iff)

lemma registered_None: "registered g i = None \<longleftrightarrow> i \<notin> rg_adapter_id ` set g"
  by (auto simp: registered_def find_None_iff)

lemma register_distinct:
  "register r g = Inr g' \<Longrightarrow> distinct (map rg_adapter_id g) \<Longrightarrow> distinct (map rg_adapter_id g')"
  by (auto simp: register_def registered_None split: if_splits)

lemma new_registry_fold:
  "foldE register rs g = Inr g' \<Longrightarrow> distinct (map rg_adapter_id g) \<Longrightarrow> g' = g @ rs \<and> distinct (map rg_adapter_id (g @ rs))"
proof (induction rs arbitrary: g)
  case (Cons r rs)
  obtain g1 where g1: "register r g = Inr g1" "foldE register rs g1 = Inr g'"
    using Cons.prems(1) by (auto simp: bindE_eq_Inr)
  then have "g1 = g @ [r]" "rg_adapter_id r \<notin> rg_adapter_id ` set g"
    by (auto simp: register_def registered_None split: if_splits)
  then show ?case using Cons.IH[of g1] g1(2) Cons.prems(2) by simp
qed simp

lemma registered_distinct:
  assumes "distinct (map rg_adapter_id g)" "r \<in> set g"
  shows "registered g (rg_adapter_id r) = Some r"
proof (cases "registered g (rg_adapter_id r)")
  case None
  then show ?thesis using assms(2) by (auto simp: registered_None)
next
  case (Some s)
  then show ?thesis using registered_Some[OF Some] distinct_map_unique[OF assms(1) _ assms(2)] by auto
qed

text \<open>
  Resolution is exact: a registry is built exactly from registrations with distinct ids,
  and a reference resolves precisely to the registration of that id, when its family is the one
  the stage type and the reference's prefix demand; every other reference is an error.
\<close>

theorem resolve_exact:
  assumes "new_registry rs = Inr g"
  shows "distinct (map rg_adapter_id rs) \<and>
    (resolve g ref t = Inr r \<longleftrightarrow> r \<in> set rs \<and> rg_adapter_id r = ref \<and> rg_family r = adapter_family_for_stage t ref)"
proof -
  have g: "g = rs" "distinct (map rg_adapter_id rs)"
    using new_registry_fold[of rs "[]" g] assms unfolding new_registry_def by simp_all
  have "resolve rs ref t = Inr r \<longleftrightarrow> r \<in> set rs \<and> rg_adapter_id r = ref \<and> rg_family r = adapter_family_for_stage t ref"
  proof
    assume "resolve rs ref t = Inr r"
    then show "r \<in> set rs \<and> rg_adapter_id r = ref \<and> rg_family r = adapter_family_for_stage t ref"
      using registered_Some by (auto simp: resolve_def Let_def split: option.splits if_splits)
  next
    assume "r \<in> set rs \<and> rg_adapter_id r = ref \<and> rg_family r = adapter_family_for_stage t ref"
    then show "resolve rs ref t = Inr r" using registered_distinct[OF g(2), of r] by (auto simp: resolve_def)
  qed
  then show ?thesis using g by simp
qed

definition demo_registration :: AdapterRegistration where
  "demo_registration = from_adapter \<lparr>cap_adapter_id = ''runtime.x'', cap_family = FAMILY_RUNTIME,
     cap_operations = [''invoke''], cap_metadata = []\<rparr> [RISK_READ_ONLY] False"

lemma resolve_exact_witness:
  "new_registry [demo_registration] = Inr [demo_registration] \<and>
   resolve [demo_registration] ''runtime.x'' ST_AGENT_WORK = Inr demo_registration"
proof
  show n: "new_registry [demo_registration] = Inr [demo_registration]"
    by (simp add: new_registry_def register_def registered_def)
  show "resolve [demo_registration] ''runtime.x'' ST_AGENT_WORK = Inr demo_registration"
    using resolve_exact[OF n] by (simp add: demo_registration_def from_adapter_def adapter_family_for_stage_def starts_with_def)
qed

end
