(* ===== verification/Workflow_Text.thy ===== *)
theory Workflow_Text
  imports Policy
begin

text \<open>
  The canonical text of a workflow definition (\<^verbatim>\<open>to_plain_data\<close> of the definition
  dataclasses, \<^verbatim>\<open>dsl.canonical_json\<close>) and the digests of \<^verbatim>\<open>prompts.py\<close>.  An instance pins the
  digest of its definition; every later step compares it.
\<close>

section \<open>Plain data of a definition\<close>

definition prompt_ref_plain :: "PromptRef \<Rightarrow> pyval" where
  "prompt_ref_plain p = PDict
     [(''id'', PStr (pr_id p)), (''kind'', PStr (pr_kind p)), (''version'', PStr (pr_version p)),
      (''registry'', PStr (pr_registry p)), (''render_mode'', PStr (pr_render_mode p)),
      (''required'', PBool (pr_required p)), (''content_hash'', opt_str (pr_content_hash p))]"

definition transition_plain :: "Transition \<Rightarrow> pyval" where
  "transition_plain t = PDict
     [(''from_stage'', PStr (from_stage t)), (''on'', PStr (tr_on t)), (''to_stage'', opt_str (to_stage t)),
      (''terminal'', opt_str (tr_terminal t)), (''guard'', opt_str (tr_guard t)),
      (''label'', opt_str (tr_label t))]"

definition stage_plain :: "StageDef \<Rightarrow> pyval" where
  "stage_plain s = PDict
     [(''id'', PStr (sd_id s)), (''type'', PStr (stage_type_value (sd_type s))),
      (''adapter'', PStr (sd_adapter s)), (''outcomes'', str_list (sd_outcomes s)),
      (''actors'', PDict (sd_actors s)), (''inputs'', PDict (sd_inputs s)),
      (''outputs'', PDict (sd_outputs s)), (''prompt_refs'', PList (map prompt_ref_plain (sd_prompt_refs s))),
      (''no_prompt_reason'', opt_str (sd_no_prompt_reason s)), (''policy'', PDict (sd_policy s)),
      (''budget'', PDict (sd_budget s)), (''retry'', PDict (sd_retry s)), (''lease'', PDict (sd_lease s)),
      (''timeout_seconds'', opt_int (sd_timeout_seconds s)), (''surface'', PDict (sd_surface s))]"

definition workflow_plain :: "WorkflowDef \<Rightarrow> pyval" where
  "workflow_plain w = PDict
     [(''id'', PStr (wd_id w)), (''version'', PStr (wd_version w)), (''name'', PStr (wd_name w)),
      (''stages'', PList (map stage_plain (wd_stages w))),
      (''transitions'', PList (map transition_plain (wd_transitions w))), (''schema'', PStr (wd_schema w)),
      (''owner'', opt_str (wd_owner w)), (''description'', opt_str (wd_description w)),
      (''inputs'', PDict (wd_inputs w)), (''defaults'', PDict (wd_defaults w)),
      (''actors'', PDict (wd_actors w)), (''artifacts'', PDict (wd_artifacts w)),
      (''policies'', PDict (wd_policies w)), (''compatibility'', PDict (wd_compatibility w))]"

definition workflow_to_canonical_json :: "WorkflowDef \<Rightarrow> string" where
  "workflow_to_canonical_json w = json_text (workflow_plain w)"

section \<open>Digests\<close>

text \<open>\<open>value.replace("\r\n", "\n").replace("\r", "\n")\<close>.\<close>

fun replace_crlf :: "string \<Rightarrow> string" where
  "replace_crlf (c # d # s) =
     (if c = CHR 0x0D \<and> d = CHR 0x0A then CHR 0x0A # replace_crlf s else c # replace_crlf (d # s))"
| "replace_crlf s = s"

definition normalize_text :: "string \<Rightarrow> string" where
  "normalize_text s = replace_char (CHR 0x0D) (CHR 0x0A) (replace_crlf s)"

definition hash_text :: "string \<Rightarrow> string" where
  "hash_text s = ''sha256:'' @ sha256_hex (normalize_text s)"

definition digest_data :: "pyval \<Rightarrow> string" where
  "digest_data v = hash_text (json_text (canonical_data v))"

text \<open>\<open>digest_data(json.loads(workflow_to_canonical_json(workflow)))\<close>: the digest of the parsed text is
  that of the plain data, since both are canonicalised first.\<close>

definition definition_hash :: "WorkflowDef \<Rightarrow> string" where
  "definition_hash w = digest_data (workflow_plain w)"

end
