(* ===== verification/Stage_Policy.thy ===== *)
theory Stage_Policy
  imports Adapter_Registry Workflow_Text
begin

text \<open>
  The effective policy of a stage (\<^verbatim>\<open>_helpers.py\<close>): risk classes, hard gates and forbidden
  actions collected from the workflow's defaults and policies, the stage's own policy and the
  adapter's registration, with every name the kernel does not know making the side effects
  unknown and ambiguous.  Values are plain data, as workflow definitions and registrations hold.
\<close>

section \<open>Components\<close>

record PolicyComponents =
  pc_risk_classes :: "RiskClass list"
  pc_hard_gates :: "HardGate list"
  pc_forbidden_actions :: "string list"
  pc_side_effects_known :: bool
  pc_side_effects_ambiguous :: bool
  pc_unknown_policy_refs :: "string list"

definition no_components :: PolicyComponents where
  "no_components = \<lparr>pc_risk_classes = [], pc_hard_gates = [], pc_forbidden_actions = [],
     pc_side_effects_known = True, pc_side_effects_ambiguous = False, pc_unknown_policy_refs = []\<rparr>"

definition unknown_component :: "string \<Rightarrow> PolicyComponents" where
  "unknown_component ref = no_components\<lparr>pc_side_effects_known := False, pc_side_effects_ambiguous := True,
     pc_unknown_policy_refs := [ref]\<rparr>"

fun risk_classes_for_hard_gate :: "HardGate \<Rightarrow> RiskClass list" where
  "risk_classes_for_hard_gate GATE_PUBLIC_PUBLISH = [RISK_EXTERNAL_EFFECT]"
| "risk_classes_for_hard_gate GATE_DEPLOY = [RISK_PRODUCTION_EFFECT]"
| "risk_classes_for_hard_gate GATE_LIVE_TRADE = [RISK_FINANCIAL_EFFECT]"
| "risk_classes_for_hard_gate GATE_AUTH = [RISK_AUTH_EFFECT]"
| "risk_classes_for_hard_gate GATE_MONEY = [RISK_FINANCIAL_EFFECT]"
| "risk_classes_for_hard_gate GATE_EXTERNAL_SEND = [RISK_EXTERNAL_EFFECT]"
| "risk_classes_for_hard_gate GATE_DESTRUCTIVE_CHANGE = [RISK_DESTRUCTIVE_EFFECT]"

definition all_hard_gates :: "HardGate list" where
  "all_hard_gates = [GATE_PUBLIC_PUBLISH, GATE_DEPLOY, GATE_LIVE_TRADE, GATE_AUTH, GATE_MONEY, GATE_EXTERNAL_SEND,
     GATE_DESTRUCTIVE_CHANGE]"

definition hard_gate_of :: "string \<Rightarrow> HardGate option" where
  "hard_gate_of s = find (\<lambda>g. hard_gate_value g = s) all_hard_gates"

definition policy_class_map :: "(string \<times> RiskClass list \<times> HardGate list) list" where
  "policy_class_map =
    [(''read_only'', [RISK_READ_ONLY], []), (''read_only_review'', [RISK_READ_ONLY], []),
     (''local_draft'', [RISK_LOCAL_DRAFT], []), (''internal_generation'', [RISK_LOCAL_DRAFT], []),
     (''public_draft_review'', [RISK_LOCAL_DRAFT, RISK_REVIEW_ONLY], []),
     (''public_publish_preflight'', [RISK_REVIEW_ONLY, RISK_INTERNAL_STATE], []),
     (''review_only'', [RISK_REVIEW_ONLY], []), (''internal_state'', [RISK_INTERNAL_STATE], []),
     (''external_effect'', [RISK_EXTERNAL_EFFECT], [GATE_EXTERNAL_SEND]),
     (''external_send'', [RISK_EXTERNAL_EFFECT], [GATE_EXTERNAL_SEND]),
     (''external_effect_or_uncertain_review'', [RISK_EXTERNAL_EFFECT], [GATE_EXTERNAL_SEND]),
     (''public_publish'', [RISK_EXTERNAL_EFFECT], [GATE_PUBLIC_PUBLISH]),
     (''deploy'', [RISK_PRODUCTION_EFFECT], [GATE_DEPLOY]),
     (''deploy_or_prod_mutation'', [RISK_PRODUCTION_EFFECT], [GATE_DEPLOY]),
     (''production_effect'', [RISK_PRODUCTION_EFFECT], [GATE_DEPLOY]),
     (''auth'', [RISK_AUTH_EFFECT], [GATE_AUTH]), (''auth_effect'', [RISK_AUTH_EFFECT], [GATE_AUTH]),
     (''auth_or_secret_change'', [RISK_AUTH_EFFECT], [GATE_AUTH]),
     (''money'', [RISK_FINANCIAL_EFFECT], [GATE_MONEY]),
     (''financial_effect'', [RISK_FINANCIAL_EFFECT], [GATE_MONEY]),
     (''money_or_broker_action'', [RISK_FINANCIAL_EFFECT], [GATE_MONEY, GATE_LIVE_TRADE]),
     (''high_cost_compute'', [RISK_FINANCIAL_EFFECT], [GATE_MONEY]),
     (''destructive_change'', [RISK_DESTRUCTIVE_EFFECT], [GATE_DESTRUCTIVE_CHANGE]),
     (''destructive_effect'', [RISK_DESTRUCTIVE_EFFECT], [GATE_DESTRUCTIVE_CHANGE]),
     (''forbidden'', [RISK_FORBIDDEN], [])]"

definition policy_class_components :: "string \<Rightarrow> PolicyComponents" where
  "policy_class_components name = (let normalized = normalize_policy_name name in
     if normalized = [] then no_components
     else case map_of policy_class_map normalized of
       Some (risks, gates) \<Rightarrow> no_components\<lparr>pc_risk_classes := risks, pc_hard_gates := gates\<rparr>
     | None \<Rightarrow> (case risk_of normalized of
         Some risk \<Rightarrow> no_components\<lparr>pc_risk_classes := [risk]\<rparr>
       | None \<Rightarrow> (case hard_gate_of normalized of
           Some gate \<Rightarrow> no_components\<lparr>pc_risk_classes := risk_classes_for_hard_gate gate, pc_hard_gates := [gate]\<rparr>
         | None \<Rightarrow> unknown_component name)))"

definition single_hard_gate :: "pyval \<Rightarrow> PolicyComponents" where
  "single_hard_gate v = (case hard_gate_of (normalize_policy_name (py_str v)) of
     Some gate \<Rightarrow> no_components\<lparr>pc_risk_classes := risk_classes_for_hard_gate gate, pc_hard_gates := [gate]\<rparr>
   | None \<Rightarrow> unknown_component (py_str v))"

fun hard_gate_components :: "pyval \<Rightarrow> PolicyComponents" where
  "hard_gate_components PNone = no_components"
| "hard_gate_components (PList xs) = (let cs = map hard_gate_components xs;
      unknown = concat (map pc_unknown_policy_refs cs)
    in \<lparr>pc_risk_classes = dedupe (concat (map pc_risk_classes cs)), pc_hard_gates = dedupe (concat (map pc_hard_gates cs)),
        pc_forbidden_actions = [], pc_side_effects_known = (unknown = []), pc_side_effects_ambiguous = (unknown \<noteq> []),
        pc_unknown_policy_refs = dedupe_strings unknown\<rparr>)"
| "hard_gate_components v = (if v = PStr [] then no_components else single_hard_gate v)"

section \<open>Policies\<close>

definition dedupe_components :: "PolicyComponents \<Rightarrow> PolicyComponents" where
  "dedupe_components c = c\<lparr>pc_risk_classes := dedupe (pc_risk_classes c), pc_hard_gates := dedupe (pc_hard_gates c),
     pc_forbidden_actions := dedupe_strings (pc_forbidden_actions c),
     pc_unknown_policy_refs := dedupe_strings (pc_unknown_policy_refs c)\<rparr>"

text \<open>The two merge loops: the mapping branch takes everything but the forbidden actions.\<close>

definition merge_nested :: "PolicyComponents \<Rightarrow> PolicyComponents \<Rightarrow> PolicyComponents" where
  "merge_nested a c = a\<lparr>pc_risk_classes := pc_risk_classes a @ pc_risk_classes c,
     pc_hard_gates := pc_hard_gates a @ pc_hard_gates c,
     pc_unknown_policy_refs := pc_unknown_policy_refs a @ pc_unknown_policy_refs c,
     pc_side_effects_known := pc_side_effects_known a \<and> pc_side_effects_known c,
     pc_side_effects_ambiguous := pc_side_effects_ambiguous a \<or> pc_side_effects_ambiguous c\<rparr>"

definition merge_components :: "PolicyComponents \<Rightarrow> PolicyComponents \<Rightarrow> PolicyComponents" where
  "merge_components a c = (merge_nested a c)\<lparr>pc_forbidden_actions := pc_forbidden_actions a @ pc_forbidden_actions c\<rparr>"

definition merge_hard_gates :: "PolicyComponents \<Rightarrow> PolicyComponents \<Rightarrow> PolicyComponents" where
  "merge_hard_gates a c = a\<lparr>pc_risk_classes := pc_risk_classes a @ pc_risk_classes c,
     pc_hard_gates := pc_hard_gates a @ pc_hard_gates c,
     pc_unknown_policy_refs := pc_unknown_policy_refs a @ pc_unknown_policy_refs c\<rparr>"

text \<open>What a policy mapping says beside its nested references.\<close>

definition external_effect_flags :: "mapping_items \<Rightarrow> PolicyComponents \<Rightarrow> PolicyComponents" where
  "external_effect_flags m c = (let v = dict_get m ''external_effects'';
      hard = c\<lparr>pc_risk_classes := pc_risk_classes c @ [RISK_EXTERNAL_EFFECT], pc_hard_gates := pc_hard_gates c @ [GATE_EXTERNAL_SEND]\<rparr>
    in case v of
         PBool True \<Rightarrow> hard\<lparr>pc_side_effects_ambiguous := True\<rparr>
       | PStr s \<Rightarrow> hard
       | PList xs \<Rightarrow> if xs \<noteq> [] then hard else c
       | _ \<Rightarrow> c)"

definition has_hard_policy :: "PolicyComponents \<Rightarrow> bool" where
  "has_hard_policy c \<longleftrightarrow> pc_hard_gates c \<noteq> [] \<or>
     (\<exists>r \<in> set (pc_risk_classes c). hard_gate_risk r \<or> r = RISK_FORBIDDEN)"

definition is_true :: "pyval \<Rightarrow> bool" where
  "is_true v \<longleftrightarrow> v = PBool True"

definition mapping_flags :: "mapping_items \<Rightarrow> PolicyComponents \<Rightarrow> PolicyComponents" where
  "mapping_flags m c0 =
    (let c1 = (if dict_get m ''external_publish_allowed'' = PBool False
           then c0\<lparr>pc_forbidden_actions := pc_forbidden_actions c0 @ [''public_publish'', ''publish'', ''external_send'']\<rparr> else c0);
         c2 = external_effect_flags m c1;
         c3 = (if is_true (dict_get m ''reads_private_source'')
           then c2\<lparr>pc_risk_classes := pc_risk_classes c2 @ [RISK_READ_ONLY]\<rparr> else c2);
         requires_approval = (is_true (dict_get m ''requires_explicit_approval'') \<or> is_true (dict_get m ''requires_prior_approval''));
         c4 = (if requires_approval \<and> \<not> has_hard_policy c3 \<and> \<not> is_true (dict_get m ''dry_run_only'')
           then c3\<lparr>pc_side_effects_ambiguous := True\<rparr> else c3);
         c5 = (if dict_get m ''side_effects_known'' = PBool False then c4\<lparr>pc_side_effects_known := False\<rparr> else c4)
     in if is_true (dict_get m ''side_effects_ambiguous'') then c5\<lparr>pc_side_effects_ambiguous := True\<rparr> else c5)"

text \<open>
  \<open>_policy_components\<close>.  The components of every entry are at hand (\<open>subs\<close>); the code computes
  those under the seven reference keys, so only their errors surface.
\<close>

definition sub_components :: "(string \<times> (kernel_error + PolicyComponents)) list \<Rightarrow> string \<Rightarrow>
    kernel_error + PolicyComponents" where
  "sub_components subs k = (case map_of subs k of None \<Rightarrow> Inr no_components | Some r \<Rightarrow> r)"

definition policy_reference_keys :: "string list" where
  "policy_reference_keys = [''class'', ''policy_class'', ''risk_class'', ''policy_ref'', ''classes'', ''risk_classes'', ''side_effects'']"

fun policy_components :: "pyval \<Rightarrow> kernel_error + PolicyComponents" where
  "policy_components PNone = Inr no_components"
| "policy_components (PStr s) = Inr (if s = [] then no_components else policy_class_components s)"
| "policy_components (PDict m) = (let subs = map (\<lambda>(k, v). (k, policy_components v)) m in
     bindE (mapE (sub_components subs) policy_reference_keys) (\<lambda>cs.
     let c1 = merge_hard_gates (foldl merge_nested no_components cs) (hard_gate_components (dict_get m ''hard_gates'')) in
     bindE (string_tuple (dict_get m ''forbidden_actions'')) (\<lambda>f1.
     bindE (string_tuple (dict_get m ''forbidden'')) (\<lambda>f2.
     Inr (dedupe_components (mapping_flags m (c1\<lparr>pc_forbidden_actions := pc_forbidden_actions c1 @ f1 @ f2\<rparr>)))))))"
| "policy_components (PList xs) = bindE (mapE id (map policy_components xs)) (\<lambda>cs.
     Inr (dedupe_components (foldl merge_components no_components cs)))"
| "policy_components v = Inr (unknown_component (py_str v))"

definition surface_contract_policy_components :: "pyval \<Rightarrow> kernel_error + PolicyComponents" where
  "surface_contract_policy_components v = (case mapping_of v of None \<Rightarrow> Inr no_components
   | Some m \<Rightarrow>
      let dry_run_only = truthy (dict_get_or m ''dry_run_only'' (PBool False));
          live = truthy (dict_get_or m ''live_mutation_allowed'' (PBool False)) in
      bindE (string_tuple (dict_get m ''external_effects'')) (\<lambda>external.
      if dry_run_only \<and> \<not> live then Inr no_components
      else if live \<or> external \<noteq> []
      then Inr (no_components\<lparr>pc_risk_classes := [RISK_EXTERNAL_EFFECT], pc_hard_gates := [GATE_EXTERNAL_SEND],
             pc_side_effects_ambiguous := (external = [])\<rparr>)
      else Inr no_components))"

section \<open>The effective policy\<close>

record EffectivePolicy =
  ep_risk_classes :: "RiskClass list"
  ep_hard_gates :: "HardGate list"
  ep_forbidden_actions :: "string list"
  ep_side_effects_known :: bool
  ep_side_effects_ambiguous :: bool
  ep_unknown_policy_refs :: "string list"
  ep_layers :: mapping_items

definition adapter_layer :: "AdapterRegistration \<Rightarrow> pyval" where
  "adapter_layer r = PDict [(''adapter_id'', PStr (rg_adapter_id r)), (''family'', PStr (family_value (rg_family r))),
     (''side_effects'', str_list (map risk_value (rg_side_effects r))), (''replay_safe'', PBool (rg_replay_safe r)),
     (''requires_idempotency_key'', PBool (rg_requires_idempotency_key r)), (''metadata'', PDict (rg_metadata r))]"

text \<open>The layers in the order they are merged; an adapter's declared side effects are one of them.\<close>

definition policy_layers :: "WorkflowDef \<Rightarrow> StageDef \<Rightarrow> AdapterRegistration option \<Rightarrow> bool \<Rightarrow>
    (kernel_error + PolicyComponents) list" where
  "policy_layers w s registration include_stage_policy =
     [policy_components (dict_get (wd_defaults w) ''policy_class''),
      policy_components (dict_get (wd_defaults w) ''capability_policy''),
      policy_components (PDict (wd_policies w))] @
     (if include_stage_policy then [policy_components (PDict (sd_policy s))] else []) @
     (case registration of
        Some r \<Rightarrow> [Inr (no_components\<lparr>pc_risk_classes := rg_side_effects r\<rparr>),
          policy_components (dict_get (rg_metadata r) ''policy''), policy_components (dict_get (rg_metadata r) ''side_effects''),
          policy_components (dict_get (rg_metadata r) ''risk_classes''), policy_components (dict_get (rg_metadata r) ''hard_gates''),
          surface_contract_policy_components (dict_get (rg_metadata r) ''surface_contract'')]
      | None \<Rightarrow> if sd_type s = ST_HUMAN_GATE then [Inr (no_components\<lparr>pc_risk_classes := [RISK_REVIEW_ONLY]\<rparr>)] else [])"

definition effective_policy_for_stage :: "WorkflowDef \<Rightarrow> StageDef \<Rightarrow> AdapterRegistration option \<Rightarrow> bool \<Rightarrow>
    kernel_error + EffectivePolicy" where
  "effective_policy_for_stage w s registration include_stage_policy =
     bindE (mapE id (policy_layers w s registration include_stage_policy)) (\<lambda>cs.
     let c = foldl merge_components no_components cs;
         unknown = pc_unknown_policy_refs c \<noteq> [];
         risks = dedupe (pc_risk_classes c)
     in Inr \<lparr>ep_risk_classes = (if risks = [] then [RISK_READ_ONLY] else risks), ep_hard_gates = dedupe (pc_hard_gates c),
          ep_forbidden_actions = dedupe_strings (pc_forbidden_actions c),
          ep_side_effects_known = (pc_side_effects_known c \<and> \<not> unknown),
          ep_side_effects_ambiguous = (pc_side_effects_ambiguous c \<or> unknown),
          ep_unknown_policy_refs = dedupe_strings (pc_unknown_policy_refs c),
          ep_layers = [(''workflow_defaults'', PDict (wd_defaults w)), (''workflow_policies'', PDict (wd_policies w)),
            (''stage_policy'', if include_stage_policy then PDict (sd_policy s) else PDict []),
            (''adapter_policy'', case registration of None \<Rightarrow> PNone | Some r \<Rightarrow> adapter_layer r)]\<rparr>)"

definition effective_policy_plain :: "EffectivePolicy \<Rightarrow> pyval" where
  "effective_policy_plain p = PDict
     [(''risk_classes'', str_list (map risk_value (ep_risk_classes p))),
      (''hard_gates'', str_list (map hard_gate_value (ep_hard_gates p))),
      (''forbidden_actions'', str_list (ep_forbidden_actions p)),
      (''side_effects_known'', PBool (ep_side_effects_known p)),
      (''side_effects_ambiguous'', PBool (ep_side_effects_ambiguous p)),
      (''unknown_policy_refs'', str_list (ep_unknown_policy_refs p)), (''layers'', PDict (ep_layers p))]"

definition stage_action_request :: "WorkflowDef \<Rightarrow> StageDef \<Rightarrow> StageRun \<Rightarrow> AdapterRegistration option \<Rightarrow> string \<Rightarrow>
    EffectivePolicy \<Rightarrow> string option \<Rightarrow> mapping_items \<Rightarrow> string list \<Rightarrow> ActionRequest" where
  "stage_action_request w s run registration operation policy target_ref extra_arguments evidence_refs =
    (let arguments = dict_update
           [(''stage_id'', PStr (sd_id s)), (''stage_run_id'', PStr (run_id run)),
            (''stage_type'', PStr (stage_type_value (sd_type s))), (''effective_policy'', effective_policy_plain policy)]
           extra_arguments;
         adapter_ref = (case registration of None \<Rightarrow> sd_adapter s | Some r \<Rightarrow> rg_adapter_id r)
     in \<lparr>rq_action = operation, rq_target_ref = str_or target_ref adapter_ref, rq_arguments = arguments,
         rq_artifact_hashes = [], rq_context_packet_digest = None, rq_risk_classes = ep_risk_classes policy,
         rq_hard_gates = ep_hard_gates policy, rq_workflow_id = wd_id w, rq_instance_id = run_instance_id run,
         rq_stage_id = sd_id s, rq_stage_run_id = Some (run_id run),
         rq_workflow_definition_hash = Some (definition_hash w), rq_allowed_decisions = [], rq_state_constraints = [],
         rq_expires_at = TsNone, rq_actor_ref = run_actor_ref run, rq_adapter_ref = Some adapter_ref,
         rq_evidence_refs = evidence_refs, rq_forbidden_actions = ep_forbidden_actions policy,
         rq_side_effects_known = ep_side_effects_known policy, rq_side_effects_ambiguous = ep_side_effects_ambiguous policy\<rparr>)"

end
