(* ===== verification/Ledger_State.thy ===== *)
theory Ledger_State
  imports Contracts
begin

text \<open>
  The SQLite ledger of \<^verbatim>\<open>storage.py\<close>: one record per table row, the ledger as the record of
  its tables, and the SQL statements the operations are made of.  A table is the list of its
  rows in \<open>rowid\<close> order; \<open>event_sequence\<close> is the position in \<open>events\<close>.  A JSON column holds
  the value whose canonical text is stored.  \<open>INSERT\<close> checks PRIMARY KEY and UNIQUE first and
  foreign keys at the end of the statement, as SQLite does; \<open>UPDATE\<close> never touches a key, so
  it cannot fail.  An operation that raises leaves the ledger as it was (\<open>_transaction\<close> rolls
  back), so only \<open>Inr\<close> results carry a ledger.  \<open>uuid_draws\<close> counts the \<open>uuid4()\<close> values
  drawn so far.
\<close>

section \<open>Rows\<close>

record instance_row =
  wi_instance_id :: string
  wi_workflow_def_id :: string
  wi_workflow_version :: string
  wi_status :: WorkflowStatus
  wi_current_stage_id :: "string option"
  wi_idempotency_key :: "string option"
  wi_input_hash :: string
  wi_input_snapshot :: "pyval option"
  wi_definition_json :: "string option"
  wi_definition_hash :: "string option"
  wi_source_uri :: "string option"
  wi_recovery_epoch :: int
  wi_created_at :: string
  wi_updated_at :: string

record stage_run_row =
  sr_id :: string
  sr_instance_id :: string
  sr_stage_id :: string
  sr_attempt :: int
  sr_status :: StageRunStatus
  sr_adapter_id :: "string option"
  sr_actor_ref :: "string option"
  sr_failure_class :: "string option"
  sr_failure_summary :: "string option"
  sr_approval_required :: bool
  sr_idempotency_key :: "string option"
  sr_input_hash :: string
  sr_output_hash :: "string option"
  sr_prompt_hash :: "string option"
  sr_context_packet_ref :: "string option"
  sr_context_packet_hash :: "string option"
  sr_rendered_context_hash :: "string option"
  sr_retry_count :: int
  sr_retry_after_at :: "string option"
  sr_lease_owner :: "string option"
  sr_lease_token :: "string option"
  sr_lease_expires_at :: "string option"
  sr_lease_seconds :: "int option"
  sr_lease_source :: "string option"
  sr_lease_source_ref :: "string option"
  sr_parent :: "string option"
  sr_receipt_id :: "string option"
  sr_created_at :: string
  sr_started_at :: "string option"
  sr_completed_at :: "string option"
  sr_updated_at :: string

record receipt_row =
  rc_id :: string
  rc_instance_id :: string
  rc_stage_run_id :: "string option"
  rc_kind :: string
  rc_actor :: string
  rc_status :: string
  rc_failure_class :: "string option"
  rc_summary :: string
  rc_receipt :: pyval
  rc_created_at :: string

record artifact_row =
  ar_id :: string
  ar_instance_id :: string
  ar_stage_run_id :: "string option"
  ar_receipt_id :: "string option"
  ar_role :: string
  ar_uri :: string
  ar_content_hash :: string
  ar_mime_type :: string
  ar_size_bytes :: "int option"
  ar_created_by :: "string option"
  ar_visibility :: string
  ar_created_at :: string

record invocation_row =
  ai_id :: string
  ai_workflow_id :: string
  ai_instance_id :: string
  ai_stage_run_id :: string
  ai_family :: AdapterFamily
  ai_adapter_id :: string
  ai_operation :: string
  ai_input_ref :: "string option"
  ai_context_packet_ref :: "string option"
  ai_idempotency_key :: "string option"
  ai_status :: string
  ai_request_hash :: "string option"
  ai_response_hash :: "string option"
  ai_external_ref :: "string option"
  ai_error_class :: "string option"
  ai_error_summary :: "string option"
  ai_started_at :: string
  ai_completed_at :: "string option"
  ai_invocation :: pyval

record event_row =
  ev_id :: string
  ev_instance_id :: string
  ev_stage_run_id :: "string option"
  ev_type :: string
  ev_actor :: string
  ev_payload :: pyval
  ev_created_at :: string

record child_row =
  cs_id :: string
  cs_parent :: string
  cs_invocation_id :: "string option"
  cs_source_thread_id :: "string option"
  cs_external_session_id :: "string option"
  cs_delegate_kind :: string
  cs_delegate_owner :: string
  cs_goal_hash :: string
  cs_context_packet_hash :: string
  cs_allowed_scope :: pyval
  cs_expected_receipts :: pyval
  cs_status :: string
  cs_audit_status :: string
  cs_transcript_ref :: "string option"
  cs_last_seen_at :: "string option"
  cs_deadline_at :: "string option"
  cs_created_at :: string
  cs_updated_at :: string

record decision_row =
  hd_id :: string
  hd_instance_id :: string
  hd_stage_run_id :: string
  hd_gate_id :: string
  hd_decision :: string
  hd_human_ref :: string
  hd_canonical_surface :: string
  hd_exact_action_approved :: string
  hd_action_fingerprint :: string
  hd_receipt :: pyval
  hd_created_at :: string

record late_row =
  lr_id :: string
  lr_instance_id :: string
  lr_stage_run_id :: string
  lr_reported_lease_token :: "string option"
  lr_reported_owner :: "string option"
  lr_result_kind :: string
  lr_result_hash :: "string option"
  lr_external_ref :: "string option"
  lr_evidence :: pyval
  lr_observed_at :: string
  lr_recorded_at :: string

record ledger =
  workflow_instances :: "instance_row list"
  stage_runs :: "stage_run_row list"
  receipts :: "receipt_row list"
  artifact_refs :: "artifact_row list"
  adapter_invocations :: "invocation_row list"
  events :: "event_row list"
  child_sessions :: "child_row list"
  human_decisions :: "decision_row list"
  late_results :: "late_row list"
  uuid_draws :: nat

definition empty_ledger :: ledger where
  "empty_ledger = \<lparr>workflow_instances = [], stage_runs = [], receipts = [], artifact_refs = [],
     adapter_invocations = [], events = [], child_sessions = [], human_decisions = [],
     late_results = [], uuid_draws = 0\<rparr>"

section \<open>Statements\<close>

definition insert_row :: "('r \<Rightarrow> 'k) \<Rightarrow> string \<Rightarrow> 'r \<Rightarrow> 'r list \<Rightarrow> kernel_error + 'r list" where
  "insert_row key col r rows =
     (if key r \<in> key ` set rows then Inl (IntegrityError (''UNIQUE constraint failed: '' @ col))
      else Inr (rows @ [r]))"

definition foreign_key :: "bool \<Rightarrow> kernel_error + unit" where
  "foreign_key b = guardE b (IntegrityError ''FOREIGN KEY constraint failed'')"

definition has_instance :: "ledger \<Rightarrow> string \<Rightarrow> bool" where
  "has_instance L i \<longleftrightarrow> i \<in> wi_instance_id ` set (workflow_instances L)"

definition has_run :: "ledger \<Rightarrow> string \<Rightarrow> bool" where
  "has_run L i \<longleftrightarrow> i \<in> sr_id ` set (stage_runs L)"

text \<open>A nullable reference is satisfied when it is NULL or names a row.\<close>

definition opt_ref :: "(string \<Rightarrow> bool) \<Rightarrow> string option \<Rightarrow> bool" where
  "opt_ref P v = (case v of None \<Rightarrow> True | Some i \<Rightarrow> P i)"

definition insert_instance :: "instance_row \<Rightarrow> ledger \<Rightarrow> kernel_error + ledger" where
  "insert_instance r L = bindE (insert_row wi_instance_id ''workflow_instances.instance_id'' r (workflow_instances L))
     (\<lambda>rows. Inr (L\<lparr>workflow_instances := rows\<rparr>))"

definition run_slot :: "stage_run_row \<Rightarrow> string \<times> string \<times> int" where
  "run_slot r = (sr_instance_id r, sr_stage_id r, sr_attempt r)"

definition insert_run :: "stage_run_row \<Rightarrow> ledger \<Rightarrow> kernel_error + ledger" where
  "insert_run r L =
     bindE (insert_row sr_id ''stage_runs.stage_run_id'' r (stage_runs L)) (\<lambda>_.
     bindE (insert_row run_slot ''stage_runs.instance_id, stage_runs.stage_id, stage_runs.attempt'' r (stage_runs L)) (\<lambda>rows.
     bindE (foreign_key (has_instance L (sr_instance_id r))) (\<lambda>_.
     bindE (foreign_key (opt_ref (\<lambda>i. has_run L i \<or> i = sr_id r) (sr_parent r))) (\<lambda>_.
     Inr (L\<lparr>stage_runs := rows\<rparr>)))))"

definition insert_receipt :: "receipt_row \<Rightarrow> ledger \<Rightarrow> kernel_error + ledger" where
  "insert_receipt r L =
     bindE (insert_row rc_id ''receipts.receipt_id'' r (receipts L)) (\<lambda>rows.
     bindE (foreign_key (has_instance L (rc_instance_id r))) (\<lambda>_.
     bindE (foreign_key (opt_ref (has_run L) (rc_stage_run_id r))) (\<lambda>_.
     Inr (L\<lparr>receipts := rows\<rparr>))))"

definition insert_artifact :: "artifact_row \<Rightarrow> ledger \<Rightarrow> kernel_error + ledger" where
  "insert_artifact r L =
     bindE (insert_row ar_id ''artifact_refs.artifact_id'' r (artifact_refs L)) (\<lambda>rows.
     bindE (foreign_key (has_instance L (ar_instance_id r))) (\<lambda>_.
     bindE (foreign_key (opt_ref (has_run L) (ar_stage_run_id r))) (\<lambda>_.
     bindE (foreign_key (opt_ref (\<lambda>i. i \<in> rc_id ` set (receipts L)) (ar_receipt_id r))) (\<lambda>_.
     Inr (L\<lparr>artifact_refs := rows\<rparr>)))))"

definition insert_invocation :: "invocation_row \<Rightarrow> ledger \<Rightarrow> kernel_error + ledger" where
  "insert_invocation r L =
     bindE (insert_row ai_id ''adapter_invocations.invocation_id'' r (adapter_invocations L)) (\<lambda>rows.
     bindE (foreign_key (has_instance L (ai_instance_id r))) (\<lambda>_.
     bindE (foreign_key (has_run L (ai_stage_run_id r))) (\<lambda>_.
     Inr (L\<lparr>adapter_invocations := rows\<rparr>))))"

definition insert_event :: "event_row \<Rightarrow> ledger \<Rightarrow> kernel_error + ledger" where
  "insert_event r L =
     bindE (insert_row ev_id ''events.event_id'' r (events L)) (\<lambda>rows.
     bindE (foreign_key (has_instance L (ev_instance_id r))) (\<lambda>_.
     bindE (foreign_key (opt_ref (has_run L) (ev_stage_run_id r))) (\<lambda>_.
     Inr (L\<lparr>events := rows\<rparr>))))"

definition insert_child :: "child_row \<Rightarrow> ledger \<Rightarrow> kernel_error + ledger" where
  "insert_child r L =
     bindE (insert_row cs_id ''child_sessions.child_session_id'' r (child_sessions L)) (\<lambda>rows.
     bindE (foreign_key (has_run L (cs_parent r))) (\<lambda>_.
     bindE (foreign_key (opt_ref (\<lambda>i. i \<in> ai_id ` set (adapter_invocations L)) (cs_invocation_id r))) (\<lambda>_.
     Inr (L\<lparr>child_sessions := rows\<rparr>))))"

definition insert_decision :: "decision_row \<Rightarrow> ledger \<Rightarrow> kernel_error + ledger" where
  "insert_decision r L =
     bindE (insert_row hd_id ''human_decisions.decision_id'' r (human_decisions L)) (\<lambda>rows.
     bindE (foreign_key (has_instance L (hd_instance_id r))) (\<lambda>_.
     bindE (foreign_key (has_run L (hd_stage_run_id r))) (\<lambda>_.
     Inr (L\<lparr>human_decisions := rows\<rparr>))))"

definition insert_late :: "late_row \<Rightarrow> ledger \<Rightarrow> kernel_error + ledger" where
  "insert_late r L =
     bindE (insert_row lr_id ''late_results.late_result_id'' r (late_results L)) (\<lambda>rows.
     bindE (foreign_key (has_instance L (lr_instance_id r))) (\<lambda>_.
     bindE (foreign_key (has_run L (lr_stage_run_id r))) (\<lambda>_.
     Inr (L\<lparr>late_results := rows\<rparr>))))"

definition update_instances :: "(instance_row \<Rightarrow> bool) \<Rightarrow> (instance_row \<Rightarrow> instance_row) \<Rightarrow> ledger \<Rightarrow> ledger" where
  "update_instances P f L = L\<lparr>workflow_instances := update_where P f (workflow_instances L)\<rparr>"

definition update_runs :: "(stage_run_row \<Rightarrow> bool) \<Rightarrow> (stage_run_row \<Rightarrow> stage_run_row) \<Rightarrow> ledger \<Rightarrow> ledger" where
  "update_runs P f L = L\<lparr>stage_runs := update_where P f (stage_runs L)\<rparr>"

definition update_invocations :: "(invocation_row \<Rightarrow> bool) \<Rightarrow> (invocation_row \<Rightarrow> invocation_row) \<Rightarrow> ledger \<Rightarrow> ledger" where
  "update_invocations P f L = L\<lparr>adapter_invocations := update_where P f (adapter_invocations L)\<rparr>"

definition update_children :: "(child_row \<Rightarrow> bool) \<Rightarrow> (child_row \<Rightarrow> child_row) \<Rightarrow> ledger \<Rightarrow> ledger" where
  "update_children P f L = L\<lparr>child_sessions := update_where P f (child_sessions L)\<rparr>"

text \<open>\<open>uuid.uuid4().hex\<close>: the next draw.\<close>

definition next_uuid :: "env \<Rightarrow> ledger \<Rightarrow> string \<times> ledger" where
  "next_uuid E L = (uuid_hex E (uuid_draws L), L\<lparr>uuid_draws := Suc (uuid_draws L)\<rparr>)"

text \<open>\<open>_append_event\<close>.\<close>

definition emit :: "env \<Rightarrow> string \<Rightarrow> string option \<Rightarrow> string \<Rightarrow> string \<Rightarrow> pyval \<Rightarrow> string \<Rightarrow> ledger \<Rightarrow>
    kernel_error + ledger" where
  "emit E instance_id stage_run_id event_type actor payload created_at L =
     (let (uid, L1) = next_uuid E L in
      insert_event \<lparr>ev_id = uid, ev_instance_id = instance_id, ev_stage_run_id = stage_run_id,
        ev_type = event_type, ev_actor = actor, ev_payload = payload, ev_created_at = created_at\<rparr> L1)"

definition find_instance :: "string \<Rightarrow> ledger \<Rightarrow> instance_row option" where
  "find_instance i L = select_one (\<lambda>r. wi_instance_id r = i) (workflow_instances L)"

definition find_run :: "string \<Rightarrow> ledger \<Rightarrow> stage_run_row option" where
  "find_run i L = select_one (\<lambda>r. sr_id r = i) (stage_runs L)"

text \<open>\<open>SELECT COALESCE(MAX(attempt), 0) + 1 ... WHERE instance_id = ? AND stage_id = ?\<close>.\<close>

definition next_attempt :: "ledger \<Rightarrow> string \<Rightarrow> string \<Rightarrow> int" where
  "next_attempt L i s =
     (case [sr_attempt r. r \<leftarrow> stage_runs L, sr_instance_id r = i \<and> sr_stage_id r = s] of
        [] \<Rightarrow> 1 | a # as \<Rightarrow> foldl max a as + 1)"

text \<open>\<open>_stage_run_from_row\<close> and \<open>_workflow_instance_from_row\<close>.\<close>

definition stage_run_from_row :: "stage_run_row \<Rightarrow> kernel_error + StageRun" where
  "stage_run_from_row r = bindE
     (case sr_failure_class r of None \<Rightarrow> Inr None
      | Some s \<Rightarrow> if s = [] then Inr None else
          (case failure_of s of None \<Rightarrow> Inl (ValueError (repr_str s @ '' is not a valid FailureClass''))
           | Some f \<Rightarrow> Inr (Some f)))
     (\<lambda>fc. Inr \<lparr>run_id = sr_id r, run_instance_id = sr_instance_id r, run_stage_id = sr_stage_id r,
        run_status = sr_status r, run_attempt = sr_attempt r, run_adapter_id = sr_adapter_id r,
        run_actor_ref = sr_actor_ref r, run_lease_token = sr_lease_token r,
        run_lease_seconds = sr_lease_seconds r, run_lease_source = sr_lease_source r,
        run_lease_source_ref = sr_lease_source_ref r, run_receipt_id = sr_receipt_id r,
        run_failure_class = fc, run_retry_after_at = sr_retry_after_at r,
        run_idempotency_key = sr_idempotency_key r\<rparr>)"

definition workflow_instance_from_row :: "instance_row \<Rightarrow> WorkflowInstance" where
  "workflow_instance_from_row r = \<lparr>inst_id = wi_instance_id r, inst_workflow_def_id = wi_workflow_def_id r,
     inst_workflow_version = wi_workflow_version r, inst_status = wi_status r,
     inst_input_hash = wi_input_hash r, inst_current_stage_id = wi_current_stage_id r,
     inst_idempotency_key = wi_idempotency_key r, inst_recovery_epoch = wi_recovery_epoch r\<rparr>"

end
