(* ===== verification/Ledger_Leases.thy ===== *)
theory Ledger_Leases
  imports Ledger_State
begin

text \<open>
  Claiming, leasing and settling stage runs (\<^verbatim>\<open>WorkflowLedger\<close> in \<^verbatim>\<open>storage.py\<close>).  An
  operation takes its environment, its keyword arguments in the source's order and the
  ledger; \<open>Inl e\<close> means it raised \<open>e\<close> and its transaction was rolled back.
\<close>

section \<open>Shared pieces\<close>

definition positive_int :: "pyval \<Rightarrow> string \<Rightarrow> kernel_error + int" where
  "positive_int v label = (case py_int v of
     Inl _ \<Rightarrow> Inl (ValueError (label @ '' must be a positive integer''))
   | Inr n \<Rightarrow> if n \<le> 0 then Inl (ValueError (label @ '' must be a positive integer'')) else Inr n)"

definition all_active_lease :: "StageRunStatus list" where
  "all_active_lease = filter active_lease all_run_status"

definition status_names :: "StageRunStatus list \<Rightarrow> string" where
  "status_names ss = join_with '', '' (sort (map run_status_value ss))"

text \<open>\<open>_require_leased_run\<close>: the authority check at the mutation time; equality is expired.\<close>

definition require_leased_run :: "env \<Rightarrow> string \<Rightarrow> string \<Rightarrow> string \<Rightarrow> string \<Rightarrow> StageRunStatus list \<Rightarrow>
    ledger \<Rightarrow> kernel_error + stage_run_row" where
  "require_leased_run E stage_run_id lease_token at owner_id permitted L =
    (let run = ''stage run '' @ repr_str stage_run_id in
     case select_one (\<lambda>r. sr_id r = stage_run_id \<and> sr_lease_token r = Some lease_token) (stage_runs L) of
       None \<Rightarrow> Inl (LedgerConflict (run @ '' is not leased by this token''))
     | Some r \<Rightarrow>
        if sr_lease_owner r \<noteq> Some owner_id
        then Inl (LedgerConflict (run @ '' is not leased by owner '' @ repr_str owner_id))
        else if sr_status r \<notin> set permitted
        then Inl (LedgerConflict (run @ '' has status '' @ repr_str (run_status_value (sr_status r)) @
               ''; expected one of '' @ status_names permitted))
        else bindE (coerce_datetime E at) (\<lambda>mutation_time.
          case sr_lease_expires_at r of
            None \<Rightarrow> Inl (LedgerConflict (run @ '' lease is expired at mutation time''))
          | Some e \<Rightarrow> bindE (coerce_datetime E e) (\<lambda>expires.
              if expires \<le> mutation_time
              then Inl (LedgerConflict (run @ '' lease is expired at mutation time''))
              else Inr r)))"

text \<open>\<open>lease_owner = NULL, lease_token = NULL, lease_expires_at = NULL\<close>.\<close>

definition clear_lease :: "stage_run_row \<Rightarrow> stage_run_row" where
  "clear_lease r = r\<lparr>sr_lease_owner := None, sr_lease_token := None, sr_lease_expires_at := None\<rparr>"

text \<open>\<open>WHERE stage_run_id = ? AND lease_token = ?\<close>.\<close>

definition leased_as :: "string \<Rightarrow> string \<Rightarrow> stage_run_row \<Rightarrow> bool" where
  "leased_as stage_run_id lease_token r \<longleftrightarrow> sr_id r = stage_run_id \<and> sr_lease_token r = Some lease_token"

section \<open>Inserting and claiming\<close>

text \<open>A row with only the columns every \<open>INSERT INTO stage_runs\<close> names; the rest take their defaults.\<close>

definition new_run_row :: "string \<Rightarrow> string \<Rightarrow> string \<Rightarrow> int \<Rightarrow> StageRunStatus \<Rightarrow> string option \<Rightarrow>
    string option \<Rightarrow> string option \<Rightarrow> string \<Rightarrow> string option \<Rightarrow> string \<Rightarrow> stage_run_row" where
  "new_run_row i inst stage attempt status adapter actor idem input parent at =
     \<lparr>sr_id = i, sr_instance_id = inst, sr_stage_id = stage, sr_attempt = attempt, sr_status = status,
      sr_adapter_id = adapter, sr_actor_ref = actor, sr_failure_class = None, sr_failure_summary = None,
      sr_approval_required = False, sr_idempotency_key = idem, sr_input_hash = input,
      sr_output_hash = None, sr_prompt_hash = None, sr_context_packet_ref = None,
      sr_context_packet_hash = None, sr_rendered_context_hash = None, sr_retry_count = 0,
      sr_retry_after_at = None, sr_lease_owner = None, sr_lease_token = None,
      sr_lease_expires_at = None, sr_lease_seconds = None, sr_lease_source = None,
      sr_lease_source_ref = None, sr_parent = parent, sr_receipt_id = None, sr_created_at = at,
      sr_started_at = None, sr_completed_at = None, sr_updated_at = at\<rparr>"

definition insert_stage_run :: "env \<Rightarrow> StageRun \<Rightarrow> string \<Rightarrow> string option \<Rightarrow> string option \<Rightarrow> ts_arg \<Rightarrow>
    ledger \<Rightarrow> kernel_error + (unit \<times> ledger)" where
  "insert_stage_run E run input_hash idempotency_key parent_stage_run_id created_at L =
     bindE (iso_timestamp (clock E 0) created_at) (\<lambda>now.
     bindE (insert_run ((new_run_row (run_id run) (run_instance_id run) (run_stage_id run) (run_attempt run)
         (run_status run) (run_adapter_id run) (run_actor_ref run) idempotency_key input_hash
         parent_stage_run_id now)
       \<lparr>sr_failure_class := map_option failure_value (run_failure_class run),
        sr_retry_after_at := run_retry_after_at run, sr_lease_token := run_lease_token run,
        sr_receipt_id := run_receipt_id run\<rparr>) L) (\<lambda>L1.
     Inr ((), L1)))"

definition get_stage_run :: "string \<Rightarrow> ledger \<Rightarrow> kernel_error + StageRun option" where
  "get_stage_run i L = (case find_run i L of None \<Rightarrow> Inr None
     | Some r \<Rightarrow> bindE (stage_run_from_row r) (\<lambda>x. Inr (Some x)))"

definition due :: "string \<Rightarrow> stage_run_row \<Rightarrow> bool" where
  "due at r \<longleftrightarrow> (case sr_retry_after_at r of None \<Rightarrow> True | Some t \<Rightarrow> t \<le> at)"

definition claimable :: "string \<Rightarrow> string option \<Rightarrow> stage_run_row \<Rightarrow> bool" where
  "claimable at inst r \<longleftrightarrow> sr_status r = SR_QUEUED \<and> due at r \<and>
     (case inst of None \<Rightarrow> True | Some i \<Rightarrow> sr_instance_id r = i)"

definition created_order :: "stage_run_row \<Rightarrow> string \<times> string" where
  "created_order r = (sr_created_at r, sr_id r)"

text \<open>\<open>next((c for c in rows if p(c)), None)\<close> with a predicate that may raise.\<close>

fun first_match :: "('r \<Rightarrow> 'e + bool) \<Rightarrow> 'r list \<Rightarrow> 'e + 'r option" where
  "first_match p [] = Inr None"
| "first_match p (r # rs) = bindE (p r) (\<lambda>b. if b then Inr (Some r) else first_match p rs)"

definition lease_plain :: "ResolvedLeasePolicy \<Rightarrow> pyval" where
  "lease_plain p = PDict [(''lease_seconds'', PInt (lp_lease_seconds p)), (''source'', PStr (lp_source p)),
     (''source_ref'', PStr (lp_source_ref p)), (''actor_ref'', opt_str (lp_actor_ref p))]"

text \<open>The first due queued run, in creation order, the predicate accepts.\<close>

definition claim_candidate :: "string \<Rightarrow> string option \<Rightarrow> (StageRun \<Rightarrow> kernel_error + bool) option \<Rightarrow> ledger \<Rightarrow>
    kernel_error + stage_run_row option" where
  "claim_candidate at inst claim_predicate L =
     first_match (\<lambda>r. case claim_predicate of None \<Rightarrow> Inr True | Some p \<Rightarrow> bindE (stage_run_from_row r) p)
       (sort_key created_order (filter (claimable at inst) (stage_runs L)))"

definition lease_for :: "pyval \<Rightarrow> (StageRun \<Rightarrow> kernel_error + ResolvedLeasePolicy) option \<Rightarrow> stage_run_row \<Rightarrow>
    kernel_error + ResolvedLeasePolicy" where
  "lease_for lease_seconds lease_resolver row = (case lease_resolver of
      Some f \<Rightarrow> bindE (stage_run_from_row row) f
    | None \<Rightarrow> bindE (positive_int lease_seconds ''lease_seconds'') (\<lambda>n.
        Inr \<lparr>lp_lease_seconds = n, lp_source = ''runner_default'',
             lp_source_ref = ''WorkflowRunner.run_once.lease_seconds'', lp_actor_ref = sr_actor_ref row\<rparr>))"

text \<open>The UPDATE and the event of a claim.\<close>

definition claim_row :: "string \<Rightarrow> string \<Rightarrow> string \<Rightarrow> ResolvedLeasePolicy \<Rightarrow> string \<Rightarrow> stage_run_row \<Rightarrow> stage_run_row" where
  "claim_row owner token expires_at lease at r = r\<lparr>sr_status := SR_CLAIMED, sr_lease_owner := Some owner,
     sr_lease_token := Some token, sr_lease_expires_at := Some expires_at,
     sr_lease_seconds := Some (lp_lease_seconds lease), sr_lease_source := Some (lp_source lease),
     sr_lease_source_ref := Some (lp_source_ref lease), sr_updated_at := at\<rparr>"

definition grant_claim :: "env \<Rightarrow> string \<Rightarrow> string \<Rightarrow> string \<Rightarrow> ResolvedLeasePolicy \<Rightarrow> mapping_items \<Rightarrow> string \<Rightarrow>
    stage_run_row \<Rightarrow> ledger \<Rightarrow> kernel_error + ledger" where
  "grant_claim E owner token expires_at lease claim_context at row L =
     emit E (sr_instance_id row) (Some (sr_id row)) ''stage_claimed'' owner
       (PDict [(''lease_token'', PStr token), (''lease_seconds'', PInt (lp_lease_seconds lease)),
         (''lease_source'', PStr (lp_source lease)), (''lease_source_ref'', PStr (lp_source_ref lease)),
         (''lease_expires_at'', PStr expires_at), (''lease'', lease_plain lease),
         (''previous_status'', PStr (run_status_value (sr_status row))),
         (''claim_context'', PDict claim_context)]) at
       (update_runs (\<lambda>r. sr_id r = sr_id row \<and> sr_status r = SR_QUEUED)
          (claim_row owner token expires_at lease at) L)"

text \<open>
  The lease token is drawn before the transaction.  The read-back of the claimed row is
  converted after the commit, so its ValueError (an unknown failure class text) leaves the
  claim in place: the inner \<open>Inl\<close> is an exception raised after the commit.
\<close>

definition claim_next_queued_run :: "env \<Rightarrow> string \<Rightarrow> string option \<Rightarrow> pyval \<Rightarrow>
    (StageRun \<Rightarrow> kernel_error + ResolvedLeasePolicy) option \<Rightarrow> (StageRun \<Rightarrow> kernel_error + bool) option \<Rightarrow>
    mapping_items \<Rightarrow> ts_arg \<Rightarrow> ledger \<Rightarrow> kernel_error + ((kernel_error + StageRun option) \<times> ledger)" where
  "claim_next_queued_run E owner_id instance_id lease_seconds lease_resolver claim_predicate claim_context now L0 =
    bindE (iso_timestamp (clock E 0) now) (\<lambda>claimed_at.
    let (lease_token, L) = next_uuid E L0
    in bindE (claim_candidate claimed_at instance_id claim_predicate L) (\<lambda>candidate.
    case candidate of None \<Rightarrow> Inr (Inr None, L)
    | Some row \<Rightarrow>
      bindE (lease_for lease_seconds lease_resolver row) (\<lambda>lease.
      bindE (coerce_datetime E claimed_at) (\<lambda>t.
      bindE (add_seconds t (lp_lease_seconds lease)) (\<lambda>expires.
      bindE (grant_claim E owner_id lease_token (isoformat expires) lease claim_context claimed_at row L) (\<lambda>L1.
      Inr (case find_run (sr_id row) L1 of
             None \<Rightarrow> Inl (TypeError ''NoneType object is not subscriptable'')
           | Some updated \<Rightarrow> bindE (stage_run_from_row updated) (\<lambda>x. Inr (Some x)), L1)))))))"

text \<open>\<open>row["lease_expires_at"] and _coerce_datetime(row["lease_expires_at"]) <= at\<close>.\<close>

definition lease_lapsed :: "env \<Rightarrow> stage_run_row \<Rightarrow> utc \<Rightarrow> kernel_error + bool" where
  "lease_lapsed E row at = (case sr_lease_expires_at row of None \<Rightarrow> Inr False
     | Some e \<Rightarrow> if e = [] then Inr False else bindE (coerce_datetime E e) (\<lambda>x. Inr (x \<le> at)))"

definition renew_lease :: "env \<Rightarrow> string \<Rightarrow> string \<Rightarrow> string \<Rightarrow> int \<Rightarrow> ts_arg \<Rightarrow> ledger \<Rightarrow>
    kernel_error + (bool \<times> ledger)" where
  "renew_lease E stage_run_id owner_id lease_token lease_seconds now L =
    bindE (iso_timestamp (clock E 0) now) (\<lambda>renewed_at.
    bindE (coerce_datetime E renewed_at) (\<lambda>t.
    bindE (add_seconds t lease_seconds) (\<lambda>expires.
    case select_one (\<lambda>r. sr_id r = stage_run_id \<and> sr_lease_owner r = Some owner_id \<and>
        sr_lease_token r = Some lease_token) (stage_runs L) of
      None \<Rightarrow> Inr (False, L)
    | Some row \<Rightarrow>
       bindE (lease_lapsed E row t) (\<lambda>expired.
       if expired \<or> \<not> active_lease (sr_status row) then Inr (False, L)
       else bindE (emit E (sr_instance_id row) (Some stage_run_id) ''lease_renewed'' owner_id
              (PDict [(''lease_expires_at'', PStr (isoformat expires))]) renewed_at
              (update_runs (\<lambda>r. sr_id r = stage_run_id \<and> sr_lease_owner r = Some owner_id \<and>
                    sr_lease_token r = Some lease_token)
                 (\<lambda>r. r\<lparr>sr_lease_expires_at := Some (isoformat expires), sr_updated_at := renewed_at\<rparr>) L))
            (\<lambda>L1. Inr (True, L1))))))"

section \<open>Mutations under a lease\<close>

definition mark_stage_run_started :: "env \<Rightarrow> string \<Rightarrow> string \<Rightarrow> string \<Rightarrow> string option \<Rightarrow> string option \<Rightarrow>
    mapping_items \<Rightarrow> string option \<Rightarrow> string option \<Rightarrow> string option \<Rightarrow> string option \<Rightarrow> ts_arg \<Rightarrow> ledger \<Rightarrow>
    kernel_error + (unit \<times> ledger)" where
  "mark_stage_run_started E stage_run_id lease_token actor owner_id idempotency_key side_effect_scope
      adapter_family adapter_id operation request_hash now L =
    bindE (iso_timestamp (clock E 0) now) (\<lambda>started_at.
    bindE (require_leased_run E stage_run_id lease_token started_at (str_or owner_id actor) [SR_CLAIMED] L) (\<lambda>row.
    bindE (emit E (sr_instance_id row) (Some stage_run_id) ''stage_started'' actor
       (PDict [(''previous_status'', PStr (run_status_value (sr_status row))),
          (''idempotency_key'', if idempotency_key = None \<or> idempotency_key = Some [] then opt_str (sr_idempotency_key row)
             else opt_str idempotency_key),
          (''adapter_family'', opt_str adapter_family), (''adapter_id'', opt_str adapter_id),
          (''operation'', opt_str operation), (''request_hash'', opt_str request_hash),
          (''side_effect_scope'', PDict side_effect_scope)]) started_at
       (update_runs (leased_as stage_run_id lease_token)
         (\<lambda>r. r\<lparr>sr_status := SR_STARTED, sr_started_at := coalesce (sr_started_at r) (Some started_at),
               sr_idempotency_key := coalesce (sr_idempotency_key r) idempotency_key,
               sr_updated_at := started_at\<rparr>) L)) (\<lambda>L1.
    Inr ((), L1))))"

definition complete_stage_run :: "env \<Rightarrow> string \<Rightarrow> string \<Rightarrow> string option \<Rightarrow> string option \<Rightarrow> ts_arg \<Rightarrow>
    string \<Rightarrow> string option \<Rightarrow> ledger \<Rightarrow> kernel_error + (unit \<times> ledger)" where
  "complete_stage_run E stage_run_id lease_token receipt_id output_hash now actor owner_id L =
    bindE (iso_timestamp (clock E 0) now) (\<lambda>completed_at.
    bindE (require_leased_run E stage_run_id lease_token completed_at (str_or owner_id actor) all_active_lease L) (\<lambda>row.
    bindE (emit E (sr_instance_id row) (Some stage_run_id) ''stage_completed'' actor
       (PDict [(''receipt_id'', opt_str receipt_id), (''output_hash'', opt_str output_hash)]) completed_at
       (update_runs (leased_as stage_run_id lease_token)
         (\<lambda>r. clear_lease (r\<lparr>sr_status := SR_SUCCEEDED, sr_receipt_id := coalesce receipt_id (sr_receipt_id r),
               sr_output_hash := coalesce output_hash (sr_output_hash r),
               sr_completed_at := Some completed_at, sr_updated_at := completed_at\<rparr>)) L)) (\<lambda>L1.
    Inr ((), L1))))"

text \<open>\<open>failure_class\<close> is \<open>FailureClass | str\<close> in the source: its text.\<close>

definition fail_stage_run :: "env \<Rightarrow> string \<Rightarrow> string \<Rightarrow> string \<Rightarrow> string \<Rightarrow> StageRunStatus \<Rightarrow> ts_arg \<Rightarrow> ts_arg \<Rightarrow>
    string \<Rightarrow> string option \<Rightarrow> ledger \<Rightarrow> kernel_error + (unit \<times> ledger)" where
  "fail_stage_run E stage_run_id lease_token failure_class failure_summary status retry_after_at now actor owner_id L =
    bindE (iso_timestamp (clock E 0) now) (\<lambda>failed_at.
    bindE (if retry_after_at = TsNone then Inr None
       else bindE (iso_timestamp (clock E 1) retry_after_at) (\<lambda>t. Inr (Some t))) (\<lambda>retry_at.
    bindE (require_leased_run E stage_run_id lease_token failed_at (str_or owner_id actor) all_active_lease L) (\<lambda>row.
    bindE (emit E (sr_instance_id row) (Some stage_run_id) ''stage_failed'' actor
       (PDict [(''failure_class'', PStr failure_class), (''failure_summary'', PStr failure_summary),
          (''retry_after_at'', opt_str retry_at), (''status'', PStr (run_status_value status))]) failed_at
       (update_runs (leased_as stage_run_id lease_token)
         (\<lambda>r. clear_lease (r\<lparr>sr_status := status, sr_failure_class := Some failure_class,
               sr_failure_summary := Some failure_summary, sr_retry_after_at := retry_at,
               sr_completed_at := Some failed_at, sr_updated_at := failed_at\<rparr>)) L)) (\<lambda>L1.
    Inr ((), L1)))))"

definition stage_status_for_failure :: "string \<Rightarrow> StageRunStatus" where
  "stage_status_for_failure fc = (if fc = failure_value FC_INVALID_OUTPUT then SR_INVALID_OUTPUT else SR_FAILED)"

text \<open>\<open>f"{instance_id}:{stage_id}:{attempt}"\<close>.\<close>

definition attempt_id :: "string \<Rightarrow> string \<Rightarrow> int \<Rightarrow> string" where
  "attempt_id i s n = i @ '':'' @ s @ '':'' @ show_int n"

text \<open>The retired attempt and the queued child attempt of a retry.\<close>

definition retried_row :: "string \<Rightarrow> string \<Rightarrow> int \<Rightarrow> string \<Rightarrow> string \<Rightarrow> stage_run_row \<Rightarrow> stage_run_row" where
  "retried_row failure_class failure_summary retries retry_at at r =
     clear_lease (r\<lparr>sr_status := stage_status_for_failure failure_class,
        sr_failure_class := Some failure_class, sr_failure_summary := Some failure_summary,
        sr_retry_count := retries, sr_retry_after_at := Some retry_at,
        sr_completed_at := Some at, sr_updated_at := at\<rparr>)"

definition retry_child :: "stage_run_row \<Rightarrow> int \<Rightarrow> int \<Rightarrow> string \<Rightarrow> string \<Rightarrow> stage_run_row" where
  "retry_child row attempt retries retry_at at =
     (new_run_row (attempt_id (sr_instance_id row) (sr_stage_id row) attempt) (sr_instance_id row)
        (sr_stage_id row) attempt SR_QUEUED (sr_adapter_id row) (sr_actor_ref row)
        (sr_idempotency_key row) (sr_input_hash row) (Some (sr_id row)) at)
     \<lparr>sr_retry_count := retries, sr_retry_after_at := Some retry_at\<rparr>"

definition schedule_retry :: "env \<Rightarrow> string \<Rightarrow> string \<Rightarrow> string \<Rightarrow> string \<Rightarrow> ts_arg \<Rightarrow> ts_arg \<Rightarrow>
    string \<Rightarrow> string option \<Rightarrow> ledger \<Rightarrow> kernel_error + (unit \<times> ledger)" where
  "schedule_retry E stage_run_id lease_token failure_class failure_summary retry_after_at now actor owner_id L =
    bindE (iso_timestamp (clock E 0) now) (\<lambda>scheduled_at.
    bindE (iso_timestamp (clock E 1) retry_after_at) (\<lambda>retry_at.
    bindE (require_leased_run E stage_run_id lease_token scheduled_at (str_or owner_id actor) all_active_lease L) (\<lambda>row.
    let attempt = next_attempt L (sr_instance_id row) (sr_stage_id row);
        retries = sr_retry_count row + 1;
        child = retry_child row attempt retries retry_at scheduled_at
    in bindE (insert_run child (update_runs (leased_as stage_run_id lease_token)
          (retried_row failure_class failure_summary retries retry_at scheduled_at) L)) (\<lambda>L2.
    bindE (emit E (sr_instance_id row) (Some stage_run_id) ''stage_retry_scheduled'' actor
       (PDict [(''failure_class'', PStr failure_class), (''failure_summary'', PStr failure_summary),
          (''retry_after_at'', PStr retry_at), (''new_stage_run_id'', PStr (sr_id child)),
          (''new_attempt'', PInt attempt)]) scheduled_at L2) (\<lambda>L3.
    bindE (emit E (sr_instance_id row) (Some (sr_id child)) ''stage_retry_queued'' actor
       (PDict [(''parent_stage_run_id'', PStr (sr_id row)), (''failure_class'', PStr failure_class),
          (''retry_after_at'', PStr retry_at), (''attempt'', PInt attempt),
          (''idempotency_key'', opt_str (sr_idempotency_key row))]) scheduled_at L3) (\<lambda>L4.
    Inr ((), L4)))))))"

definition block_stage_run :: "env \<Rightarrow> string \<Rightarrow> string \<Rightarrow> string \<Rightarrow> string \<Rightarrow> bool \<Rightarrow> ts_arg \<Rightarrow> string \<Rightarrow>
    string option \<Rightarrow> ledger \<Rightarrow> kernel_error + (unit \<times> ledger)" where
  "block_stage_run E stage_run_id lease_token failure_class failure_summary approval_required now actor owner_id L =
    bindE (iso_timestamp (clock E 0) now) (\<lambda>blocked_at.
    bindE (require_leased_run E stage_run_id lease_token blocked_at (str_or owner_id actor) all_active_lease L) (\<lambda>row.
    bindE (emit E (sr_instance_id row) (Some stage_run_id) ''stage_blocked'' actor
       (PDict [(''failure_class'', PStr failure_class), (''failure_summary'', PStr failure_summary),
          (''approval_required'', PBool approval_required)]) blocked_at
       (update_runs (leased_as stage_run_id lease_token)
         (\<lambda>r. clear_lease (r\<lparr>sr_status := SR_BLOCKED, sr_failure_class := Some failure_class,
               sr_failure_summary := Some failure_summary, sr_approval_required := approval_required,
               sr_completed_at := Some blocked_at, sr_updated_at := blocked_at\<rparr>)) L)) (\<lambda>L1.
    Inr ((), L1))))"

definition wait_stage_run_for_human_decision :: "env \<Rightarrow> string \<Rightarrow> string \<Rightarrow> string \<Rightarrow> string \<Rightarrow> ts_arg \<Rightarrow>
    string \<Rightarrow> string option \<Rightarrow> ledger \<Rightarrow> kernel_error + (unit \<times> ledger)" where
  "wait_stage_run_for_human_decision E stage_run_id lease_token failure_class failure_summary now actor owner_id L =
    bindE (iso_timestamp (clock E 0) now) (\<lambda>waiting_at.
    bindE (require_leased_run E stage_run_id lease_token waiting_at (str_or owner_id actor) all_active_lease L) (\<lambda>row.
    bindE (emit E (sr_instance_id row) (Some stage_run_id) ''stage_waiting_on_human'' actor
       (PDict [(''failure_class'', PStr failure_class), (''failure_summary'', PStr failure_summary),
          (''approval_required'', PBool True)]) waiting_at
       (update_runs (leased_as stage_run_id lease_token)
         (\<lambda>r. clear_lease (r\<lparr>sr_status := SR_WAITING_ON_HUMAN, sr_failure_class := Some failure_class,
               sr_failure_summary := Some failure_summary, sr_approval_required := True,
               sr_updated_at := waiting_at\<rparr>)) L)) (\<lambda>L1.
    Inr ((), L1))))"

section \<open>Recovery of stale leases\<close>

definition has_start_evidence :: "ledger \<Rightarrow> string \<Rightarrow> bool" where
  "has_start_evidence L i \<longleftrightarrow>
     (\<exists>a \<in> set (adapter_invocations L). ai_stage_run_id a = i) \<or>
     (\<exists>e \<in> set (events L). ev_stage_run_id e = Some i \<and>
        (ev_type e = ''stage_started'' \<or> ev_type e = ''adapter_invocation_preflight''))"

record RecoveryAction =
  ra_stage_run_id :: string
  ra_previous_status :: StageRunStatus
  ra_action :: string
  ra_failure_class :: FailureClass

text \<open>The verdict on one expired lease: action, new status, approval flag, class, summary.\<close>

definition stale_verdict :: "ledger \<Rightarrow> stage_run_row \<Rightarrow>
    (string \<times> StageRunStatus \<times> bool \<times> FailureClass \<times> string) option" where
  "stale_verdict L row =
     (if sr_status row = SR_CLAIMED
      then (if has_start_evidence L (sr_id row)
            then Some (''blocked'', SR_BLOCKED, True, FC_UNKNOWN_SIDE_EFFECT_STATE,
              ''Lease expired after adapter invocation may have started.'')
            else Some (''requeued'', SR_QUEUED, False, FC_STALE_LEASE,
              ''Lease expired before adapter work started.''))
      else if sr_status row \<in> {SR_STARTED, SR_WAITING, SR_WAITING_ON_CHILD, SR_VALIDATING}
      then Some (''blocked'', SR_BLOCKED, True, FC_UNKNOWN_SIDE_EFFECT_STATE,
              ''Lease expired after work may have started.'')
      else None)"

definition sweep_closed :: "WorkflowStatus \<Rightarrow> bool" where
  "sweep_closed s \<longleftrightarrow> s \<in> {WF_DONE, WF_CANCELLED, WF_BLOCKED, WF_POLICY_DENIED}"

text \<open>A swept run that was blocked also blocks its instance when it is the current stage.\<close>

definition block_current_instance :: "env \<Rightarrow> string \<Rightarrow> string \<Rightarrow> stage_run_row \<Rightarrow> FailureClass \<Rightarrow> string \<Rightarrow>
    ledger \<Rightarrow> kernel_error + ledger" where
  "block_current_instance E actor swept_at row fc summary L =
     (case find_instance (sr_instance_id row) L of None \<Rightarrow> Inr L
      | Some inst \<Rightarrow>
         if wi_current_stage_id inst = Some (sr_stage_id row) \<and> \<not> sweep_closed (wi_status inst)
         then emit E (sr_instance_id row) (Some (sr_id row)) ''workflow_blocked'' actor
                (PDict [(''stage_id'', PStr (sr_stage_id row)), (''stage_run_id'', PStr (sr_id row)),
                   (''reason'', PStr summary), (''failure_class'', PStr (failure_value fc)),
                   (''source'', PStr ''stale_lease_recovery'')]) swept_at
                (update_instances (\<lambda>r. wi_instance_id r = sr_instance_id row)
                   (\<lambda>r. r\<lparr>wi_status := WF_BLOCKED, wi_updated_at := swept_at\<rparr>) L)
         else Inr L)"

definition swept_row :: "StageRunStatus \<Rightarrow> bool \<Rightarrow> FailureClass \<Rightarrow> string \<Rightarrow> string \<Rightarrow> stage_run_row \<Rightarrow> stage_run_row" where
  "swept_row st approval fc summary at r = clear_lease (r\<lparr>sr_status := st, sr_failure_class := Some (failure_value fc),
     sr_failure_summary := Some summary, sr_approval_required := approval, sr_updated_at := at\<rparr>)"

definition bump_epoch :: "string \<Rightarrow> string \<Rightarrow> ledger \<Rightarrow> ledger" where
  "bump_epoch i at = update_instances (\<lambda>r. wi_instance_id r = i)
     (\<lambda>r. r\<lparr>wi_recovery_epoch := wi_recovery_epoch r + 1, wi_updated_at := at\<rparr>)"

definition apply_verdict :: "env \<Rightarrow> string \<Rightarrow> string \<Rightarrow> stage_run_row \<Rightarrow>
    string \<times> StageRunStatus \<times> bool \<times> FailureClass \<times> string \<Rightarrow> ledger \<Rightarrow> kernel_error + ledger" where
  "apply_verdict E actor at row = (\<lambda>(action, st, approval, fc, summary) L.
     let L2 = bump_epoch (sr_instance_id row) at
           (update_runs (\<lambda>r. sr_id r = sr_id row) (swept_row st approval fc summary at) L)
     in bindE (if action = ''blocked'' then block_current_instance E actor at row fc summary L2 else Inr L2) (\<lambda>L3.
        emit E (sr_instance_id row) (Some (sr_id row)) ''recovery'' actor
          (PDict [(''action'', PStr action), (''previous_status'', PStr (run_status_value (sr_status row))),
             (''failure_class'', PStr (failure_value fc)), (''failure_summary'', PStr summary)]) at L3))"

definition recovery_action :: "stage_run_row \<Rightarrow> string \<times> StageRunStatus \<times> bool \<times> FailureClass \<times> string \<Rightarrow> RecoveryAction" where
  "recovery_action row = (\<lambda>(action, st, approval, fc, summary).
     \<lparr>ra_stage_run_id = sr_id row, ra_previous_status = sr_status row, ra_action = action, ra_failure_class = fc\<rparr>)"

definition sweep_row :: "env \<Rightarrow> string \<Rightarrow> string \<Rightarrow> stage_run_row \<Rightarrow> RecoveryAction list \<times> ledger \<Rightarrow>
    kernel_error + (RecoveryAction list \<times> ledger)" where
  "sweep_row E actor swept_at row = (\<lambda>(actions, L).
     case sr_lease_expires_at row of None \<Rightarrow> Inr (actions, L)
     | Some e \<Rightarrow>
       bindE (coerce_datetime E e) (\<lambda>expires.
       bindE (coerce_datetime E swept_at) (\<lambda>at.
       if expires > at then Inr (actions, L)
       else (case stale_verdict L row of None \<Rightarrow> Inr (actions, L)
         | Some v \<Rightarrow> bindE (apply_verdict E actor swept_at row v L) (\<lambda>L1.
             Inr (actions @ [recovery_action row v], L1))))))"

definition leased_rows :: "ledger \<Rightarrow> stage_run_row list" where
  "leased_rows L = sort_key (\<lambda>r. (the_or [] (sr_lease_expires_at r), sr_id r))
     (filter (\<lambda>r. sr_lease_token r \<noteq> None \<and> sr_lease_expires_at r \<noteq> None) (stage_runs L))"

definition sweep_stale_leases :: "env \<Rightarrow> ts_arg \<Rightarrow> string \<Rightarrow> ledger \<Rightarrow>
    kernel_error + (RecoveryAction list \<times> ledger)" where
  "sweep_stale_leases E now actor L =
     bindE (iso_timestamp (clock E 0) now) (\<lambda>swept_at.
     foldE (sweep_row E actor swept_at) (leased_rows L) ([], L))"

end
