(* ===== verification/Lease_Policy.thy ===== *)
theory Lease_Policy
  imports Ledger_Leases Workflow_Text
begin

text \<open>
  \<^verbatim>\<open>lease.py\<close>: which lease a stage run is claimed for.  A runner override beats the stage's
  lease, which beats its actor's, which beats the workflow default, which beats the runtime
  default.
\<close>

definition actor_ref :: "StageDef \<Rightarrow> string option" where
  "actor_ref s = (case sd_actors s of [] \<Rightarrow> None | (k, v) # _ \<Rightarrow> Some (py_str v))"

definition actor_name :: "string option \<Rightarrow> string option" where
  "actor_name r = (case r of None \<Rightarrow> None
     | Some a \<Rightarrow> if a = [] then None else if starts_with ''actors.'' a then Some (drop 7 a) else Some a)"

definition lease_seconds_from_mapping :: "pyval \<Rightarrow> kernel_error + int option" where
  "lease_seconds_from_mapping v = (case mapping_of v of None \<Rightarrow> Inr None
     | Some m \<Rightarrow> if none_or_empty (dict_get m ''seconds'') then Inr None
         else bindE (positive_int (dict_get m ''seconds'') ''lease.seconds'') (\<lambda>n. Inr (Some n)))"

text \<open>\<open>name and isinstance(workflow.actors.get(name), Mapping)\<close>.\<close>

definition named_actor :: "WorkflowDef \<Rightarrow> string option \<Rightarrow> mapping_items option" where
  "named_actor w name = (case name of None \<Rightarrow> None
     | Some n \<Rightarrow> if n = [] then None else mapping_of (dict_get (wd_actors w) n))"

definition actor_config_for_stage :: "WorkflowDef \<Rightarrow> StageDef \<Rightarrow> string option \<times> mapping_items" where
  "actor_config_for_stage w s = (let r = actor_ref s in
     (r, the_or [] (coalesce (named_actor w (actor_name r)) (named_actor w r))))"

definition resolve_stage_lease_policy :: "WorkflowDef \<Rightarrow> StageDef \<Rightarrow> int \<Rightarrow> int option \<Rightarrow>
    kernel_error + ResolvedLeasePolicy" where
  "resolve_stage_lease_policy w s runtime_default_seconds explicit_lease_seconds =
    (case explicit_lease_seconds of
       Some n \<Rightarrow> bindE (positive_int (PInt n) ''explicit lease override'') (\<lambda>secs.
         Inr \<lparr>lp_lease_seconds = secs, lp_source = ''runner_override'',
           lp_source_ref = ''WorkflowKernel.run_once.lease_seconds'', lp_actor_ref = actor_ref s\<rparr>)
     | None \<Rightarrow>
       bindE (lease_seconds_from_mapping (PDict (sd_lease s))) (\<lambda>stage_seconds.
       case stage_seconds of
         Some secs \<Rightarrow> Inr \<lparr>lp_lease_seconds = secs, lp_source = ''stage'',
           lp_source_ref = ''stages.'' @ sd_id s @ ''.lease'', lp_actor_ref = actor_ref s\<rparr>
       | None \<Rightarrow>
         let (r, config) = actor_config_for_stage w s in
         bindE (lease_seconds_from_mapping (dict_get config ''lease'')) (\<lambda>actor_seconds.
         case actor_seconds of
           Some secs \<Rightarrow> Inr \<lparr>lp_lease_seconds = secs, lp_source = ''actor'',
             lp_source_ref = ''actors.'' @ str_or (actor_name r) (str_or r ''unknown'') @ ''.lease'', lp_actor_ref = r\<rparr>
         | None \<Rightarrow>
           bindE (lease_seconds_from_mapping (dict_get (wd_defaults w) ''lease'')) (\<lambda>workflow_seconds.
           case workflow_seconds of
             Some secs \<Rightarrow> Inr \<lparr>lp_lease_seconds = secs, lp_source = ''workflow_default'',
               lp_source_ref = ''defaults.lease'', lp_actor_ref = actor_ref s\<rparr>
           | None \<Rightarrow> bindE (positive_int (PInt runtime_default_seconds) ''runtime default lease'') (\<lambda>secs.
               Inr \<lparr>lp_lease_seconds = secs, lp_source = ''runtime_default'',
                 lp_source_ref = ''KernelRuntimeConfig.default_lease_seconds'', lp_actor_ref = actor_ref s\<rparr>)))))"

definition resolved_lease_policy_from_stage_run :: "StageRun \<Rightarrow> ResolvedLeasePolicy option" where
  "resolved_lease_policy_from_stage_run r =
    (case (run_lease_seconds r, run_lease_source r, run_lease_source_ref r) of
       (Some secs, Some source, Some ref) \<Rightarrow> Some \<lparr>lp_lease_seconds = secs, lp_source = source,
          lp_source_ref = ref, lp_actor_ref = run_actor_ref r\<rparr>
     | _ \<Rightarrow> None)"

section \<open>Precedence\<close>

text \<open>The levels in order: each yields seconds, nothing, or an error.\<close>

definition lease_levels :: "WorkflowDef \<Rightarrow> StageDef \<Rightarrow> int \<Rightarrow> int option \<Rightarrow> (string \<times> (kernel_error + int option)) list" where
  "lease_levels w s runtime explicit =
    [(''runner_override'', case explicit of None \<Rightarrow> Inr None
        | Some n \<Rightarrow> map_sum id Some (positive_int (PInt n) ''explicit lease override'')),
     (''stage'', lease_seconds_from_mapping (PDict (sd_lease s))),
     (''actor'', lease_seconds_from_mapping (dict_get (snd (actor_config_for_stage w s)) ''lease'')),
     (''workflow_default'', lease_seconds_from_mapping (dict_get (wd_defaults w) ''lease'')),
     (''runtime_default'', map_sum id Some (positive_int (PInt runtime) ''runtime default lease''))]"

text \<open>The abstract contract: the first level that answers decides.\<close>

fun first_level :: "(string \<times> (kernel_error + int option)) list \<Rightarrow> kernel_error + (string \<times> int) option" where
  "first_level [] = Inr None"
| "first_level ((name, Inl e) # ls) = Inl e"
| "first_level ((name, Inr (Some n)) # ls) = Inr (Some (name, n))"
| "first_level ((name, Inr None) # ls) = first_level ls"

lemma positive_int_pos: "positive_int v l = Inr n \<Longrightarrow> 0 < n"
  by (auto simp: positive_int_def split: sum.splits if_splits)

lemma lease_seconds_pos: "lease_seconds_from_mapping v = Inr (Some n) \<Longrightarrow> 0 < n"
  by (auto simp: lease_seconds_from_mapping_def bindE_eq_Inr dest: positive_int_pos split: option.splits if_splits)

lemma resolve_is_first_level:
  "map_sum id (\<lambda>p. Some (lp_source p, lp_lease_seconds p)) (resolve_stage_lease_policy w s rt ex) =
   first_level (lease_levels w s rt ex)"
proof -
  obtain r config where rc: "actor_config_for_stage w s = (r, config)" by (cases "actor_config_for_stage w s")
  show ?thesis
  proof (cases ex)
    case (Some n)
    then show ?thesis
      by (cases "positive_int (PInt n) ''explicit lease override''")
        (simp_all add: resolve_stage_lease_policy_def lease_levels_def)
  next
    case None
    note defs = None rc resolve_stage_lease_policy_def lease_levels_def
    let ?st = "lease_seconds_from_mapping (PDict (sd_lease s))"
    let ?ac = "lease_seconds_from_mapping (dict_get config ''lease'')"
    let ?wf = "lease_seconds_from_mapping (dict_get (wd_defaults w) ''lease'')"
    let ?rt = "positive_int (PInt rt) ''runtime default lease''"
    consider (st) e n where "?st = Inl e \<or> ?st = Inr (Some n)"
      | (ac) e n where "?st = Inr None" "?ac = Inl e \<or> ?ac = Inr (Some n)"
      | (wf) e n where "?st = Inr None" "?ac = Inr None" "?wf = Inl e \<or> ?wf = Inr (Some n)"
      | (rt) "?st = Inr None" "?ac = Inr None" "?wf = Inr None"
      by (metis not_None_eq obj_sumE)
    then show ?thesis
      by cases (auto simp: defs map_sum_def[abs_def] split: sum.splits)
  qed
qed

lemma first_level_pos: "first_level ls = Inr (Some (l, n)) \<Longrightarrow> \<forall>(m, x) \<in> set ls. \<forall>k. x = Inr (Some k) \<longrightarrow> 0 < k \<Longrightarrow> 0 < n"
  by (induction ls rule: first_level.induct) auto

text \<open>
  C25. The lease of a claim is decided by precedence alone: the first level that configures one
  (runner override, stage, actor, workflow default, runtime default) names the source and the
  seconds, a malformed value at that level is the error, and a resolved lease is positive.
\<close>

theorem lease_precedence:
  "map_sum id (\<lambda>p. Some (lp_source p, lp_lease_seconds p)) (resolve_stage_lease_policy w s rt ex) =
     first_level (lease_levels w s rt ex) \<and>
   (\<forall>p. resolve_stage_lease_policy w s rt ex = Inr p \<longrightarrow> 0 < lp_lease_seconds p)"
proof (intro conjI allI impI)
  fix p assume p: "resolve_stage_lease_policy w s rt ex = Inr p"
  have "\<forall>(m, x) \<in> set (lease_levels w s rt ex). \<forall>k. x = Inr (Some k) \<longrightarrow> 0 < k"
    by (auto simp: lease_levels_def map_sum_def dest: positive_int_pos lease_seconds_pos split: sum.splits option.splits)
  moreover have "first_level (lease_levels w s rt ex) = Inr (Some (lp_source p, lp_lease_seconds p))"
    using resolve_is_first_level[of w s rt ex] p by simp
  ultimately show "0 < lp_lease_seconds p" by (intro first_level_pos)
qed (rule resolve_is_first_level)

text \<open>A workflow with two actors of different leases, and its one stage.\<close>

definition demo_stage :: StageDef where
  "demo_stage = \<lparr>sd_id = ''draft'', sd_type = ST_AGENT_WORK, sd_adapter = ''runtime.x'', sd_outcomes = [''ready''],
     sd_actors = [(''writer'', PStr ''actors.ivy''), (''editor'', PStr ''actors.jonah'')], sd_inputs = [],
     sd_outputs = [], sd_prompt_refs = [], sd_no_prompt_reason = None, sd_policy = [], sd_budget = [],
     sd_retry = [], sd_lease = [], sd_timeout_seconds = None, sd_surface = []\<rparr>"

definition demo_workflow :: WorkflowDef where
  "demo_workflow = \<lparr>wd_id = ''wf'', wd_version = ''1'', wd_name = ''wf'', wd_stages = [demo_stage], wd_transitions = [],
     wd_schema = ''workflow.kernel.v1'', wd_owner = None, wd_description = None, wd_inputs = [], wd_defaults = [],
     wd_actors = [(''ivy'', PDict [(''lease'', PDict [(''seconds'', PInt 600)])]),
       (''jonah'', PDict [(''lease'', PDict [(''seconds'', PInt 60)])])], wd_artifacts = [], wd_policies = [],
     wd_compatibility = []\<rparr>"

lemmas demo_lease_simps = demo_stage_def demo_workflow_def actor_config_for_stage_def actor_ref_def actor_name_def
  named_actor_def starts_with_def lease_seconds_from_mapping_def none_or_empty_def positive_int_def py_str_def

lemma lease_precedence_witness:
  "\<exists>p. resolve_stage_lease_policy demo_workflow demo_stage 300 None = Inr p \<and> lp_source p = ''actor'' \<and> 0 < lp_lease_seconds p"
proof -
  have "\<exists>p. resolve_stage_lease_policy demo_workflow demo_stage 300 None = Inr p \<and> lp_source p = ''actor''"
    by (simp add: resolve_stage_lease_policy_def demo_lease_simps)
  then show ?thesis using lease_precedence[of demo_workflow demo_stage 300 None] by blast
qed

lemma two_actors_sorted: "k1 \<noteq> k2 \<Longrightarrow> canonical_data (PDict [(k2, y), (k1, x)]) = canonical_data (PDict [(k1, x), (k2, y)])"
  by (cases "k1 < k2") auto

lemma actor_lease:
  assumes "actor_config_for_stage w s = (r, config)" "sd_lease s = []"
    "lease_seconds_from_mapping (dict_get config ''lease'') = Inr (Some n)"
  shows "\<exists>p. resolve_stage_lease_policy w s rt None = Inr p \<and> lp_lease_seconds p = n"
  using assms by (simp add: resolve_stage_lease_policy_def lease_seconds_from_mapping_def[of "PDict []"] none_or_empty_def)

text \<open>
  The pinned definition hash does not pin the lease: swapping the two actors of a stage
  leaves the hash an instance is checked against unchanged, yet the run is then claimed for the
  other actor and under the other actor's lease, because the first actor in the mapping's
  order is taken and the canonical text sorts the keys.
\<close>

theorem pinned_hash_ignores_actor_order:
  fixes s :: StageDef and w :: WorkflowDef
  assumes s'_def: "s' = s\<lparr>sd_actors := [(k2, PStr b), (k1, PStr a)]\<rparr>"
    and actors: "sd_actors s = [(k1, PStr a), (k2, PStr b)]" and other: "k1 \<noteq> k2" and lease: "sd_lease s = []"
    and levels: "named_actor w (actor_name (Some a)) = Some ca" "named_actor w (actor_name (Some b)) = Some cb"
    "lease_seconds_from_mapping (dict_get ca ''lease'') = Inr (Some n)"
    "lease_seconds_from_mapping (dict_get cb ''lease'') = Inr (Some m)"
  shows "definition_hash (w\<lparr>wd_stages := xs @ s # ys\<rparr>) = definition_hash (w\<lparr>wd_stages := xs @ s' # ys\<rparr>) \<and>
    actor_ref s = Some a \<and> actor_ref s' = Some b \<and>
    (\<exists>p. resolve_stage_lease_policy w s rt None = Inr p \<and> lp_lease_seconds p = n) \<and>
    (\<exists>p. resolve_stage_lease_policy w s' rt None = Inr p \<and> lp_lease_seconds p = m)"
proof (intro conjI)
  have "canonical_data (PDict (sd_actors s)) = canonical_data (PDict [(k2, PStr b), (k1, PStr a)])"
    unfolding actors using two_actors_sorted[OF other, of "PStr b" "PStr a"] by (rule sym)
  then have "canonical_data (stage_plain s') = canonical_data (stage_plain s)"
    unfolding s'_def stage_plain_def by (simp del: canonical_data.simps(2) add: canonical_data.simps(2)[of "_ # _ # _ # _"])
  then have "canonical_data (workflow_plain (w\<lparr>wd_stages := xs @ s # ys\<rparr>)) =
      canonical_data (workflow_plain (w\<lparr>wd_stages := xs @ s' # ys\<rparr>))"
    by (simp add: workflow_plain_def)
  then show "definition_hash (w\<lparr>wd_stages := xs @ s # ys\<rparr>) = definition_hash (w\<lparr>wd_stages := xs @ s' # ys\<rparr>)"
    by (simp add: definition_hash_def digest_data_def)
  show refs: "actor_ref s = Some a" "actor_ref s' = Some b" using actors by (simp_all add: actor_ref_def s'_def)
  show "\<exists>p. resolve_stage_lease_policy w s rt None = Inr p \<and> lp_lease_seconds p = n"
    by (rule actor_lease[of w s "Some a" ca]) (simp_all add: actor_config_for_stage_def refs lease levels)
  show "\<exists>p. resolve_stage_lease_policy w s' rt None = Inr p \<and> lp_lease_seconds p = m"
    by (rule actor_lease[of w s' "Some b" cb]) (simp_all add: actor_config_for_stage_def refs levels, simp add: s'_def lease)
qed

lemma pinned_hash_ignores_actor_order_witness:
  "definition_hash demo_workflow = definition_hash (demo_workflow\<lparr>wd_stages :=
     [demo_stage\<lparr>sd_actors := [(''editor'', PStr ''actors.jonah''), (''writer'', PStr ''actors.ivy'')]\<rparr>]\<rparr>)"
proof -
  have "demo_workflow\<lparr>wd_stages := [] @ demo_stage # []\<rparr> = demo_workflow" by (simp add: demo_workflow_def)
  moreover have "sd_actors demo_stage = [(''writer'', PStr ''actors.ivy''), (''editor'', PStr ''actors.jonah'')]"
    "sd_lease demo_stage = []" by (simp_all add: demo_stage_def)
  ultimately show ?thesis
    using pinned_hash_ignores_actor_order[OF refl, of demo_stage "''writer''" "''actors.ivy''" "''editor''" "''actors.jonah''"
        demo_workflow "[(''lease'', PDict [(''seconds'', PInt 600)])]" "[(''lease'', PDict [(''seconds'', PInt 60)])]" 600 60 "[]" "[]"]
    by (simp add: named_actor_def actor_name_def starts_with_def lease_seconds_from_mapping_def none_or_empty_def
        positive_int_def) (simp add: demo_workflow_def)
qed

end
