(* ===== verification/Json_Parse.thy ===== *)
theory Json_Parse
  imports Py_Dicts
begin

text \<open>
  \<open>json.loads\<close> on texts of the modelled values: integers but no floats, escapes of code points
  below 256.  The fuel is the length of the text plus one; every nested call consumes at least one
  character, so it never runs out on a text that parses.
\<close>

definition json_space :: "char \<Rightarrow> bool" where
  "json_space c \<longleftrightarrow> c \<in> {CHR '' '', CHR 0x09, CHR 0x0A, CHR 0x0D}"

definition skip_space :: "string \<Rightarrow> string" where
  "skip_space s = dropWhile json_space s"

definition hex_value :: "char \<Rightarrow> nat option" where
  "hex_value c = (let n = (of_char c :: nat) in
     if 48 \<le> n \<and> n \<le> 57 then Some (n - 48)
     else if 97 \<le> n \<and> n \<le> 102 then Some (n - 87)
     else if 65 \<le> n \<and> n \<le> 70 then Some (n - 55)
     else None)"

text \<open>\<open>\u00xy\<close>: the two leading digits must be zero, for a code point below 256.\<close>

definition unicode_escape :: "char \<Rightarrow> char \<Rightarrow> char \<Rightarrow> char \<Rightarrow> char option" where
  "unicode_escape a b c d = (case (hex_value a, hex_value b, hex_value c, hex_value d) of
     (Some w, Some x, Some y, Some z) \<Rightarrow> if w = 0 \<and> x = 0 then Some (char_of (16 * y + z)) else None
   | _ \<Rightarrow> None)"

definition simple_escape :: "char \<Rightarrow> char option" where
  "simple_escape c = map_of
     [(CHR 0x22, CHR 0x22), (CHR 0x5C, CHR 0x5C), (CHR ''/'', CHR ''/''), (CHR ''b'', CHR 0x08), (CHR ''f'', CHR 0x0C),
      (CHR ''n'', CHR 0x0A), (CHR ''r'', CHR 0x0D), (CHR ''t'', CHR 0x09)] c"

definition prepend :: "char \<Rightarrow> (string \<times> string) option \<Rightarrow> (string \<times> string) option" where
  "prepend c r = map_option (\<lambda>(t, rest). (c # t, rest)) r"

text \<open>The body of a string after its opening quote, and what follows the closing one.\<close>

fun parse_string :: "string \<Rightarrow> (string \<times> string) option" where
  "parse_string [] = None"
| "parse_string (c # s) =
     (if c = CHR 0x22 then Some ([], s)
      else if c = CHR 0x5C then (case s of
          [] \<Rightarrow> None
        | e # s1 \<Rightarrow> if e = CHR ''u'' then (case s1 of
              a # b # x # y # s2 \<Rightarrow> (case unicode_escape a b x y of None \<Rightarrow> None | Some d \<Rightarrow> prepend d (parse_string s2))
            | _ \<Rightarrow> None)
            else (case simple_escape e of None \<Rightarrow> None | Some d \<Rightarrow> prepend d (parse_string s1)))
      else if (of_char c :: nat) < 32 then None
      else prepend c (parse_string s))"

definition parse_number :: "string \<Rightarrow> (pyval \<times> string) option" where
  "parse_number s = (let neg = (take 1 s = ''-''); t = (if neg then drop 1 s else s);
       ds = takeWhile is_digit t; rest = dropWhile is_digit t
     in if ds = [] \<or> (length ds > 1 \<and> hd ds = CHR ''0'') \<or> (rest \<noteq> [] \<and> hd rest \<in> {CHR ''.'', CHR ''e'', CHR ''E''}) then None
        else Some (PInt (if neg then - int (digits_value ds) else int (digits_value ds)), rest))"

definition parse_literal :: "string \<Rightarrow> (pyval \<times> string) option" where
  "parse_literal s =
     (if starts_with ''null'' s then Some (PNone, drop 4 s)
      else if starts_with ''true'' s then Some (PBool True, drop 4 s)
      else if starts_with ''false'' s then Some (PBool False, drop 5 s)
      else parse_number s)"

fun parse_value :: "nat \<Rightarrow> string \<Rightarrow> (pyval \<times> string) option"
  and parse_elements :: "nat \<Rightarrow> string \<Rightarrow> (pyval list \<times> string) option"
  and parse_members :: "nat \<Rightarrow> mapping_items \<Rightarrow> string \<Rightarrow> (mapping_items \<times> string) option" where
  "parse_value 0 s = None"
| "parse_value (Suc n) s = (case skip_space s of
     [] \<Rightarrow> None
   | c # cs \<Rightarrow>
       if c = CHR 0x22 then map_option (\<lambda>(t, r). (PStr t, r)) (parse_string cs)
       else if c = CHR ''['' then (case skip_space cs of
           [] \<Rightarrow> None
         | d # ds \<Rightarrow> if d = CHR '']'' then Some (PList [], ds)
                    else map_option (\<lambda>(vs, r). (PList vs, r)) (parse_elements n (d # ds)))
       else if c = CHR ''{'' then (case skip_space cs of
           [] \<Rightarrow> None
         | d # ds \<Rightarrow> if d = CHR ''}'' then Some (PDict [], ds)
                    else map_option (\<lambda>(m, r). (PDict m, r)) (parse_members n [] (d # ds)))
       else parse_literal (c # cs))"
| "parse_elements 0 s = None"
| "parse_elements (Suc n) s = (case parse_value n s of
     None \<Rightarrow> None
   | Some (v, r) \<Rightarrow> (case skip_space r of
       [] \<Rightarrow> None
     | c # cs \<Rightarrow> if c = CHR '']'' then Some ([v], cs)
                else if c = CHR '','' then map_option (\<lambda>(vs, r'). (v # vs, r')) (parse_elements n cs)
                else None))"
| "parse_members 0 m s = None"
| "parse_members (Suc n) m s = (case skip_space s of
     [] \<Rightarrow> None
   | q # s1 \<Rightarrow> if q \<noteq> CHR 0x22 then None else
     (case parse_string s1 of
       None \<Rightarrow> None
     | Some (k, r) \<Rightarrow> (case skip_space r of
         [] \<Rightarrow> None
       | colon # s2 \<Rightarrow> if colon \<noteq> CHR '':'' then None else
         (case parse_value n s2 of
           None \<Rightarrow> None
         | Some (v, r2) \<Rightarrow> (case skip_space r2 of
             [] \<Rightarrow> None
           | c # cs \<Rightarrow> if c = CHR ''}'' then Some (dict_set m k v, cs)
                      else if c = CHR '','' then parse_members n (dict_set m k v) cs
                      else None)))))"

definition json_loads :: "string \<Rightarrow> pyval option" where
  "json_loads s = (case parse_value (Suc (length s)) s of
     None \<Rightarrow> None
   | Some (v, r) \<Rightarrow> if skip_space r = [] then Some v else None)"

lemma json_loads_example: "json_loads (''{'' @ json_string ''b'' @ '': [1, -20, null], '' @ json_string ''a'' @ '':true}'') =
    Some (PDict [(''b'', PList [PInt 1, PInt (-20), PNone]), (''a'', PBool True)])"
  by code_simp

end
