(* ===== verification/Prompts.thy ===== *)
theory Prompts
  imports Workflow_Text Py_Dicts
begin

text \<open>
  \<^verbatim>\<open>prompts.py\<close>: the registry of prompt files, the resolution of a stage's prompt references to
  content pinned by hash, and the context packet rendered for a runtime.  The file system and the
  YAML parser are outside the program: \<open>host_files\<close> gives what they answer.
\<close>

section \<open>Records\<close>

record PromptRecord =
  pc_id :: string
  pc_kind :: string
  pc_version :: string
  pc_path :: string
  pc_registry :: string
  pc_render_mode :: string
  pc_content_hash :: pyval
  pc_status :: string
  pc_metadata :: mapping_items

record ResolvedPrompt =
  rp_ref :: PromptRef
  rp_path :: string
  rp_content :: string
  rp_content_hash :: string
  rp_status :: string
  rp_metadata :: mapping_items

record PromptBundle =
  pb_prompts :: "ResolvedPrompt list"
  pb_registry_snapshot_digest :: string

record ContextPacket =
  cp_schema_version :: string
  cp_context_id :: string
  cp_workflow_id :: string
  cp_instance_id :: string
  cp_stage_id :: string
  cp_stage_run_id :: string
  cp_input_digest :: string
  cp_rendered_digest :: string
  cp_prompt_refs :: "PromptRef list"
  cp_artifact_refs :: "ArtifactRef list"
  cp_variables :: mapping_items

record RenderedContext =
  rx_packet :: ContextPacket
  rx_packet_data :: mapping_items
  rx_packet_digest :: string
  rx_canonical_bundle_digest :: string
  rx_rendered_input :: string
  rx_rendered_input_digest :: string
  rx_prompt_bundle :: PromptBundle
  rx_tool_permissions_digest :: "string option"

text \<open>What the host answers: real paths, file texts, and parsed YAML (\<open>None\<close> when it does not parse).\<close>

record host_files =
  hf_realpath :: "string \<Rightarrow> string"
  hf_read :: "string \<Rightarrow> kernel_error + string"
  hf_yaml :: "string \<Rightarrow> pyval option"

section \<open>Paths\<close>

text \<open>\<open>posixpath.normpath\<close>, \<open>join\<close> and \<open>dirname\<close>.\<close>

fun norm_components :: "bool \<Rightarrow> string list \<Rightarrow> string list \<Rightarrow> string list" where
  "norm_components absolute acc [] = acc"
| "norm_components absolute acc (c # cs) =
     (if c = [] \<or> c = ''.'' then norm_components absolute acc cs
      else if c \<noteq> ''..'' \<or> (\<not> absolute \<and> acc = []) \<or> (acc \<noteq> [] \<and> last acc = ''..'')
      then norm_components absolute (acc @ [c]) cs
      else norm_components absolute (butlast acc) cs)"

definition slashes :: "string \<Rightarrow> string" where
  "slashes p = (if starts_with ''//'' p \<and> \<not> starts_with ''///'' p then ''//'' else if starts_with ''/'' p then ''/'' else [])"

definition normpath :: "string \<Rightarrow> string" where
  "normpath p = (if p = [] then ''.''
     else let q = slashes p @ join_with ''/'' (norm_components (slashes p \<noteq> []) [] (split_on (CHR ''/'') p))
          in if q = [] then ''.'' else q)"

definition join_path :: "string \<Rightarrow> string \<Rightarrow> string" where
  "join_path a b = (if starts_with ''/'' b then b
     else if a = [] \<or> last a = CHR ''/'' then a @ b else a @ ''/'' @ b)"

definition strip_end :: "char \<Rightarrow> string \<Rightarrow> string" where
  "strip_end c s = rev (dropWhile (\<lambda>d. d = c) (rev s))"

definition dirname :: "string \<Rightarrow> string" where
  "dirname p = (let head = rev (dropWhile (\<lambda>d. d \<noteq> CHR ''/'') (rev p))
     in if list_all (\<lambda>d. d = CHR ''/'') head then head else strip_end (CHR ''/'') head)"

definition path_name :: "string \<Rightarrow> string" where
  "path_name p = (case rev (filter (\<lambda>c. c \<noteq> [] \<and> c \<noteq> ''.'') (split_on (CHR ''/'') p)) of [] \<Rightarrow> [] | c # _ \<Rightarrow> c)"

text \<open>\<open>PurePath.suffix\<close>: from the last dot, unless it is the first or the last character.\<close>

definition path_suffix :: "string \<Rightarrow> string" where
  "path_suffix p = (let name = path_name p; tail = takeWhile (\<lambda>c. c \<noteq> CHR ''.'') (rev name); n = length tail
     in if n < length name \<and> 0 < n \<and> n + 1 < length name then CHR ''.'' # rev tail else [])"

definition default_render_mode :: "string \<Rightarrow> string" where
  "default_render_mode p = (let s = lower (path_suffix p) in
     if s \<in> {''.yaml'', ''.yml''} then ''yaml'' else if s = ''.json'' then ''json'' else if s = ''.txt'' then ''text'' else ''markdown'')"

section \<open>The registry\<close>

type_synonym prompt_key = "string \<times> string \<times> string \<times> string"

record prompt_registry =
  preg_root :: string
  preg_schema_version :: string
  preg_registry_id :: string
  preg_records :: "(prompt_key \<times> PromptRecord) list"
  preg_snapshot_digest :: string

definition prompt_key :: "PromptRecord \<Rightarrow> prompt_key" where
  "prompt_key c = (pc_registry c, pc_id c, pc_kind c, pc_version c)"

text \<open>\<open>self._records[key] = record\<close>.\<close>

definition set_record :: "(prompt_key \<times> PromptRecord) list \<Rightarrow> PromptRecord \<Rightarrow> (prompt_key \<times> PromptRecord) list" where
  "set_record m c = (let k = prompt_key c in
     if map_of m k \<noteq> None then map (\<lambda>(j, d). if j = k then (j, c) else (j, d)) m else m @ [(k, c)])"

definition record_plain :: "PromptRecord \<Rightarrow> pyval" where
  "record_plain c = PDict [(''id'', PStr (pc_id c)), (''kind'', PStr (pc_kind c)), (''version'', PStr (pc_version c)),
     (''path'', PStr (pc_path c)), (''registry'', PStr (pc_registry c)), (''render_mode'', PStr (pc_render_mode c)),
     (''content_hash'', pc_content_hash c), (''status'', PStr (pc_status c)), (''metadata'', PDict (pc_metadata c))]"

definition snapshot_order :: "PromptRecord \<Rightarrow> string \<times> string \<times> string \<times> string" where
  "snapshot_order c = (pc_registry c, pc_kind c, pc_id c, pc_version c)"

definition registry_snapshot :: "string \<Rightarrow> string \<Rightarrow> (prompt_key \<times> PromptRecord) list \<Rightarrow> string" where
  "registry_snapshot schema rid m = digest_data (PDict [(''schema_version'', PStr schema), (''registry_id'', PStr rid),
     (''prompts'', PList (map record_plain (sort_key snapshot_order (map snd m))))])"

definition new_prompt_registry :: "string \<Rightarrow> PromptRecord list \<Rightarrow> string \<Rightarrow> string \<Rightarrow> prompt_registry" where
  "new_prompt_registry root records schema rid = (let m = foldl set_record [] records in
     \<lparr>preg_root = root, preg_schema_version = schema, preg_registry_id = rid, preg_records = m,
      preg_snapshot_digest = registry_snapshot schema rid m\<rparr>)"

definition record_keys :: "string list" where
  "record_keys = [''id'', ''kind'', ''version'', ''path'', ''registry'', ''render_mode'', ''content_hash'', ''status'']"

definition required_key :: "mapping_items \<Rightarrow> string \<Rightarrow> kernel_error + string" where
  "required_key m k = (if has_key m k then Inr (py_str (dict_get m k)) else Inl (KeyError k))"

definition record_from_entry :: "string \<Rightarrow> pyval \<Rightarrow> kernel_error + PromptRecord" where
  "record_from_entry rid raw = (case mapping_of raw of
     None \<Rightarrow> Inl (AttributeError (repr_str (type_name raw) @ '' object has no attribute '' @ repr_str ''items''))
   | Some m \<Rightarrow>
      bindE (required_key m ''id'') (\<lambda>i. bindE (required_key m ''kind'') (\<lambda>k.
      bindE (required_key m ''version'') (\<lambda>v. bindE (required_key m ''path'') (\<lambda>p.
      Inr \<lparr>pc_id = i, pc_kind = k, pc_version = v, pc_path = p,
        pc_registry = py_str (dict_get_or m ''registry'' (PStr rid)),
        pc_render_mode = py_str (dict_get_or m ''render_mode'' (PStr (default_render_mode p))),
        pc_content_hash = dict_get m ''content_hash'', pc_status = py_str (dict_get_or m ''status'' (PStr ''active'')),
        pc_metadata = filter (\<lambda>(key, _). key \<notin> set record_keys) m\<rparr>)))))"

text \<open>\<open>PromptRegistry.load\<close> on the parsed index; \<open>root\<close> is the resolved directory.\<close>

definition load_prompt_registry :: "string \<Rightarrow> pyval \<Rightarrow> kernel_error + prompt_registry" where
  "load_prompt_registry root index = (case mapping_of index of
     None \<Rightarrow> Inl (PromptRegistryError (''Registry index must be a mapping: '' @ root))
   | Some m \<Rightarrow>
      let rid = py_str (dict_get_or m ''registry_id'' (PStr ''local''));
          schema = py_str (dict_get_or m ''schema_version'' (PStr ''prompt-registry.v1''))
      in bindE (case dict_get_or m ''prompts'' (PList []) of
           PList vs \<Rightarrow> mapE (record_from_entry rid) vs
         | PDict d \<Rightarrow> mapE (\<lambda>(k, v). record_from_entry rid (PStr k)) d
         | PStr s \<Rightarrow> mapE (\<lambda>c. record_from_entry rid (PStr [c])) s
         | v \<Rightarrow> Inl (TypeError (repr_str (type_name v) @ '' object is not iterable''))) (\<lambda>records.
         Inr (new_prompt_registry root records schema rid)))"

section \<open>Resolution\<close>

definition prompt_layer_order :: "string list" where
  "prompt_layer_order = [''identity'', ''policy'', ''lane'', ''stage'', ''adapter_source'']"

definition layer_index :: "string \<Rightarrow> nat" where
  "layer_index kind = length (takeWhile (\<lambda>k. k \<noteq> kind) prompt_layer_order)"

text \<open>The lexical guard, then the real directory of the file against the real directory of its path.\<close>

definition logical_path :: "prompt_registry \<Rightarrow> PromptRecord \<Rightarrow> string" where
  "logical_path g c = normpath (join_path (preg_root g) (pc_path c))"

definition within_root :: "prompt_registry \<Rightarrow> string \<Rightarrow> bool" where
  "within_root g p \<longleftrightarrow> p = normpath (preg_root g) \<or> starts_with (normpath (preg_root g) @ ''/'') p"

definition prompt_name :: "PromptRecord \<Rightarrow> string" where
  "prompt_name c = pc_registry c @ '':'' @ pc_kind c @ '':'' @ pc_id c @ ''@'' @ pc_version c"

definition declared_hashes :: "PromptRecord \<Rightarrow> PromptRef \<Rightarrow> pyval list" where
  "declared_hashes c r = filter truthy [pc_content_hash c, opt_str (pr_content_hash r)]"

definition resolve_record :: "prompt_registry \<Rightarrow> host_files \<Rightarrow> PromptRecord \<Rightarrow> PromptRef \<Rightarrow> kernel_error + ResolvedPrompt" where
  "resolve_record g files c r =
     (if pc_status c \<noteq> ''active'' \<and> pr_required r
      then Inl (InactivePromptError (''Prompt '' @ prompt_name c @ '' is '' @ pc_status c @
        ''; only active prompts may be resolved for execution''))
      else if \<not> within_root g (logical_path g c)
      then Inl (PromptRegistryError (''Prompt path escapes registry root: '' @ pc_path c))
      else let real_file = hf_realpath files (logical_path g c) in
        if dirname real_file \<noteq> hf_realpath files (dirname (logical_path g c))
        then Inl (PromptRegistryError (''Prompt path escapes registry root (symlink): '' @ pc_path c))
        else bindE (hf_read files real_file) (\<lambda>content.
          let actual = hash_text content in
          case find (\<lambda>h. h \<noteq> PStr actual) (declared_hashes c r) of
            Some h \<Rightarrow> Inl (PromptHashMismatchError (''Hash mismatch for '' @ pc_id c @ ''@'' @ pc_version c @
               '': declared '' @ py_str h @ '', actual '' @ actual))
          | None \<Rightarrow> Inr \<lparr>rp_ref = r\<lparr>pr_render_mode := (if pr_render_mode r = [] then pc_render_mode c else pr_render_mode r),
                 pr_content_hash := Some actual\<rparr>,
               rp_path = pc_path c, rp_content = normalize_text content, rp_content_hash = actual,
               rp_status = pc_status c, rp_metadata = pc_metadata c\<rparr>))"

definition resolve_ref :: "prompt_registry \<Rightarrow> host_files \<Rightarrow> PromptRef \<Rightarrow> kernel_error + ResolvedPrompt list" where
  "resolve_ref g files r = (case map_of (preg_records g) (pr_registry r, pr_id r, pr_kind r, pr_version r) of
     None \<Rightarrow> if pr_required r
        then Inl (MissingPromptError (''Missing required prompt '' @ pr_registry r @ '':'' @ pr_kind r @ '':'' @ pr_id r @ ''@'' @ pr_version r))
        else Inr []
   | Some c \<Rightarrow> bindE (resolve_record g files c r) (\<lambda>p. Inr [p]))"

definition resolve_prompts :: "prompt_registry \<Rightarrow> host_files \<Rightarrow> PromptRef list \<Rightarrow> kernel_error + PromptBundle" where
  "resolve_prompts g files refs = bindE (mapE (resolve_ref g files) refs) (\<lambda>ps.
     Inr \<lparr>pb_prompts = sort_key (\<lambda>p. layer_index (pr_kind (rp_ref p))) (concat ps),
          pb_registry_snapshot_digest = preg_snapshot_digest g\<rparr>)"

section \<open>Rendering\<close>

definition prompt_provenance :: "ResolvedPrompt \<Rightarrow> mapping_items" where
  "prompt_provenance p = [(''layer'', PStr (pr_kind (rp_ref p))), (''id'', PStr (pr_id (rp_ref p))), (''kind'', PStr (pr_kind (rp_ref p))),
     (''version'', PStr (pr_version (rp_ref p))), (''registry'', PStr (pr_registry (rp_ref p))),
     (''render_mode'', PStr (pr_render_mode (rp_ref p))), (''content_hash'', PStr (rp_content_hash p))]"

definition provenance_refs :: "PromptBundle \<Rightarrow> mapping_items list" where
  "provenance_refs b = map prompt_provenance (pb_prompts b)"

definition bundle_data :: "PromptBundle \<Rightarrow> pyval" where
  "bundle_data b = PDict [(''schema_version'', PStr ''prompt-bundle.v1''),
     (''registry_snapshot_digest'', PStr (pb_registry_snapshot_digest b)),
     (''composition_order'', str_list (map (\<lambda>p. pr_kind (rp_ref p)) (pb_prompts b))),
     (''prompts'', PList (map (\<lambda>p. PDict (prompt_provenance p @ [(''path'', PStr (rp_path p))])) (pb_prompts b)))]"

definition prompt_bundle_digest :: "PromptBundle \<Rightarrow> string" where
  "prompt_bundle_digest b = digest_data (bundle_data b)"

definition receipt_summary :: "pyval \<Rightarrow> pyval" where
  "receipt_summary receipt = (let data = canonical_data receipt in case mapping_of data of
     Some m \<Rightarrow> if has_key m ''receipt_id''
       then PDict [(''receipt_id'', dict_get m ''receipt_id''), (''kind'', dict_get m ''kind''), (''status'', dict_get m ''status''),
              (''digest'', PStr (digest_data data))]
       else PDict [(''digest'', PStr (digest_data data)), (''data'', data)]
   | None \<Rightarrow> PDict [(''digest'', PStr (digest_data data)), (''data'', data)])"

text \<open>The arguments of \<open>render_context_packet\<close> the kernel passes; the packet has no artifacts or approvals then.\<close>

record context_arguments =
  ca_workflow_id :: string
  ca_workflow_version :: string
  ca_instance_id :: string
  ca_stage_id :: string
  ca_stage_run_id :: string
  ca_stage_type :: string
  ca_attempt :: int
  ca_workflow_state :: mapping_items
  ca_actor :: mapping_items
  ca_inputs :: mapping_items
  ca_artifacts :: "ArtifactRef list"
  ca_prior_receipts :: "pyval list"
  ca_approvals :: "pyval list"
  ca_variables :: mapping_items
  ca_constraints :: mapping_items
  ca_permissions :: "mapping_items option"
  ca_context_id :: "string option"

definition canonical_items :: "mapping_items \<Rightarrow> pyval" where
  "canonical_items m = canonical_data (PDict m)"

definition base_packet :: "PromptBundle \<Rightarrow> context_arguments \<Rightarrow> mapping_items" where
  "base_packet b a =
    (let permissions = canonical_items (the_or [] (ca_permissions a)) in
     [(''schema_version'', PStr ''context-packet.v1''),
      (''workflow'', PDict [(''id'', PStr (ca_workflow_id a)), (''version'', PStr (ca_workflow_version a)),
         (''instance_id'', PStr (ca_instance_id a)), (''state'', canonical_items (ca_workflow_state a))]),
      (''stage'', PDict [(''id'', PStr (ca_stage_id a)), (''type'', PStr (ca_stage_type a)), (''run_id'', PStr (ca_stage_run_id a)),
         (''attempt'', PInt (ca_attempt a))]),
      (''actor'', canonical_items (ca_actor a)),
      (''prompt_bundle'', bundle_data b),
      (''inputs'', PDict [(''facts'', canonical_items (ca_inputs a)),
         (''artifacts'', canonical_data (PList (map artifact_plain (ca_artifacts a)))),
         (''prior_receipts'', canonical_data (PList (map receipt_summary (ca_prior_receipts a)))),
         (''human_decisions'', canonical_data (PList (ca_approvals a))), (''variables'', canonical_items (ca_variables a))]),
      (''constraints'', canonical_items (ca_constraints a)),
      (''permissions'', PDict [(''tool_permissions_digest'',
           if ca_permissions a = None then PNone else PStr (digest_data permissions)),
         (''effective'', permissions)])])"

definition derived_context_id :: "mapping_items \<Rightarrow> string" where
  "derived_context_id packet = ''ctx_'' @ take 20 (remove_prefix ''sha256:'' (digest_data (PDict packet)))"

definition prompt_section :: "ResolvedPrompt \<Rightarrow> string" where
  "prompt_section p = join_with [CHR 0x0A]
     [''--- prompt:'' @ pr_kind (rp_ref p) @ '' ---'', ''id: '' @ pr_id (rp_ref p), ''version: '' @ pr_version (rp_ref p),
      ''registry: '' @ pr_registry (rp_ref p), ''content_hash: '' @ rp_content_hash p, [], strip_end (CHR 0x0A) (rp_content p)]"

definition render_prompt_bundle_input :: "PromptBundle \<Rightarrow> mapping_items \<Rightarrow> string" where
  "render_prompt_bundle_input b packet = join_with [CHR 0x0A, CHR 0x0A]
     (map prompt_section (pb_prompts b) @ [''--- context-packet ---'', json_text (canonical_data (PDict packet))]) @ [CHR 0x0A]"

definition render_context_packet :: "PromptBundle \<Rightarrow> context_arguments \<Rightarrow> RenderedContext" where
  "render_context_packet b a =
    (let base = base_packet b a;
         packet_id = (if str_or (ca_context_id a) [] = [] then derived_context_id base else the_or [] (ca_context_id a));
         unrendered = [(''packet_id'', PStr packet_id)] @ base;
         packet_digest = digest_data (PDict unrendered);
         bundle_digest = digest_data (PDict [(''prompt_bundle'', bundle_data b), (''context_packet_digest'', PStr packet_digest)]);
         rendering = [(''packet_digest'', PStr packet_digest), (''canonical_bundle_digest'', PStr bundle_digest)];
         rendered_input = render_prompt_bundle_input b (unrendered @ [(''rendering'', PDict rendering)]);
         rendered_digest = hash_text rendered_input
     in \<lparr>rx_packet = \<lparr>cp_schema_version = ''context-packet.v1'', cp_context_id = packet_id, cp_workflow_id = ca_workflow_id a,
           cp_instance_id = ca_instance_id a, cp_stage_id = ca_stage_id a, cp_stage_run_id = ca_stage_run_id a,
           cp_input_digest = bundle_digest, cp_rendered_digest = rendered_digest, cp_prompt_refs = map rp_ref (pb_prompts b),
           cp_artifact_refs = ca_artifacts a, cp_variables = the_or [] (mapping_of (canonical_items (ca_variables a)))\<rparr>,
         rx_packet_data = unrendered @ [(''rendering'', PDict (rendering @ [(''rendered_input_digest'', PStr rendered_digest)]))],
         rx_packet_digest = packet_digest, rx_canonical_bundle_digest = bundle_digest, rx_rendered_input = rendered_input,
         rx_rendered_input_digest = rendered_digest, rx_prompt_bundle = b,
         rx_tool_permissions_digest = map_option (\<lambda>p. digest_data (canonical_items p)) (ca_permissions a)\<rparr>)"

section \<open>Provenance on receipts\<close>

definition build_prompt_provenance :: "RenderedContext \<Rightarrow> mapping_items" where
  "build_prompt_provenance x =
     [(''registry_snapshot_digest'', PStr (pb_registry_snapshot_digest (rx_prompt_bundle x))),
      (''prompt_bundle_digest'', PStr (prompt_bundle_digest (rx_prompt_bundle x))),
      (''refs'', PList (map PDict (provenance_refs (rx_prompt_bundle x)))),
      (''context'', PDict [(''packet_id'', PStr (cp_context_id (rx_packet x))),
         (''packet_schema_version'', PStr (cp_schema_version (rx_packet x))), (''packet_digest'', PStr (rx_packet_digest x)),
         (''canonical_bundle_digest'', PStr (rx_canonical_bundle_digest x)),
         (''rendered_input_digest'', PStr (rx_rendered_input_digest x))])]"

end
