(* ===== verification/Stage_Inputs.thy ===== *)
theory Stage_Inputs
  imports Stage_Policy Lease_Policy Json_Parse Prompts
begin

text \<open>
  What a stage is told (\<^verbatim>\<open>_helpers.py\<close>): the runtime input built from the definition and the ledger,
  with the wiring expressions of the stage's inputs resolved, and the content hash a \<open>binds_to\<close>
  expression names.  Every piece reads committed ledger state only.
\<close>

section \<open>Earlier work of the instance\<close>

definition stage_run_plain :: "StageRun \<Rightarrow> pyval" where
  "stage_run_plain r = PDict
     [(''stage_run_id'', PStr (run_id r)), (''instance_id'', PStr (run_instance_id r)), (''stage_id'', PStr (run_stage_id r)),
      (''status'', PStr (run_status_value (run_status r))), (''attempt'', PInt (run_attempt r)),
      (''adapter_id'', opt_str (run_adapter_id r)), (''actor_ref'', opt_str (run_actor_ref r)),
      (''lease_token'', opt_str (run_lease_token r)), (''lease_seconds'', opt_int (run_lease_seconds r)),
      (''lease_source'', opt_str (run_lease_source r)), (''lease_source_ref'', opt_str (run_lease_source_ref r)),
      (''receipt_id'', opt_str (run_receipt_id r)), (''failure_class'', opt_str (map_option failure_value (run_failure_class r))),
      (''retry_after_at'', opt_str (run_retry_after_at r)), (''idempotency_key'', opt_str (run_idempotency_key r))]"

definition receipt_constraints :: "pyval \<Rightarrow> mapping_items" where
  "receipt_constraints receipt = (case mapping_of receipt of None \<Rightarrow> []
     | Some r \<Rightarrow> the_or [] (mapping_of (dict_get r ''constraints'')))"

definition decision_view :: "decision_row \<Rightarrow> stage_run_row \<Rightarrow> mapping_items" where
  "decision_view h r = (let c = receipt_constraints (hd_receipt h) in
     [(''decision_id'', PStr (hd_id h)), (''stage_run_id'', PStr (hd_stage_run_id h)), (''stage_id'', PStr (sr_stage_id r)),
      (''gate_id'', PStr (hd_gate_id h)), (''decision'', PStr (hd_decision h)), (''human_ref'', PStr (hd_human_ref h)),
      (''canonical_surface'', PStr (hd_canonical_surface h)), (''action_fingerprint'', PStr (hd_action_fingerprint h)),
      (''selected_option'', dict_get c ''selected_option''), (''longform_option'', dict_get c ''longform_option''),
      (''choice_manifest_hash'', dict_get c ''choice_manifest_hash''), (''operator_comments'', dict_get c ''operator_comments''),
      (''annotated_draft'', dict_get c ''annotated_draft''), (''receipt'', hd_receipt h), (''created_at'', PStr (hd_created_at h))])"

text \<open>The decisions of an instance joined with their runs, in the order of the runs' creation.\<close>

definition joined_decisions :: "string \<Rightarrow> ledger \<Rightarrow> (decision_row \<times> stage_run_row) list" where
  "joined_decisions i L = sort_key (\<lambda>(h, r). (sr_created_at r, sr_attempt r))
     [(h, r). h \<leftarrow> human_decisions L, hd_instance_id h = i, r \<leftarrow> stage_runs L, sr_id r = hd_stage_run_id h]"

definition prior_human_decisions :: "string \<Rightarrow> ledger \<Rightarrow> mapping_items list" where
  "prior_human_decisions i L = map (\<lambda>(h, r). decision_view h r) (joined_decisions i L)"

text \<open>The latest decision per stage: later entries replace earlier ones in place.\<close>

definition decisions_by_stage :: "mapping_items list \<Rightarrow> mapping_items" where
  "decisions_by_stage ds = foldl (\<lambda>acc d. let s = dict_get d ''stage_id'' in
     if truthy s then dict_set acc (py_str s) (PDict d) else acc) [] ds"

text \<open>The stage of a nullable run reference (\<open>LEFT JOIN stage_runs\<close>).\<close>

definition stage_of_run :: "string option \<Rightarrow> ledger \<Rightarrow> string option" where
  "stage_of_run run L = (case run of None \<Rightarrow> None | Some i \<Rightarrow> map_option sr_stage_id (find_run i L))"

definition artifact_view :: "ledger \<Rightarrow> artifact_row \<Rightarrow> mapping_items" where
  "artifact_view L a =
     [(''artifact_id'', PStr (ar_id a)), (''stage_run_id'', opt_str (ar_stage_run_id a)),
      (''stage_id'', opt_str (stage_of_run (ar_stage_run_id a) L)), (''receipt_id'', opt_str (ar_receipt_id a)),
      (''role'', PStr (ar_role a)), (''uri'', PStr (ar_uri a)), (''content_hash'', PStr (ar_content_hash a)),
      (''mime_type'', PStr (ar_mime_type a)), (''size_bytes'', opt_int (ar_size_bytes a)),
      (''created_by'', opt_str (ar_created_by a)), (''visibility'', PStr (ar_visibility a)), (''created_at'', PStr (ar_created_at a))]"

definition prior_artifact_refs :: "string \<Rightarrow> ledger \<Rightarrow> mapping_items list" where
  "prior_artifact_refs i L = map (artifact_view L) (sort_key (\<lambda>a. (ar_created_at a, ar_id a))
     (filter (\<lambda>a. ar_instance_id a = i) (artifact_refs L)))"

text \<open>\<open>grouped.setdefault(stage, {})[role] = artifact\<close>.\<close>

definition artifacts_by_stage :: "mapping_items list \<Rightarrow> mapping_items" where
  "artifacts_by_stage as = foldl (\<lambda>acc a. let s = dict_get a ''stage_id''; role = dict_get a ''role'' in
     if truthy s \<and> truthy role
     then dict_set acc (py_str s) (PDict (dict_set (the_or [] (mapping_of (dict_get acc (py_str s)))) (py_str role) (PDict a)))
     else acc) [] as"

definition receipt_runtime_outputs :: "pyval \<Rightarrow> mapping_items" where
  "receipt_runtime_outputs receipt = (case mapping_of receipt of None \<Rightarrow> []
     | Some r \<Rightarrow> (case mapping_of (dict_get r ''runtime_provenance'') of None \<Rightarrow> []
         | Some p \<Rightarrow> the_or [] (mapping_of (dict_get p ''outputs''))))"

definition receipt_view :: "ledger \<Rightarrow> receipt_row \<Rightarrow> mapping_items" where
  "receipt_view L c =
     [(''receipt_id'', PStr (rc_id c)), (''stage_run_id'', opt_str (rc_stage_run_id c)),
      (''stage_id'', opt_str (stage_of_run (rc_stage_run_id c) L)), (''kind'', PStr (rc_kind c)), (''status'', PStr (rc_status c)),
      (''summary'', PStr (rc_summary c)), (''created_at'', PStr (rc_created_at c)), (''receipt'', rc_receipt c),
      (''outputs'', PDict (receipt_runtime_outputs (rc_receipt c)))]"

definition instance_receipts :: "string \<Rightarrow> ledger \<Rightarrow> receipt_row list" where
  "instance_receipts i L = sort_key (\<lambda>c. (rc_created_at c, rc_id c)) (filter (\<lambda>c. rc_instance_id c = i) (receipts L))"

definition prior_receipts_with_outputs :: "string \<Rightarrow> ledger \<Rightarrow> mapping_items list" where
  "prior_receipts_with_outputs i L = map (receipt_view L) (instance_receipts i L)"

definition prior_receipts :: "string \<Rightarrow> ledger \<Rightarrow> pyval list" where
  "prior_receipts i L = map rc_receipt (instance_receipts i L)"

fun list_items :: "pyval \<Rightarrow> pyval list" where
  "list_items (PList vs) = vs"
| "list_items _ = []"

text \<open>\<open>grouped.setdefault(stage, []).append(receipt)\<close>.\<close>

definition receipts_by_stage :: "mapping_items list \<Rightarrow> mapping_items" where
  "receipts_by_stage rs = foldl (\<lambda>acc r. let s = dict_get r ''stage_id'' in
     if truthy s then dict_set acc (py_str s) (PList (list_items (dict_get acc (py_str s)) @ [PDict r])) else acc) [] rs"

section \<open>Wiring\<close>

text \<open>A wiring expression: the part after its prefix looked up in its source.\<close>

definition resolve_wire :: "mapping_items \<Rightarrow> mapping_items \<Rightarrow> string \<Rightarrow> pyval" where
  "resolve_wire payload workflow_inputs s =
     (if starts_with ''input.'' s then path_get workflow_inputs (remove_prefix ''input.'' s)
      else if starts_with ''artifacts.'' s then
        (case mapping_of (dict_get payload ''artifacts_by_stage'') of None \<Rightarrow> PNone
         | Some m \<Rightarrow> path_get m (remove_prefix ''artifacts.'' s))
      else if starts_with ''receipts.'' s then
        (case mapping_of (dict_get payload ''receipts_by_stage'') of None \<Rightarrow> PNone
         | Some m \<Rightarrow> (case path_get m (remove_prefix ''receipts.'' s) of
             PList vs \<Rightarrow> if vs = [] then PList [] else last vs
           | v \<Rightarrow> v))
      else if starts_with ''decisions.'' s then
        (case mapping_of (dict_get payload ''decisions_by_stage'') of None \<Rightarrow> PNone
         | Some m \<Rightarrow> path_get m (remove_prefix ''decisions.'' s))
      else PStr s)"

fun resolve_stage_input_value :: "mapping_items \<Rightarrow> mapping_items \<Rightarrow> pyval \<Rightarrow> pyval" where
  "resolve_stage_input_value payload inputs (PStr s) = resolve_wire payload inputs s"
| "resolve_stage_input_value payload inputs (PDict m) = PDict (map (\<lambda>(k, v). (k, resolve_stage_input_value payload inputs v)) m)"
| "resolve_stage_input_value payload inputs (PList vs) = PList (map (resolve_stage_input_value payload inputs) vs)"
| "resolve_stage_input_value payload inputs v = v"

definition resolve_stage_inputs :: "mapping_items \<Rightarrow> mapping_items \<Rightarrow> mapping_items \<Rightarrow> mapping_items" where
  "resolve_stage_inputs stage_inputs payload inputs = map (\<lambda>(k, v). (k, resolve_stage_input_value payload inputs v)) stage_inputs"

definition optional_items :: "bool \<Rightarrow> mapping_items \<Rightarrow> mapping_items" where
  "optional_items b m = (if b then m else [])"

definition runtime_input :: "WorkflowDef \<Rightarrow> StageDef \<Rightarrow> StageRun \<Rightarrow> mapping_items option \<Rightarrow> RenderedContext option \<Rightarrow> ledger \<Rightarrow> mapping_items" where
  "runtime_input w s run snapshot rendered L =
    (let i = run_instance_id run;
         inputs = the_or [] snapshot;
         ds = prior_human_decisions i L; as = prior_artifact_refs i L;
         rs = prior_receipts i L; outs = prior_receipts_with_outputs i L;
         payload =
           [(''workflow'', PDict [(''id'', PStr (wd_id w)), (''version'', PStr (wd_version w))]), (''stage'', stage_plain s),
            (''stage_run'', stage_run_plain run), (''workflow_inputs'', PDict inputs)] @
           optional_items (ds \<noteq> []) [(''prior_human_decisions'', PList (map PDict ds)), (''latest_human_decision'', PDict (last ds)),
              (''decisions_by_stage'', PDict (decisions_by_stage ds))] @
           optional_items (as \<noteq> []) [(''artifact_refs'', PList (map PDict as)), (''artifacts_by_stage'', PDict (artifacts_by_stage as))] @
           optional_items (rs \<noteq> []) [(''prior_receipts'', PList rs)] @
           optional_items (outs \<noteq> []) [(''receipts_by_stage'', PDict (receipts_by_stage outs))]
     in payload @ [(''inputs'', PDict (resolve_stage_inputs (sd_inputs s) payload inputs))] @
        (case rendered of None \<Rightarrow> [] | Some x \<Rightarrow> [(''context_packet'', PDict (rx_packet_data x)), (''rendered_input'', PStr (rx_rendered_input x)),
           (''rendered_input_digest'', PStr (rx_rendered_input_digest x))]))"

section \<open>Content bindings\<close>

definition stage_binds_to :: "StageDef \<Rightarrow> string option" where
  "stage_binds_to s = (case dict_get (sd_policy s) ''binds_to'' of PStr t \<Rightarrow> if strip t \<noteq> [] then Some t else None | _ \<Rightarrow> None)"

definition content_hash_of :: "mapping_items \<Rightarrow> string option" where
  "content_hash_of m = (let h = dict_get m ''content_hash'' in if truthy h then Some (py_str h) else None)"

text \<open>\<open>text.split(".", 1)\<close>: the part before the first dot and, if there is a dot, the rest.\<close>

definition split_first :: "string \<Rightarrow> string \<times> string option" where
  "split_first s = (takeWhile (\<lambda>c. c \<noteq> CHR ''.'') s,
     (case dropWhile (\<lambda>c. c \<noteq> CHR ''.'') s of [] \<Rightarrow> None | _ # t \<Rightarrow> Some t))"

definition bound_receipt_hash :: "mapping_items \<Rightarrow> string option \<Rightarrow> string option" where
  "bound_receipt_hash outputs role = (case role of
     Some r \<Rightarrow> (case mapping_of (dict_get outputs r) of None \<Rightarrow> None | Some m \<Rightarrow> content_hash_of m)
   | None \<Rightarrow> fetchone (List.map_filter (\<lambda>(k, v). case mapping_of v of None \<Rightarrow> None | Some m \<Rightarrow> content_hash_of m) outputs))"

definition resolve_bound_content_hash :: "string \<Rightarrow> ledger \<Rightarrow> string \<Rightarrow> string option" where
  "resolve_bound_content_hash binds_to L i =
     (if starts_with ''artifacts.'' binds_to then
        (case mapping_of (path_get (artifacts_by_stage (prior_artifact_refs i L)) (remove_prefix ''artifacts.'' binds_to)) of
           None \<Rightarrow> None | Some ref \<Rightarrow> content_hash_of ref)
      else if starts_with ''receipts.'' binds_to then
        (let (stage_id, role) = split_first (remove_prefix ''receipts.'' binds_to);
             rs = list_items (dict_get (receipts_by_stage (prior_receipts_with_outputs i L)) stage_id)
         in if rs = [] then None
            else (case mapping_of (last rs) of None \<Rightarrow> None
              | Some r \<Rightarrow> (case mapping_of (dict_get r ''outputs'') of None \<Rightarrow> None | Some outputs \<Rightarrow> bound_receipt_hash outputs role)))
      else None)"

definition is_public_publish_gate :: "StageDef \<Rightarrow> bool" where
  "is_public_publish_gate s \<longleftrightarrow> strip (py_str (py_or (dict_get (sd_policy s) ''class'') (PStr []))) = ''public_publish''"

end
