(* ===== verification/Stage_Outcomes.thy ===== *)
theory Stage_Outcomes
  imports Adapter_Registry Ledger_State Py_Dicts
begin

text \<open>
  What the kernel makes of an adapter's result (\<^verbatim>\<open>_helpers.py\<close>): the outcome it names, the stage's
  output contract it has to meet, the retry policy when it fails, and the workflow status a
  terminal transition stands for.
\<close>

section \<open>Operations and outcomes\<close>

definition operation_for_stage :: "StageDef \<Rightarrow> AdapterFamily \<Rightarrow> string" where
  "operation_for_stage s family = (let operation = dict_get (sd_inputs s) ''operation'' in
     if operation \<noteq> PNone then py_str operation
     else if family = FAMILY_LANE then ''build_stage_input''
     else if family = FAMILY_SURFACE then ''publish''
     else ''invoke'')"

definition outcome_for_stage_result :: "StageDef \<Rightarrow> AdapterResult option \<Rightarrow> string" where
  "outcome_for_stage_result s result =
    (let fallback = (case sd_outcomes s of [x] \<Rightarrow> x | _ \<Rightarrow> ''succeeded'') in
     case result of None \<Rightarrow> fallback
     | Some r \<Rightarrow> (case dict_get (res_outputs r) ''outcome'' of
         PStr (c # cs) \<Rightarrow> c # cs
       | _ \<Rightarrow> (case res_next_hint r of
           Some h \<Rightarrow> if h \<in> set (sd_outcomes s) then h
                     else if res_status r \<in> set (sd_outcomes s) then res_status r else fallback
         | None \<Rightarrow> if res_status r \<in> set (sd_outcomes s) then res_status r else fallback)))"

definition workflow_status_for_terminal :: "string \<Rightarrow> WorkflowStatus" where
  "workflow_status_for_terminal t = the_or WF_BLOCKED (map_of
     [(''done'', WF_DONE), (''blocked'', WF_BLOCKED), (''policy_denied'', WF_POLICY_DENIED),
      (''waiting_on_schedule'', WF_WAITING_ON_SCHEDULE), (''final_approval_required'', WF_FINAL_APPROVAL_REQUIRED),
      (''cancelled'', WF_CANCELLED)] t)"

fun preferred_outcomes :: "StageType \<Rightarrow> string list" where
  "preferred_outcomes ST_AGENT_WORK = [''ready'', ''revised'', ''done'']"
| "preferred_outcomes ST_AGENT_GATE = [''approved_for_generation'', ''support'', ''accepted'', ''pass'']"
| "preferred_outcomes ST_A2A_REVIEW_LOOP = [''pass'', ''accepted'']"
| "preferred_outcomes ST_SYSTEM_ACTION = [''ready'', ''valid'', ''ready_for_approval'', ''package_ready'',
     ''approval_needed'', ''surfaced'', ''verified'', ''applied'', ''done_without_publish'', ''done'']"
| "preferred_outcomes ST_WAIT_SCHEDULE = [''ready'', ''skipped'']"
| "preferred_outcomes ST_RECOVERY = [''still_running'', ''resumed'']"
| "preferred_outcomes _ = []"

definition default_success_outcome_for_stage :: "StageDef \<Rightarrow> string" where
  "default_success_outcome_for_stage s =
     (case find (\<lambda>x. x \<in> set (sd_outcomes s)) (preferred_outcomes (sd_type s)) of
        Some x \<Rightarrow> x | None \<Rightarrow> (case sd_outcomes s of [x] \<Rightarrow> x | _ \<Rightarrow> ''succeeded''))"

definition with_default_lane_outcome :: "StageDef \<Rightarrow> mapping_items \<Rightarrow> mapping_items" where
  "with_default_lane_outcome s outputs = (case dict_get outputs ''outcome'' of
     PStr (c # cs) \<Rightarrow> outputs
   | _ \<Rightarrow> dict_set outputs ''outcome'' (PStr (default_success_outcome_for_stage s)))"

section \<open>The output contract\<close>

text \<open>\<open>enumerate(artifacts, start=1)\<close>, keeping the required ones.\<close>

fun required_in_list :: "nat \<Rightarrow> pyval list \<Rightarrow> string list" where
  "required_in_list n [] = []"
| "required_in_list n (v # vs) = (case mapping_of v of None \<Rightarrow> required_in_list (Suc n) vs
     | Some m \<Rightarrow> if truthy (dict_get m ''required'')
         then py_str (py_or (dict_get m ''role'') (PStr (''artifact_'' @ show_nat n))) # required_in_list (Suc n) vs
         else required_in_list (Suc n) vs)"

definition required_artifact_roles :: "mapping_items \<Rightarrow> kernel_error + string list" where
  "required_artifact_roles outputs = (let artifacts = dict_get outputs ''artifacts'' in
     if \<not> truthy artifacts then Inr []
     else (case artifacts of
       PDict m \<Rightarrow> Inr (dedupe_strings [k. (k, spec) \<leftarrow> m,
          (case mapping_of spec of Some d \<Rightarrow> truthy (dict_get d ''required'') | None \<Rightarrow> truthy spec)])
     | PList vs \<Rightarrow> Inr (dedupe_strings (required_in_list 1 vs))
     | PStr s \<Rightarrow> Inr []
     | v \<Rightarrow> Inl (TypeError (repr_str (type_name v) @ '' object is not iterable''))))"

definition field_specs :: "pyval \<Rightarrow> pyval list" where
  "field_specs v = (case v of
     PDict m \<Rightarrow> map (\<lambda>(name, spec). PDict (dict_update [(''name'', PStr name)] (the_or [] (mapping_of spec)))) m
   | PList vs \<Rightarrow> vs | _ \<Rightarrow> [])"

definition required_field_names :: "pyval list \<Rightarrow> string list" where
  "required_field_names specs = concat (map (\<lambda>spec. case mapping_of spec of None \<Rightarrow> []
     | Some m \<Rightarrow> let name = py_or (dict_get m ''name'') (dict_get m ''field'') in
         if truthy (dict_get m ''required'') \<and> truthy name then [py_str name] else []) specs)"

definition required_output_fields :: "mapping_items \<Rightarrow> kernel_error + string list" where
  "required_output_fields outputs =
     bindE (string_tuple (dict_get outputs ''required_fields'')) (\<lambda>f1.
     bindE (string_tuple (dict_get outputs ''required_outputs'')) (\<lambda>f2.
     bindE (case mapping_of (dict_get outputs ''outcome_schema'') of None \<Rightarrow> Inr []
            | Some m \<Rightarrow> string_tuple (dict_get m ''required'')) (\<lambda>f3.
     Inr (dedupe (f1 @ f2 @ required_field_names (field_specs (dict_get outputs ''fields'')) @ f3)))))"

fun path_exists :: "string list \<Rightarrow> pyval \<Rightarrow> bool" where
  "path_exists [] v = (\<not> none_or_empty v)"
| "path_exists (p # ps) v = (case mapping_of v of None \<Rightarrow> False
     | Some m \<Rightarrow> has_key m p \<and> path_exists ps (dict_get m p))"

definition output_path_exists :: "mapping_items \<Rightarrow> string \<Rightarrow> bool" where
  "output_path_exists outputs path = path_exists (split_on (CHR ''.'') path) (PDict outputs)"

definition artifact_errors :: "string list \<Rightarrow> ArtifactRef \<Rightarrow> string list" where
  "artifact_errors required a = (if af_role a \<in> set required
     then (if af_uri a = [] then [''required artifact role '' @ repr_str (af_role a) @ '' is missing a uri''] else []) @
          (if af_content_hash a = [] then [''required artifact role '' @ repr_str (af_role a) @ '' is missing a content_hash''] else [])
     else [])"

definition stage_output_contract_errors :: "StageDef \<Rightarrow> AdapterResult \<Rightarrow> kernel_error + string list" where
  "stage_output_contract_errors s r =
     bindE (required_artifact_roles (sd_outputs s)) (\<lambda>required.
     bindE (required_output_fields (sd_outputs s)) (\<lambda>fields.
     Inr (map (\<lambda>role. ''missing required artifact role '' @ repr_str role)
            (filter (\<lambda>role. role \<notin> af_role ` set (res_artifact_refs r)) required) @
          concat (map (artifact_errors required) (res_artifact_refs r)) @
          map (\<lambda>f. ''missing required output field '' @ repr_str f)
            (filter (\<lambda>f. \<not> output_path_exists (res_outputs r) f) fields))))"

section \<open>Retries\<close>

text \<open>\<open>int(...)\<close> of a setting falls back when it raises a TypeError or ValueError.\<close>

definition retry_max_attempts :: "mapping_items \<Rightarrow> int" where
  "retry_max_attempts retry = (case py_int (dict_get_or retry ''max_attempts'' (PInt 1)) of Inl _ \<Rightarrow> 1 | Inr n \<Rightarrow> max 1 n)"

definition retry_enabled :: "mapping_items \<Rightarrow> bool" where
  "retry_enabled retry \<longleftrightarrow> truthy (dict_get_or retry ''enabled'' (PBool False)) \<or> retry_max_attempts retry > 1"

definition safe_side_effect :: "RiskClass \<Rightarrow> bool" where
  "safe_side_effect r \<longleftrightarrow> r \<in> {RISK_READ_ONLY, RISK_LOCAL_DRAFT, RISK_REVIEW_ONLY, RISK_INTERNAL_STATE}"

definition retry_is_safe :: "AdapterRegistration \<Rightarrow> string option \<Rightarrow> bool" where
  "retry_is_safe reg idempotency_key \<longleftrightarrow> rg_replay_safe reg \<or> list_all safe_side_effect (rg_side_effects reg) \<or>
     (str_or idempotency_key [] \<noteq> [] \<and> \<not> rg_requires_idempotency_key reg)"

definition retry_backoff :: "mapping_items \<Rightarrow> int" where
  "retry_backoff retry = (case py_int (dict_get_or retry ''backoff_seconds'' (PInt 0)) of Inl _ \<Rightarrow> 0 | Inr n \<Rightarrow> max 0 n)"

definition retry_after_at :: "string \<Rightarrow> mapping_items \<Rightarrow> env \<Rightarrow> kernel_error + ts_arg" where
  "retry_after_at created_at retry E =
     bindE (policy_coerce_datetime (TsText created_at)) (\<lambda>base.
     bindE (add_seconds (the_or (clock E 0) base) (retry_backoff retry)) (\<lambda>t.
     Inr (TsText (isoformat t))))"

definition probe_key :: "WorkflowDef \<Rightarrow> StageDef \<Rightarrow> string" where
  "probe_key w s = wd_id w @ '':'' @ sd_id s @ '':retry-policy-probe''"

definition effective_retry_policy :: "WorkflowDef \<Rightarrow> StageDef \<Rightarrow> AdapterRegistration \<Rightarrow> mapping_items" where
  "effective_retry_policy w s reg =
    (let built_in = (if rg_family reg = FAMILY_RUNTIME \<and> sd_type s \<in> {ST_AGENT_WORK, ST_AGENT_GATE, ST_A2A_REVIEW_LOOP} \<and>
             retry_is_safe reg (Some (probe_key w s))
          then [(''enabled'', PBool True), (''max_attempts'', PInt 2), (''backoff_seconds'', PInt 0)] else [])
     in if sd_retry s \<noteq> [] then sd_retry s
        else case mapping_of (dict_get (wd_defaults w) ''retry'') of
          Some d \<Rightarrow> if retry_enabled d then d else built_in
        | None \<Rightarrow> built_in)"

end
