(* ===== verification/Ledger_Integrity.thy ===== *)
theory Ledger_Integrity
  imports Ledger_State
begin

text \<open>
  What the schema promises: the contract of a keyed table (a locale, interpreted on every
  table of the ledger), the integrity invariant (primary keys, the attempt slot of a run and
  every foreign key) and its preservation by each statement.
\<close>

section \<open>The contract of a keyed table\<close>

text \<open>
  \<open>insert\<close> appends a row with a fresh key and refuses any other; clients learn that keys stay
  distinct, that a lookup finds what was inserted and that nothing else changes.
\<close>

locale keyed_table =
  fixes key :: "'r \<Rightarrow> 'k" and insert_into :: "'r \<Rightarrow> 'r list \<Rightarrow> kernel_error + 'r list"
  assumes fresh: "key r \<notin> key ` set rows \<Longrightarrow> insert_into r rows = Inr (rows @ [r])"
    and taken: "key r \<in> key ` set rows \<Longrightarrow> \<exists>e. insert_into r rows = Inl e"
begin

lemma inserted: "insert_into r rows = Inr rows' \<longleftrightarrow> key r \<notin> key ` set rows \<and> rows' = rows @ [r]"
  using fresh[of r rows] taken[of r rows] by (cases "key r \<in> key ` set rows") auto

lemma keys_stay_distinct:
  "insert_into r rows = Inr rows' \<Longrightarrow> distinct (map key rows) \<Longrightarrow> distinct (map key rows')"
  by (auto simp: inserted)

lemma lookup_inserted:
  assumes "insert_into r rows = Inr rows'"
  shows "select_one (\<lambda>x. key x = key r) rows' = Some r"
proof -
  from assms have new: "key r \<notin> key ` set rows" and rows': "rows' = rows @ [r]"
    by (simp_all add: inserted)
  from new have "select_one (\<lambda>x. key x = key r) rows = None" unfolding select_one_None by (auto simp: image_iff)
  then show ?thesis by (simp add: rows' select_one_append) (simp add: select_one_def)
qed

lemma lookup_others:
  assumes "insert_into r rows = Inr rows'" "k \<noteq> key r"
  shows "select_one (\<lambda>x. key x = k) rows' = select_one (\<lambda>x. key x = k) rows"
proof -
  from assms(1) have rows': "rows' = rows @ [r]" by (simp add: inserted)
  have "select_one (\<lambda>x. key x = k) [r] = None" using assms(2) by (simp add: select_one_None)
  then show ?thesis by (simp add: rows' select_one_append split: option.splits)
qed

lemma prior_rows_kept: "insert_into r rows = Inr rows' \<Longrightarrow> prefix rows rows'"
  by (simp add: inserted)

end

lemma keyed_table_insert_row: "keyed_table key (insert_row key col)"
  by unfold_locales (auto simp: insert_row_def)

interpretation instances_table: keyed_table wi_instance_id "insert_row wi_instance_id col" for col
  by (rule keyed_table_insert_row)
interpretation runs_table: keyed_table sr_id "insert_row sr_id col" for col
  by (rule keyed_table_insert_row)
interpretation slots_table: keyed_table run_slot "insert_row run_slot col" for col
  by (rule keyed_table_insert_row)
interpretation receipts_table: keyed_table rc_id "insert_row rc_id col" for col
  by (rule keyed_table_insert_row)
interpretation artifacts_table: keyed_table ar_id "insert_row ar_id col" for col
  by (rule keyed_table_insert_row)
interpretation invocations_table: keyed_table ai_id "insert_row ai_id col" for col
  by (rule keyed_table_insert_row)
interpretation events_table: keyed_table ev_id "insert_row ev_id col" for col
  by (rule keyed_table_insert_row)
interpretation children_table: keyed_table cs_id "insert_row cs_id col" for col
  by (rule keyed_table_insert_row)
interpretation decisions_table: keyed_table hd_id "insert_row hd_id col" for col
  by (rule keyed_table_insert_row)
interpretation late_table: keyed_table lr_id "insert_row lr_id col" for col
  by (rule keyed_table_insert_row)

lemmas table_inserted =
  instances_table.inserted runs_table.inserted slots_table.inserted receipts_table.inserted
  artifacts_table.inserted invocations_table.inserted events_table.inserted
  children_table.inserted decisions_table.inserted late_table.inserted

lemma foreign_key_Inr [error_simps]: "foreign_key b = Inr u \<longleftrightarrow> b"
  by (simp add: foreign_key_def guardE_eq)

section \<open>Integrity\<close>

definition keys_distinct :: "ledger \<Rightarrow> bool" where
  "keys_distinct L \<longleftrightarrow>
     distinct (map wi_instance_id (workflow_instances L)) \<and> distinct (map sr_id (stage_runs L)) \<and>
     distinct (map run_slot (stage_runs L)) \<and> distinct (map rc_id (receipts L)) \<and>
     distinct (map ar_id (artifact_refs L)) \<and> distinct (map ai_id (adapter_invocations L)) \<and>
     distinct (map ev_id (events L)) \<and> distinct (map cs_id (child_sessions L)) \<and>
     distinct (map hd_id (human_decisions L)) \<and> distinct (map lr_id (late_results L))"

definition has_receipt :: "ledger \<Rightarrow> string \<Rightarrow> bool" where
  "has_receipt L i \<longleftrightarrow> i \<in> rc_id ` set (receipts L)"

definition has_invocation :: "ledger \<Rightarrow> string \<Rightarrow> bool" where
  "has_invocation L i \<longleftrightarrow> i \<in> ai_id ` set (adapter_invocations L)"

text \<open>Every reference of \<open>L\<close> names something the four given predicates accept.\<close>

definition resolves :: "(string \<Rightarrow> bool) \<Rightarrow> (string \<Rightarrow> bool) \<Rightarrow> (string \<Rightarrow> bool) \<Rightarrow> (string \<Rightarrow> bool) \<Rightarrow> ledger \<Rightarrow> bool" where
  "resolves I R C A L \<longleftrightarrow>
     (\<forall>r \<in> set (stage_runs L). I (sr_instance_id r) \<and> opt_ref R (sr_parent r)) \<and>
     (\<forall>c \<in> set (receipts L). I (rc_instance_id c) \<and> opt_ref R (rc_stage_run_id c)) \<and>
     (\<forall>a \<in> set (artifact_refs L). I (ar_instance_id a) \<and> opt_ref R (ar_stage_run_id a) \<and> opt_ref C (ar_receipt_id a)) \<and>
     (\<forall>a \<in> set (adapter_invocations L). I (ai_instance_id a) \<and> R (ai_stage_run_id a)) \<and>
     (\<forall>e \<in> set (events L). I (ev_instance_id e) \<and> opt_ref R (ev_stage_run_id e)) \<and>
     (\<forall>c \<in> set (child_sessions L). R (cs_parent c) \<and> opt_ref A (cs_invocation_id c)) \<and>
     (\<forall>d \<in> set (human_decisions L). I (hd_instance_id d) \<and> R (hd_stage_run_id d)) \<and>
     (\<forall>l \<in> set (late_results L). I (lr_instance_id l) \<and> R (lr_stage_run_id l))"

definition references_resolve :: "ledger \<Rightarrow> bool" where
  "references_resolve L \<longleftrightarrow> resolves (has_instance L) (has_run L) (has_receipt L) (has_invocation L) L"

definition ledger_ok :: "ledger \<Rightarrow> bool" where
  "ledger_ok L \<longleftrightarrow> keys_distinct L \<and> references_resolve L"

lemma ledger_ok_empty: "ledger_ok empty_ledger"
  by (simp add: ledger_ok_def keys_distinct_def references_resolve_def resolves_def empty_ledger_def)

lemma ledger_ok_runs:
  "ledger_ok L \<Longrightarrow> distinct (map sr_id (stage_runs L))"
  "ledger_ok L \<Longrightarrow> distinct (map wi_instance_id (workflow_instances L))"
  "ledger_ok L \<Longrightarrow> distinct (map run_slot (stage_runs L))"
  by (simp_all add: ledger_ok_def keys_distinct_def)

lemma same_run: "ledger_ok L \<Longrightarrow> r \<in> set (stage_runs L) \<Longrightarrow> s \<in> set (stage_runs L) \<Longrightarrow>
    sr_id r = sr_id s \<Longrightarrow> r = s"
  using distinct_map_unique[OF ledger_ok_runs(1)] .

lemma same_slot: "ledger_ok L \<Longrightarrow> r \<in> set (stage_runs L) \<Longrightarrow> s \<in> set (stage_runs L) \<Longrightarrow>
    run_slot r = run_slot s \<Longrightarrow> r = s"
  using distinct_map_unique[OF ledger_ok_runs(3)] .

lemma find_run_iff: "ledger_ok L \<Longrightarrow> find_run i L = Some r \<longleftrightarrow> r \<in> set (stage_runs L) \<and> sr_id r = i"
  unfolding find_run_def using select_one_Some[of "\<lambda>r. sr_id r = i"] select_one_id[OF ledger_ok_runs(1)] by blast

lemma find_instance_iff:
  "ledger_ok L \<Longrightarrow> find_instance i L = Some r \<longleftrightarrow> r \<in> set (workflow_instances L) \<and> wi_instance_id r = i"
  unfolding find_instance_def using select_one_Some[of "\<lambda>r. wi_instance_id r = i"] select_one_id[OF ledger_ok_runs(2)] by blast

text \<open>References survive any growth of the tables they point into.\<close>

lemma opt_ref_mono: "(\<And>i. P i \<Longrightarrow> Q i) \<Longrightarrow> opt_ref P v \<Longrightarrow> opt_ref Q v"
  by (auto simp: opt_ref_def split: option.splits)

lemma resolves_mono:
  assumes "resolves I R C A L"
    and "\<And>i. I i \<Longrightarrow> I' i" "\<And>i. R i \<Longrightarrow> R' i" "\<And>i. C i \<Longrightarrow> C' i" "\<And>i. A i \<Longrightarrow> A' i"
  shows "resolves I' R' C' A' L"
proof -
  have "opt_ref R v \<Longrightarrow> opt_ref R' v" "opt_ref C v \<Longrightarrow> opt_ref C' v" "opt_ref A v \<Longrightarrow> opt_ref A' v" for v
    using assms(3-5) by (simp_all add: opt_ref_def split: option.splits)
  with assms show ?thesis unfolding resolves_def by blast
qed

lemma resolves_appended [simp]:
  "resolves I R C A (L\<lparr>workflow_instances := ws\<rparr>) = resolves I R C A L"
  "resolves I R C A (L\<lparr>uuid_draws := n\<rparr>) = resolves I R C A L"
  "resolves I R C A (L\<lparr>stage_runs := stage_runs L @ [r]\<rparr>) \<longleftrightarrow>
     resolves I R C A L \<and> I (sr_instance_id r) \<and> opt_ref R (sr_parent r)"
  "resolves I R C A (L\<lparr>receipts := receipts L @ [c]\<rparr>) \<longleftrightarrow>
     resolves I R C A L \<and> I (rc_instance_id c) \<and> opt_ref R (rc_stage_run_id c)"
  "resolves I R C A (L\<lparr>artifact_refs := artifact_refs L @ [a]\<rparr>) \<longleftrightarrow>
     resolves I R C A L \<and> I (ar_instance_id a) \<and> opt_ref R (ar_stage_run_id a) \<and> opt_ref C (ar_receipt_id a)"
  "resolves I R C A (L\<lparr>adapter_invocations := adapter_invocations L @ [v]\<rparr>) \<longleftrightarrow>
     resolves I R C A L \<and> I (ai_instance_id v) \<and> R (ai_stage_run_id v)"
  "resolves I R C A (L\<lparr>events := events L @ [e]\<rparr>) \<longleftrightarrow>
     resolves I R C A L \<and> I (ev_instance_id e) \<and> opt_ref R (ev_stage_run_id e)"
  "resolves I R C A (L\<lparr>child_sessions := child_sessions L @ [s]\<rparr>) \<longleftrightarrow>
     resolves I R C A L \<and> R (cs_parent s) \<and> opt_ref A (cs_invocation_id s)"
  "resolves I R C A (L\<lparr>human_decisions := human_decisions L @ [d]\<rparr>) \<longleftrightarrow>
     resolves I R C A L \<and> I (hd_instance_id d) \<and> R (hd_stage_run_id d)"
  "resolves I R C A (L\<lparr>late_results := late_results L @ [l]\<rparr>) \<longleftrightarrow>
     resolves I R C A L \<and> I (lr_instance_id l) \<and> R (lr_stage_run_id l)"
  by (auto simp: resolves_def ball_Un)

lemma targets_simps [simp]:
  "has_instance (L\<lparr>uuid_draws := n\<rparr>) = has_instance L" "has_run (L\<lparr>uuid_draws := n\<rparr>) = has_run L"
  "has_receipt (L\<lparr>uuid_draws := n\<rparr>) = has_receipt L" "has_invocation (L\<lparr>uuid_draws := n\<rparr>) = has_invocation L"
  "has_run (L\<lparr>workflow_instances := ws\<rparr>) = has_run L" "has_receipt (L\<lparr>workflow_instances := ws\<rparr>) = has_receipt L"
  "has_invocation (L\<lparr>workflow_instances := ws\<rparr>) = has_invocation L"
  "has_instance (L\<lparr>stage_runs := rs\<rparr>) = has_instance L" "has_receipt (L\<lparr>stage_runs := rs\<rparr>) = has_receipt L"
  "has_invocation (L\<lparr>stage_runs := rs\<rparr>) = has_invocation L"
  "has_instance (L\<lparr>receipts := cs\<rparr>) = has_instance L" "has_run (L\<lparr>receipts := cs\<rparr>) = has_run L"
  "has_invocation (L\<lparr>receipts := cs\<rparr>) = has_invocation L"
  "has_instance (L\<lparr>artifact_refs := as\<rparr>) = has_instance L" "has_run (L\<lparr>artifact_refs := as\<rparr>) = has_run L"
  "has_receipt (L\<lparr>artifact_refs := as\<rparr>) = has_receipt L" "has_invocation (L\<lparr>artifact_refs := as\<rparr>) = has_invocation L"
  "has_instance (L\<lparr>adapter_invocations := vs\<rparr>) = has_instance L" "has_run (L\<lparr>adapter_invocations := vs\<rparr>) = has_run L"
  "has_receipt (L\<lparr>adapter_invocations := vs\<rparr>) = has_receipt L"
  "has_instance (L\<lparr>events := es\<rparr>) = has_instance L" "has_run (L\<lparr>events := es\<rparr>) = has_run L"
  "has_receipt (L\<lparr>events := es\<rparr>) = has_receipt L" "has_invocation (L\<lparr>events := es\<rparr>) = has_invocation L"
  "has_instance (L\<lparr>child_sessions := ss\<rparr>) = has_instance L" "has_run (L\<lparr>child_sessions := ss\<rparr>) = has_run L"
  "has_receipt (L\<lparr>child_sessions := ss\<rparr>) = has_receipt L" "has_invocation (L\<lparr>child_sessions := ss\<rparr>) = has_invocation L"
  "has_instance (L\<lparr>human_decisions := ds\<rparr>) = has_instance L" "has_run (L\<lparr>human_decisions := ds\<rparr>) = has_run L"
  "has_receipt (L\<lparr>human_decisions := ds\<rparr>) = has_receipt L" "has_invocation (L\<lparr>human_decisions := ds\<rparr>) = has_invocation L"
  "has_instance (L\<lparr>late_results := ls\<rparr>) = has_instance L" "has_run (L\<lparr>late_results := ls\<rparr>) = has_run L"
  "has_receipt (L\<lparr>late_results := ls\<rparr>) = has_receipt L" "has_invocation (L\<lparr>late_results := ls\<rparr>) = has_invocation L"
  by (simp_all add: has_instance_def has_run_def has_receipt_def has_invocation_def fun_eq_iff)

lemma targets_appended [simp]:
  "has_instance (L\<lparr>workflow_instances := workflow_instances L @ [w]\<rparr>) i \<longleftrightarrow> has_instance L i \<or> i = wi_instance_id w"
  "has_run (L\<lparr>stage_runs := stage_runs L @ [r]\<rparr>) i \<longleftrightarrow> has_run L i \<or> i = sr_id r"
  "has_receipt (L\<lparr>receipts := receipts L @ [c]\<rparr>) i \<longleftrightarrow> has_receipt L i \<or> i = rc_id c"
  "has_invocation (L\<lparr>adapter_invocations := adapter_invocations L @ [v]\<rparr>) i \<longleftrightarrow> has_invocation L i \<or> i = ai_id v"
  by (auto simp: has_instance_def has_run_def has_receipt_def has_invocation_def)

section \<open>Statements keep integrity\<close>

text \<open>What a successful insertion says, one fact per table.\<close>

lemma insert_instance_Inr: "insert_instance r L = Inr L' \<longleftrightarrow>
    wi_instance_id r \<notin> wi_instance_id ` set (workflow_instances L) \<and>
    L' = L\<lparr>workflow_instances := workflow_instances L @ [r]\<rparr>"
  by (auto simp: insert_instance_def error_simps instances_table.inserted)

lemma insert_run_Inr: "insert_run r L = Inr L' \<longleftrightarrow>
    sr_id r \<notin> sr_id ` set (stage_runs L) \<and> run_slot r \<notin> run_slot ` set (stage_runs L) \<and>
    has_instance L (sr_instance_id r) \<and> opt_ref (\<lambda>i. has_run L i \<or> i = sr_id r) (sr_parent r) \<and>
    L' = L\<lparr>stage_runs := stage_runs L @ [r]\<rparr>"
  by (auto simp: insert_run_def error_simps runs_table.inserted slots_table.inserted)

lemma insert_receipt_Inr: "insert_receipt r L = Inr L' \<longleftrightarrow>
    rc_id r \<notin> rc_id ` set (receipts L) \<and> has_instance L (rc_instance_id r) \<and>
    opt_ref (has_run L) (rc_stage_run_id r) \<and> L' = L\<lparr>receipts := receipts L @ [r]\<rparr>"
  by (auto simp: insert_receipt_def error_simps receipts_table.inserted)

lemma insert_artifact_Inr: "insert_artifact r L = Inr L' \<longleftrightarrow>
    ar_id r \<notin> ar_id ` set (artifact_refs L) \<and> has_instance L (ar_instance_id r) \<and>
    opt_ref (has_run L) (ar_stage_run_id r) \<and> opt_ref (has_receipt L) (ar_receipt_id r) \<and>
    L' = L\<lparr>artifact_refs := artifact_refs L @ [r]\<rparr>"
  by (auto simp: insert_artifact_def error_simps artifacts_table.inserted has_receipt_def [abs_def])

lemma insert_invocation_Inr: "insert_invocation r L = Inr L' \<longleftrightarrow>
    ai_id r \<notin> ai_id ` set (adapter_invocations L) \<and> has_instance L (ai_instance_id r) \<and>
    has_run L (ai_stage_run_id r) \<and> L' = L\<lparr>adapter_invocations := adapter_invocations L @ [r]\<rparr>"
  by (auto simp: insert_invocation_def error_simps invocations_table.inserted)

lemma insert_event_Inr: "insert_event r L = Inr L' \<longleftrightarrow>
    ev_id r \<notin> ev_id ` set (events L) \<and> has_instance L (ev_instance_id r) \<and>
    opt_ref (has_run L) (ev_stage_run_id r) \<and> L' = L\<lparr>events := events L @ [r]\<rparr>"
  by (auto simp: insert_event_def error_simps events_table.inserted)

lemma insert_child_Inr: "insert_child r L = Inr L' \<longleftrightarrow>
    cs_id r \<notin> cs_id ` set (child_sessions L) \<and> has_run L (cs_parent r) \<and>
    opt_ref (has_invocation L) (cs_invocation_id r) \<and> L' = L\<lparr>child_sessions := child_sessions L @ [r]\<rparr>"
  by (auto simp: insert_child_def error_simps children_table.inserted has_invocation_def [abs_def])

lemma insert_decision_Inr: "insert_decision r L = Inr L' \<longleftrightarrow>
    hd_id r \<notin> hd_id ` set (human_decisions L) \<and> has_instance L (hd_instance_id r) \<and>
    has_run L (hd_stage_run_id r) \<and> L' = L\<lparr>human_decisions := human_decisions L @ [r]\<rparr>"
  by (auto simp: insert_decision_def error_simps decisions_table.inserted)

lemma insert_late_Inr: "insert_late r L = Inr L' \<longleftrightarrow>
    lr_id r \<notin> lr_id ` set (late_results L) \<and> has_instance L (lr_instance_id r) \<and>
    has_run L (lr_stage_run_id r) \<and> L' = L\<lparr>late_results := late_results L @ [r]\<rparr>"
  by (auto simp: insert_late_def error_simps late_table.inserted)

lemmas insert_Inr = insert_instance_Inr insert_run_Inr insert_receipt_Inr insert_artifact_Inr
  insert_invocation_Inr insert_event_Inr insert_child_Inr insert_decision_Inr insert_late_Inr

text \<open>The row an event emission appends.\<close>

definition event_of :: "env \<Rightarrow> string \<Rightarrow> string option \<Rightarrow> string \<Rightarrow> string \<Rightarrow> pyval \<Rightarrow> string \<Rightarrow> ledger \<Rightarrow> event_row" where
  "event_of E i s ty a p c L = \<lparr>ev_id = uuid_hex E (uuid_draws L), ev_instance_id = i, ev_stage_run_id = s,
     ev_type = ty, ev_actor = a, ev_payload = p, ev_created_at = c\<rparr>"

lemma emit_Inr: "emit E i s ty a p c L = Inr L' \<longleftrightarrow>
    uuid_hex E (uuid_draws L) \<notin> ev_id ` set (events L) \<and> has_instance L i \<and> opt_ref (has_run L) s \<and>
    L' = L\<lparr>uuid_draws := Suc (uuid_draws L), events := events L @ [event_of E i s ty a p c L]\<rparr>"
  by (auto simp: emit_def next_uuid_def insert_event_Inr event_of_def)

lemma insert_instance_ok: "insert_instance r L = Inr L' \<Longrightarrow> ledger_ok L \<Longrightarrow> ledger_ok L'"
  unfolding ledger_ok_def references_resolve_def
  by (auto simp: insert_instance_Inr keys_distinct_def elim!: resolves_mono)

lemma insert_run_ok:
  assumes "insert_run r L = Inr L'" "ledger_ok L"
  shows "ledger_ok L'"
proof -
  from assms(1) have L': "L' = L\<lparr>stage_runs := stage_runs L @ [r]\<rparr>"
    and refs: "opt_ref (\<lambda>i. has_run L i \<or> i = sr_id r) (sr_parent r)" by (simp_all add: insert_run_Inr)
  have runs: "has_run L' = (\<lambda>i. has_run L i \<or> i = sr_id r)" by (simp add: L' fun_eq_iff)
  have "resolves (has_instance L) (has_run L') (has_receipt L) (has_invocation L) L"
    using assms(2) unfolding ledger_ok_def references_resolve_def runs by (auto elim!: resolves_mono)
  then have "references_resolve L'"
    using assms(1) refs unfolding references_resolve_def by (simp add: insert_run_Inr runs [simplified L'])
  moreover have "keys_distinct L'"
    using assms by (auto simp: insert_run_Inr ledger_ok_def keys_distinct_def)
  ultimately show ?thesis by (simp add: ledger_ok_def)
qed

lemma receipts_grow_ok: "insert_receipt r L = Inr L' \<Longrightarrow> ledger_ok L \<Longrightarrow> ledger_ok L'"
  unfolding ledger_ok_def references_resolve_def
  by (auto simp: insert_receipt_Inr keys_distinct_def elim!: resolves_mono)

lemma insert_artifact_ok: "insert_artifact r L = Inr L' \<Longrightarrow> ledger_ok L \<Longrightarrow> ledger_ok L'"
  unfolding ledger_ok_def references_resolve_def by (auto simp: insert_artifact_Inr keys_distinct_def)

lemma invocations_grow_ok: "insert_invocation r L = Inr L' \<Longrightarrow> ledger_ok L \<Longrightarrow> ledger_ok L'"
  unfolding ledger_ok_def references_resolve_def
  by (auto simp: insert_invocation_Inr keys_distinct_def elim!: resolves_mono)

lemma insert_event_ok: "insert_event r L = Inr L' \<Longrightarrow> ledger_ok L \<Longrightarrow> ledger_ok L'"
  unfolding ledger_ok_def references_resolve_def by (auto simp: insert_event_Inr keys_distinct_def)

lemma insert_child_ok: "insert_child r L = Inr L' \<Longrightarrow> ledger_ok L \<Longrightarrow> ledger_ok L'"
  unfolding ledger_ok_def references_resolve_def by (auto simp: insert_child_Inr keys_distinct_def)

lemma insert_decision_ok: "insert_decision r L = Inr L' \<Longrightarrow> ledger_ok L \<Longrightarrow> ledger_ok L'"
  unfolding ledger_ok_def references_resolve_def by (auto simp: insert_decision_Inr keys_distinct_def)

lemma insert_late_ok: "insert_late r L = Inr L' \<Longrightarrow> ledger_ok L \<Longrightarrow> ledger_ok L'"
  unfolding ledger_ok_def references_resolve_def by (auto simp: insert_late_Inr keys_distinct_def)

lemma draw_ok [simp]: "ledger_ok (L\<lparr>uuid_draws := n\<rparr>) = ledger_ok L"
  by (simp add: ledger_ok_def references_resolve_def keys_distinct_def)

lemma emit_ok: "emit E i s ty a p c L = Inr L' \<Longrightarrow> ledger_ok L \<Longrightarrow> ledger_ok L'"
  unfolding emit_def next_uuid_def Let_def prod.case by (erule insert_event_ok) (simp add: draw_ok)

text \<open>Updates rewrite rows in place and keep the columns keys and references are made of.\<close>

definition same_run_keys :: "stage_run_row \<Rightarrow> stage_run_row \<Rightarrow> bool" where
  "same_run_keys r s \<longleftrightarrow> sr_id s = sr_id r \<and> sr_instance_id s = sr_instance_id r \<and>
     sr_stage_id s = sr_stage_id r \<and> sr_attempt s = sr_attempt r \<and> sr_parent s = sr_parent r"

lemma update_runs_ok:
  assumes keys: "\<And>r. r \<in> set (stage_runs L) \<Longrightarrow> P r \<Longrightarrow> same_run_keys r (f r)" and ok: "ledger_ok L"
  shows "ledger_ok (update_runs P f L)"
proof -
  let ?L = "update_runs P f L"
  define g where "g = (\<lambda>r. if P r then f r else r)"
  have runs: "stage_runs ?L = map g (stage_runs L)" by (simp add: update_runs_def update_where_def g_def)
  have g: "same_run_keys r (g r)" if "r \<in> set (stage_runs L)" for r
    using keys[OF that] by (auto simp: same_run_keys_def g_def)
  have ids: "map sr_id (stage_runs ?L) = map sr_id (stage_runs L)"
    and slots: "map run_slot (stage_runs ?L) = map run_slot (stage_runs L)"
    using g by (simp_all add: runs same_run_keys_def run_slot_def)
  from ids have "sr_id ` set (stage_runs ?L) = sr_id ` set (stage_runs L)" by (metis set_map)
  then have run: "has_run ?L = has_run L" by (simp add: has_run_def fun_eq_iff)
  have others: "has_instance ?L = has_instance L" "has_receipt ?L = has_receipt L" "has_invocation ?L = has_invocation L"
    by (simp_all add: update_runs_def)
  have "\<forall>r \<in> set (stage_runs ?L). has_instance L (sr_instance_id r) \<and> opt_ref (has_run L) (sr_parent r)"
    using ok g by (simp add: runs ledger_ok_def references_resolve_def resolves_def same_run_keys_def)
  then have "references_resolve ?L" using ok
    unfolding ledger_ok_def references_resolve_def run others resolves_def by (simp add: update_runs_def)
  moreover have "keys_distinct ?L" using ok ids slots
    unfolding ledger_ok_def keys_distinct_def by (simp add: update_runs_def)
  ultimately show ?thesis by (simp add: ledger_ok_def)
qed

lemma update_instances_ok:
  assumes keys: "\<And>r. P r \<Longrightarrow> wi_instance_id (f r) = wi_instance_id r" and ok: "ledger_ok L"
  shows "ledger_ok (update_instances P f L)"
proof -
  let ?L = "update_instances P f L"
  have ids: "map wi_instance_id (workflow_instances ?L) = map wi_instance_id (workflow_instances L)"
    by (simp add: update_instances_def update_where_map_key keys)
  then have "wi_instance_id ` set (workflow_instances ?L) = wi_instance_id ` set (workflow_instances L)"
    by (metis set_map)
  then have inst: "has_instance ?L = has_instance L" by (simp add: has_instance_def fun_eq_iff)
  have "references_resolve ?L" using ok
    unfolding ledger_ok_def references_resolve_def inst by (simp add: update_instances_def)
  moreover have "keys_distinct ?L" using ok ids
    unfolding ledger_ok_def keys_distinct_def by (simp add: update_instances_def)
  ultimately show ?thesis by (simp add: ledger_ok_def)
qed

lemma update_invocations_ok:
  assumes keys: "\<And>r. P r \<Longrightarrow> ai_id (f r) = ai_id r \<and> ai_instance_id (f r) = ai_instance_id r \<and>
      ai_stage_run_id (f r) = ai_stage_run_id r" and ok: "ledger_ok L"
  shows "ledger_ok (update_invocations P f L)"
proof -
  let ?L = "update_invocations P f L"
  define g where "g = (\<lambda>r. if P r then f r else r)"
  have rows: "adapter_invocations ?L = map g (adapter_invocations L)"
    by (simp add: update_invocations_def update_where_def g_def)
  have g: "ai_id (g r) = ai_id r" "ai_instance_id (g r) = ai_instance_id r" "ai_stage_run_id (g r) = ai_stage_run_id r" for r
    using keys by (simp_all add: g_def)
  have ids: "map ai_id (adapter_invocations ?L) = map ai_id (adapter_invocations L)"
    by (simp add: rows g)
  then have "ai_id ` set (adapter_invocations ?L) = ai_id ` set (adapter_invocations L)" by (metis set_map)
  then have calls: "has_invocation ?L = has_invocation L" by (simp add: has_invocation_def fun_eq_iff)
  have others: "has_run ?L = has_run L" "has_receipt ?L = has_receipt L" "has_instance ?L = has_instance L"
    by (simp_all add: update_invocations_def)
  have "\<forall>a \<in> set (adapter_invocations ?L). has_instance L (ai_instance_id a) \<and> has_run L (ai_stage_run_id a)"
    using ok by (simp add: rows g ledger_ok_def references_resolve_def resolves_def)
  then have "references_resolve ?L" using ok
    unfolding ledger_ok_def references_resolve_def calls others resolves_def by (simp add: update_invocations_def)
  moreover have "keys_distinct ?L" using ok ids
    unfolding ledger_ok_def keys_distinct_def by (simp add: update_invocations_def)
  ultimately show ?thesis by (simp add: ledger_ok_def)
qed

lemma update_children_ok:
  assumes keys: "\<And>r. P r \<Longrightarrow> cs_id (f r) = cs_id r \<and> cs_parent (f r) = cs_parent r \<and>
      cs_invocation_id (f r) = cs_invocation_id r" and ok: "ledger_ok L"
  shows "ledger_ok (update_children P f L)"
proof -
  let ?L = "update_children P f L"
  define g where "g = (\<lambda>r. if P r then f r else r)"
  have rows: "child_sessions ?L = map g (child_sessions L)"
    by (simp add: update_children_def update_where_def g_def)
  have g: "cs_id (g r) = cs_id r" "cs_parent (g r) = cs_parent r" "cs_invocation_id (g r) = cs_invocation_id r" for r
    using keys by (simp_all add: g_def)
  have ids: "map cs_id (child_sessions ?L) = map cs_id (child_sessions L)"
    by (simp add: rows g)
  have others: "has_run ?L = has_run L" "has_receipt ?L = has_receipt L" "has_instance ?L = has_instance L"
    "has_invocation ?L = has_invocation L"
    by (simp_all add: update_children_def)
  have "\<forall>c \<in> set (child_sessions ?L). has_run L (cs_parent c) \<and> opt_ref (has_invocation L) (cs_invocation_id c)"
    using ok by (simp add: rows g ledger_ok_def references_resolve_def resolves_def)
  then have "references_resolve ?L" using ok
    unfolding ledger_ok_def references_resolve_def others resolves_def by (simp add: update_children_def)
  moreover have "keys_distinct ?L" using ok ids
    unfolding ledger_ok_def keys_distinct_def by (simp add: update_children_def)
  ultimately show ?thesis by (simp add: ledger_ok_def)
qed

end
