(* ===== verification/Ledger_Actions.thy ===== *)
theory Ledger_Actions
  imports Ledger_Integrity
begin

text \<open>
  The abstract ledger: what any transaction may do, one primitive change at a time.  A stage
  run moves along \<open>lifecycle\<close>, rows of the evidence tables are only appended, identities never
  change, and a run starts in one change together with its \<open>stage_started\<close> event.  Every
  operation of the ledger refines a sequence of these actions (\<^verbatim>\<open>Ledger_Refinement\<close>), so
  the invariants below, proved once per action, hold for all of them.
\<close>

section \<open>The lifecycle of a stage run\<close>

definition verdict_status :: "StageRunStatus \<Rightarrow> bool" where
  "verdict_status s \<longleftrightarrow> s \<in> {SR_SUCCEEDED, SR_FAILED, SR_INVALID_OUTPUT, SR_TIMED_OUT, SR_BLOCKED, SR_APPROVAL_DENIED}"

definition open_status :: "StageRunStatus \<Rightarrow> bool" where
  "open_status s \<longleftrightarrow> s \<in> {SR_QUEUED, SR_CLAIMED, SR_STARTED, SR_WAITING, SR_WAITING_ON_CHILD,
     SR_WAITING_ON_HUMAN, SR_VALIDATING, SR_APPROVAL_REQUIRED}"

inductive lifecycle :: "StageRunStatus \<Rightarrow> StageRunStatus \<Rightarrow> bool" where
  claimed: "lifecycle SR_QUEUED SR_CLAIMED"
| started: "lifecycle SR_CLAIMED SR_STARTED"
| requeued: "lifecycle SR_CLAIMED SR_QUEUED"
| settled: "active_lease s \<Longrightarrow> verdict_status t \<Longrightarrow> lifecycle s t"
| gated: "active_lease s \<Longrightarrow> lifecycle s SR_WAITING_ON_HUMAN"
| decided: "verdict_status t \<Longrightarrow> lifecycle SR_WAITING_ON_HUMAN t"
| restored: "lifecycle SR_BLOCKED SR_WAITING_ON_HUMAN"
| retired: "open_status s \<Longrightarrow> lifecycle s SR_SUPERSEDED"

inductive_cases lifecycle_from_queued: "lifecycle s SR_QUEUED"
inductive_cases lifecycle_from_claimed: "lifecycle s SR_CLAIMED"

code_pred (modes: i \<Rightarrow> i \<Rightarrow> bool) lifecycle .

lemma lifecycle_into_queued: "lifecycle s SR_QUEUED \<longleftrightarrow> s = SR_CLAIMED"
  by (auto elim: lifecycle_from_queued simp: verdict_status_def intro: lifecycle.requeued)

lemma lifecycle_into_claimed: "lifecycle s SR_CLAIMED \<longleftrightarrow> s = SR_QUEUED"
  by (auto elim: lifecycle_from_claimed simp: verdict_status_def intro: lifecycle.claimed)

text \<open>Final statuses: nothing leaves them.\<close>

definition final_status :: "StageRunStatus \<Rightarrow> bool" where
  "final_status s \<longleftrightarrow> s \<in> {SR_SUCCEEDED, SR_FAILED, SR_INVALID_OUTPUT, SR_TIMED_OUT, SR_APPROVAL_DENIED, SR_SUPERSEDED}"

lemma final_status_stuck: "final_status s \<Longrightarrow> \<not> lifecycle s t"
  by (auto simp: final_status_def active_lease_def open_status_def elim: lifecycle.cases)

lemma final_status_closed: "lifecycle\<^sup>*\<^sup>* s t \<Longrightarrow> final_status s \<Longrightarrow> t = s"
  by (erule converse_rtranclpE) (auto simp: final_status_stuck)

section \<open>Actions\<close>

text \<open>The identity of a run: the columns no operation rewrites.\<close>

definition same_run :: "stage_run_row \<Rightarrow> stage_run_row \<Rightarrow> bool" where
  "same_run r s \<longleftrightarrow> same_run_keys r s \<and> sr_input_hash s = sr_input_hash r \<and> sr_created_at s = sr_created_at r"

definition same_instance :: "instance_row \<Rightarrow> instance_row \<Rightarrow> bool" where
  "same_instance w x \<longleftrightarrow> wi_instance_id x = wi_instance_id w \<and> wi_workflow_def_id x = wi_workflow_def_id w \<and>
     wi_workflow_version x = wi_workflow_version w \<and> wi_input_hash x = wi_input_hash w \<and>
     wi_input_snapshot x = wi_input_snapshot w \<and> wi_definition_json x = wi_definition_json w \<and>
     wi_definition_hash x = wi_definition_hash w \<and> wi_source_uri x = wi_source_uri w \<and>
     wi_created_at x = wi_created_at w \<and> wi_recovery_epoch w \<le> wi_recovery_epoch x"

definition lease_cleared :: "stage_run_row \<Rightarrow> bool" where
  "lease_cleared r \<longleftrightarrow> sr_lease_owner r = None \<and> sr_lease_token r = None \<and> sr_lease_expires_at r = None"

text \<open>
  A rewrite of a run that is neither a claim nor a start: it keeps the lease and the status
  (a renewal or a pin), or clears the lease along the lifecycle, or moves a run that holds no
  lease along the lifecycle.  Requeueing needs the absence of start evidence.
\<close>

definition run_rewrite :: "ledger \<Rightarrow> stage_run_row \<Rightarrow> stage_run_row \<Rightarrow> bool" where
  "run_rewrite L r s \<longleftrightarrow> same_run r s \<and>
     ((sr_status s = sr_status r \<and> sr_lease_owner s = sr_lease_owner r \<and> sr_lease_token s = sr_lease_token r \<and>
         (sr_lease_expires_at s = sr_lease_expires_at r \<or> sr_lease_expires_at s \<noteq> None)) \<or>
      (lifecycle (sr_status r) (sr_status s) \<or> sr_status s = sr_status r) \<and> lease_cleared s \<and>
         (sr_status s = SR_QUEUED \<longrightarrow> (\<forall>e \<in> set (events L). ev_stage_run_id e = Some (sr_id r) \<longrightarrow> ev_type e \<noteq> ''stage_started'')) \<or>
      lifecycle (sr_status r) (sr_status s) \<and> \<not> active_lease (sr_status r) \<and> sr_status s \<noteq> SR_CLAIMED \<and>
         sr_lease_owner s = sr_lease_owner r \<and> sr_lease_token s = sr_lease_token r)"

definition claims :: "string \<Rightarrow> stage_run_row \<Rightarrow> stage_run_row \<Rightarrow> bool" where
  "claims token r s \<longleftrightarrow> same_run r s \<and> sr_status s = SR_CLAIMED \<and> sr_lease_owner s \<noteq> None \<and>
     sr_lease_token s = Some token \<and> sr_lease_expires_at s \<noteq> None"

definition starts :: "stage_run_row \<Rightarrow> stage_run_row \<Rightarrow> bool" where
  "starts r s \<longleftrightarrow> same_run r s \<and> sr_status r = SR_CLAIMED \<and> sr_status s = SR_STARTED \<and>
     sr_lease_owner s = sr_lease_owner r \<and> sr_lease_token s = sr_lease_token r \<and>
     sr_lease_expires_at s = sr_lease_expires_at r"

inductive action :: "(nat \<Rightarrow> string) \<Rightarrow> ledger \<Rightarrow> ledger \<Rightarrow> bool" for u where
  draw: "action u L (L\<lparr>uuid_draws := Suc (uuid_draws L)\<rparr>)"
| new_instance: "insert_instance w L = Inr L' \<Longrightarrow> action u L L'"
| set_instances: "(\<And>w. w \<in> set (workflow_instances L) \<Longrightarrow> P w \<Longrightarrow> same_instance w (f w)) \<Longrightarrow> action u L (update_instances P f L)"
| new_run: "insert_run r L = Inr L' \<Longrightarrow> sr_lease_owner r = None \<Longrightarrow> action u L L'"
| claim: "(\<And>r. r \<in> set (stage_runs L) \<Longrightarrow> P r \<Longrightarrow> sr_id r = i \<and> sr_status r = SR_QUEUED \<and> claims (u (uuid_draws L)) r (f r)) \<Longrightarrow>
    action u L (update_runs P f (L\<lparr>uuid_draws := Suc (uuid_draws L)\<rparr>))"
| start: "(\<And>r. r \<in> set (stage_runs L) \<Longrightarrow> P r \<Longrightarrow> sr_id r = i \<and> starts r (f r)) \<Longrightarrow>
    (\<exists>r \<in> set (stage_runs L). P r) \<Longrightarrow> uuid_hex E = u \<Longrightarrow>
    emit E w (Some i) ''stage_started'' a p c (update_runs P f L) = Inr L' \<Longrightarrow> action u L L'"
| rewrite: "(\<And>r. r \<in> set (stage_runs L) \<Longrightarrow> P r \<Longrightarrow> run_rewrite L r (f r)) \<Longrightarrow> action u L (update_runs P f L)"
| log: "emit E w s ty a p c L = Inr L' \<Longrightarrow> ty \<noteq> ''stage_started'' \<Longrightarrow> uuid_hex E = u \<Longrightarrow> action u L L'"
| new_receipt: "insert_receipt x L = Inr L' \<Longrightarrow> action u L L'"
| new_artifact: "insert_artifact y L = Inr L' \<Longrightarrow> action u L L'"
| new_invocation: "insert_invocation v L = Inr L' \<Longrightarrow> action u L L'"
| set_invocations: "(\<And>v. Q v \<Longrightarrow> ai_id (g v) = ai_id v \<and> ai_instance_id (g v) = ai_instance_id v \<and>
    ai_stage_run_id (g v) = ai_stage_run_id v) \<Longrightarrow> action u L (update_invocations Q g L)"
| new_child: "insert_child z L = Inr L' \<Longrightarrow> action u L L'"
| set_children: "(\<And>z. R z \<Longrightarrow> cs_id (h z) = cs_id z \<and> cs_parent (h z) = cs_parent z \<and>
    cs_invocation_id (h z) = cs_invocation_id z) \<Longrightarrow> action u L (update_children R h L)"
| new_decision: "insert_decision d L = Inr L' \<Longrightarrow> action u L L'"
| new_late: "insert_late l L = Inr L' \<Longrightarrow> action u L L'"

abbreviation actions :: "(nat \<Rightarrow> string) \<Rightarrow> ledger \<Rightarrow> ledger \<Rightarrow> bool" where
  "actions u \<equiv> (action u)\<^sup>*\<^sup>*"

section \<open>Integrity is kept\<close>

lemma same_run_keysI: "same_run r s \<Longrightarrow> same_run_keys r s"
  by (simp add: same_run_def)

lemma action_ledger_ok:
  assumes "action u L L'" "ledger_ok L"
  shows "ledger_ok L'"
  using assms
proof (cases rule: action.cases)
  case (set_instances P f)
  have "wi_instance_id (f w) = wi_instance_id w" if "w \<in> set (workflow_instances L)" "P w" for w
    using set_instances(2) that by (simp add: same_instance_def)
  then have "ledger_ok (update_instances (\<lambda>w. w \<in> set (workflow_instances L) \<and> P w) f L)"
    using assms(2) by (intro update_instances_ok) auto
  moreover have "update_instances (\<lambda>w. w \<in> set (workflow_instances L) \<and> P w) f L = update_instances P f L"
    by (simp add: update_instances_def update_where_def)
  ultimately show ?thesis using set_instances(1) by simp
next
  case (claim P i f)
  then show ?thesis using assms(2)
    by (auto intro!: update_runs_ok simp: claims_def same_run_def)
next
  case (start P i f E w a p c)
  then have "ledger_ok (update_runs P f L)"
    using assms(2) by (intro update_runs_ok) (auto simp: starts_def same_run_def)
  with start(4) show ?thesis by (rule emit_ok)
next
  case (rewrite P f)
  then show ?thesis using assms(2) by (auto intro!: update_runs_ok simp: run_rewrite_def same_run_def)
qed (use assms(2) in \<open>simp_all add: update_invocations_ok update_children_ok\<close>,
    auto intro: insert_instance_ok insert_run_ok receipts_grow_ok insert_artifact_ok
      invocations_grow_ok insert_child_ok insert_decision_ok insert_late_ok emit_ok)

lemma actions_ledger_ok: "actions u L L' \<Longrightarrow> ledger_ok L \<Longrightarrow> ledger_ok L'"
  by (induction rule: rtranclp_induct) (auto intro: action_ledger_ok)

section \<open>History is preserved\<close>

text \<open>
  \<open>L'\<close> continues \<open>L\<close>: evidence tables only grow at their end, every run and instance is still
  there with its identity, each run has moved along the lifecycle, and the recovery epoch of
  an instance has not gone back.
\<close>

definition runs_continue :: "ledger \<Rightarrow> ledger \<Rightarrow> bool" where
  "runs_continue L L' \<longleftrightarrow> (\<forall>r \<in> set (stage_runs L). \<exists>s \<in> set (stage_runs L').
     same_run r s \<and> lifecycle\<^sup>*\<^sup>* (sr_status r) (sr_status s))"

definition instances_continue :: "ledger \<Rightarrow> ledger \<Rightarrow> bool" where
  "instances_continue L L' \<longleftrightarrow>
     (\<forall>w \<in> set (workflow_instances L). \<exists>x \<in> set (workflow_instances L'). same_instance w x)"

definition evidence_grows :: "ledger \<Rightarrow> ledger \<Rightarrow> bool" where
  "evidence_grows L L' \<longleftrightarrow> prefix (events L) (events L') \<and> prefix (receipts L) (receipts L') \<and>
     prefix (artifact_refs L) (artifact_refs L') \<and> prefix (human_decisions L) (human_decisions L') \<and>
     prefix (late_results L) (late_results L') \<and>
     prefix (map ai_id (adapter_invocations L)) (map ai_id (adapter_invocations L')) \<and>
     prefix (map cs_id (child_sessions L)) (map cs_id (child_sessions L'))"

definition history :: "ledger \<Rightarrow> ledger \<Rightarrow> bool" where
  "history L L' \<longleftrightarrow> runs_continue L L' \<and> instances_continue L L' \<and> evidence_grows L L'"

lemma same_run_refl [simp]: "same_run r r"
  by (simp add: same_run_def same_run_keys_def)

lemma same_instance_refl [simp]: "same_instance w w"
  by (simp add: same_instance_def)

lemma same_run_trans: "same_run r s \<Longrightarrow> same_run s t \<Longrightarrow> same_run r t"
  by (simp add: same_run_def same_run_keys_def)

lemma same_instance_trans: "same_instance w x \<Longrightarrow> same_instance x y \<Longrightarrow> same_instance w y"
  by (simp add: same_instance_def)

lemma runs_continue_subset: "set (stage_runs L) \<subseteq> set (stage_runs L') \<Longrightarrow> runs_continue L L'"
  unfolding runs_continue_def using same_run_refl rtranclp.rtrancl_refl[of lifecycle] by blast

lemma instances_continue_subset:
  "set (workflow_instances L) \<subseteq> set (workflow_instances L') \<Longrightarrow> instances_continue L L'"
  unfolding instances_continue_def using same_instance_refl by blast

lemma history_grow:
  "set (stage_runs L) \<subseteq> set (stage_runs L') \<Longrightarrow> set (workflow_instances L) \<subseteq> set (workflow_instances L') \<Longrightarrow>
   evidence_grows L L' \<Longrightarrow> history L L'"
  by (simp add: history_def runs_continue_subset instances_continue_subset)

lemma history_refl [simp]: "history L L"
  by (rule history_grow) (simp_all add: evidence_grows_def)

lemma runs_continue_trans:
  assumes "runs_continue L M" "runs_continue M N"
  shows "runs_continue L N"
  unfolding runs_continue_def
proof
  fix r assume "r \<in> set (stage_runs L)"
  then obtain s where s: "s \<in> set (stage_runs M)" "same_run r s" "lifecycle\<^sup>*\<^sup>* (sr_status r) (sr_status s)"
    using assms(1) unfolding runs_continue_def by blast
  then obtain t where t: "t \<in> set (stage_runs N)" "same_run s t" "lifecycle\<^sup>*\<^sup>* (sr_status s) (sr_status t)"
    using assms(2) unfolding runs_continue_def by blast
  show "\<exists>t \<in> set (stage_runs N). same_run r t \<and> lifecycle\<^sup>*\<^sup>* (sr_status r) (sr_status t)"
    using t(1) same_run_trans[OF s(2) t(2)] rtranclp_trans[OF s(3) t(3)] by blast
qed

lemma history_trans: "history L M \<Longrightarrow> history M N \<Longrightarrow> history L N"
  unfolding history_def
proof (elim conjE, intro conjI)
  show "runs_continue L M \<Longrightarrow> runs_continue M N \<Longrightarrow> runs_continue L N" by (rule runs_continue_trans)
  show "instances_continue L M \<Longrightarrow> instances_continue M N \<Longrightarrow> instances_continue L N"
    unfolding instances_continue_def using same_instance_trans by blast
  show "evidence_grows L M \<Longrightarrow> evidence_grows M N \<Longrightarrow> evidence_grows L N"
    unfolding evidence_grows_def by (elim conjE, intro conjI; (rule prefix_order.trans; assumption))
qed

lemma runs_continue_update:
  assumes "\<And>r. r \<in> set (stage_runs L) \<Longrightarrow> P r \<Longrightarrow> same_run r (f r) \<and> lifecycle\<^sup>*\<^sup>* (sr_status r) (sr_status (f r))"
  shows "runs_continue L (update_runs P f L)"
  unfolding runs_continue_def
proof
  fix r assume r: "r \<in> set (stage_runs L)"
  let ?s = "if P r then f r else r"
  have "?s \<in> set (stage_runs (update_runs P f L))" using r by (auto simp: update_runs_def update_where_def)
  moreover have "same_run r ?s \<and> lifecycle\<^sup>*\<^sup>* (sr_status r) (sr_status ?s)" using assms[OF r] by simp
  ultimately show "\<exists>s \<in> set (stage_runs (update_runs P f L)). same_run r s \<and> lifecycle\<^sup>*\<^sup>* (sr_status r) (sr_status s)"
    by blast
qed

lemma history_update_runs:
  assumes "\<And>r. r \<in> set (stage_runs L) \<Longrightarrow> P r \<Longrightarrow> same_run r (f r) \<and> lifecycle\<^sup>*\<^sup>* (sr_status r) (sr_status (f r))"
  shows "history L (update_runs P f L)"
proof -
  have "instances_continue L (update_runs P f L)"
    by (rule instances_continue_subset) (simp add: update_runs_def)
  moreover have "evidence_grows L (update_runs P f L)" by (simp add: evidence_grows_def update_runs_def)
  ultimately show ?thesis using runs_continue_update[of L P f, OF assms] by (simp add: history_def)
qed

lemma instances_continue_update:
  assumes "\<And>w. w \<in> set (workflow_instances L) \<Longrightarrow> P w \<Longrightarrow> same_instance w (f w)"
  shows "instances_continue L (update_instances P f L)"
  unfolding instances_continue_def
proof
  fix w assume w: "w \<in> set (workflow_instances L)"
  let ?x = "if P w then f w else w"
  have "?x \<in> set (workflow_instances (update_instances P f L))"
    using w by (auto simp: update_instances_def update_where_def)
  moreover have "same_instance w ?x" using assms[OF w] by simp
  ultimately show "\<exists>x \<in> set (workflow_instances (update_instances P f L)). same_instance w x" by blast
qed

lemma history_update_instances:
  assumes "\<And>w. w \<in> set (workflow_instances L) \<Longrightarrow> P w \<Longrightarrow> same_instance w (f w)"
  shows "history L (update_instances P f L)"
proof -
  have "runs_continue L (update_instances P f L)"
    by (rule runs_continue_subset) (simp add: update_instances_def)
  moreover have "evidence_grows L (update_instances P f L)" by (simp add: evidence_grows_def update_instances_def)
  ultimately show ?thesis using instances_continue_update[of L P f, OF assms] by (simp add: history_def)
qed

lemma history_draws: "history L (L\<lparr>uuid_draws := n\<rparr>)"
  by (rule history_grow) (simp_all add: evidence_grows_def)

lemma history_emit: "emit E w s ty a p c L = Inr L' \<Longrightarrow> history L L'"
  by (rule history_grow) (auto simp: emit_Inr evidence_grows_def)

lemma run_rewrite_lifecycle: "run_rewrite L r s \<Longrightarrow> same_run r s \<and> lifecycle\<^sup>*\<^sup>* (sr_status r) (sr_status s)"
  by (auto simp: run_rewrite_def)

lemma action_history:
  assumes "action u L L'"
  shows "history L L'"
  using assms
proof (cases rule: action.cases)
  case draw
  then show ?thesis by (simp add: history_draws)
next
  case (set_instances P f)
  then show ?thesis using history_update_instances[of L P f] by blast
next
  case (claim P i f)
  have "history (L\<lparr>uuid_draws := Suc (uuid_draws L)\<rparr>) L'"
    unfolding claim(1) using claim(2)
    by (intro history_update_runs) (auto simp: claims_def intro: lifecycle.claimed)
  then show ?thesis using history_draws history_trans by blast
next
  case (start P i f E w a p c)
  have "history L (update_runs P f L)"
    using start(1) by (intro history_update_runs) (auto simp: starts_def intro: lifecycle.started)
  then show ?thesis using history_emit[OF start(4)] history_trans by blast
next
  case (rewrite P f)
  then show ?thesis using history_update_runs[of L P f] run_rewrite_lifecycle by blast
next
  case (log E w s ty a p c)
  then show ?thesis by (simp add: history_emit)
next
  case (set_invocations Q g)
  then show ?thesis
    by (intro history_grow) (simp_all add: evidence_grows_def update_invocations_def update_where_map_key)
next
  case (set_children R h)
  then show ?thesis
    by (intro history_grow) (simp_all add: evidence_grows_def update_children_def update_where_map_key)
qed (rule history_grow, auto simp: insert_Inr evidence_grows_def)+

lemma actions_history: "actions u L L' \<Longrightarrow> history L L'"
  by (induction rule: rtranclp_induct) (auto intro: history_trans action_history)

section \<open>Leases\<close>

text \<open>
  A held lease (an owner) belongs to a run in an active status, has an expiry, and carries a
  token drawn from the uuid supply that no other held lease carries.
\<close>

definition leases_ok :: "(nat \<Rightarrow> string) \<Rightarrow> ledger \<Rightarrow> bool" where
  "leases_ok u L \<longleftrightarrow>
     (\<forall>r \<in> set (stage_runs L). sr_lease_owner r \<noteq> None \<longrightarrow>
        active_lease (sr_status r) \<and> sr_lease_expires_at r \<noteq> None \<and>
        (\<exists>k < uuid_draws L. sr_lease_token r = Some (u k))) \<and>
     (\<forall>r \<in> set (stage_runs L). \<forall>s \<in> set (stage_runs L). sr_lease_owner r \<noteq> None \<longrightarrow>
        sr_lease_owner s \<noteq> None \<longrightarrow> sr_lease_token r = sr_lease_token s \<longrightarrow> sr_id r = sr_id s)"

lemma leases_okD:
  assumes "leases_ok u L" "r \<in> set (stage_runs L)" "sr_lease_owner r \<noteq> None"
  shows "active_lease (sr_status r)" "sr_lease_expires_at r \<noteq> None"
    "\<exists>k < uuid_draws L. sr_lease_token r = Some (u k)"
  using assms unfolding leases_ok_def by blast+

lemma leases_ok_unique:
  "leases_ok u L \<Longrightarrow> r \<in> set (stage_runs L) \<Longrightarrow> s \<in> set (stage_runs L) \<Longrightarrow> sr_lease_owner r \<noteq> None \<Longrightarrow>
   sr_lease_owner s \<noteq> None \<Longrightarrow> sr_lease_token r = sr_lease_token s \<Longrightarrow> sr_id r = sr_id s"
  unfolding leases_ok_def by blast

lemma leases_ok_cong:
  assumes "leases_ok u L" "stage_runs L' = stage_runs L" "uuid_draws L \<le> uuid_draws L'"
  shows "leases_ok u L'"
  using leases_okD[OF assms(1)] leases_ok_unique[OF assms(1)] assms(3)
  unfolding leases_ok_def assms(2) by (meson order_less_le_trans)

text \<open>A rewrite after which each held lease was held before, with the same token.\<close>

lemma leases_ok_update:
  assumes "leases_ok u L"
    and "\<And>r. r \<in> set (stage_runs L) \<Longrightarrow> P r \<Longrightarrow> sr_lease_owner (f r) \<noteq> None \<Longrightarrow>
      sr_id (f r) = sr_id r \<and> sr_lease_owner r \<noteq> None \<and> sr_lease_token (f r) = sr_lease_token r \<and>
      active_lease (sr_status (f r)) \<and> sr_lease_expires_at (f r) \<noteq> None"
  shows "leases_ok u (update_runs P f L)"
proof -
  define g where "g = (\<lambda>r. if P r then f r else r)"
  have rows: "set (stage_runs (update_runs P f L)) = g ` set (stage_runs L)"
    by (simp add: update_runs_def update_where_def g_def)
  have prior: "sr_id (g r) = sr_id r \<and> sr_lease_owner r \<noteq> None \<and> sr_lease_token (g r) = sr_lease_token r \<and>
      active_lease (sr_status (g r)) \<and> sr_lease_expires_at (g r) \<noteq> None"
    if "r \<in> set (stage_runs L)" "sr_lease_owner (g r) \<noteq> None" for r
    using leases_okD[OF assms(1) that(1)] assms(2)[OF that(1)] that by (cases "P r") (auto simp: g_def)
  have draws: "uuid_draws (update_runs P f L) = uuid_draws L" by (simp add: update_runs_def)
  show ?thesis unfolding leases_ok_def rows draws
  proof (intro conjI ballI impI)
    fix x assume "x \<in> g ` set (stage_runs L)" "sr_lease_owner x \<noteq> None"
    then obtain r where r: "r \<in> set (stage_runs L)" "x = g r" "sr_lease_owner (g r) \<noteq> None" by auto
    note B = prior[OF r(1,3)]
    show "active_lease (sr_status x)" "sr_lease_expires_at x \<noteq> None" using B r(2) by auto
    show "\<exists>k < uuid_draws L. sr_lease_token x = Some (u k)"
      using B r leases_okD(3)[OF assms(1) r(1)] by simp
  next
    fix x y assume "x \<in> g ` set (stage_runs L)" "y \<in> g ` set (stage_runs L)"
      and own: "sr_lease_owner x \<noteq> None" "sr_lease_owner y \<noteq> None" and tok: "sr_lease_token x = sr_lease_token y"
    then obtain r s where rs: "r \<in> set (stage_runs L)" "s \<in> set (stage_runs L)" "x = g r" "y = g s" by auto
    then have "sr_id x = sr_id r \<and> sr_lease_owner r \<noteq> None \<and> sr_lease_token x = sr_lease_token r"
      "sr_id y = sr_id s \<and> sr_lease_owner s \<noteq> None \<and> sr_lease_token y = sr_lease_token s"
      using prior[of r] prior[of s] own by auto
    then show "sr_id x = sr_id y" using leases_ok_unique[OF assms(1) rs(1,2)] tok by simp
  qed
qed

lemma leases_ok_claim:
  assumes ok: "leases_ok u L" and inj: "inj u"
    and upd: "\<And>r. r \<in> set (stage_runs L) \<Longrightarrow> P r \<Longrightarrow> sr_id r = i \<and> claims (u (uuid_draws L)) r (f r)"
  shows "leases_ok u (update_runs P f (L\<lparr>uuid_draws := Suc (uuid_draws L)\<rparr>))"
proof -
  define g where "g = (\<lambda>r. if P r then f r else r)"
  let ?L = "update_runs P f (L\<lparr>uuid_draws := Suc (uuid_draws L)\<rparr>)"
  have rows: "set (stage_runs ?L) = g ` set (stage_runs L)" and draws: "uuid_draws ?L = Suc (uuid_draws L)"
    by (simp_all add: update_runs_def update_where_def g_def)
  have held: "active_lease (sr_status (g r)) \<and> sr_lease_expires_at (g r) \<noteq> None \<and> sr_id (g r) = sr_id r \<and>
      (if P r then sr_id r = i \<and> sr_lease_token (g r) = Some (u (uuid_draws L))
       else sr_lease_owner r \<noteq> None \<and> (\<exists>k < uuid_draws L. sr_lease_token (g r) = Some (u k)))"
    if "r \<in> set (stage_runs L)" "sr_lease_owner (g r) \<noteq> None" for r
    using upd[OF that(1)] that leases_okD[OF ok that(1)]
    by (cases "P r") (auto simp: g_def claims_def same_run_def same_run_keys_def active_lease_def)
  show ?thesis unfolding leases_ok_def rows draws
  proof (intro conjI ballI impI)
    fix x assume "x \<in> g ` set (stage_runs L)" "sr_lease_owner x \<noteq> None"
    then obtain r where r: "r \<in> set (stage_runs L)" "x = g r" "sr_lease_owner (g r) \<noteq> None" by auto
    note H = held[OF r(1,3)]
    show "active_lease (sr_status x)" "sr_lease_expires_at x \<noteq> None" using H r(2) by auto
    show "\<exists>k < Suc (uuid_draws L). sr_lease_token x = Some (u k)"
      using H r(2) by (cases "P r") (auto intro: less_SucI)
  next
    fix x y assume "x \<in> g ` set (stage_runs L)" "y \<in> g ` set (stage_runs L)"
      and own: "sr_lease_owner x \<noteq> None" "sr_lease_owner y \<noteq> None" and tok: "sr_lease_token x = sr_lease_token y"
    then obtain r s where rs: "r \<in> set (stage_runs L)" "s \<in> set (stage_runs L)" "x = g r" "y = g s" by auto
    note H = held[OF rs(1)] held[OF rs(2)]
    have H': "sr_lease_owner (g r) \<noteq> None" "sr_lease_owner (g s) \<noteq> None" using own rs by auto
    have new: "u k \<noteq> u (uuid_draws L)" if "k < uuid_draws L" for k
      using injD[OF inj, of k "uuid_draws L"] that by auto
    consider "P r" "P s" | "P r" "\<not> P s" | "\<not> P r" "P s" | "\<not> P r" "\<not> P s" by blast
    then show "sr_id x = sr_id y"
    proof cases
      case 4
      then have "g r = r" "g s = s" by (simp_all add: g_def)
      then show ?thesis using leases_ok_unique[OF ok rs(1,2)] rs(3,4) own tok by simp
    next
      case 1
      then show ?thesis using H H' rs by simp
    next
      case 2
      then show ?thesis using H H' rs tok new by fastforce
    next
      case 3
      then show ?thesis using H H' rs tok new by fastforce
    qed
  qed
qed

lemma leases_ok_append:
  assumes "leases_ok u L" "sr_lease_owner r = None"
  shows "leases_ok u (L\<lparr>stage_runs := stage_runs L @ [r]\<rparr>)"
proof -
  let ?L = "L\<lparr>stage_runs := stage_runs L @ [r]\<rparr>"
  have mem: "x \<in> set (stage_runs L)" if "x \<in> set (stage_runs ?L)" "sr_lease_owner x \<noteq> None" for x
    using that assms(2) by auto
  have draws: "uuid_draws ?L = uuid_draws L" by simp
  show ?thesis unfolding leases_ok_def draws
    using leases_okD[OF assms(1) mem] leases_ok_unique[OF assms(1) mem mem] by blast
qed

lemma action_leases_ok:
  assumes "action u L L'" "leases_ok u L" "inj u"
  shows "leases_ok u L'"
  using assms(1)
proof (cases rule: action.cases)
  case (new_run r)
  then show ?thesis using leases_ok_append[OF assms(2)] by (simp add: insert_run_Inr)
next
  case (claim P i f)
  have "sr_id r = i \<and> claims (u (uuid_draws L)) r (f r)" if "r \<in> set (stage_runs L)" "P r" for r
    using claim(2)[OF that] by simp
  then show ?thesis unfolding claim(1) by (rule leases_ok_claim[OF assms(2,3)])
next
  case (start P i f E w a p c)
  have "leases_ok u (update_runs P f L)"
  proof (rule leases_ok_update[OF assms(2)])
    fix r assume r: "r \<in> set (stage_runs L)" "P r" "sr_lease_owner (f r) \<noteq> None"
    then have "starts r (f r)" using start(1) by blast
    then show "sr_id (f r) = sr_id r \<and> sr_lease_owner r \<noteq> None \<and> sr_lease_token (f r) = sr_lease_token r \<and>
        active_lease (sr_status (f r)) \<and> sr_lease_expires_at (f r) \<noteq> None"
      using r leases_okD(2)[OF assms(2) r(1)]
      by (simp add: starts_def same_run_def same_run_keys_def active_lease_def)
  qed
  then show ?thesis by (rule leases_ok_cong) (use start(4) in \<open>auto simp: emit_Inr\<close>)
next
  case (rewrite P f)
  have "leases_ok u (update_runs P f L)"
  proof (intro leases_ok_update assms(2))
    fix r assume r: "r \<in> set (stage_runs L)" "P r" "sr_lease_owner (f r) \<noteq> None"
    then have "run_rewrite L r (f r)" using rewrite(2) by blast
    moreover have "active_lease (sr_status r) \<and> sr_lease_expires_at r \<noteq> None" if "sr_lease_owner r \<noteq> None"
      using leases_okD[OF assms(2) r(1) that] by simp
    ultimately show "sr_id (f r) = sr_id r \<and> sr_lease_owner r \<noteq> None \<and> sr_lease_token (f r) = sr_lease_token r \<and>
        active_lease (sr_status (f r)) \<and> sr_lease_expires_at (f r) \<noteq> None"
      using r(3) by (auto simp: run_rewrite_def lease_cleared_def same_run_def same_run_keys_def)
  qed
  then show ?thesis using rewrite(1) by simp
next
  case (log E w s ty a p c)
  then show ?thesis using leases_ok_cong[OF assms(2)] by (auto simp: emit_Inr)
qed (use leases_ok_cong[OF assms(2)] in
    \<open>auto simp: insert_Inr update_instances_def update_invocations_def update_children_def\<close>)

section \<open>A run starts at most once\<close>

definition start_events :: "ledger \<Rightarrow> string \<Rightarrow> event_row list" where
  "start_events L i = filter (\<lambda>e. ev_stage_run_id e = Some i \<and> ev_type e = ''stage_started'') (events L)"

definition starts_ok :: "ledger \<Rightarrow> bool" where
  "starts_ok L \<longleftrightarrow> (\<forall>i. length (start_events L i) \<le> 1) \<and>
     (\<forall>r \<in> set (stage_runs L). start_events L (sr_id r) \<noteq> [] \<longrightarrow> sr_status r \<noteq> SR_QUEUED \<and> sr_status r \<noteq> SR_CLAIMED)"

lemma starts_ok_cong:
  "starts_ok L \<Longrightarrow> stage_runs L' = stage_runs L \<Longrightarrow> events L' = events L \<Longrightarrow> starts_ok L'"
  by (simp add: starts_ok_def start_events_def)

lemma start_events_update [simp]: "start_events (update_runs P f L) i = start_events L i"
  by (simp add: start_events_def update_runs_def)

lemma starts_ok_update:
  assumes "starts_ok L"
    and "\<And>r. r \<in> set (stage_runs L) \<Longrightarrow> P r \<Longrightarrow> sr_id (f r) = sr_id r \<and>
      (start_events L (sr_id r) \<noteq> [] \<longrightarrow> sr_status (f r) \<noteq> SR_QUEUED \<and> sr_status (f r) \<noteq> SR_CLAIMED)"
  shows "starts_ok (update_runs P f L)"
  using assms by (auto simp: starts_ok_def) (auto simp: update_runs_def row_simps split: if_splits)

lemma start_events_known:
  assumes "ledger_ok L" "start_events L i \<noteq> []"
  shows "has_run L i"
proof -
  obtain e where "e \<in> set (events L)" "ev_stage_run_id e = Some i"
    using assms(2) by (auto simp: start_events_def filter_empty_conv)
  then show ?thesis using assms(1)
    unfolding ledger_ok_def references_resolve_def resolves_def by (auto simp: opt_ref_def split: option.splits)
qed

lemma starts_ok_log: "emit E w s ty a p c L = Inr L' \<Longrightarrow> ty \<noteq> ''stage_started'' \<Longrightarrow> starts_ok L \<Longrightarrow> starts_ok L'"
  by (auto simp: emit_Inr starts_ok_def start_events_def event_of_def)

lemma action_starts_ok:
  assumes "action u L L'" "starts_ok L" "ledger_ok L"
  shows "starts_ok L'"
  using assms(1)
proof (cases rule: action.cases)
  case (new_run r)
  have "start_events L (sr_id r) = []"
    using start_events_known[OF assms(3)] new_run(1) by (auto simp: insert_run_Inr has_run_def)
  then show ?thesis using assms(2) new_run(1) by (auto simp: insert_run_Inr starts_ok_def start_events_def)
next
  case (claim P i f)
  have "starts_ok (update_runs P f L)"
    using claim(2) assms(2) by (intro starts_ok_update)
      (auto simp: starts_ok_def claims_def same_run_def same_run_keys_def)
  then show ?thesis unfolding claim(1) by (rule starts_ok_cong) (simp_all add: update_runs_def)
next
  case (start P i f E w a p c)
  obtain r where r: "r \<in> set (stage_runs L)" "P r" using start(2) by blast
  have id: "sr_id r = i" and claimed: "sr_status r = SR_CLAIMED" using start(1)[OF r] by (auto simp: starts_def)
  have none: "start_events L i = []" using assms(2) r(1) id claimed unfolding starts_ok_def by auto
  let ?M = "update_runs P f L"
  have moved: "sr_status s = SR_STARTED" if "s \<in> set (stage_runs ?M)" "sr_id s = i" for s
  proof -
    have "s \<in> (\<lambda>t. if P t then f t else t) ` set (stage_runs L)"
      using that(1) by (simp add: update_runs_def update_where_def)
    then obtain t where t: "s = (if P t then f t else t)" "t \<in> set (stage_runs L)" by (rule imageE)
    then have "sr_id t = i" using that(2) start(1)[OF t(2)]
      by (auto simp: starts_def same_run_def same_run_keys_def split: if_splits)
    then have "t = r" using same_run[OF assms(3) t(2) r(1)] id by simp
    then show ?thesis using t r(2) start(1)[OF r] by (simp add: starts_def)
  qed
  have M: "starts_ok ?M"
    using start(1) assms(2) by (intro starts_ok_update) (auto simp: starts_def same_run_def same_run_keys_def)
  have L': "start_events L' j = start_events ?M j @ (if j = i then [event_of E w (Some i) ''stage_started'' a p c ?M] else [])"
    "stage_runs L' = stage_runs ?M" for j
    using start(4) by (auto simp: emit_Inr start_events_def event_of_def)
  show ?thesis using M none moved unfolding starts_ok_def L' by auto
next
  case (rewrite P f)
  have "starts_ok (update_runs P f L)"
  proof (intro starts_ok_update assms(2))
    fix r assume r: "r \<in> set (stage_runs L)" "P r"
    then have w: "run_rewrite L r (f r)" using rewrite(2) by blast
    moreover have "sr_status r \<noteq> SR_QUEUED \<and> sr_status r \<noteq> SR_CLAIMED" if "start_events L (sr_id r) \<noteq> []"
      using assms(2) r(1) that unfolding starts_ok_def by blast
    moreover have "\<exists>e \<in> set (events L). ev_stage_run_id e = Some (sr_id r) \<and> ev_type e = ''stage_started''"
      if "start_events L (sr_id r) \<noteq> []"
      using that by (auto simp: start_events_def filter_empty_conv)
    ultimately show "sr_id (f r) = sr_id r \<and>
        (start_events L (sr_id r) \<noteq> [] \<longrightarrow> sr_status (f r) \<noteq> SR_QUEUED \<and> sr_status (f r) \<noteq> SR_CLAIMED)"
      unfolding run_rewrite_def same_run_def same_run_keys_def
      by (auto simp: lifecycle_into_queued lifecycle_into_claimed active_lease_def)
  qed
  then show ?thesis using rewrite(1) by simp
next
  case (log E w s ty a p c)
  then show ?thesis using starts_ok_log assms(2) by blast
qed (use starts_ok_cong[OF assms(2)] in
    \<open>auto simp: insert_Inr update_instances_def update_invocations_def update_children_def\<close>)

end
