(* ===== verification/Ledger_Instances.thy ===== *)
theory Ledger_Instances
  imports Ledger_Leases
begin

text \<open>
  Operations of \<^verbatim>\<open>WorkflowLedger\<close> on workflow instances: insertion and reads, the search
  for the next instance with work, the status update, cancellation, parking, and the repair
  of instances whose current stage is already blocked.
\<close>

section \<open>Insertion and reads\<close>

text \<open>\<open>_json(input_snapshot) if input_snapshot is not None else None\<close>: \<open>PNone\<close> is no snapshot.\<close>

definition insert_workflow_instance :: "env \<Rightarrow> WorkflowInstance \<Rightarrow> ts_arg \<Rightarrow> pyval \<Rightarrow> string option \<Rightarrow>
    string option \<Rightarrow> string option \<Rightarrow> ledger \<Rightarrow> kernel_error + (unit \<times> ledger)" where
  "insert_workflow_instance E inst created_at input_snapshot definition_json definition_hash source_uri L =
     bindE (iso_timestamp (clock E 0) created_at) (\<lambda>now.
     bindE (insert_instance \<lparr>wi_instance_id = inst_id inst, wi_workflow_def_id = inst_workflow_def_id inst,
        wi_workflow_version = inst_workflow_version inst, wi_status = inst_status inst,
        wi_current_stage_id = inst_current_stage_id inst, wi_idempotency_key = inst_idempotency_key inst,
        wi_input_hash = inst_input_hash inst,
        wi_input_snapshot = (if input_snapshot = PNone then None else Some input_snapshot),
        wi_definition_json = definition_json, wi_definition_hash = definition_hash,
        wi_source_uri = source_uri, wi_recovery_epoch = inst_recovery_epoch inst,
        wi_created_at = now, wi_updated_at = now\<rparr> L) (\<lambda>L1.
     Inr ((), L1)))"

definition get_workflow_instance :: "string \<Rightarrow> ledger \<Rightarrow> WorkflowInstance option" where
  "get_workflow_instance i L = map_option workflow_instance_from_row (find_instance i L)"

definition get_workflow_input_snapshot :: "string \<Rightarrow> ledger \<Rightarrow> mapping_items option" where
  "get_workflow_input_snapshot i L = (case find_instance i L of None \<Rightarrow> None
     | Some r \<Rightarrow> (case wi_input_snapshot r of None \<Rightarrow> None | Some v \<Rightarrow> mapping_of v))"

section \<open>The next instance with work\<close>

text \<open>The joined instance of a run, when it passes the filters on definition and version.\<close>

definition joined_instance :: "string option \<Rightarrow> string option \<Rightarrow> ledger \<Rightarrow> stage_run_row \<Rightarrow> instance_row option" where
  "joined_instance def_id version L r = (case find_instance (sr_instance_id r) L of None \<Rightarrow> None
     | Some w \<Rightarrow> if (case def_id of None \<Rightarrow> True | Some d \<Rightarrow> wi_workflow_def_id w = d) \<and>
                   (case version of None \<Rightarrow> True | Some v \<Rightarrow> wi_workflow_version w = v)
                then Some w else None)"

definition updated_order :: "stage_run_row \<Rightarrow> string \<times> string" where
  "updated_order r = (sr_updated_at r, sr_id r)"

definition next_joined :: "string option \<Rightarrow> string option \<Rightarrow> (stage_run_row \<Rightarrow> string \<times> string) \<Rightarrow>
    (stage_run_row \<Rightarrow> bool) \<Rightarrow> ledger \<Rightarrow> instance_row option" where
  "next_joined def_id version key P L = fetchone (List.map_filter (joined_instance def_id version L)
     (sort_key key (filter P (stage_runs L))))"

definition find_next_workflow_instance_for_work :: "env \<Rightarrow> string option \<Rightarrow> string option \<Rightarrow> bool \<Rightarrow> bool \<Rightarrow>
    ts_arg \<Rightarrow> ledger \<Rightarrow> kernel_error + WorkflowInstance option" where
  "find_next_workflow_instance_for_work E def_id version include_waiting_human prefer_waiting_human now L =
     bindE (iso_timestamp (clock E 0) now) (\<lambda>timestamp.
     let waiting = next_joined def_id version updated_order (\<lambda>r. sr_status r = SR_WAITING_ON_HUMAN) L;
         queued = next_joined def_id version created_order (\<lambda>r. sr_status r = SR_QUEUED \<and> due timestamp r) L
     in Inr (map_option workflow_instance_from_row
         (if include_waiting_human \<and> prefer_waiting_human \<and> waiting \<noteq> None then waiting
          else if queued \<noteq> None \<or> \<not> include_waiting_human then queued
          else waiting)))"

section \<open>Status updates\<close>

text \<open>\<open>status\<close> is \<open>WorkflowStatus | str\<close> in the source; a text naming no member is outside the model.\<close>

definition update_workflow_instance :: "env \<Rightarrow> string \<Rightarrow> WorkflowStatus \<Rightarrow> string option \<Rightarrow> ts_arg \<Rightarrow> string \<Rightarrow>
    string \<Rightarrow> mapping_items \<Rightarrow> ledger \<Rightarrow> kernel_error + (unit \<times> ledger)" where
  "update_workflow_instance E instance_id status current_stage_id updated_at actor event_type payload L =
     bindE (iso_timestamp (clock E 0) updated_at) (\<lambda>now.
     bindE (emit E instance_id None event_type actor (PDict payload) now
        (update_instances (\<lambda>r. wi_instance_id r = instance_id)
          (\<lambda>r. r\<lparr>wi_status := status, wi_current_stage_id := current_stage_id, wi_updated_at := now\<rparr>) L)) (\<lambda>L1.
     Inr ((), L1)))"

definition cancel_terminal :: "WorkflowStatus \<Rightarrow> bool" where
  "cancel_terminal s \<longleftrightarrow> s \<in> {WF_DONE, WF_CANCELLED, WF_POLICY_DENIED}"

definition park_unchanged :: "WorkflowStatus \<Rightarrow> bool" where
  "park_unchanged s \<longleftrightarrow> s \<in> {WF_DONE, WF_CANCELLED, WF_POLICY_DENIED, WF_BLOCKED}"

text \<open>The stage-run statuses a cancellation or a park retires.\<close>

definition retirable :: "StageRunStatus \<Rightarrow> bool" where
  "retirable s \<longleftrightarrow> s \<in> {SR_QUEUED, SR_CLAIMED, SR_STARTED, SR_WAITING, SR_WAITING_ON_CHILD,
     SR_WAITING_ON_HUMAN, SR_VALIDATING, SR_APPROVAL_REQUIRED}"

definition retirable_runs :: "string \<Rightarrow> ledger \<Rightarrow> string list" where
  "retirable_runs i L = map sr_id (sort_key created_order
     (filter (\<lambda>r. sr_instance_id r = i \<and> retirable (sr_status r)) (stage_runs L)))"

text \<open>\<open>executemany\<close>: one UPDATE per selected run.\<close>

definition supersede :: "string \<Rightarrow> string list \<Rightarrow> ledger \<Rightarrow> ledger" where
  "supersede now ids L = fold (\<lambda>i. update_runs (\<lambda>r. sr_id r = i)
     (\<lambda>r. clear_lease (r\<lparr>sr_status := SR_SUPERSEDED, sr_updated_at := now\<rparr>))) ids L"

record InstanceChange =
  ic_changed :: bool
  ic_instance_id :: string
  ic_previous_status :: WorkflowStatus
  ic_status :: WorkflowStatus
  ic_superseded :: "string list"
  ic_reason :: "string option"

text \<open>The body cancellation and parking share: retire the runs, close the instance, log it.\<close>

definition retire_instance :: "env \<Rightarrow> instance_row \<Rightarrow> WorkflowStatus \<Rightarrow> string \<Rightarrow> string \<Rightarrow> string option \<Rightarrow>
    mapping_items \<Rightarrow> string \<Rightarrow> ledger \<Rightarrow> kernel_error + (InstanceChange \<times> ledger)" where
  "retire_instance E row status event_type actor reason extra now L =
     (let i = wi_instance_id row;
          superseded = retirable_runs i L;
          L1 = supersede now superseded L;
          L2 = update_instances (\<lambda>r. wi_instance_id r = i)
                 (\<lambda>r. r\<lparr>wi_status := status, wi_current_stage_id := None, wi_updated_at := now\<rparr>) L1
      in bindE (emit E i None event_type actor
           (PDict ([(''previous_status'', PStr (workflow_status_value (wi_status row))),
              (''previous_stage_id'', opt_str (wi_current_stage_id row)), (''reason'', opt_str reason)] @
              extra @ [(''superseded_stage_runs'', str_list superseded)])) now L2) (\<lambda>L3.
         Inr (\<lparr>ic_changed = True, ic_instance_id = i, ic_previous_status = wi_status row,
           ic_status = status, ic_superseded = superseded, ic_reason = reason\<rparr>, L3)))"

definition unchanged_instance :: "instance_row \<Rightarrow> string \<Rightarrow> InstanceChange" where
  "unchanged_instance row why = \<lparr>ic_changed = False, ic_instance_id = wi_instance_id row,
     ic_previous_status = wi_status row, ic_status = wi_status row, ic_superseded = [], ic_reason = Some why\<rparr>"

definition cancel_workflow_instance :: "env \<Rightarrow> string \<Rightarrow> string \<Rightarrow> string option \<Rightarrow> ts_arg \<Rightarrow> bool \<Rightarrow> ledger \<Rightarrow>
    kernel_error + (InstanceChange \<times> ledger)" where
  "cancel_workflow_instance E instance_id actor reason updated_at force L =
     bindE (iso_timestamp (clock E 0) updated_at) (\<lambda>now.
     case find_instance instance_id L of
       None \<Rightarrow> Inl (KeyError instance_id)
     | Some row \<Rightarrow>
         if cancel_terminal (wi_status row) \<and> \<not> force
         then Inr (unchanged_instance row ''already_terminal'', L)
         else retire_instance E row WF_CANCELLED ''workflow_cancelled'' actor reason
                [(''force'', PBool force)] now L)"

definition park_stale_workflow_instance :: "env \<Rightarrow> string \<Rightarrow> string \<Rightarrow> string option \<Rightarrow> ts_arg \<Rightarrow> ledger \<Rightarrow>
    kernel_error + (InstanceChange \<times> ledger)" where
  "park_stale_workflow_instance E instance_id actor reason updated_at L =
     bindE (iso_timestamp (clock E 0) updated_at) (\<lambda>now.
     case find_instance instance_id L of
       None \<Rightarrow> Inl (KeyError instance_id)
     | Some row \<Rightarrow>
         if park_unchanged (wi_status row)
         then Inr (unchanged_instance row ''already_parked_or_terminal'', L)
         else retire_instance E row WF_BLOCKED ''workflow_auto_parked_stale_definition'' actor reason [] now L)"

section \<open>Instances stranded on a blocked stage\<close>

definition stage_settled_blocked :: "StageRunStatus \<Rightarrow> bool" where
  "stage_settled_blocked s \<longleftrightarrow> s \<in> {SR_BLOCKED, SR_FAILED, SR_INVALID_OUTPUT, SR_TIMED_OUT, SR_APPROVAL_DENIED}"

definition limbo_rows :: "ledger \<Rightarrow> (instance_row \<times> stage_run_row) list" where
  "limbo_rows L = sort_key (\<lambda>(w, r). updated_order r)
     [(w, r). w \<leftarrow> workflow_instances L, r \<leftarrow> stage_runs L,
        sr_instance_id r = wi_instance_id w \<and> wi_current_stage_id w = Some (sr_stage_id r) \<and>
        \<not> sweep_closed (wi_status w) \<and> stage_settled_blocked (sr_status r)]"

definition terminalize_row :: "env \<Rightarrow> string \<Rightarrow> string \<Rightarrow> instance_row \<times> stage_run_row \<Rightarrow>
    string list \<times> ledger \<Rightarrow> kernel_error + (string list \<times> ledger)" where
  "terminalize_row E actor at = (\<lambda>(w, r) (repaired, L).
     bindE (emit E (wi_instance_id w) (Some (sr_id r)) ''workflow_blocked'' actor
        (PDict [(''stage_id'', opt_str (wi_current_stage_id w)), (''stage_run_id'', PStr (sr_id r)),
           (''previous_status'', PStr (workflow_status_value (wi_status w))),
           (''stage_status'', PStr (run_status_value (sr_status r))),
           (''reason'', opt_str (sr_failure_summary r)), (''failure_class'', opt_str (sr_failure_class r)),
           (''source'', PStr ''blocked_current_stage_reconcile'')]) at
        (update_instances (\<lambda>x. wi_instance_id x = wi_instance_id w)
           (\<lambda>x. x\<lparr>wi_status := WF_BLOCKED, wi_updated_at := at\<rparr>) L)) (\<lambda>L1.
     Inr (repaired @ [wi_instance_id w], L1)))"

definition terminalize_blocked_current_stages :: "env \<Rightarrow> ts_arg \<Rightarrow> string \<Rightarrow> ledger \<Rightarrow>
    kernel_error + (string list \<times> ledger)" where
  "terminalize_blocked_current_stages E now actor L =
     bindE (iso_timestamp (clock E 0) now) (\<lambda>repaired_at.
     foldE (terminalize_row E actor repaired_at) (limbo_rows L) ([], L))"

end
