(* ===== verification/Ledger_Gates.thy ===== *)
theory Ledger_Gates
  imports Ledger_Instances Sha256
begin

text \<open>
  Human gates of \<^verbatim>\<open>WorkflowLedger\<close>: durable decisions, completion of a waiting run, and the
  five operator recoveries, each an append of a fresh attempt (or, for a published gate, the
  restoration of the waiting state) under its own guards.
\<close>

section \<open>Waiting runs and decisions\<close>

definition find_waiting_human_stage_run :: "string \<Rightarrow> ledger \<Rightarrow> kernel_error + StageRun option" where
  "find_waiting_human_stage_run i L =
     (case fetchlast (sort_key updated_order
         (filter (\<lambda>r. sr_instance_id r = i \<and> sr_status r = SR_WAITING_ON_HUMAN) (stage_runs L))) of
        None \<Rightarrow> Inr None | Some r \<Rightarrow> bindE (stage_run_from_row r) (\<lambda>x. Inr (Some x)))"

definition record_human_decision :: "env \<Rightarrow> HumanApprovalReceipt \<Rightarrow> string \<Rightarrow> string \<Rightarrow> ts_arg \<Rightarrow> string \<Rightarrow>
    ledger \<Rightarrow> kernel_error + (unit \<times> ledger)" where
  "record_human_decision E d instance_id stage_run_id created_at actor L =
     bindE (iso_timestamp (clock E 0) (if created_at \<noteq> TsNone then created_at else ap_created_at d)) (\<lambda>decided_at.
     bindE (insert_decision \<lparr>hd_id = ap_approval_id d, hd_instance_id = instance_id,
        hd_stage_run_id = stage_run_id, hd_gate_id = ap_gate_id d,
        hd_decision = approval_decision_value (ap_decision d), hd_human_ref = ap_human_ref d,
        hd_canonical_surface = ap_canonical_surface d,
        hd_exact_action_approved = ap_exact_action_approved d,
        hd_action_fingerprint = ap_action_fingerprint d, hd_receipt = approval_plain d,
        hd_created_at = decided_at\<rparr> L) (\<lambda>L1.
     bindE (emit E instance_id (Some stage_run_id) ''human_decision_recorded'' actor
        (PDict [(''approval_id'', PStr (ap_approval_id d)), (''gate_id'', PStr (ap_gate_id d)),
           (''decision'', PStr (approval_decision_value (ap_decision d))),
           (''canonical_surface'', PStr (ap_canonical_surface d))]) decided_at L1) (\<lambda>L2.
     Inr ((), L2))))"

definition complete_waiting_human_stage_run :: "env \<Rightarrow> string \<Rightarrow> StageRunStatus \<Rightarrow> string option \<Rightarrow>
    string option \<Rightarrow> string option \<Rightarrow> string option \<Rightarrow> ts_arg \<Rightarrow> string \<Rightarrow> ledger \<Rightarrow>
    kernel_error + (unit \<times> ledger)" where
  "complete_waiting_human_stage_run E stage_run_id status receipt_id output_hash failure_class
      failure_summary now actor L =
     bindE (iso_timestamp (clock E 0) now) (\<lambda>completed_at.
     case select_one (\<lambda>r. sr_id r = stage_run_id \<and> sr_status r = SR_WAITING_ON_HUMAN) (stage_runs L) of
       None \<Rightarrow> Inl (LedgerConflict (''stage run '' @ repr_str stage_run_id @ '' is not waiting on a human decision''))
     | Some row \<Rightarrow>
         bindE (emit E (sr_instance_id row) (Some stage_run_id) ''human_stage_decided'' actor
           (PDict [(''status'', PStr (run_status_value status)), (''receipt_id'', opt_str receipt_id),
              (''output_hash'', opt_str output_hash), (''failure_class'', opt_str failure_class),
              (''failure_summary'', opt_str failure_summary)]) completed_at
           (update_runs (\<lambda>r. sr_id r = stage_run_id \<and> sr_status r = SR_WAITING_ON_HUMAN)
              (\<lambda>r. r\<lparr>sr_status := status, sr_receipt_id := coalesce receipt_id (sr_receipt_id r),
                 sr_output_hash := coalesce output_hash (sr_output_hash r),
                 sr_failure_class := failure_class, sr_failure_summary := failure_summary,
                 sr_completed_at := Some completed_at, sr_updated_at := completed_at\<rparr>) L)) (\<lambda>L1.
         Inr ((), L1)))"

section \<open>The stage an instance is parked on\<close>

definition attempt_order :: "stage_run_row \<Rightarrow> int \<times> string \<times> string" where
  "attempt_order r = (sr_attempt r, sr_created_at r, sr_id r)"

text \<open>\<open>ORDER BY attempt DESC, created_at DESC, stage_run_id DESC LIMIT 1\<close>.\<close>

definition latest_attempt :: "string \<Rightarrow> string \<Rightarrow> ledger \<Rightarrow> stage_run_row option" where
  "latest_attempt i s L = fetchlast (sort_key attempt_order
     (filter (\<lambda>r. sr_instance_id r = i \<and> sr_stage_id r = s) (stage_runs L)))"

definition has_decision :: "ledger \<Rightarrow> string \<Rightarrow> bool" where
  "has_decision L i \<longleftrightarrow> (\<exists>d \<in> set (human_decisions L). hd_stage_run_id d = i)"

definition quoted_instance :: "string \<Rightarrow> string" where
  "quoted_instance i = ''workflow instance '' @ repr_str i"

text \<open>The instance row and the latest attempt of its current stage, under the two status guards.\<close>

definition parked_stage :: "string \<Rightarrow> WorkflowStatus \<Rightarrow> string \<Rightarrow> ledger \<Rightarrow>
    kernel_error + (string \<times> stage_run_row option)" where
  "parked_stage i status complaint L = (case find_instance i L of
     None \<Rightarrow> Inl (KeyError i)
   | Some inst \<Rightarrow> if wi_status inst \<noteq> status then Inl (LedgerConflict (quoted_instance i @ complaint))
       else let s = the_or [] (wi_current_stage_id inst) in Inr (s, latest_attempt i s L))"

text \<open>The latest attempt must carry \<open>status\<close>, require approval and have no durable decision.\<close>

definition undecided_gate :: "string \<Rightarrow> StageRunStatus \<Rightarrow> string \<Rightarrow> string \<Rightarrow> stage_run_row option \<Rightarrow> ledger \<Rightarrow>
    kernel_error + stage_run_row" where
  "undecided_gate i status complaint decided row L = (case row of
     None \<Rightarrow> Inl (LedgerConflict (quoted_instance i @ complaint))
   | Some r \<Rightarrow> if sr_status r \<noteq> status \<or> \<not> sr_approval_required r
       then Inl (LedgerConflict (quoted_instance i @ complaint))
       else if has_decision L (sr_id r) then Inl (LedgerConflict decided) else Inr r)"

record RecoveryReport =
  rr_instance_id :: string
  rr_previous :: "string option"
  rr_stage_run_id :: string
  rr_stage_id :: string
  rr_attempt :: int
  rr_status :: StageRunStatus
  rr_reason :: string

text \<open>
  The tail the three attempt-appending recoveries share: the child attempt, the instance back
  to running with a new recovery epoch, and the two audit events.
\<close>

definition append_attempt :: "env \<Rightarrow> string \<Rightarrow> string \<Rightarrow> stage_run_row \<Rightarrow> (string \<Rightarrow> string) \<Rightarrow> string \<Rightarrow>
    string \<Rightarrow> (string \<Rightarrow> mapping_items) \<Rightarrow> string \<Rightarrow> string \<Rightarrow> string \<Rightarrow> ledger \<Rightarrow>
    kernel_error + (RecoveryReport \<times> ledger)" where
  "append_attempt E i stage_id row idem authorized queued payload actor reason at L =
     (let attempt = sr_attempt row + 1;
          new_id = attempt_id i stage_id attempt
      in bindE (insert_run ((new_run_row new_id i stage_id attempt SR_QUEUED (sr_adapter_id row)
             (sr_actor_ref row) (Some (idem new_id)) (sr_input_hash row) (Some (sr_id row)) at)
             \<lparr>sr_retry_count := sr_retry_count row + 1\<rparr>) L) (\<lambda>L1.
         let L2 = update_instances (\<lambda>r. wi_instance_id r = i)
               (\<lambda>r. r\<lparr>wi_status := WF_RUNNING, wi_recovery_epoch := wi_recovery_epoch r + 1, wi_updated_at := at\<rparr>) L1
         in bindE (emit E i (Some (sr_id row)) authorized actor (PDict (payload new_id)) at L2) (\<lambda>L3.
            bindE (emit E i (Some new_id) queued actor (PDict (payload new_id)) at L3) (\<lambda>L4.
            Inr (\<lparr>rr_instance_id = i, rr_previous = Some (sr_id row), rr_stage_run_id = new_id,
               rr_stage_id = stage_id, rr_attempt = attempt, rr_status = SR_QUEUED, rr_reason = reason\<rparr>, L4)))))"

section \<open>Recoveries\<close>

definition retry_blocked_human_gate :: "env \<Rightarrow> string \<Rightarrow> string \<Rightarrow> bool \<Rightarrow> string \<Rightarrow> ts_arg \<Rightarrow> ledger \<Rightarrow>
    kernel_error + (RecoveryReport \<times> ledger)" where
  "retry_blocked_human_gate E i reason verified_no_external_effect actor now L =
     bindE (guardE verified_no_external_effect
        (ValueError ''blocked human-gate retry requires verified_no_external_effect'')) (\<lambda>_.
     let recovery_reason = strip reason in
     bindE (guardE (recovery_reason \<noteq> []) (ValueError ''blocked human-gate retry requires a reason'')) (\<lambda>_.
     bindE (iso_timestamp (clock E 0) now) (\<lambda>at.
     bindE (parked_stage i WF_BLOCKED '' is not blocked'' L) (\<lambda>(stage_id, latest).
     bindE (undecided_gate i SR_BLOCKED '' is not blocked on an approval-required human gate''
        ''blocked human-gate attempt already has a durable human decision'' latest L) (\<lambda>row.
     append_attempt E i stage_id row (\<lambda>n. n) ''blocked_human_gate_retry_authorized''
       ''blocked_human_gate_retry_queued''
       (\<lambda>n. [(''blocked_stage_run_id'', PStr (sr_id row)), (''new_stage_run_id'', PStr n),
          (''reason'', PStr recovery_reason), (''verified_no_external_effect'', PBool True)])
       actor recovery_reason at L)))))"

definition reissue_waiting_human_gate_for_transport_repair :: "env \<Rightarrow> string \<Rightarrow> string \<Rightarrow> bool \<Rightarrow> string \<Rightarrow>
    ts_arg \<Rightarrow> ledger \<Rightarrow> kernel_error + (RecoveryReport \<times> ledger)" where
  "reissue_waiting_human_gate_for_transport_repair E i reason verified_no_human_decision actor now L =
     bindE (guardE verified_no_human_decision
        (ValueError ''human-gate transport repair requires verified_no_human_decision'')) (\<lambda>_.
     let repair_reason = strip reason in
     bindE (guardE (repair_reason \<noteq> []) (ValueError ''human-gate transport repair requires a reason'')) (\<lambda>_.
     bindE (iso_timestamp (clock E 0) now) (\<lambda>at.
     bindE (parked_stage i WF_WAITING_ON_HUMAN '' is not waiting on a human gate'' L) (\<lambda>(stage_id, latest).
     bindE (undecided_gate i SR_WAITING_ON_HUMAN '' has no waiting approval-required stage''
        ''waiting human-gate attempt already has a durable decision'' latest L) (\<lambda>row.
     append_attempt E i stage_id row (\<lambda>n. n) ''waiting_human_gate_transport_repair_authorized''
       ''waiting_human_gate_transport_repair_queued''
       (\<lambda>n. [(''defective_stage_run_id'', PStr (sr_id row)), (''new_stage_run_id'', PStr n),
          (''reason'', PStr repair_reason), (''verified_no_human_decision'', PBool True)])
       actor repair_reason at
       (update_runs (\<lambda>r. sr_id r = sr_id row \<and> sr_status r = SR_WAITING_ON_HUMAN)
          (\<lambda>r. r\<lparr>sr_status := SR_BLOCKED, sr_failure_class := Some (failure_value FC_RUNTIME_FAILURE),
             sr_failure_summary := Some repair_reason, sr_updated_at := at\<rparr>) L))))))"

text \<open>
  SQL \<open>LIKE '%p%'\<close>: some window of the text matches \<open>p\<close>, where \<open>_\<close> matches any character
  and ASCII letters match case-insensitively.
\<close>

definition ascii_lower :: "char \<Rightarrow> char" where
  "ascii_lower c = (let n = (of_char c :: nat) in if 65 \<le> n \<and> n \<le> 90 then char_of (n + 32) else c)"

fun like_prefix :: "string \<Rightarrow> string \<Rightarrow> bool" where
  "like_prefix [] s = True"
| "like_prefix (p # ps) [] = False"
| "like_prefix (p # ps) (c # s) = ((p = CHR ''_'' \<or> ascii_lower p = ascii_lower c) \<and> like_prefix ps s)"

fun like_infix :: "string \<Rightarrow> string \<Rightarrow> bool" where
  "like_infix p [] = like_prefix p []"
| "like_infix p (c # s) = (like_prefix p (c # s) \<or> like_infix p s)"

definition success_text :: string where
  "success_text = CHR 0x22 # ''status'' @ [CHR 0x22, CHR '':'', CHR 0x22] @ ''succeeded'' @ [CHR 0x22]"

definition has_published_receipt :: "ledger \<Rightarrow> string \<Rightarrow> bool" where
  "has_published_receipt L i \<longleftrightarrow> (\<exists>c \<in> set (receipts L). rc_stage_run_id c = Some i \<and>
     like_infix ''human_gate_surface'' (json_text (rc_receipt c)) \<and>
     like_infix success_text (json_text (rc_receipt c)))"

definition restore_published_human_gate_waiting :: "env \<Rightarrow> string \<Rightarrow> string \<Rightarrow> bool \<Rightarrow> bool \<Rightarrow> string \<Rightarrow>
    ts_arg \<Rightarrow> ledger \<Rightarrow> kernel_error + (RecoveryReport \<times> ledger)" where
  "restore_published_human_gate_waiting E i reason verified_surface_published verified_no_human_decision actor now L =
     bindE (guardE (verified_surface_published \<and> verified_no_human_decision)
        (ValueError ''published-gate restore requires verified surface and no human decision'')) (\<lambda>_.
     let recovery_reason = strip reason in
     bindE (guardE (recovery_reason \<noteq> []) (ValueError ''published-gate restore requires a reason'')) (\<lambda>_.
     bindE (iso_timestamp (clock E 0) now) (\<lambda>at.
     bindE (parked_stage i WF_BLOCKED '' is not blocked'' L) (\<lambda>(stage_id, latest).
     bindE (undecided_gate i SR_BLOCKED '' has no blocked approval-required stage''
        ''blocked human-gate attempt already has a durable decision'' latest L) (\<lambda>row.
     bindE (guardE (has_published_receipt L (sr_id row))
        (LedgerConflict ''blocked human-gate attempt has no successful surface receipt'')) (\<lambda>_.
     let L1 = update_runs (\<lambda>r. sr_id r = sr_id row \<and> sr_status r = SR_BLOCKED)
           (\<lambda>r. r\<lparr>sr_status := SR_WAITING_ON_HUMAN, sr_failure_class := None,
              sr_failure_summary := Some recovery_reason, sr_updated_at := at\<rparr>) L;
         L2 = update_instances (\<lambda>r. wi_instance_id r = i)
           (\<lambda>r. r\<lparr>wi_status := WF_WAITING_ON_HUMAN, wi_updated_at := at\<rparr>) L1
     in bindE (emit E i (Some (sr_id row)) ''published_human_gate_waiting_restored'' actor
          (PDict [(''stage_run_id'', PStr (sr_id row)), (''reason'', PStr recovery_reason),
             (''verified_surface_published'', PBool True), (''verified_no_human_decision'', PBool True)]) at L2) (\<lambda>L3.
        Inr (\<lparr>rr_instance_id = i, rr_previous = None, rr_stage_run_id = sr_id row, rr_stage_id = stage_id,
           rr_attempt = sr_attempt row, rr_status = SR_WAITING_ON_HUMAN, rr_reason = recovery_reason\<rparr>, L3))))))))"

definition retryable_status :: "StageRunStatus \<Rightarrow> bool" where
  "retryable_status s \<longleftrightarrow> s \<in> {SR_BLOCKED, SR_FAILED, SR_INVALID_OUTPUT, SR_TIMED_OUT}"

text \<open>Python \<open>==\<close> of a plain value with the dict \<open>{artifact_id: content_hash}\<close>.\<close>

definition equals_str_dict :: "pyval \<Rightarrow> (string \<times> string) list \<Rightarrow> bool" where
  "equals_str_dict v m = (case v of
     PDict items \<Rightarrow> set (map fst items) = set (map fst m) \<and>
        (\<forall>k \<in> set (map fst m). map_of items k = map_option PStr (map_of m k))
   | _ \<Rightarrow> False)"

definition artifact_hashes :: "artifact_row list \<Rightarrow> (string \<times> string) list" where
  "artifact_hashes as = map (\<lambda>a. (ar_id a, ar_content_hash a)) as"

text \<open>A bound parameter compared with a TEXT key: only a text, or a number's text, can match.\<close>

definition find_receipt :: "pyval \<Rightarrow> ledger \<Rightarrow> kernel_error + receipt_row option" where
  "find_receipt v L = (case v of
     PNone \<Rightarrow> Inr None
   | PStr s \<Rightarrow> Inr (select_one (\<lambda>c. rc_id c = s) (receipts L))
   | PInt n \<Rightarrow> Inr (select_one (\<lambda>c. rc_id c = show_int n) (receipts L))
   | PBool b \<Rightarrow> Inr (select_one (\<lambda>c. rc_id c = (if b then ''1'' else ''0'')) (receipts L))
   | _ \<Rightarrow> Inl (ProgrammingError ''Error binding parameter 1: type is not supported''))"

definition diagnostic_evidence_valid :: "bool \<Rightarrow> stage_run_row \<Rightarrow> mapping_items \<Rightarrow> artifact_row list \<Rightarrow>
    receipt_row option \<Rightarrow> bool" where
  "diagnostic_evidence_valid operator_reauthorized row evidence as source \<longleftrightarrow>
     operator_reauthorized \<and>
     starts_with ''runtime.'' (the_or [] (sr_adapter_id row)) \<and>
     dict_get evidence ''stage_run_id'' = PStr (sr_id row) \<and>
     equals_str_dict (dict_get evidence ''artifact_hashes'') (artifact_hashes as) \<and>
     dict_get evidence ''verified_diagnostic_only'' = PBool True \<and>
     dict_get evidence ''verified_no_model_output'' = PBool True \<and>
     dict_get evidence ''verified_read_only_runtime'' = PBool True \<and>
     truthy (dict_get evidence ''verification_ref'') \<and>
     (\<forall>a \<in> set as. ar_mime_type a = ''application/json'' \<and> ar_visibility a = ''internal'') \<and>
     (case source of None \<Rightarrow> False | Some c \<Rightarrow>
        rc_status c = ''failed'' \<and> rc_stage_run_id c = Some (sr_id row) \<and>
        dict_get evidence ''source_receipt_sha256'' = PStr (sha256_hex (json_text (rc_receipt c))))"

definition retry_blocked_stage_without_effect :: "env \<Rightarrow> string \<Rightarrow> string \<Rightarrow> bool \<Rightarrow> bool \<Rightarrow> mapping_items \<Rightarrow>
    string \<Rightarrow> ts_arg \<Rightarrow> ledger \<Rightarrow> kernel_error + (RecoveryReport \<times> ledger)" where
  "retry_blocked_stage_without_effect E i reason verified_no_external_effect operator_reauthorized
      evidence actor now L =
     bindE (guardE verified_no_external_effect
        (ValueError ''blocked stage retry requires verified_no_external_effect'')) (\<lambda>_.
     let recovery_reason = strip reason in
     bindE (guardE (recovery_reason \<noteq> []) (ValueError ''blocked stage retry requires a reason'')) (\<lambda>_.
     bindE (iso_timestamp (clock E 0) now) (\<lambda>at.
     bindE (parked_stage i WF_BLOCKED '' is not blocked'' L) (\<lambda>(stage_id, latest).
     bindE (case latest of
         None \<Rightarrow> Inl (LedgerConflict (quoted_instance i @ '' has no retryable failed current stage''))
       | Some r \<Rightarrow> if retryable_status (sr_status r) then Inr r
           else Inl (LedgerConflict (quoted_instance i @ '' has no retryable failed current stage''))) (\<lambda>row.
     bindE (guardE (\<not> sr_approval_required row \<or> operator_reauthorized)
        (LedgerConflict ''approval-required stage retry requires operator_reauthorized'')) (\<lambda>_.
     let as = filter (\<lambda>a. ar_stage_run_id a = Some (sr_id row)) (artifact_refs L) in
     bindE (if as = [] then Inr ()
        else bindE (find_receipt (if has_key evidence ''source_receipt_id''
                 then dict_get evidence ''source_receipt_id'' else PStr []) L) (\<lambda>source.
          guardE (diagnostic_evidence_valid operator_reauthorized row evidence as source)
            (LedgerConflict ''failed stage has a durable artifact; use effect-aware recovery with exact diagnostic evidence''))) (\<lambda>_.
     append_attempt E i stage_id row (str_or (sr_idempotency_key row)) ''blocked_stage_retry_authorized''
       ''blocked_stage_retry_queued''
       (\<lambda>n. [(''failed_stage_run_id'', PStr (sr_id row)), (''new_stage_run_id'', PStr n),
          (''reason'', PStr recovery_reason), (''verified_no_external_effect'', PBool True),
          (''operator_reauthorized'', PBool operator_reauthorized),
          (''diagnostic_artifact_evidence'', PDict evidence)])
       actor recovery_reason at L)))))))"

section \<open>Repair of a local preparation\<close>

text \<open>\<open>rowid\<close> of a run: its position in the table.\<close>

definition run_position :: "string \<Rightarrow> ledger \<Rightarrow> nat" where
  "run_position i L = length (takeWhile (\<lambda>r. sr_id r \<noteq> i) (stage_runs L))"

text \<open>\<open>str(adapter_id)\<close>, which is \<open>"None"\<close> for NULL.\<close>

definition adapter_text :: "stage_run_row \<Rightarrow> string" where
  "adapter_text r = the_or ''None'' (sr_adapter_id r)"

definition in_flight_status :: "StageRunStatus \<Rightarrow> bool" where
  "in_flight_status s \<longleftrightarrow> s \<in> {SR_QUEUED, SR_CLAIMED, SR_STARTED, SR_WAITING, SR_WAITING_ON_HUMAN, SR_VALIDATING}"

definition repairable :: "instance_row \<Rightarrow> stage_run_row \<Rightarrow> stage_run_row \<Rightarrow> ledger \<Rightarrow> bool" where
  "repairable inst blocked checkpoint L \<longleftrightarrow>
     wi_current_stage_id inst = Some (sr_stage_id blocked) \<and>
     sr_status blocked = SR_BLOCKED \<and>
     sr_failure_class blocked = Some (failure_value FC_INVALID_OUTPUT) \<and>
     starts_with ''surface.'' (adapter_text blocked) \<and>
     sr_status checkpoint = SR_SUCCEEDED \<and>
     starts_with ''lane.'' (adapter_text checkpoint) \<and>
     run_position (sr_id checkpoint) L < run_position (sr_id blocked) L"

definition local_adapter :: "stage_run_row \<Rightarrow> bool" where
  "local_adapter r \<longleftrightarrow> starts_with ''lane.'' (adapter_text r) \<or> starts_with ''surface.'' (adapter_text r)"

definition run_of_instance :: "string \<Rightarrow> string \<Rightarrow> ledger \<Rightarrow> stage_run_row option" where
  "run_of_instance run i L = select_one (\<lambda>r. sr_id r = run \<and> sr_instance_id r = i) (stage_runs L)"

text \<open>The guards: the checkpoint run the repair starts again from.\<close>

definition repair_subject :: "string \<Rightarrow> string \<Rightarrow> string \<Rightarrow> string \<Rightarrow> ledger \<Rightarrow> kernel_error + stage_run_row" where
  "repair_subject i expected_hash blocked_id checkpoint_id L =
     bindE (case find_instance i L of
         None \<Rightarrow> Inl (LedgerConflict ''repair requires the exact blocked workflow snapshot'')
       | Some inst \<Rightarrow> if wi_status inst = WF_BLOCKED \<and> wi_definition_hash inst = Some expected_hash then Inr inst
           else Inl (LedgerConflict ''repair requires the exact blocked workflow snapshot'')) (\<lambda>inst.
     bindE (case (run_of_instance blocked_id i L, run_of_instance checkpoint_id i L) of
         (Some blocked, Some checkpoint) \<Rightarrow> if repairable inst blocked checkpoint L then Inr (blocked, checkpoint)
           else Inl (LedgerConflict ''repair requires a completed local checkpoint before an invalid unaccepted surface'')
       | _ \<Rightarrow> Inl (LedgerConflict ''repair requires a completed local checkpoint before an invalid unaccepted surface''))
     (\<lambda>(blocked, checkpoint).
     bindE (guardE (map_option sr_id (fetchlast (sort_key sr_attempt (filter (\<lambda>r. sr_instance_id r = i \<and>
            sr_stage_id r = sr_stage_id blocked) (stage_runs L)))) = Some blocked_id)
       (LedgerConflict ''repair requires the latest blocked review attempt'')) (\<lambda>_.
     let crossed = drop (run_position checkpoint_id L) (stage_runs L) in
     bindE (guardE (\<forall>r \<in> set crossed. sr_instance_id r = i \<longrightarrow> local_adapter r \<and>
            (sr_lease_token r = None \<or> sr_lease_token r = Some []))
       (LedgerConflict ''repair cannot cross runtime, host or leased work'')) (\<lambda>_.
     bindE (guardE (\<not> (\<exists>d \<in> set (human_decisions L). hd_instance_id d = i \<and>
            hd_stage_run_id d \<in> sr_id ` set crossed))
       (LedgerConflict ''repair cannot cross a recorded human decision'')) (\<lambda>_.
     bindE (guardE (\<not> (\<exists>r \<in> set (stage_runs L). sr_instance_id r = i \<and> in_flight_status (sr_status r)))
       (LedgerConflict ''repair requires no pending or in-flight stage'')) (\<lambda>_.
     Inr checkpoint))))))"

definition queue_local_preparation_repair :: "env \<Rightarrow> string \<Rightarrow> string \<Rightarrow> string \<Rightarrow> string \<Rightarrow> string \<Rightarrow> bool \<Rightarrow>
    bool \<Rightarrow> string \<Rightarrow> ts_arg \<Rightarrow> ledger \<Rightarrow> kernel_error + (pyval \<times> ledger)" where
  "queue_local_preparation_repair E i expected_hash blocked_id checkpoint_id reason
      verified_no_external_effect operator_reauthorized actor now L =
     bindE (guardE (expected_hash \<noteq> [] \<and> verified_no_external_effect \<and> operator_reauthorized \<and> strip reason \<noteq> [])
        (ValueError ''local preparation repair requires explicit reason and no-effect authorization'')) (\<lambda>_.
     bindE (iso_timestamp (clock E 0) now) (\<lambda>at.
     bindE (repair_subject i expected_hash blocked_id checkpoint_id L) (\<lambda>checkpoint.
     let attempt = next_attempt L i (sr_stage_id checkpoint);
         new_id = attempt_id i (sr_stage_id checkpoint) attempt;
         result = PDict [(''instance_id'', PStr i), (''stage_run_id'', PStr new_id),
           (''stage_id'', PStr (sr_stage_id checkpoint)), (''attempt'', PInt attempt),
           (''blocked_stage_run_id'', PStr blocked_id), (''checkpoint_stage_run_id'', PStr checkpoint_id),
           (''reason'', PStr reason), (''verified_no_external_effect'', PBool True),
           (''operator_reauthorized'', PBool True), (''status'', PStr ''queued'')]
     in bindE (insert_run (new_run_row new_id i (sr_stage_id checkpoint) attempt SR_QUEUED
           (sr_adapter_id checkpoint) (sr_actor_ref checkpoint) (Some new_id) (sr_input_hash checkpoint)
           (Some checkpoint_id) at) L) (\<lambda>L1.
        bindE (emit E i (Some new_id) ''local_preparation_repair_queued'' actor result at
           (update_instances (\<lambda>r. wi_instance_id r = i)
              (\<lambda>r. r\<lparr>wi_status := WF_RUNNING, wi_current_stage_id := Some (sr_stage_id checkpoint),
                 wi_recovery_epoch := wi_recovery_epoch r + 1, wi_updated_at := at\<rparr>) L1)) (\<lambda>L2.
        Inr (result, L2))))))"

end
