(* ===== verification/Ledger_Records.thy ===== *)
theory Ledger_Records
  imports Ledger_Leases
begin

text \<open>
  The evidence tables of \<^verbatim>\<open>WorkflowLedger\<close>: adapter invocations, receipts and artifacts,
  child sessions, late results, prompt pins, and the event log.
\<close>

section \<open>Adapter invocations\<close>

definition invocation_row_of :: "AdapterInvocation \<Rightarrow> string \<Rightarrow> string option \<Rightarrow> string option \<Rightarrow> string option \<Rightarrow>
    string option \<Rightarrow> string option \<Rightarrow> string \<Rightarrow> string option \<Rightarrow> invocation_row" where
  "invocation_row_of ivn status request_hash response_hash external_ref error_class error_summary started completed =
     \<lparr>ai_id = inv_id ivn, ai_workflow_id = inv_workflow_id ivn, ai_instance_id = inv_instance_id ivn,
      ai_stage_run_id = inv_stage_run_id ivn, ai_family = inv_family ivn,
      ai_adapter_id = inv_adapter_id ivn, ai_operation = inv_operation ivn,
      ai_input_ref = inv_input_ref ivn, ai_context_packet_ref = inv_context_packet_ref ivn,
      ai_idempotency_key = inv_idempotency_key ivn, ai_status = status,
      ai_request_hash = request_hash, ai_response_hash = response_hash, ai_external_ref = external_ref,
      ai_error_class = error_class, ai_error_summary = error_summary, ai_started_at = started,
      ai_completed_at = completed, ai_invocation = invocation_plain ivn\<rparr>"

definition record_adapter_invocation :: "env \<Rightarrow> AdapterInvocation \<Rightarrow> string \<Rightarrow> string option \<Rightarrow> string option \<Rightarrow>
    string option \<Rightarrow> string option \<Rightarrow> string option \<Rightarrow> ts_arg \<Rightarrow> ts_arg \<Rightarrow> ledger \<Rightarrow>
    kernel_error + (unit \<times> ledger)" where
  "record_adapter_invocation E ivn status request_hash response_hash external_ref error_class error_summary
      started_at completed_at L =
     bindE (iso_timestamp (clock E 0) started_at) (\<lambda>started.
     bindE (if completed_at = TsNone then Inr None
        else bindE (iso_timestamp (clock E 1) completed_at) (\<lambda>t. Inr (Some t))) (\<lambda>completed.
     bindE (insert_invocation (invocation_row_of ivn status request_hash response_hash external_ref
        error_class error_summary started completed) L) (\<lambda>L1.
     Inr ((), L1))))"

definition record_adapter_invocation_started :: "env \<Rightarrow> AdapterInvocation \<Rightarrow> string option \<Rightarrow> string \<Rightarrow>
    mapping_items \<Rightarrow> ts_arg \<Rightarrow> ledger \<Rightarrow> kernel_error + (unit \<times> ledger)" where
  "record_adapter_invocation_started E ivn request_hash actor side_effect_scope started_at L =
     bindE (iso_timestamp (clock E 0) started_at) (\<lambda>started.
     bindE (insert_invocation (invocation_row_of ivn ''started'' request_hash None None None None started None) L) (\<lambda>L1.
     bindE (emit E (inv_instance_id ivn) (Some (inv_stage_run_id ivn)) ''adapter_invocation_preflight'' actor
        (PDict [(''invocation_id'', PStr (inv_id ivn)), (''adapter_family'', PStr (family_value (inv_family ivn))),
           (''adapter_id'', PStr (inv_adapter_id ivn)), (''operation'', PStr (inv_operation ivn)),
           (''idempotency_key'', opt_str (inv_idempotency_key ivn)), (''request_hash'', opt_str request_hash),
           (''side_effect_scope'', PDict side_effect_scope)]) started L1) (\<lambda>L2.
     Inr ((), L2))))"

definition complete_adapter_invocation :: "env \<Rightarrow> string \<Rightarrow> string \<Rightarrow> string \<Rightarrow> string option \<Rightarrow> string option \<Rightarrow>
    string option \<Rightarrow> string option \<Rightarrow> ts_arg \<Rightarrow> ledger \<Rightarrow> kernel_error + (unit \<times> ledger)" where
  "complete_adapter_invocation E invocation_id status actor response_hash external_ref error_class
      error_summary completed_at L =
     bindE (iso_timestamp (clock E 0) completed_at) (\<lambda>completed.
     case select_one (\<lambda>a. ai_id a = invocation_id) (adapter_invocations L) of
       None \<Rightarrow> Inl (LedgerConflict (''adapter invocation '' @ repr_str invocation_id @ '' is not started''))
     | Some row \<Rightarrow>
         bindE (emit E (ai_instance_id row) (Some (ai_stage_run_id row)) ''adapter_invocation_completed'' actor
           (PDict [(''invocation_id'', PStr invocation_id), (''status'', PStr status),
              (''response_hash'', opt_str response_hash), (''external_ref'', opt_str external_ref),
              (''error_class'', opt_str error_class), (''error_summary'', opt_str error_summary)]) completed
           (update_invocations (\<lambda>a. ai_id a = invocation_id)
              (\<lambda>a. a\<lparr>ai_status := status, ai_response_hash := response_hash, ai_external_ref := external_ref,
                 ai_error_class := error_class, ai_error_summary := error_summary,
                 ai_completed_at := Some completed\<rparr>) L)) (\<lambda>L1.
         Inr ((), L1)))"

section \<open>Prompt pins, receipts and artifacts\<close>

definition record_stage_run_prompt_context :: "string \<Rightarrow> string \<Rightarrow> string \<Rightarrow> string \<Rightarrow> string \<Rightarrow> ledger \<Rightarrow>
    kernel_error + (unit \<times> ledger)" where
  "record_stage_run_prompt_context stage_run_id prompt_hash packet_ref packet_hash rendered_hash L =
     Inr ((), update_runs (\<lambda>r. sr_id r = stage_run_id)
        (\<lambda>r. r\<lparr>sr_prompt_hash := Some prompt_hash, sr_context_packet_ref := Some packet_ref,
           sr_context_packet_hash := Some packet_hash, sr_rendered_context_hash := Some rendered_hash\<rparr>) L)"

text \<open>\<open>runtime_provenance.get("actor", "unknown")\<close> bound to a TEXT NOT NULL column.\<close>

definition bound_actor :: "mapping_items \<Rightarrow> kernel_error + string" where
  "bound_actor m = (if \<not> has_key m ''actor'' then Inr ''unknown'' else
     (case dict_get m ''actor'' of
        PStr s \<Rightarrow> Inr s
      | PInt n \<Rightarrow> Inr (show_int n)
      | PBool b \<Rightarrow> Inr (if b then ''1'' else ''0'')
      | PNone \<Rightarrow> Inl (IntegrityError ''NOT NULL constraint failed: receipts.actor'')
      | _ \<Rightarrow> Inl (ProgrammingError ''Error binding parameter 5: type is not supported'')))"

definition record_artifact :: "Receipt \<Rightarrow> ArtifactRef \<Rightarrow> ledger \<Rightarrow> kernel_error + ledger" where
  "record_artifact c a L = insert_artifact
     \<lparr>ar_id = af_id a, ar_instance_id = rcpt_instance_id c, ar_stage_run_id = Some (rcpt_stage_run_id c),
      ar_receipt_id = Some (rcpt_id c), ar_role = af_role a, ar_uri = af_uri a,
      ar_content_hash = af_content_hash a, ar_mime_type = af_mime_type a,
      ar_size_bytes = af_size_bytes a, ar_created_by = af_created_by a,
      ar_visibility = af_visibility a, ar_created_at = rcpt_created_at c\<rparr> L"

definition record_receipt :: "env \<Rightarrow> Receipt \<Rightarrow> ledger \<Rightarrow> kernel_error + (unit \<times> ledger)" where
  "record_receipt E c L =
     bindE (bound_actor (rcpt_runtime_provenance c)) (\<lambda>actor.
     bindE (insert_receipt \<lparr>rc_id = rcpt_id c, rc_instance_id = rcpt_instance_id c,
        rc_stage_run_id = Some (rcpt_stage_run_id c), rc_kind = rcpt_kind c, rc_actor = actor,
        rc_status = rcpt_status c, rc_failure_class = None, rc_summary = rcpt_summary c,
        rc_receipt = receipt_plain c, rc_created_at = rcpt_created_at c\<rparr> L) (\<lambda>L1.
     bindE (foldE (record_artifact c) (rcpt_artifact_refs c) L1) (\<lambda>L2.
     bindE (emit E (rcpt_instance_id c) (Some (rcpt_stage_run_id c)) ''receipt_recorded'' actor
        (PDict [(''receipt_id'', PStr (rcpt_id c)), (''kind'', PStr (rcpt_kind c))])
        (rcpt_created_at c) L2) (\<lambda>L3.
     Inr ((), L3)))))"

section \<open>Child sessions\<close>

definition insert_child_session :: "env \<Rightarrow> string \<Rightarrow> string \<Rightarrow> string \<Rightarrow> string \<Rightarrow> string \<Rightarrow> string \<Rightarrow> pyval \<Rightarrow>
    pyval \<Rightarrow> string \<Rightarrow> string \<Rightarrow> string option \<Rightarrow> string option \<Rightarrow> string option \<Rightarrow> string option \<Rightarrow> ts_arg \<Rightarrow>
    ts_arg \<Rightarrow> ledger \<Rightarrow> kernel_error + (unit \<times> ledger)" where
  "insert_child_session E child_session_id parent kind owner goal_hash packet_hash allowed_scope expected_receipts
      status audit_status invocation_id source_thread_id external_session_id transcript_ref deadline_at created_at L =
     bindE (iso_timestamp (clock E 0) created_at) (\<lambda>now.
     bindE (if deadline_at = TsNone then Inr None
        else bindE (iso_timestamp (clock E 1) deadline_at) (\<lambda>t. Inr (Some t))) (\<lambda>deadline.
     bindE (insert_child \<lparr>cs_id = child_session_id, cs_parent = parent, cs_invocation_id = invocation_id,
        cs_source_thread_id = source_thread_id, cs_external_session_id = external_session_id,
        cs_delegate_kind = kind, cs_delegate_owner = owner, cs_goal_hash = goal_hash,
        cs_context_packet_hash = packet_hash, cs_allowed_scope = allowed_scope,
        cs_expected_receipts = expected_receipts, cs_status = status, cs_audit_status = audit_status,
        cs_transcript_ref = transcript_ref, cs_last_seen_at = Some now, cs_deadline_at = deadline,
        cs_created_at = now, cs_updated_at = now\<rparr> L) (\<lambda>L1.
     case find_run parent L1 of
       None \<Rightarrow> Inr ((), L1)
     | Some row \<Rightarrow>
         bindE (emit E (sr_instance_id row) (Some parent) ''child_session_opened'' owner
           (PDict [(''child_session_id'', PStr child_session_id), (''delegate_kind'', PStr kind),
              (''goal_hash'', PStr goal_hash), (''status'', PStr status), (''deadline_at'', opt_str deadline)])
           now L1) (\<lambda>L2.
         Inr ((), L2)))))"

definition find_child :: "string \<Rightarrow> ledger \<Rightarrow> child_row option" where
  "find_child i L = select_one (\<lambda>c. cs_id c = i) (child_sessions L)"

definition update_child_session :: "env \<Rightarrow> string \<Rightarrow> string option \<Rightarrow> string option \<Rightarrow> string option \<Rightarrow> ts_arg \<Rightarrow>
    string option \<Rightarrow> string \<Rightarrow> ts_arg \<Rightarrow> ledger \<Rightarrow> kernel_error + (unit \<times> ledger)" where
  "update_child_session E child_session_id status audit_status transcript_ref last_seen_at external_session_id
      actor now L =
     bindE (iso_timestamp (clock E 0) now) (\<lambda>updated_at.
     case find_child child_session_id L of
       None \<Rightarrow> Inl (LedgerConflict (''child session '' @ repr_str child_session_id @ '' does not exist''))
     | Some row \<Rightarrow>
         bindE (if last_seen_at = TsNone then Inr (cs_last_seen_at row)
            else bindE (iso_timestamp (clock E 1) last_seen_at) (\<lambda>t. Inr (Some t))) (\<lambda>last_seen.
         let new_status = the_or (cs_status row) status;
             new_audit = the_or (cs_audit_status row) audit_status;
             new_transcript = coalesce transcript_ref (cs_transcript_ref row);
             L1 = update_children (\<lambda>c. cs_id c = child_session_id)
               (\<lambda>c. c\<lparr>cs_status := new_status, cs_audit_status := new_audit,
                  cs_transcript_ref := new_transcript, cs_last_seen_at := last_seen,
                  cs_external_session_id := coalesce external_session_id (cs_external_session_id row),
                  cs_updated_at := updated_at\<rparr>) L
         in case find_run (cs_parent row) L1 of
              None \<Rightarrow> Inr ((), L1)
            | Some parent \<Rightarrow>
                bindE (emit E (sr_instance_id parent) (Some (cs_parent row)) ''child_session_updated'' actor
                  (PDict [(''child_session_id'', PStr child_session_id), (''status'', PStr new_status),
                     (''audit_status'', PStr new_audit), (''transcript_ref'', opt_str new_transcript)])
                  updated_at L1) (\<lambda>L2.
                Inr ((), L2))))"

section \<open>Late results and the event log\<close>

definition record_late_result :: "env \<Rightarrow> string \<Rightarrow> string \<Rightarrow> pyval \<Rightarrow> string option \<Rightarrow> string option \<Rightarrow>
    string option \<Rightarrow> string option \<Rightarrow> ts_arg \<Rightarrow> string \<Rightarrow> ledger \<Rightarrow> kernel_error + (string \<times> ledger)" where
  "record_late_result E stage_run_id result_kind evidence reported_token reported_owner result_hash external_ref
      observed_at actor L0 =
     bindE (iso_timestamp (clock E 0) TsNone) (\<lambda>recorded_at.
     bindE (iso_timestamp (clock E 1) observed_at) (\<lambda>observed.
     let (uid, L) = next_uuid E L0;
         late_id = ''late:'' @ stage_run_id @ '':'' @ uid
     in case find_run stage_run_id L of
          None \<Rightarrow> Inl (LedgerConflict (''stage run '' @ repr_str stage_run_id @ '' does not exist''))
        | Some row \<Rightarrow>
            bindE (insert_late \<lparr>lr_id = late_id, lr_instance_id = sr_instance_id row,
               lr_stage_run_id = stage_run_id, lr_reported_lease_token = reported_token,
               lr_reported_owner = reported_owner, lr_result_kind = result_kind,
               lr_result_hash = result_hash, lr_external_ref = external_ref, lr_evidence = evidence,
               lr_observed_at = observed, lr_recorded_at = recorded_at\<rparr> L) (\<lambda>L1.
            bindE (emit E (sr_instance_id row) (Some stage_run_id) ''late_result_recorded'' actor
               (PDict [(''late_result_id'', PStr late_id), (''result_kind'', PStr result_kind),
                  (''result_hash'', opt_str result_hash), (''external_ref'', opt_str external_ref),
                  (''reported_owner'', opt_str reported_owner), (''reported_lease_token'', opt_str reported_token),
                  (''non_authoritative'', PBool True),
                  (''stage_status_at_recording'', PStr (run_status_value (sr_status row)))]) recorded_at L1) (\<lambda>L2.
            Inr (late_id, L2)))))"

definition list_late_results :: "string \<Rightarrow> ledger \<Rightarrow> late_row list" where
  "list_late_results i L = sort_key (\<lambda>r. (lr_recorded_at r, lr_id r))
     (filter (\<lambda>r. lr_stage_run_id r = i) (late_results L))"

definition append_event :: "env \<Rightarrow> string \<Rightarrow> string option \<Rightarrow> string \<Rightarrow> string \<Rightarrow> mapping_items \<Rightarrow> ts_arg \<Rightarrow>
    ledger \<Rightarrow> kernel_error + (unit \<times> ledger)" where
  "append_event E instance_id stage_run_id event_type actor payload created_at L =
     bindE (iso_timestamp (clock E 0) created_at) (\<lambda>now.
     bindE (emit E instance_id stage_run_id event_type actor (PDict payload) now L) (\<lambda>L1.
     Inr ((), L1)))"

definition list_events :: "string option \<Rightarrow> ledger \<Rightarrow> event_row list" where
  "list_events run L = (case run of None \<Rightarrow> events L
     | Some i \<Rightarrow> filter (\<lambda>e. ev_stage_run_id e = Some i) (events L))"

end
