(* ===== verification/Ledger_Refinement.thy ===== *)
theory Ledger_Refinement
  imports Ledger_Actions Ledger_Gates Ledger_Records
begin

text \<open>
  Every operation of the ledger refines a sequence of the abstract actions.  What a caller
  owes is stated per operation: a run is failed or decided with a verdict status, and the
  public \<open>append_event\<close> and \<open>update_workflow_instance\<close> do not forge a \<open>stage_started\<close> event.
\<close>

section \<open>Composing actions\<close>

lemma action_emit:
  assumes "action u L M" "emit E w s ty a p c M = Inr L'" "ty \<noteq> ''stage_started''" "uuid_hex E = u"
  shows "actions u L L'"
  using assms(1) action.log[OF assms(2-4)] by (rule converse_rtranclp_into_rtranclp[OF _ r_into_rtranclp])

lemma actions_emit:
  assumes "actions u L M" "emit E w s ty a p c M = Inr L'" "ty \<noteq> ''stage_started''" "uuid_hex E = u"
  shows "actions u L L'"
  using assms(1) action.log[OF assms(2-4)] by (rule rtranclp.rtrancl_into_rtrancl)

lemmas actions_step = rtranclp.rtrancl_into_rtrancl[where r = "action u" for u]

section \<open>The authority check\<close>

lemma require_leased_run_Inr:
  "require_leased_run E i t at w ps L = Inr r \<longleftrightarrow>
     select_one (leased_as i t) (stage_runs L) = Some r \<and> sr_lease_owner r = Some w \<and> sr_status r \<in> set ps \<and>
     (\<exists>m e x. coerce_datetime E at = Inr m \<and> sr_lease_expires_at r = Some e \<and>
        coerce_datetime E e = Inr x \<and> m < x)"
  unfolding require_leased_run_def Let_def leased_as_def [abs_def]
  by (auto simp: error_simps not_le split: option.splits if_splits)

lemma require_leased_run_row:
  assumes "require_leased_run E i t at w ps L = Inr r"
  shows "r \<in> set (stage_runs L)" "sr_id r = i" "sr_lease_token r = Some t" "sr_lease_owner r = Some w"
    "sr_status r \<in> set ps"
  using assms by (auto simp: require_leased_run_Inr leased_as_def dest: select_one_Some)

lemma all_active_lease_set: "set all_active_lease = {s. active_lease s}"
  by (auto simp: all_active_lease_def all_run_status_def active_lease_def)

text \<open>Under integrity the rows the UPDATE rewrites are exactly the row that was checked.\<close>

lemma leased_row_unique:
  assumes "ledger_ok L" "require_leased_run E i t at w ps L = Inr r" "s \<in> set (stage_runs L)" "leased_as i t s"
  shows "s = r"
  using same_run[OF assms(1,3) require_leased_run_row(1)[OF assms(2)]] require_leased_run_row(2)[OF assms(2)] assms(4)
  by (simp add: leased_as_def)

text \<open>A settling UPDATE under the check is an allowed rewrite.\<close>

lemma settle_action:
  assumes ok: "ledger_ok L" and lease: "require_leased_run E i t at w all_active_lease L = Inr r"
    and f: "same_run r (f r)" "lease_cleared (f r)"
      "verdict_status (sr_status (f r)) \<or> sr_status (f r) = SR_WAITING_ON_HUMAN"
  shows "action u L (update_runs (leased_as i t) f L)"
proof (rule action.rewrite)
  fix s assume "s \<in> set (stage_runs L)" "leased_as i t s"
  then have "s = r" using leased_row_unique[OF ok lease] by blast
  have "active_lease (sr_status r)"
    using require_leased_run_row(5)[OF lease] by (simp add: all_active_lease_set)
  then have "lifecycle (sr_status r) (sr_status (f r))"
    using f(3) by (auto intro: lifecycle.settled lifecycle.gated)
  moreover have "sr_status (f r) \<noteq> SR_QUEUED" using f(3) by (auto simp: verdict_status_def)
  ultimately show "run_rewrite L s (f s)" using f(1,2) \<open>s = r\<close> by (simp add: run_rewrite_def)
qed

lemma clear_lease_simps [simp]:
  "lease_cleared (clear_lease r)" "sr_status (clear_lease r) = sr_status r"
  "same_run q (clear_lease r) = same_run q r" "sr_id (clear_lease r) = sr_id r"
  "sr_instance_id (clear_lease r) = sr_instance_id r" "sr_stage_id (clear_lease r) = sr_stage_id r"
  "sr_attempt (clear_lease r) = sr_attempt r" "sr_parent (clear_lease r) = sr_parent r"
  "sr_input_hash (clear_lease r) = sr_input_hash r" "sr_created_at (clear_lease r) = sr_created_at r"
  by (simp_all add: lease_cleared_def clear_lease_def same_run_def same_run_keys_def)

lemma run_rewrite_cleared:
  "same_run r s \<Longrightarrow> lease_cleared s \<Longrightarrow> lifecycle (sr_status r) (sr_status s) \<or> sr_status s = sr_status r \<Longrightarrow>
   sr_status s \<noteq> SR_QUEUED \<Longrightarrow> run_rewrite L r s"
  by (simp add: run_rewrite_def)

lemmas same_run_defs = same_run_def same_run_keys_def

section \<open>Leases\<close>

lemma insert_stage_run_actions:
  "insert_stage_run E run ih idem parent c L = Inr (x, L') \<Longrightarrow> actions (uuid_hex E) L L'"
  by (auto simp: insert_stage_run_def error_simps new_run_row_def intro!: r_into_rtranclp action.new_run)

lemma first_match_Some: "first_match p rs = Inr (Some r) \<Longrightarrow> r \<in> set rs \<and> p r = Inr True"
  by (induction rs) (auto simp: error_simps split: if_splits)

lemma claim_candidate_row:
  "claim_candidate at inst p L = Inr (Some row) \<Longrightarrow> row \<in> set (stage_runs L) \<and> claimable at inst row"
  unfolding claim_candidate_def by (drule first_match_Some) simp

lemma claim_next_queued_run_Inr:
  assumes "claim_next_queued_run E w inst secs res pr ctx now L = Inr (x, L')"
  shows "\<exists>at. iso_timestamp (clock E 0) now = Inr at \<and>
    (x = Inr None \<and> L' = L\<lparr>uuid_draws := Suc (uuid_draws L)\<rparr> \<and>
        claim_candidate at inst pr (L\<lparr>uuid_draws := Suc (uuid_draws L)\<rparr>) = Inr None \<or>
     (\<exists>row lease t e. claim_candidate at inst pr (L\<lparr>uuid_draws := Suc (uuid_draws L)\<rparr>) = Inr (Some row) \<and>
        lease_for secs res row = Inr lease \<and> coerce_datetime E at = Inr t \<and>
        add_seconds t (lp_lease_seconds lease) = Inr e \<and>
        grant_claim E w (uuid_hex E (uuid_draws L)) (isoformat e) lease ctx at row
          (L\<lparr>uuid_draws := Suc (uuid_draws L)\<rparr>) = Inr L' \<and>
        x = (case find_run (sr_id row) L' of None \<Rightarrow> Inl (TypeError ''NoneType object is not subscriptable'')
           | Some updated \<Rightarrow> bindE (stage_run_from_row updated) (\<lambda>x. Inr (Some x)))))"
proof -
  from assms obtain at c where at: "iso_timestamp (clock E 0) now = Inr at"
    and c: "claim_candidate at inst pr (L\<lparr>uuid_draws := Suc (uuid_draws L)\<rparr>) = Inr c"
    by (auto simp: claim_next_queued_run_def next_uuid_def error_simps)
  show ?thesis
  proof (cases c)
    case None
    then show ?thesis using assms at c by (simp add: claim_next_queued_run_def next_uuid_def)
  next
    case (Some row)
    then show ?thesis using assms at c
      by (simp add: claim_next_queued_run_def next_uuid_def bindE_eq_Inr) blast
  qed
qed

lemma claim_next_queued_run_actions:
  assumes "claim_next_queued_run E w inst secs res pr ctx now L = Inr (x, L')"
  shows "actions (uuid_hex E) L L'"
proof -
  let ?M = "L\<lparr>uuid_draws := Suc (uuid_draws L)\<rparr>"
  consider "L' = ?M" | at row lease e where
    "grant_claim E w (uuid_hex E (uuid_draws L)) e lease ctx at row ?M = Inr L'"
    using claim_next_queued_run_Inr[OF assms] by blast
  then show ?thesis
  proof cases
    case 1
    then show ?thesis using action.draw by (metis r_into_rtranclp)
  next
    case (2 at row lease e)
    show ?thesis
      by (rule action_emit[OF action.claim 2[unfolded grant_claim_def]])
        (auto simp: claims_def claim_row_def same_run_defs)
  qed
qed

lemma renew_lease_Inr:
  assumes "renew_lease E i w t secs now L = Inr (b, L')"
  shows "if b then \<exists>(row :: stage_run_row) e at c. emit E (sr_instance_id row) (Some i) ''lease_renewed'' w c at
      (update_runs (\<lambda>r. sr_id r = i \<and> sr_lease_owner r = Some w \<and> sr_lease_token r = Some t)
        (\<lambda>r. r\<lparr>sr_lease_expires_at := Some e, sr_updated_at := at\<rparr>) L) = Inr L' else L' = L"
proof (cases "select_one (\<lambda>r. sr_id r = i \<and> sr_lease_owner r = Some w \<and> sr_lease_token r = Some t) (stage_runs L)")
  case None
  then show ?thesis using assms by (auto simp: renew_lease_def error_simps)
next
  case (Some row)
  then show ?thesis using assms
    by (cases b) (auto simp: renew_lease_def error_simps split: if_split_asm)
qed

lemma renew_lease_actions:
  assumes "renew_lease E i w t secs now L = Inr (b, L')"
  shows "actions (uuid_hex E) L L'"
proof -
  consider "L' = L" | row :: stage_run_row and e at c where "emit E (sr_instance_id row) (Some i) ''lease_renewed'' w c at
      (update_runs (\<lambda>r. sr_id r = i \<and> sr_lease_owner r = Some w \<and> sr_lease_token r = Some t)
        (\<lambda>r. r\<lparr>sr_lease_expires_at := Some e, sr_updated_at := at\<rparr>) L) = Inr L'"
    using renew_lease_Inr[OF assms] by (auto split: if_split_asm)
  then show ?thesis
  proof cases
    case (2 row e at c)
    show ?thesis by (rule action_emit[OF action.rewrite 2]) (auto simp: run_rewrite_def same_run_defs)
  qed simp
qed

lemma mark_stage_run_started_actions:
  assumes "mark_stage_run_started E i t a w idem scope fam ad op rh now L = Inr (x, L')" "ledger_ok L"
  shows "actions (uuid_hex E) L L'"
proof -
  obtain at r c where lease: "require_leased_run E i t at (str_or w a) [SR_CLAIMED] L = Inr r"
    and emit: "emit E (sr_instance_id r) (Some i) ''stage_started'' a c at (update_runs (leased_as i t)
         (\<lambda>r. r\<lparr>sr_status := SR_STARTED, sr_started_at := coalesce (sr_started_at r) (Some at),
               sr_idempotency_key := coalesce (sr_idempotency_key r) idem, sr_updated_at := at\<rparr>) L) = Inr L'"
    using assms(1) unfolding mark_stage_run_started_def by (auto simp: error_simps)
  note row = require_leased_run_row[OF lease]
  have "action (uuid_hex E) L L'"
  proof (rule action.start[OF _ _ refl emit])
    fix s assume "s \<in> set (stage_runs L)" "leased_as i t s"
    then have "s = r" using leased_row_unique[OF assms(2) lease] by blast
    then show "sr_id s = i \<and> starts s (s\<lparr>sr_status := SR_STARTED, sr_started_at := coalesce (sr_started_at s) (Some at),
               sr_idempotency_key := coalesce (sr_idempotency_key s) idem, sr_updated_at := at\<rparr>)"
      using row by (simp add: starts_def same_run_defs)
  qed (use row in \<open>auto simp: leased_as_def\<close>)
  then show ?thesis by (rule r_into_rtranclp)
qed

lemma complete_stage_run_actions:
  assumes "complete_stage_run E i t rid oh now a w L = Inr (x, L')" "ledger_ok L"
  shows "actions (uuid_hex E) L L'"
  using assms(1) unfolding complete_stage_run_def
  by (auto simp: error_simps same_run_defs verdict_status_def
      elim!: action_emit[rotated] intro!: settle_action[OF assms(2)])

lemma fail_stage_run_actions:
  assumes "fail_stage_run E i t fc fs st ra now a w L = Inr (x, L')" "ledger_ok L" "verdict_status st"
  shows "actions (uuid_hex E) L L'"
  using assms(1,3) unfolding fail_stage_run_def
  by (auto simp: error_simps same_run_defs
      elim!: action_emit[rotated] intro!: settle_action[OF assms(2)])

lemma block_stage_run_actions:
  assumes "block_stage_run E i t fc fs ar now a w L = Inr (x, L')" "ledger_ok L"
  shows "actions (uuid_hex E) L L'"
  using assms(1) unfolding block_stage_run_def
  by (auto simp: error_simps same_run_defs verdict_status_def
      elim!: action_emit[rotated] intro!: settle_action[OF assms(2)])

lemma wait_stage_run_for_human_decision_actions:
  assumes "wait_stage_run_for_human_decision E i t fc fs now a w L = Inr (x, L')" "ledger_ok L"
  shows "actions (uuid_hex E) L L'"
  using assms(1) unfolding wait_stage_run_for_human_decision_def
  by (auto simp: error_simps same_run_defs verdict_status_def
      elim!: action_emit[rotated] intro!: settle_action[OF assms(2)])

lemma stage_status_for_failure_verdict: "verdict_status (stage_status_for_failure fc)"
  by (simp add: stage_status_for_failure_def verdict_status_def)

lemma schedule_retry_Inr:
  assumes "schedule_retry E i t fc fs ra now a w L = Inr (x, L')"
  shows "\<exists>at retry_at r L2 L3 c d. iso_timestamp (clock E 0) now = Inr at \<and>
     iso_timestamp (clock E 1) ra = Inr retry_at \<and>
     require_leased_run E i t at (str_or w a) all_active_lease L = Inr r \<and>
     insert_run (retry_child r (next_attempt L (sr_instance_id r) (sr_stage_id r)) (sr_retry_count r + 1) retry_at at)
       (update_runs (leased_as i t) (retried_row fc fs (sr_retry_count r + 1) retry_at at) L) = Inr L2 \<and>
     emit E (sr_instance_id r) (Some i) ''stage_retry_scheduled'' a c at L2 = Inr L3 \<and>
     emit E (sr_instance_id r) (Some (sr_id (retry_child r (next_attempt L (sr_instance_id r) (sr_stage_id r))
         (sr_retry_count r + 1) retry_at at))) ''stage_retry_queued'' a d at L3 = Inr L'"
  using assms unfolding schedule_retry_def Let_def by (simp add: bindE_eq_Inr) blast

lemma retry_child_simps [simp]:
  "sr_lease_owner (retry_child r n k ra at) = None"
  "sr_status (retry_child r n k ra at) = SR_QUEUED"
  "sr_instance_id (retry_child r n k ra at) = sr_instance_id r"
  "sr_stage_id (retry_child r n k ra at) = sr_stage_id r"
  "sr_attempt (retry_child r n k ra at) = n"
  "sr_parent (retry_child r n k ra at) = Some (sr_id r)"
  by (simp_all add: retry_child_def new_run_row_def)

lemma schedule_retry_actions:
  assumes "schedule_retry E i t fc fs ra now a w L = Inr (x, L')" "ledger_ok L"
  shows "actions (uuid_hex E) L L'"
proof -
  obtain at retry_at r L2 L3 c d n where
    lease: "require_leased_run E i t at (str_or w a) all_active_lease L = Inr r"
    and ins: "insert_run (retry_child r n (sr_retry_count r + 1) retry_at at)
       (update_runs (leased_as i t) (retried_row fc fs (sr_retry_count r + 1) retry_at at) L) = Inr L2"
    and e1: "emit E (sr_instance_id r) (Some i) ''stage_retry_scheduled'' a c at L2 = Inr L3"
    and e2: "emit E (sr_instance_id r) (Some (sr_id (retry_child r n (sr_retry_count r + 1) retry_at at)))
       ''stage_retry_queued'' a d at L3 = Inr L'"
    using schedule_retry_Inr[OF assms(1)] by blast
  have "action (uuid_hex E) L (update_runs (leased_as i t) (retried_row fc fs (sr_retry_count r + 1) retry_at at) L)"
    by (rule settle_action[OF assms(2) lease])
      (simp_all add: retried_row_def same_run_defs stage_status_for_failure_verdict)
  moreover have "action (uuid_hex E) (update_runs (leased_as i t) (retried_row fc fs (sr_retry_count r + 1) retry_at at) L) L2"
    using ins by (rule action.new_run) simp
  ultimately have "actions (uuid_hex E) L L2" by (rule converse_rtranclp_into_rtranclp[OF _ r_into_rtranclp])
  then have "actions (uuid_hex E) L L3" using e1 by (rule actions_emit) simp_all
  then show ?thesis using e2 by (rule actions_emit) simp_all
qed

section \<open>Recovery\<close>

lemma has_start_evidence_none:
  "\<not> has_start_evidence L i \<Longrightarrow> e \<in> set (events L) \<Longrightarrow> ev_stage_run_id e = Some i \<Longrightarrow> ev_type e \<noteq> ''stage_started''"
  by (auto simp: has_start_evidence_def)

lemma sweep_row_Inr:
  assumes "sweep_row E a at row (acts, L) = Inr (acts', L')"
  shows "acts' = acts \<and> L' = L \<or>
    (\<exists>e x m v. sr_lease_expires_at row = Some e \<and> coerce_datetime E e = Inr x \<and> coerce_datetime E at = Inr m \<and>
       x \<le> m \<and> stale_verdict L row = Some v \<and> apply_verdict E a at row v L = Inr L' \<and>
       acts' = acts @ [recovery_action row v])"
proof (cases "sr_lease_expires_at row")
  case None
  then show ?thesis using assms by (simp add: sweep_row_def)
next
  case (Some e)
  then obtain x m where xm: "coerce_datetime E e = Inr x" "coerce_datetime E at = Inr m"
    using assms by (auto simp: sweep_row_def error_simps)
  show ?thesis
  proof (cases "stale_verdict L row")
    case None
    then show ?thesis using assms Some xm by (simp add: sweep_row_def split: if_split_asm)
  next
    case v: (Some v)
    show ?thesis using assms Some xm v
      by (auto simp: sweep_row_def bindE_eq_Inr not_less split: if_split_asm)
  qed
qed

lemma block_current_instance_actions:
  assumes "block_current_instance E a at row fc summary L = Inr L'"
  shows "actions (uuid_hex E) L L'"
proof (cases "L' = L")
  case False
  then obtain c where "emit E (sr_instance_id row) (Some (sr_id row)) ''workflow_blocked'' a c at
      (update_instances (\<lambda>r. wi_instance_id r = sr_instance_id row) (\<lambda>r. r\<lparr>wi_status := WF_BLOCKED, wi_updated_at := at\<rparr>) L) = Inr L'"
    using assms by (auto simp: block_current_instance_def split: option.splits if_splits)
  then show ?thesis by (rule action_emit[rotated]) (auto intro!: action.set_instances simp: same_instance_def)
qed simp

lemma block_current_instance_runs:
  "block_current_instance E a at row fc summary L = Inr L' \<Longrightarrow> stage_runs L' = stage_runs L"
  by (auto simp: block_current_instance_def emit_Inr update_instances_def split: option.splits if_splits)

lemma stale_verdict_moves:
  assumes "stale_verdict L r = Some (act, st, approval, fc, summary)"
  shows "run_rewrite L r (swept_row st approval fc summary at r)"
  using assms has_start_evidence_none[of L "sr_id r"]
  unfolding stale_verdict_def run_rewrite_def swept_row_def
  by (auto simp: same_run_defs active_lease_def verdict_status_def split: if_splits
      intro: lifecycle.requeued lifecycle.settled)

lemma apply_verdict_actions:
  assumes "apply_verdict E a at row v L = Inr L'" "stale_verdict L row = Some v" "ledger_ok L"
    "row \<in> set (stage_runs L)"
  shows "actions (uuid_hex E) L L' \<and>
    (\<exists>f. stage_runs L' = update_where (\<lambda>r. sr_id r = sr_id row) f (stage_runs L))"
proof -
  obtain act st approval fc summary where v: "v = (act, st, approval, fc, summary)" by (cases v)
  let ?L1 = "update_runs (\<lambda>r. sr_id r = sr_id row) (swept_row st approval fc summary at) L"
  let ?L2 = "bump_epoch (sr_instance_id row) at ?L1"
  obtain L3 c where
    L3: "(if act = ''blocked'' then block_current_instance E a at row fc summary ?L2 else Inr ?L2) = Inr L3"
    and log: "emit E (sr_instance_id row) (Some (sr_id row)) ''recovery'' a c at L3 = Inr L'"
    using assms(1) unfolding apply_verdict_def v Let_def by (auto simp: bindE_eq_Inr simp del: if_split)
  have "action (uuid_hex E) L ?L1"
  proof (rule action.rewrite)
    fix r assume "r \<in> set (stage_runs L)" "sr_id r = sr_id row"
    then have "r = row" using same_run[OF assms(3) _ assms(4)] by blast
    then show "run_rewrite L r (swept_row st approval fc summary at r)"
      using stale_verdict_moves[OF assms(2)[unfolded v]] by simp
  qed
  moreover have "action (uuid_hex E) ?L1 ?L2"
    unfolding bump_epoch_def by (rule action.set_instances) (simp add: same_instance_def)
  ultimately have "actions (uuid_hex E) L ?L2" by (rule converse_rtranclp_into_rtranclp[OF _ r_into_rtranclp])
  moreover have "actions (uuid_hex E) ?L2 L3"
    using L3 block_current_instance_actions by (auto split: if_split_asm)
  ultimately have "actions (uuid_hex E) L L3" by (rule rtranclp_trans)
  then have "actions (uuid_hex E) L L'" using log by (rule actions_emit) simp_all
  moreover have "stage_runs L3 = stage_runs ?L1"
    using L3 by (auto split: if_split_asm dest!: block_current_instance_runs simp: bump_epoch_def update_instances_def)
  then have "stage_runs L' = update_where (\<lambda>r. sr_id r = sr_id row) (swept_row st approval fc summary at) (stage_runs L)"
    using log by (auto simp: emit_Inr update_runs_def)
  ultimately show ?thesis by blast
qed

lemma sweep_row_actions:
  assumes "sweep_row E a at row (acts, L) = Inr (acts', L')" "ledger_ok L" "row \<in> set (stage_runs L)"
  shows "actions (uuid_hex E) L L' \<and>
    (\<exists>f. stage_runs L' = update_where (\<lambda>r. sr_id r = sr_id row) f (stage_runs L))"
proof -
  have "stage_runs L = update_where (\<lambda>r. sr_id r = sr_id row) id (stage_runs L)"
    by (simp add: update_where_def cong: if_cong)
  then show ?thesis using sweep_row_Inr[OF assms(1)] apply_verdict_actions[OF _ _ assms(2,3)] by blast
qed

lemma sweep_rows_actions:
  assumes "foldE (sweep_row E a at) rows (acts, L) = Inr (acts', L')" "ledger_ok L"
    "distinct (map sr_id rows)" "set rows \<subseteq> set (stage_runs L)"
  shows "actions (uuid_hex E) L L'"
  using assms
proof (induction rows arbitrary: acts L)
  case Nil
  then show ?case by simp
next
  case (Cons row rows)
  obtain acts1 L1 where row: "sweep_row E a at row (acts, L) = Inr (acts1, L1)"
    and rest: "foldE (sweep_row E a at) rows (acts1, L1) = Inr (acts', L')"
    using Cons.prems(1) by (auto simp: bindE_eq_Inr)
  from Cons.prems(4) have "row \<in> set (stage_runs L)" by simp
  note S = sweep_row_actions[OF row Cons.prems(2) this]
  then have acts: "actions (uuid_hex E) L L1" by simp
  obtain f where f: "stage_runs L1 = update_where (\<lambda>r. sr_id r = sr_id row) f (stage_runs L)" using S by blast
  have "set rows \<subseteq> set (stage_runs L1)"
  proof
    fix r assume r: "r \<in> set rows"
    have "sr_id row \<notin> sr_id ` set rows" using Cons.prems(3) by simp
    then have "sr_id r \<noteq> sr_id row" using r by (metis image_eqI)
    moreover have "r \<in> set (stage_runs L)" using r Cons.prems(4) by auto
    ultimately show "r \<in> set (stage_runs L1)" unfolding f update_where_def by force
  qed
  then have "actions (uuid_hex E) L1 L'"
    using Cons.IH[OF rest actions_ledger_ok[OF acts Cons.prems(2)]] Cons.prems(3) by simp
  with acts show ?case by (rule rtranclp_trans)
qed

lemma leased_rows_props:
  assumes "ledger_ok L"
  shows "distinct (map sr_id (leased_rows L))" "set (leased_rows L) \<subseteq> set (stage_runs L)"
proof -
  have "distinct (leased_rows L)"
    unfolding leased_rows_def using ledger_ok_runs(1)[OF assms] by (simp add: distinct_map)
  moreover have sub: "set (leased_rows L) \<subseteq> set (stage_runs L)" by (auto simp: leased_rows_def)
  moreover have "inj_on sr_id (set (stage_runs L))" using ledger_ok_runs(1)[OF assms] by (simp add: distinct_map)
  ultimately show "distinct (map sr_id (leased_rows L))" "set (leased_rows L) \<subseteq> set (stage_runs L)"
    by (auto simp: distinct_map intro: inj_on_subset)
qed

lemma sweep_stale_leases_actions:
  assumes "sweep_stale_leases E now a L = Inr (acts, L')" "ledger_ok L"
  shows "actions (uuid_hex E) L L'"
  using assms leased_rows_props[OF assms(2)] unfolding sweep_stale_leases_def
  by (auto simp: bindE_eq_Inr intro: sweep_rows_actions)

section \<open>Instances\<close>

lemma insert_workflow_instance_actions:
  "insert_workflow_instance E inst c snap dj dh su L = Inr (x, L') \<Longrightarrow> actions (uuid_hex E) L L'"
  unfolding insert_workflow_instance_def
  by (simp add: bindE_eq_Inr) (meson r_into_rtranclp action.new_instance)

lemma update_workflow_instance_actions:
  assumes "update_workflow_instance E i st cs ua a ty pl L = Inr (x, L')" "ty \<noteq> ''stage_started''"
  shows "actions (uuid_hex E) L L'"
  using assms unfolding update_workflow_instance_def
  by (auto simp: error_simps same_instance_def elim!: action_emit[rotated] intro!: action.set_instances)

lemma retirable_open: "retirable s = open_status s"
  by (simp add: retirable_def open_status_def)

lemma supersede_actions:
  assumes "\<And>r. r \<in> set (stage_runs L) \<Longrightarrow> sr_id r \<in> set ids \<Longrightarrow> open_status (sr_status r) \<or> sr_status r = SR_SUPERSEDED"
  shows "actions u L (supersede now ids L)"
  using assms
proof (induction ids arbitrary: L)
  case Nil
  then show ?case by (simp add: supersede_def)
next
  case (Cons i ids)
  let ?f = "\<lambda>r. clear_lease (r\<lparr>sr_status := SR_SUPERSEDED, sr_updated_at := now\<rparr>)"
  let ?M = "update_runs (\<lambda>r. sr_id r = i) ?f L"
  have step: "action u L ?M"
  proof (rule action.rewrite)
    fix r assume "r \<in> set (stage_runs L)" "sr_id r = i"
    then have "open_status (sr_status r) \<or> sr_status r = SR_SUPERSEDED" using Cons.prems by simp
    then show "run_rewrite L r (?f r)"
      by (intro run_rewrite_cleared) (auto simp: same_run_defs intro: lifecycle.retired)
  qed
  have "open_status (sr_status r) \<or> sr_status r = SR_SUPERSEDED" if "r \<in> set (stage_runs ?M)" "sr_id r \<in> set ids" for r
    using that Cons.prems by (auto simp: update_runs_def update_where_def split: if_splits)
  then have "actions u ?M (supersede now ids ?M)" by (rule Cons.IH)
  then show ?case using step by (simp add: supersede_def converse_rtranclp_into_rtranclp)
qed

lemma retire_instance_actions:
  assumes "retire_instance E w st ty a rs ex now L = Inr (x, L')" "ty \<noteq> ''stage_started''" "ledger_ok L"
  shows "actions (uuid_hex E) L L'"
proof -
  let ?ids = "retirable_runs (wi_instance_id w) L"
  have "open_status (sr_status r)" if r: "r \<in> set (stage_runs L)" and sel: "sr_id r \<in> set ?ids" for r
  proof -
    obtain q where "q \<in> set (stage_runs L)" "sr_id q = sr_id r" "retirable (sr_status q)"
      using sel by (auto simp: retirable_runs_def)
    then show ?thesis using same_run[OF assms(3) _ r] retirable_open by metis
  qed
  then have "actions (uuid_hex E) L (supersede now ?ids L)" by (intro supersede_actions) blast
  then have "actions (uuid_hex E) L (update_instances (\<lambda>r. wi_instance_id r = wi_instance_id w)
      (\<lambda>r. r\<lparr>wi_status := st, wi_current_stage_id := None, wi_updated_at := now\<rparr>) (supersede now ?ids L))"
    by (rule rtranclp.rtrancl_into_rtrancl) (auto intro!: action.set_instances simp: same_instance_def)
  then show ?thesis using assms(1,2) unfolding retire_instance_def Let_def
    by (auto simp: bindE_eq_Inr elim!: actions_emit)
qed

lemma cancel_workflow_instance_actions:
  "cancel_workflow_instance E i a rs ua force L = Inr (x, L') \<Longrightarrow> ledger_ok L \<Longrightarrow> actions (uuid_hex E) L L'"
  by (auto simp: cancel_workflow_instance_def bindE_eq_Inr split: option.splits if_splits
      dest!: retire_instance_actions)

lemma park_stale_workflow_instance_actions:
  "park_stale_workflow_instance E i a rs ua L = Inr (x, L') \<Longrightarrow> ledger_ok L \<Longrightarrow> actions (uuid_hex E) L L'"
  by (auto simp: park_stale_workflow_instance_def bindE_eq_Inr split: option.splits if_splits
      dest!: retire_instance_actions)

lemma terminalize_row_actions:
  "terminalize_row E a at wr (ids, L) = Inr (ids', L') \<Longrightarrow> actions (uuid_hex E) L L'"
  by (auto simp: terminalize_row_def bindE_eq_Inr same_instance_def split: prod.splits
      elim!: action_emit[rotated] intro!: action.set_instances)

lemma terminalize_rows_actions:
  "foldE (terminalize_row E a at) wrs (ids, L) = Inr (ids', L') \<Longrightarrow> actions (uuid_hex E) L L'"
proof (induction wrs arbitrary: ids L)
  case (Cons wr wrs)
  then obtain ids1 L1 where row: "terminalize_row E a at wr (ids, L) = Inr (ids1, L1)"
    and rest: "foldE (terminalize_row E a at) wrs (ids1, L1) = Inr (ids', L')"
    by (auto simp: bindE_eq_Inr)
  show ?case by (rule rtranclp_trans[OF terminalize_row_actions[OF row] Cons.IH[OF rest]])
qed simp

lemma terminalize_blocked_current_stages_actions:
  "terminalize_blocked_current_stages E now a L = Inr (ids, L') \<Longrightarrow> actions (uuid_hex E) L L'"
  by (auto simp: terminalize_blocked_current_stages_def bindE_eq_Inr intro: terminalize_rows_actions)

section \<open>Human gates\<close>

lemma record_human_decision_actions:
  assumes "record_human_decision E d i sr c a L = Inr (x, L')"
  shows "actions (uuid_hex E) L L'"
  using assms unfolding record_human_decision_def
  by (auto simp: error_simps elim!: action_emit[rotated] intro: action.new_decision)

text \<open>A run that is waiting on a human, or blocked, holds no lease that an UPDATE could disturb.\<close>

lemma gate_rewrite:
  "same_run r s \<Longrightarrow> lifecycle (sr_status r) (sr_status s) \<Longrightarrow> \<not> active_lease (sr_status r) \<Longrightarrow> sr_status s \<noteq> SR_CLAIMED \<Longrightarrow>
   sr_lease_owner s = sr_lease_owner r \<Longrightarrow> sr_lease_token s = sr_lease_token r \<Longrightarrow> run_rewrite L r s"
  by (simp add: run_rewrite_def)

lemma complete_waiting_human_stage_run_actions:
  assumes "complete_waiting_human_stage_run E i st rid oh fc fs now a L = Inr (x, L')" "verdict_status st"
  shows "actions (uuid_hex E) L L'"
proof -
  obtain row :: stage_run_row and at c where "emit E (sr_instance_id row) (Some i) ''human_stage_decided'' a c at
       (update_runs (\<lambda>r. sr_id r = i \<and> sr_status r = SR_WAITING_ON_HUMAN)
          (\<lambda>r. r\<lparr>sr_status := st, sr_receipt_id := coalesce rid (sr_receipt_id r),
             sr_output_hash := coalesce oh (sr_output_hash r), sr_failure_class := fc, sr_failure_summary := fs,
             sr_completed_at := Some at, sr_updated_at := at\<rparr>) L) = Inr L'"
    using assms(1) unfolding complete_waiting_human_stage_run_def
    by (auto simp: bindE_eq_Inr split: option.splits)
  then show ?thesis
    by (rule action_emit[rotated]) (use assms(2) in
      \<open>auto intro!: action.rewrite gate_rewrite lifecycle.decided simp: same_run_defs active_lease_def verdict_status_def\<close>)
qed

lemma append_attempt_Inr:
  assumes "append_attempt E i s row idem au qu pl a rs at L = Inr (x, L')"
  shows "\<exists>L1 L3 new. new = (new_run_row (attempt_id i s (sr_attempt row + 1)) i s (sr_attempt row + 1) SR_QUEUED
        (sr_adapter_id row) (sr_actor_ref row) (Some (idem (attempt_id i s (sr_attempt row + 1)))) (sr_input_hash row)
        (Some (sr_id row)) at)\<lparr>sr_retry_count := sr_retry_count row + 1\<rparr> \<and>
     insert_run new L = Inr L1 \<and>
     emit E i (Some (sr_id row)) au a (PDict (pl (sr_id new))) at (update_instances (\<lambda>r. wi_instance_id r = i)
       (\<lambda>r. r\<lparr>wi_status := WF_RUNNING, wi_recovery_epoch := wi_recovery_epoch r + 1, wi_updated_at := at\<rparr>) L1) = Inr L3 \<and>
     emit E i (Some (sr_id new)) qu a (PDict (pl (sr_id new))) at L3 = Inr L' \<and>
     x = \<lparr>rr_instance_id = i, rr_previous = Some (sr_id row), rr_stage_run_id = sr_id new,
        rr_stage_id = s, rr_attempt = sr_attempt row + 1, rr_status = SR_QUEUED, rr_reason = rs\<rparr>"
proof -
  let ?new = "(new_run_row (attempt_id i s (sr_attempt row + 1)) i s (sr_attempt row + 1) SR_QUEUED
        (sr_adapter_id row) (sr_actor_ref row) (Some (idem (attempt_id i s (sr_attempt row + 1)))) (sr_input_hash row)
        (Some (sr_id row)) at)\<lparr>sr_retry_count := sr_retry_count row + 1\<rparr>"
  have "sr_id ?new = attempt_id i s (sr_attempt row + 1)" by (simp add: new_run_row_def)
  then show ?thesis using assms unfolding append_attempt_def Let_def
    by (simp add: bindE_eq_Inr) blast
qed

lemma append_attempt_actions:
  assumes "append_attempt E i s row idem au qu pl a rs at L = Inr (x, L')"
    "au \<noteq> ''stage_started''" "qu \<noteq> ''stage_started''"
  shows "actions (uuid_hex E) L L'"
proof -
  obtain L1 L3 new where ins: "insert_run new L = Inr L1" and free: "sr_lease_owner new = None"
    and e1: "emit E i (Some (sr_id row)) au a (PDict (pl (sr_id new))) at (update_instances (\<lambda>r. wi_instance_id r = i)
       (\<lambda>r. r\<lparr>wi_status := WF_RUNNING, wi_recovery_epoch := wi_recovery_epoch r + 1, wi_updated_at := at\<rparr>) L1) = Inr L3"
    and e2: "emit E i (Some (sr_id new)) qu a (PDict (pl (sr_id new))) at L3 = Inr L'"
    using append_attempt_Inr[OF assms(1)] by (auto simp: new_run_row_def)
  have "action (uuid_hex E) L L1" using ins free by (rule action.new_run)
  moreover have "action (uuid_hex E) L1 (update_instances (\<lambda>r. wi_instance_id r = i)
       (\<lambda>r. r\<lparr>wi_status := WF_RUNNING, wi_recovery_epoch := wi_recovery_epoch r + 1, wi_updated_at := at\<rparr>) L1)"
    by (rule action.set_instances) (simp add: same_instance_def)
  ultimately have "actions (uuid_hex E) L L3"
    using e1 assms(2) by (blast intro: actions_emit converse_rtranclp_into_rtranclp)
  then show ?thesis using e2 assms(3) by (rule actions_emit) simp_all
qed

lemma retry_blocked_human_gate_actions:
  "retry_blocked_human_gate E i rs v a now L = Inr (x, L') \<Longrightarrow> actions (uuid_hex E) L L'"
  unfolding retry_blocked_human_gate_def Let_def
  by (auto simp: error_simps elim!: append_attempt_actions)

text \<open>What the guards of the gate recoveries establish.\<close>

lemma latest_attempt_row:
  "latest_attempt i s L = Some r \<Longrightarrow> r \<in> set (stage_runs L) \<and> sr_instance_id r = i \<and> sr_stage_id r = s"
  unfolding latest_attempt_def by (drule fetchlast_Some) auto

lemma undecided_gate_Inr: "undecided_gate i st m d row L = Inr r \<longleftrightarrow>
    row = Some r \<and> sr_status r = st \<and> sr_approval_required r \<and> \<not> has_decision L (sr_id r)"
  by (auto simp: undecided_gate_def split: option.splits if_splits)

lemma parked_stage_Inr: "parked_stage i st m L = Inr (s, row) \<longleftrightarrow>
    (\<exists>w. find_instance i L = Some w \<and> wi_status w = st \<and> s = the_or [] (wi_current_stage_id w) \<and>
       row = latest_attempt i s L)"
  by (auto simp: parked_stage_def Let_def split: option.splits if_splits)

lemma reissue_waiting_human_gate_actions:
  assumes "reissue_waiting_human_gate_for_transport_repair E i rs v a now L = Inr (x, L')"
  shows "actions (uuid_hex E) L L'"
proof -
  obtain s row at where app: "append_attempt E i s row (\<lambda>n. n) ''waiting_human_gate_transport_repair_authorized''
       ''waiting_human_gate_transport_repair_queued''
       (\<lambda>n. [(''defective_stage_run_id'', PStr (sr_id row)), (''new_stage_run_id'', PStr n),
          (''reason'', PStr (strip rs)), (''verified_no_human_decision'', PBool True)]) a (strip rs) at
       (update_runs (\<lambda>r. sr_id r = sr_id row \<and> sr_status r = SR_WAITING_ON_HUMAN)
          (\<lambda>r. r\<lparr>sr_status := SR_BLOCKED, sr_failure_class := Some (failure_value FC_RUNTIME_FAILURE),
             sr_failure_summary := Some (strip rs), sr_updated_at := at\<rparr>) L) = Inr (x, L')"
    using assms unfolding reissue_waiting_human_gate_for_transport_repair_def Let_def by (auto simp: error_simps)
  have "action (uuid_hex E) L (update_runs (\<lambda>r. sr_id r = sr_id row \<and> sr_status r = SR_WAITING_ON_HUMAN)
          (\<lambda>r. r\<lparr>sr_status := SR_BLOCKED, sr_failure_class := Some (failure_value FC_RUNTIME_FAILURE),
             sr_failure_summary := Some (strip rs), sr_updated_at := at\<rparr>) L)"
    by (rule action.rewrite)
      (auto intro!: gate_rewrite lifecycle.decided simp: same_run_defs active_lease_def verdict_status_def)
  then show ?thesis using append_attempt_actions[OF app] by (rule converse_rtranclp_into_rtranclp) simp_all
qed

lemma restore_published_human_gate_waiting_actions:
  assumes "restore_published_human_gate_waiting E i rs v1 v2 a now L = Inr (x, L')"
  shows "actions (uuid_hex E) L L'"
proof -
  obtain row :: stage_run_row and at c where e: "emit E i (Some (sr_id row)) ''published_human_gate_waiting_restored'' a c at
     (update_instances (\<lambda>r. wi_instance_id r = i) (\<lambda>r. r\<lparr>wi_status := WF_WAITING_ON_HUMAN, wi_updated_at := at\<rparr>)
       (update_runs (\<lambda>r. sr_id r = sr_id (row :: stage_run_row) \<and> sr_status r = SR_BLOCKED)
           (\<lambda>r. r\<lparr>sr_status := SR_WAITING_ON_HUMAN, sr_failure_class := None,
              sr_failure_summary := Some (strip rs), sr_updated_at := at\<rparr>) L)) = Inr L'"
    using assms unfolding restore_published_human_gate_waiting_def Let_def by (auto simp: error_simps)
  have "action (uuid_hex E) L (update_runs (\<lambda>r. sr_id r = sr_id row \<and> sr_status r = SR_BLOCKED)
           (\<lambda>r. r\<lparr>sr_status := SR_WAITING_ON_HUMAN, sr_failure_class := None,
              sr_failure_summary := Some (strip rs), sr_updated_at := at\<rparr>) L)" (is "action _ _ ?M")
    by (rule action.rewrite)
      (auto intro!: gate_rewrite lifecycle.restored simp: same_run_defs active_lease_def)
  moreover have "action (uuid_hex E) ?M (update_instances (\<lambda>r. wi_instance_id r = i)
      (\<lambda>r. r\<lparr>wi_status := WF_WAITING_ON_HUMAN, wi_updated_at := at\<rparr>) ?M)"
    by (rule action.set_instances) (simp add: same_instance_def)
  ultimately show ?thesis
    using e by (blast intro: actions_emit converse_rtranclp_into_rtranclp)
qed

lemma retry_blocked_stage_without_effect_actions:
  assumes "retry_blocked_stage_without_effect E i rs v oa ev a now L = Inr (x, L')"
  shows "actions (uuid_hex E) L L'"
  using assms unfolding retry_blocked_stage_without_effect_def Let_def
  by (auto simp: error_simps simp del: if_split elim!: append_attempt_actions)

lemma queue_local_preparation_repair_actions:
  assumes "queue_local_preparation_repair E i h b cp rs v oa a now L = Inr (x, L')"
  shows "actions (uuid_hex E) L L'"
proof -
  obtain q L1 s at n where ins: "insert_run q L = Inr L1" and free: "sr_lease_owner q = None"
    and e: "emit E i (Some n) ''local_preparation_repair_queued'' a x at
      (update_instances (\<lambda>r. wi_instance_id r = i) (\<lambda>r. r\<lparr>wi_status := WF_RUNNING, wi_current_stage_id := Some s,
         wi_recovery_epoch := wi_recovery_epoch r + 1, wi_updated_at := at\<rparr>) L1) = Inr L'"
    using assms unfolding queue_local_preparation_repair_def Let_def
    by (auto simp: error_simps new_run_row_def)
  have "action (uuid_hex E) L L1" using ins free by (rule action.new_run)
  moreover have "action (uuid_hex E) L1 (update_instances (\<lambda>r. wi_instance_id r = i) (\<lambda>r. r\<lparr>wi_status := WF_RUNNING,
      wi_current_stage_id := Some s, wi_recovery_epoch := wi_recovery_epoch r + 1, wi_updated_at := at\<rparr>) L1)"
    by (rule action.set_instances) (simp add: same_instance_def)
  ultimately show ?thesis using e by (blast intro: actions_emit converse_rtranclp_into_rtranclp)
qed

section \<open>Evidence\<close>

lemma record_adapter_invocation_actions:
  assumes "record_adapter_invocation E v st rq rp ex ec es sa ca L = Inr (x, L')"
  shows "actions (uuid_hex E) L L'"
  using assms unfolding record_adapter_invocation_def
  by (simp add: bindE_eq_Inr del: if_split) (meson r_into_rtranclp action.new_invocation)

lemma record_adapter_invocation_started_actions:
  assumes "record_adapter_invocation_started E v rq a sc sa L = Inr (x, L')"
  shows "actions (uuid_hex E) L L'"
  using assms unfolding record_adapter_invocation_started_def
  by (auto simp: error_simps elim!: action_emit[rotated] intro: action.new_invocation)

lemma complete_adapter_invocation_actions:
  assumes "complete_adapter_invocation E i st a rp ex ec es ca L = Inr (x, L')"
  shows "actions (uuid_hex E) L L'"
proof -
  obtain row :: invocation_row and at c where
    "emit E (ai_instance_id row) (Some (ai_stage_run_id row)) ''adapter_invocation_completed'' a c at
      (update_invocations (\<lambda>v. ai_id v = i) (\<lambda>v. v\<lparr>ai_status := st, ai_response_hash := rp, ai_external_ref := ex,
         ai_error_class := ec, ai_error_summary := es, ai_completed_at := Some at\<rparr>) L) = Inr L'"
    using assms unfolding complete_adapter_invocation_def by (auto simp: bindE_eq_Inr split: option.splits)
  then show ?thesis by (rule action_emit[rotated]) (auto intro!: action.set_invocations)
qed

lemma record_stage_run_prompt_context_actions:
  "record_stage_run_prompt_context i ph cr ch rh L = Inr (x, L') \<Longrightarrow> actions u L L'"
  unfolding record_stage_run_prompt_context_def
  by (auto intro!: r_into_rtranclp action.rewrite simp: run_rewrite_def same_run_defs)

lemma record_artifacts_actions:
  "foldE (record_artifact c) as L = Inr L' \<Longrightarrow> actions u L L'"
proof (induction as arbitrary: L)
  case (Cons a as)
  then obtain M where "record_artifact c a L = Inr M" "foldE (record_artifact c) as M = Inr L'"
    by (auto simp: bindE_eq_Inr)
  then have "action u L M" "actions u M L'"
    using Cons.IH[of M] by (simp_all add: record_artifact_def [of c a] action.new_artifact)
  then show ?case by (rule converse_rtranclp_into_rtranclp)
qed simp

lemma record_receipt_actions:
  assumes "record_receipt E c L = Inr (x, L')"
  shows "actions (uuid_hex E) L L'"
proof -
  obtain q a M N p where "insert_receipt q L = Inr M" and arts: "foldE (record_artifact c) (rcpt_artifact_refs c) M = Inr N"
    and e: "emit E (rcpt_instance_id c) (Some (rcpt_stage_run_id c)) ''receipt_recorded'' a p (rcpt_created_at c) N = Inr L'"
    using assms unfolding record_receipt_def by (auto simp: bindE_eq_Inr)
  then have "actions (uuid_hex E) L N"
    using record_artifacts_actions[OF arts] by (blast intro: converse_rtranclp_into_rtranclp action.new_receipt)
  then show ?thesis using e by (rule actions_emit) simp_all
qed

lemma insert_child_session_actions:
  assumes "insert_child_session E i p k w g ph al ex st au iv so xs tr dl ca L = Inr (x, L')"
  shows "actions (uuid_hex E) L L'"
proof -
  obtain q M now dl' where ins: "insert_child q L = Inr M" and rest:
    "(case find_run p M of None \<Rightarrow> Inr ((), M) | Some row \<Rightarrow>
       bindE (emit E (sr_instance_id row) (Some p) ''child_session_opened'' w
         (PDict [(''child_session_id'', PStr i), (''delegate_kind'', PStr k),
            (''goal_hash'', PStr g), (''status'', PStr st), (''deadline_at'', opt_str dl')]) now M)
         (\<lambda>L2. Inr ((), L2))) = Inr (x, L')"
    using assms unfolding insert_child_session_def by (auto simp: bindE_eq_Inr simp del: if_split)
  have "actions (uuid_hex E) L M" using ins by (auto intro: action.new_child)
  then show ?thesis using rest by (auto simp: bindE_eq_Inr split: option.splits elim!: actions_emit)
qed

lemma update_child_session_actions:
  assumes "update_child_session E i st au tr ls xs a now L = Inr (x, L')"
  shows "actions (uuid_hex E) L L'"
proof -
  obtain row :: child_row and at seen M where
    M: "M = update_children (\<lambda>c. cs_id c = i)
               (\<lambda>c. c\<lparr>cs_status := the_or (cs_status row) st, cs_audit_status := the_or (cs_audit_status row) au,
                  cs_transcript_ref := coalesce tr (cs_transcript_ref row), cs_last_seen_at := seen,
                  cs_external_session_id := coalesce xs (cs_external_session_id row),
                  cs_updated_at := at\<rparr>) L" and rest:
    "(case find_run (cs_parent row) M of None \<Rightarrow> Inr ((), M) | Some parent \<Rightarrow>
        bindE (emit E (sr_instance_id parent) (Some (cs_parent row)) ''child_session_updated'' a
          (PDict [(''child_session_id'', PStr i), (''status'', PStr (the_or (cs_status row) st)),
             (''audit_status'', PStr (the_or (cs_audit_status row) au)),
             (''transcript_ref'', opt_str (coalesce tr (cs_transcript_ref row)))]) at M)
          (\<lambda>L2. Inr ((), L2))) = Inr ((), L')"
  proof (cases "find_child i L")
    case None
    then show ?thesis using assms by (auto simp: update_child_session_def bindE_eq_Inr)
  next
    case (Some row)
    then obtain at where at: "iso_timestamp (clock E 0) now = Inr at"
      using assms by (auto simp: update_child_session_def bindE_eq_Inr)
    with Some obtain seen where seen: "(if ls = TsNone then Inr (cs_last_seen_at row)
        else bindE (iso_timestamp (clock E 1) ls) (\<lambda>t. Inr (Some t))) = Inr seen"
      using assms by (auto simp: update_child_session_def bindE_eq_Inr simp del: if_split)
    show ?thesis
      by (rule that[where row = row and at = at and seen = seen, OF refl])
        (use assms Some at seen in \<open>simp add: update_child_session_def Let_def del: if_split\<close>)
  qed
  have "actions (uuid_hex E) L M" unfolding M by (rule r_into_rtranclp, rule action.set_children) simp
  then show ?thesis using rest by (auto simp: bindE_eq_Inr split: option.splits elim!: actions_emit)
qed

lemma record_late_result_actions:
  assumes "record_late_result E i k ev tk ow rh ex ob a L = Inr (x, L')"
  shows "actions (uuid_hex E) L L'"
proof (cases "find_run i (L\<lparr>uuid_draws := Suc (uuid_draws L)\<rparr>)")
  case None
  then show ?thesis using assms by (auto simp: record_late_result_def next_uuid_def bindE_eq_Inr)
next
  case (Some row)
  then obtain q M c at where ins: "insert_late q (L\<lparr>uuid_draws := Suc (uuid_draws L)\<rparr>) = Inr M"
    and e: "emit E (sr_instance_id row) (Some i) ''late_result_recorded'' a c at M = Inr L'"
    using assms by (auto simp: record_late_result_def next_uuid_def Let_def bindE_eq_Inr)
  have "action (uuid_hex E) L (L\<lparr>uuid_draws := Suc (uuid_draws L)\<rparr>)" by (rule action.draw)
  moreover have "action (uuid_hex E) (L\<lparr>uuid_draws := Suc (uuid_draws L)\<rparr>) M" using ins by (rule action.new_late)
  ultimately have "actions (uuid_hex E) L M" by (rule converse_rtranclp_into_rtranclp[OF _ r_into_rtranclp])
  then show ?thesis using e by (rule actions_emit) simp_all
qed

lemma append_event_actions:
  assumes "append_event E i s ty a p c L = Inr (x, L')" "ty \<noteq> ''stage_started''"
  shows "actions (uuid_hex E) L L'"
  using assms unfolding append_event_def by (auto simp: bindE_eq_Inr intro: r_into_rtranclp action.log)

end
