(* ===== verification/Ledger_Machine.thy ===== *)
theory Ledger_Machine
  imports Ledger_Refinement
begin

text \<open>
  The ledger as a state machine: the operations as a datatype, one step per committed or
  rolled-back call, and the contract (a locale) of a machine whose steps keep an invariant and
  continue the history.  The locale is interpreted on the ledger's own steps, so whatever is
  proved inside it holds of every sequence of operations.
\<close>

section \<open>Operations\<close>

datatype instance_op =
    Insert_workflow_instance WorkflowInstance ts_arg pyval "string option" "string option" "string option"
  | Update_workflow_instance string WorkflowStatus "string option" ts_arg string string mapping_items
  | Cancel_workflow_instance string string "string option" ts_arg bool
  | Park_stale_workflow_instance string string "string option" ts_arg
  | Terminalize_blocked_current_stages ts_arg string
  | Append_event string "string option" string string mapping_items ts_arg

datatype lease_op =
    Insert_stage_run StageRun string "string option" "string option" ts_arg
  | Claim_next_queued_run string "string option" pyval "(StageRun \<Rightarrow> kernel_error + ResolvedLeasePolicy) option"
      "(StageRun \<Rightarrow> kernel_error + bool) option" mapping_items ts_arg
  | Renew_lease string string string int ts_arg
  | Mark_stage_run_started string string string "string option" "string option" mapping_items
      "string option" "string option" "string option" "string option" ts_arg
  | Complete_stage_run string string "string option" "string option" ts_arg string "string option"
  | Fail_stage_run string string string string StageRunStatus ts_arg ts_arg string "string option"
  | Schedule_retry string string string string ts_arg ts_arg string "string option"
  | Block_stage_run string string string string bool ts_arg string "string option"
  | Wait_for_human string string string string ts_arg string "string option"
  | Sweep_stale_leases ts_arg string

datatype gate_op =
    Record_human_decision HumanApprovalReceipt string string ts_arg string
  | Complete_waiting_human string StageRunStatus "string option" "string option" "string option"
      "string option" ts_arg string
  | Retry_blocked_human_gate string string bool string ts_arg
  | Reissue_waiting_human_gate string string bool string ts_arg
  | Restore_published_gate string string bool bool string ts_arg
  | Retry_blocked_stage string string bool bool mapping_items string ts_arg
  | Queue_local_preparation_repair string string string string string bool bool string ts_arg

datatype evidence_op =
    Record_adapter_invocation AdapterInvocation string "string option" "string option" "string option"
      "string option" "string option" ts_arg ts_arg
  | Record_adapter_invocation_started AdapterInvocation "string option" string mapping_items ts_arg
  | Complete_adapter_invocation string string string "string option" "string option" "string option"
      "string option" ts_arg
  | Record_prompt_context string string string string string
  | Record_receipt Receipt
  | Insert_child_session string string string string string string pyval pyval string string
      "string option" "string option" "string option" "string option" ts_arg ts_arg
  | Update_child_session string "string option" "string option" "string option" ts_arg "string option" string ts_arg
  | Record_late_result string string pyval "string option" "string option" "string option" "string option" ts_arg string

datatype ledger_op = On_instance instance_op | On_lease lease_op | On_gate gate_op | On_evidence evidence_op

text \<open>The ledger after a call: a raised exception has rolled its transaction back.\<close>

definition committed :: "kernel_error + ('a \<times> ledger) \<Rightarrow> kernel_error + ledger" where
  "committed m = (case m of Inl e \<Rightarrow> Inl e | Inr (x, L) \<Rightarrow> Inr L)"

primrec perform_instance :: "env \<Rightarrow> instance_op \<Rightarrow> ledger \<Rightarrow> kernel_error + ledger" where
  "perform_instance E (Insert_workflow_instance w c s dj dh su) L =
     committed (insert_workflow_instance E w c s dj dh su L)"
| "perform_instance E (Update_workflow_instance i st cs ua a ty p) L =
     committed (update_workflow_instance E i st cs ua a ty p L)"
| "perform_instance E (Cancel_workflow_instance i a rs ua f) L =
     committed (cancel_workflow_instance E i a rs ua f L)"
| "perform_instance E (Park_stale_workflow_instance i a rs ua) L =
     committed (park_stale_workflow_instance E i a rs ua L)"
| "perform_instance E (Terminalize_blocked_current_stages now a) L =
     committed (terminalize_blocked_current_stages E now a L)"
| "perform_instance E (Append_event i s ty a p c) L =
     committed (append_event E i s ty a p c L)"

primrec perform_lease :: "env \<Rightarrow> lease_op \<Rightarrow> ledger \<Rightarrow> kernel_error + ledger" where
  "perform_lease E (Insert_stage_run r ih idem par c) L =
     committed (insert_stage_run E r ih idem par c L)"
| "perform_lease E (Claim_next_queued_run w i secs res pr ctx now) L =
     committed (claim_next_queued_run E w i secs res pr ctx now L)"
| "perform_lease E (Renew_lease i w t secs now) L =
     committed (renew_lease E i w t secs now L)"
| "perform_lease E (Mark_stage_run_started i t a w idem sc fam ad opn rh now) L =
     committed (mark_stage_run_started E i t a w idem sc fam ad opn rh now L)"
| "perform_lease E (Complete_stage_run i t rid oh now a w) L =
     committed (complete_stage_run E i t rid oh now a w L)"
| "perform_lease E (Fail_stage_run i t fc fs st ra now a w) L =
     committed (fail_stage_run E i t fc fs st ra now a w L)"
| "perform_lease E (Schedule_retry i t fc fs ra now a w) L =
     committed (schedule_retry E i t fc fs ra now a w L)"
| "perform_lease E (Block_stage_run i t fc fs ar now a w) L =
     committed (block_stage_run E i t fc fs ar now a w L)"
| "perform_lease E (Wait_for_human i t fc fs now a w) L =
     committed (wait_stage_run_for_human_decision E i t fc fs now a w L)"
| "perform_lease E (Sweep_stale_leases now a) L =
     committed (sweep_stale_leases E now a L)"

primrec perform_gate :: "env \<Rightarrow> gate_op \<Rightarrow> ledger \<Rightarrow> kernel_error + ledger" where
  "perform_gate E (Record_human_decision d i s c a) L =
     committed (record_human_decision E d i s c a L)"
| "perform_gate E (Complete_waiting_human i st rid oh fc fs now a) L =
     committed (complete_waiting_human_stage_run E i st rid oh fc fs now a L)"
| "perform_gate E (Retry_blocked_human_gate i rs v a now) L =
     committed (retry_blocked_human_gate E i rs v a now L)"
| "perform_gate E (Reissue_waiting_human_gate i rs v a now) L =
     committed (reissue_waiting_human_gate_for_transport_repair E i rs v a now L)"
| "perform_gate E (Restore_published_gate i rs v1 v2 a now) L =
     committed (restore_published_human_gate_waiting E i rs v1 v2 a now L)"
| "perform_gate E (Retry_blocked_stage i rs v oa ev a now) L =
     committed (retry_blocked_stage_without_effect E i rs v oa ev a now L)"
| "perform_gate E (Queue_local_preparation_repair i h b cp rs v oa a now) L =
     committed (queue_local_preparation_repair E i h b cp rs v oa a now L)"

primrec perform_evidence :: "env \<Rightarrow> evidence_op \<Rightarrow> ledger \<Rightarrow> kernel_error + ledger" where
  "perform_evidence E (Record_adapter_invocation v st rq rp ex ec es sa ca) L =
     committed (record_adapter_invocation E v st rq rp ex ec es sa ca L)"
| "perform_evidence E (Record_adapter_invocation_started v rq a sc sa) L =
     committed (record_adapter_invocation_started E v rq a sc sa L)"
| "perform_evidence E (Complete_adapter_invocation i st a rp ex ec es ca) L =
     committed (complete_adapter_invocation E i st a rp ex ec es ca L)"
| "perform_evidence E (Record_prompt_context i ph cr ch rh) L =
     committed (record_stage_run_prompt_context i ph cr ch rh L)"
| "perform_evidence E (Record_receipt c) L =
     committed (record_receipt E c L)"
| "perform_evidence E (Insert_child_session i p k w g ph al ex st au iv so xs tr dl ca) L =
     committed (insert_child_session E i p k w g ph al ex st au iv so xs tr dl ca L)"
| "perform_evidence E (Update_child_session i st au tr ls xs a now) L =
     committed (update_child_session E i st au tr ls xs a now L)"
| "perform_evidence E (Record_late_result i k ev tk w rh ex ob a) L =
     committed (record_late_result E i k ev tk w rh ex ob a L)"

primrec perform :: "env \<Rightarrow> ledger_op \<Rightarrow> ledger \<Rightarrow> kernel_error + ledger" where
  "perform E (On_instance x) L = perform_instance E x L"
| "perform E (On_lease x) L = perform_lease E x L"
| "perform E (On_gate x) L = perform_gate E x L"
| "perform E (On_evidence x) L = perform_evidence E x L"

text \<open>
  What callers owe: a run is failed or decided with a verdict status (every call in the
  kernel and the runner passes one), and the open event interface does not forge the event
  that only \<open>mark_stage_run_started\<close> writes.
\<close>

fun well_called :: "ledger_op \<Rightarrow> bool" where
  "well_called (On_lease (Fail_stage_run i t fc fs st ra now a w)) = verdict_status st"
| "well_called (On_gate (Complete_waiting_human i st rid oh fc fs now a)) = verdict_status st"
| "well_called (On_instance (Append_event i s ty a p c)) = (ty \<noteq> ''stage_started'')"
| "well_called (On_instance (Update_workflow_instance i st cs ua a ty p)) = (ty \<noteq> ''stage_started'')"
| "well_called _ = True"

lemma committed_Inr: "committed m = Inr L \<longleftrightarrow> (\<exists>x. m = Inr (x, L))"
  by (auto simp: committed_def split: sum.splits)

lemmas operation_actions =
  insert_workflow_instance_actions update_workflow_instance_actions cancel_workflow_instance_actions
  park_stale_workflow_instance_actions terminalize_blocked_current_stages_actions append_event_actions
  insert_stage_run_actions claim_next_queued_run_actions renew_lease_actions mark_stage_run_started_actions
  complete_stage_run_actions fail_stage_run_actions schedule_retry_actions block_stage_run_actions
  wait_stage_run_for_human_decision_actions sweep_stale_leases_actions record_human_decision_actions
  complete_waiting_human_stage_run_actions retry_blocked_human_gate_actions reissue_waiting_human_gate_actions
  restore_published_human_gate_waiting_actions retry_blocked_stage_without_effect_actions
  queue_local_preparation_repair_actions record_adapter_invocation_actions
  record_adapter_invocation_started_actions complete_adapter_invocation_actions
  record_stage_run_prompt_context_actions record_receipt_actions insert_child_session_actions
  update_child_session_actions record_late_result_actions

lemma perform_instance_actions:
  "perform_instance E x L = Inr L' \<Longrightarrow> ledger_ok L \<Longrightarrow> well_called (On_instance x) \<Longrightarrow> actions (uuid_hex E) L L'"
  by (cases x) (auto simp: committed_Inr intro: operation_actions)

lemma perform_lease_actions:
  "perform_lease E x L = Inr L' \<Longrightarrow> ledger_ok L \<Longrightarrow> well_called (On_lease x) \<Longrightarrow> actions (uuid_hex E) L L'"
  by (cases x) (auto simp: committed_Inr intro: operation_actions)

lemma perform_gate_actions:
  "perform_gate E x L = Inr L' \<Longrightarrow> ledger_ok L \<Longrightarrow> well_called (On_gate x) \<Longrightarrow> actions (uuid_hex E) L L'"
  by (cases x) (auto simp: committed_Inr intro: operation_actions)

lemma perform_evidence_actions:
  "perform_evidence E x L = Inr L' \<Longrightarrow> actions (uuid_hex E) L L'"
  by (cases x) (auto simp: committed_Inr intro: operation_actions)

lemma perform_actions:
  "perform E x L = Inr L' \<Longrightarrow> ledger_ok L \<Longrightarrow> well_called x \<Longrightarrow> actions (uuid_hex E) L L'"
  by (cases x) (auto intro: perform_instance_actions perform_lease_actions perform_gate_actions
      perform_evidence_actions)

section \<open>Steps and reachable ledgers\<close>

inductive ledger_step :: "(nat \<Rightarrow> string) \<Rightarrow> ledger \<Rightarrow> ledger \<Rightarrow> bool" for u where
  commit: "perform E x L = Inr L' \<Longrightarrow> uuid_hex E = u \<Longrightarrow> well_called x \<Longrightarrow> ledger_step u L L'"
| rollback: "perform E x L = Inl e \<Longrightarrow> uuid_hex E = u \<Longrightarrow> ledger_step u L L"

inductive_cases ledger_stepE: "ledger_step u L L'"

lemma ledger_step_actions: "ledger_step u L L' \<Longrightarrow> ledger_ok L \<Longrightarrow> actions u L L'"
  by (auto elim!: ledger_stepE intro: perform_actions)

text \<open>A machine whose steps keep an invariant, and one whose steps also climb a preorder.\<close>

locale invariant_machine =
  fixes step :: "'s \<Rightarrow> 's \<Rightarrow> bool" and start :: 's and inv :: "'s \<Rightarrow> bool"
  assumes inv_start: "inv start" and inv_step: "step s t \<Longrightarrow> inv s \<Longrightarrow> inv t"
begin

lemma inv_steps: "step\<^sup>*\<^sup>* s t \<Longrightarrow> inv s \<Longrightarrow> inv t"
  by (induction rule: rtranclp_induct) (auto intro: inv_step)

lemma inv_reachable: "step\<^sup>*\<^sup>* start t \<Longrightarrow> inv t"
  using inv_steps inv_start by blast

end

locale history_machine = invariant_machine +
  fixes extends :: "'a \<Rightarrow> 'a \<Rightarrow> bool"
  assumes extends_refl: "extends s s"
    and extends_trans: "extends r s \<Longrightarrow> extends s t \<Longrightarrow> extends r t"
    and extends_step: "step s t \<Longrightarrow> inv s \<Longrightarrow> extends s t"
begin

lemma extends_steps: "step\<^sup>*\<^sup>* s t \<Longrightarrow> inv s \<Longrightarrow> extends s t"
proof (induction rule: rtranclp_induct)
  case base
  show ?case by (rule extends_refl)
next
  case (step t v)
  then show ?case using inv_steps extends_step extends_trans by blast
qed

end

definition ledger_inv :: "(nat \<Rightarrow> string) \<Rightarrow> ledger \<Rightarrow> bool" where
  "ledger_inv u L \<longleftrightarrow> ledger_ok L \<and> starts_ok L \<and> (inj u \<longrightarrow> leases_ok u L)"

lemma ledger_inv_empty: "ledger_inv u empty_ledger"
  by (simp add: ledger_inv_def ledger_ok_empty starts_ok_def leases_ok_def start_events_def empty_ledger_def
      del: ledger_ok_def)
    (simp add: ledger_ok_empty [unfolded empty_ledger_def])

lemma actions_ledger_inv: "actions u L L' \<Longrightarrow> ledger_inv u L \<Longrightarrow> ledger_inv u L'"
proof (induction rule: rtranclp_induct)
  case (step M N)
  then show ?case unfolding ledger_inv_def
    by (blast intro: action_ledger_ok action_starts_ok action_leases_ok)
qed

interpretation ledger_machine: history_machine "ledger_step u" empty_ledger "ledger_inv u" history for u
proof
  show "ledger_inv u empty_ledger" by (rule ledger_inv_empty)
  show "ledger_inv u M" if "ledger_step u L M" "ledger_inv u L" for L M
    using ledger_step_actions[OF that(1)] that(2) actions_ledger_inv by (auto simp: ledger_inv_def)
  show "history L L" for L by simp
  show "history K M" if "history K L" "history L M" for K L M using that by (rule history_trans)
  show "history L M" if "ledger_step u L M" "ledger_inv u L" for L M
    using ledger_step_actions[OF that(1)] that(2) actions_history by (auto simp: ledger_inv_def)
qed

section \<open>Executing a trace\<close>

text \<open>A caller that goes on after an exception: the ledger is unchanged by the failed call.\<close>

fun run_trace :: "(env \<times> ledger_op) list \<Rightarrow> ledger \<Rightarrow> ledger" where
  "run_trace [] L = L"
| "run_trace ((E, x) # tr) L = run_trace tr (case perform E x L of Inl e \<Rightarrow> L | Inr M \<Rightarrow> M)"

definition legal_trace :: "(nat \<Rightarrow> string) \<Rightarrow> (env \<times> ledger_op) list \<Rightarrow> bool" where
  "legal_trace u tr \<longleftrightarrow> (\<forall>(E, x) \<in> set tr. uuid_hex E = u \<and> well_called x)"

lemma run_trace_steps: "legal_trace u tr \<Longrightarrow> (ledger_step u)\<^sup>*\<^sup>* L (run_trace tr L)"
proof (induction tr arbitrary: L)
  case (Cons s tr)
  obtain E x where s: "s = (E, x)" by (cases s)
  have "ledger_step u L (case perform E x L of Inl e \<Rightarrow> L | Inr M \<Rightarrow> M)"
    using Cons.prems s by (cases "perform E x L") (auto simp: legal_trace_def intro: ledger_step.intros)
  moreover have "legal_trace u tr" using Cons.prems by (simp add: legal_trace_def)
  ultimately show ?case using Cons.IH by (simp add: s converse_rtranclp_into_rtranclp)
qed simp

lemma run_trace_append: "run_trace (tr @ tr') L = run_trace tr' (run_trace tr L)"
  by (induction tr L rule: run_trace.induct) auto

lemma legal_trace_append: "legal_trace u (tr @ tr') \<longleftrightarrow> legal_trace u tr \<and> legal_trace u tr'"
  by (auto simp: legal_trace_def)

lemma run_trace_inv: "legal_trace u tr \<Longrightarrow> ledger_inv u (run_trace tr empty_ledger)"
  by (rule ledger_machine.inv_reachable[OF run_trace_steps])

end
