(* ===== verification/Ledger_Contract.thy ===== *)
theory Ledger_Contract
  imports Ledger_Machine
begin

text \<open>
  What the single operations promise.  \<open>holds_lease\<close> is the authority a mutation needs; the
  locale \<open>lease_settlement\<close> states the contract the four settling operations share (they
  succeed exactly under that authority, rewrite exactly the leased run, append one event and
  leave the token dead) and is interpreted on each of them.
\<close>

section \<open>Events and authority\<close>

definition fresh_uuid :: "env \<Rightarrow> ledger \<Rightarrow> bool" where
  "fresh_uuid E L \<longleftrightarrow> uuid_hex E (uuid_draws L) \<notin> ev_id ` set (events L)"

lemma emit_succeeds:
  assumes "fresh_uuid E L" "has_instance L i" "opt_ref (has_run L) s"
  shows "emit E i s ty a p c L = Inr (L\<lparr>uuid_draws := Suc (uuid_draws L), events := events L @ [event_of E i s ty a p c L]\<rparr>)"
  using assms by (simp add: emit_Inr fresh_uuid_def event_of_def)

lemma fresh_update [simp]:
  "fresh_uuid E (update_runs P f L) = fresh_uuid E L"
  "fresh_uuid E (update_instances Q g L) = fresh_uuid E L"
  by (simp_all add: fresh_uuid_def update_runs_def update_instances_def)

lemma has_run_update: "(\<And>r. sr_id (f r) = sr_id r) \<Longrightarrow> has_run (update_runs P f L) = has_run L"
proof -
  assume "\<And>r. sr_id (f r) = sr_id r"
  then have "map sr_id (update_where P f (stage_runs L)) = map sr_id (stage_runs L)" by (simp add: update_where_map_key)
  then show ?thesis unfolding has_run_def update_runs_def by (metis image_set ledger.ext_inject ledger.surjective ledger.update_convs(2))
qed

lemma run_has_instance: "ledger_ok L \<Longrightarrow> r \<in> set (stage_runs L) \<Longrightarrow> has_instance L (sr_instance_id r)"
  by (simp add: ledger_ok_def references_resolve_def resolves_def)

definition holds_lease :: "env \<Rightarrow> ledger \<Rightarrow> string \<Rightarrow> string \<Rightarrow> string \<Rightarrow> string \<Rightarrow> stage_run_row \<Rightarrow> bool" where
  "holds_lease E L i t w at r \<longleftrightarrow> r \<in> set (stage_runs L) \<and> leased_as i t r \<and> sr_lease_owner r = Some w \<and>
     active_lease (sr_status r) \<and>
     (\<exists>m e x. coerce_datetime E at = Inr m \<and> sr_lease_expires_at r = Some e \<and> coerce_datetime E e = Inr x \<and> m < x)"

lemma require_leased_run_holds:
  assumes "ledger_ok L"
  shows "require_leased_run E i t at w all_active_lease L = Inr r \<longleftrightarrow> holds_lease E L i t w at r"
proof -
  have "select_one (leased_as i t) (stage_runs L) = Some r \<longleftrightarrow> r \<in> set (stage_runs L) \<and> leased_as i t r"
    using select_one_key[OF ledger_ok_runs(1)[OF assms], of r i "\<lambda>r. sr_lease_token r = Some t"] select_one_Some[of "leased_as i t" "stage_runs L" r]
    unfolding leased_as_def[abs_def] by blast
  then show ?thesis by (auto simp: require_leased_run_Inr holds_lease_def all_active_lease_set)
qed

lemma holds_lease_unique:
  "ledger_ok L \<Longrightarrow> holds_lease E L i t w at r \<Longrightarrow> s \<in> set (stage_runs L) \<Longrightarrow> leased_as i t s \<longleftrightarrow> s = r"
  using same_run[of L s r] by (auto simp: holds_lease_def leased_as_def)

lemma require_leased_run_dead:
  "(\<And>r. r \<in> set (stage_runs L) \<Longrightarrow> \<not> leased_as i t r) \<Longrightarrow> require_leased_run E i t at w ps L =
     Inl (LedgerConflict (''stage run '' @ repr_str i @ '' is not leased by this token''))"
  by (auto simp: require_leased_run_def Let_def leased_as_def select_one_None split: option.splits dest!: select_one_Some)

section \<open>Settling a leased run\<close>

locale lease_settlement =
  fixes settle :: "env \<Rightarrow> string \<Rightarrow> string \<Rightarrow> ts_arg \<Rightarrow> string \<Rightarrow> string option \<Rightarrow> ledger \<Rightarrow> kernel_error + (unit \<times> ledger)"
    and prepare :: "env \<Rightarrow> kernel_error + 'p"
    and settled :: "'p \<Rightarrow> string \<Rightarrow> stage_run_row \<Rightarrow> stage_run_row"
    and event :: string
    and details :: "'p \<Rightarrow> pyval"
  assumes settle_steps: "settle E i t now a w L =
      bindE (iso_timestamp (clock E 0) now) (\<lambda>at.
      bindE (prepare E) (\<lambda>p.
      bindE (require_leased_run E i t at (str_or w a) all_active_lease L) (\<lambda>row.
      bindE (emit E (sr_instance_id row) (Some i) event a (details p) at
         (update_runs (leased_as i t) (settled p at) L)) (\<lambda>L1. Inr ((), L1)))))"
    and settled_run: "same_run r (settled p at r)"
    and settled_lease: "lease_cleared (settled p at r)"
begin

lemma settled_not_leased: "\<not> leased_as i t (settled p at r)"
  using settled_lease[of p at r] by (simp add: lease_cleared_def leased_as_def)

lemma settle_effect:
  assumes "settle E i t now a w L = Inr ((), L')" "ledger_ok L"
  shows "\<exists>at p r. iso_timestamp (clock E 0) now = Inr at \<and> prepare E = Inr p \<and>
    holds_lease E L i t (str_or w a) at r \<and>
    stage_runs L' = map (\<lambda>s. if s = r then settled p at r else s) (stage_runs L) \<and>
    events L' = events L @ [event_of E (sr_instance_id r) (Some i) event a (details p) at L] \<and>
    workflow_instances L' = workflow_instances L"
proof -
  obtain at p r where at: "iso_timestamp (clock E 0) now = Inr at" "prepare E = Inr p"
    and lease: "require_leased_run E i t at (str_or w a) all_active_lease L = Inr r"
    and log: "emit E (sr_instance_id r) (Some i) event a (details p) at
         (update_runs (leased_as i t) (settled p at) L) = Inr L'"
    using assms(1) unfolding settle_steps by (auto simp: bindE_eq_Inr)
  have holds: "holds_lease E L i t (str_or w a) at r"
    using lease by (simp add: require_leased_run_holds[OF assms(2)])
  have "update_where (leased_as i t) (settled p at) (stage_runs L) =
      map (\<lambda>s. if s = r then settled p at r else s) (stage_runs L)"
    unfolding update_where_def using holds_lease_unique[OF assms(2) holds] by auto
  then show ?thesis using at holds log
    by (intro exI[of _ at] exI[of _ p] exI[of _ r]) (auto simp: emit_Inr update_runs_def event_of_def)
qed

lemma settle_succeeds:
  assumes "ledger_ok L" "fresh_uuid E L" "iso_timestamp (clock E 0) now = Inr at" "prepare E = Inr p"
  shows "(\<exists>L'. settle E i t now a w L = Inr ((), L')) \<longleftrightarrow> (\<exists>r. holds_lease E L i t (str_or w a) at r)"
proof
  assume "\<exists>L'. settle E i t now a w L = Inr ((), L')"
  then show "\<exists>r. holds_lease E L i t (str_or w a) at r" using settle_effect assms(1,3) by fastforce
next
  assume "\<exists>r. holds_lease E L i t (str_or w a) at r"
  then obtain r where r: "holds_lease E L i t (str_or w a) at r" ..
  then have row: "r \<in> set (stage_runs L)" and id: "sr_id r = i" by (auto simp: holds_lease_def leased_as_def)
  let ?M = "update_runs (leased_as i t) (settled p at) L"
  have "has_instance ?M (sr_instance_id r)"
    using run_has_instance[OF assms(1) row] by (simp add: update_runs_def has_instance_def)
  moreover have "has_run ?M i"
    using row id settled_run by (subst has_run_update) (auto simp: has_run_def same_run_defs)
  ultimately have "\<exists>L'. emit E (sr_instance_id r) (Some i) event a (details p) at ?M = Inr L'"
    using emit_succeeds[of E ?M] assms(2) by (simp add: opt_ref_def)
  moreover have "require_leased_run E i t at (str_or w a) all_active_lease L = Inr r"
    using r by (simp add: require_leased_run_holds[OF assms(1)])
  ultimately show "\<exists>L'. settle E i t now a w L = Inr ((), L')"
    using assms(3,4) by (auto simp: settle_steps)
qed

lemma settle_kills_token:
  assumes "settle E i t now a w L = Inr ((), L')" "ledger_ok L" "r \<in> set (stage_runs L')"
  shows "\<not> leased_as i t r"
proof -
  obtain at p q where q: "holds_lease E L i t (str_or w a) at q"
    and rows: "stage_runs L' = map (\<lambda>s. if s = q then settled p at q else s) (stage_runs L)"
    using settle_effect[OF assms(1,2)] by blast
  show ?thesis using assms(3) settled_not_leased holds_lease_unique[OF assms(2) q] unfolding rows
    by (auto split: if_splits)
qed

lemma settle_once:
  assumes "settle E i t now a w L = Inr ((), L')" "ledger_ok L"
    "iso_timestamp (clock F 0) now' = Inr at" "prepare F = Inr p"
  shows "settle F i t now' a' w' L' =
    Inl (LedgerConflict (''stage run '' @ repr_str i @ '' is not leased by this token''))"
  using require_leased_run_dead[OF settle_kills_token[OF assms(1,2)]] assms(3,4)
  by (simp add: settle_steps)

end

interpretation completion: lease_settlement
  "\<lambda>E i t now a w. complete_stage_run E i t rid oh now a w" "\<lambda>_. Inr ()"
  "\<lambda>_ at r. clear_lease (r\<lparr>sr_status := SR_SUCCEEDED, sr_receipt_id := coalesce rid (sr_receipt_id r),
      sr_output_hash := coalesce oh (sr_output_hash r), sr_completed_at := Some at, sr_updated_at := at\<rparr>)"
  "''stage_completed''" "\<lambda>_. PDict [(''receipt_id'', opt_str rid), (''output_hash'', opt_str oh)]" for rid oh
  by unfold_locales (auto simp: complete_stage_run_def same_run_defs)

definition retry_time :: "ts_arg \<Rightarrow> env \<Rightarrow> kernel_error + string option" where
  "retry_time retry_after_at E = (if retry_after_at = TsNone then Inr None
     else bindE (iso_timestamp (clock E 1) retry_after_at) (\<lambda>t. Inr (Some t)))"

interpretation failure: lease_settlement
  "\<lambda>E i t now a w. fail_stage_run E i t fc fs st ra now a w" "retry_time ra"
  "\<lambda>retry_at at r. clear_lease (r\<lparr>sr_status := st, sr_failure_class := Some fc, sr_failure_summary := Some fs,
      sr_retry_after_at := retry_at, sr_completed_at := Some at, sr_updated_at := at\<rparr>)"
  "''stage_failed''" "\<lambda>retry_at. PDict [(''failure_class'', PStr fc), (''failure_summary'', PStr fs),
      (''retry_after_at'', opt_str retry_at), (''status'', PStr (run_status_value st))]" for fc fs st ra
  by unfold_locales (auto simp: fail_stage_run_def retry_time_def same_run_defs)

interpretation blocking: lease_settlement
  "\<lambda>E i t now a w. block_stage_run E i t fc fs ap now a w" "\<lambda>_. Inr ()"
  "\<lambda>_ at r. clear_lease (r\<lparr>sr_status := SR_BLOCKED, sr_failure_class := Some fc, sr_failure_summary := Some fs,
      sr_approval_required := ap, sr_completed_at := Some at, sr_updated_at := at\<rparr>)"
  "''stage_blocked''" "\<lambda>_. PDict [(''failure_class'', PStr fc), (''failure_summary'', PStr fs),
      (''approval_required'', PBool ap)]" for fc fs ap
  by unfold_locales (auto simp: block_stage_run_def same_run_defs)

interpretation waiting: lease_settlement
  "\<lambda>E i t now a w. wait_stage_run_for_human_decision E i t fc fs now a w" "\<lambda>_. Inr ()"
  "\<lambda>_ at r. clear_lease (r\<lparr>sr_status := SR_WAITING_ON_HUMAN, sr_failure_class := Some fc,
      sr_failure_summary := Some fs, sr_approval_required := True, sr_updated_at := at\<rparr>)"
  "''stage_waiting_on_human''" "\<lambda>_. PDict [(''failure_class'', PStr fc), (''failure_summary'', PStr fs),
      (''approval_required'', PBool True)]" for fc fs
  by unfold_locales (auto simp: wait_stage_run_for_human_decision_def same_run_defs)

end
