(* ===== verification/Kernel_Program.thy ===== *)
theory Kernel_Program
  imports Ledger_Contract Adapter_Registry
begin

text \<open>
  The runner and the kernel are programs over the ledger: they read it, call its operations one
  transaction at a time, invoke adapters and catch exceptions.  A program is a state transformer
  with a result; unlike a transaction, a program that raises keeps what it has committed.  The
  world holds the ledger, the number of environment readings so far (each call sees its own
  clock), the external effects in order, and the local \<open>state\<close> dict of the running step.
\<close>

section \<open>Programs\<close>

datatype effect = Adapter_called AdapterInvocation pyval

record 'm world =
  w_calls :: nat
  w_ledger :: ledger
  w_effects :: "effect list"
  w_memo :: 'm

type_synonym ('m, 'a) prog = "(nat \<Rightarrow> env) \<Rightarrow> 'm world \<Rightarrow> (kernel_error + 'a) \<times> 'm world"

definition ret :: "'a \<Rightarrow> ('m, 'a) prog" where
  "ret x = (\<lambda>Es w. (Inr x, w))"

definition raise :: "kernel_error \<Rightarrow> ('m, 'a) prog" where
  "raise e = (\<lambda>Es w. (Inl e, w))"

definition bindP :: "('m, 'a) prog \<Rightarrow> ('a \<Rightarrow> ('m, 'b) prog) \<Rightarrow> ('m, 'b) prog" where
  "bindP m f = (\<lambda>Es w. case m Es w of (Inl e, v) \<Rightarrow> (Inl e, v) | (Inr x, v) \<Rightarrow> f x Es v)"

text \<open>A pure computation that may raise, and one that reads the ledger.\<close>

definition liftP :: "kernel_error + 'a \<Rightarrow> ('m, 'a) prog" where
  "liftP r = (\<lambda>Es w. (r, w))"

definition query :: "(ledger \<Rightarrow> kernel_error + 'a) \<Rightarrow> ('m, 'a) prog" where
  "query f = (\<lambda>Es w. (f (w_ledger w), w))"

text \<open>One transaction of the ledger: rolled back when it raises.\<close>

definition call :: "(env \<Rightarrow> ledger \<Rightarrow> kernel_error + ('a \<times> ledger)) \<Rightarrow> ('m, 'a) prog" where
  "call f = (\<lambda>Es w. case f (Es (w_calls w)) (w_ledger w) of
      Inl e \<Rightarrow> (Inl e, w\<lparr>w_calls := Suc (w_calls w)\<rparr>)
    | Inr (x, L) \<Rightarrow> (Inr x, w\<lparr>w_calls := Suc (w_calls w), w_ledger := L\<rparr>))"

text \<open>Code that reads the clock outside the ledger, and \<open>uuid.uuid4().hex\<close>.\<close>

definition ask :: "(env \<Rightarrow> kernel_error + 'a) \<Rightarrow> ('m, 'a) prog" where
  "ask f = (\<lambda>Es w. (f (Es (w_calls w)), w\<lparr>w_calls := Suc (w_calls w)\<rparr>))"

definition draw_hex :: "('m, string) prog" where
  "draw_hex = call (\<lambda>E L. Inr (next_uuid E L))"

text \<open>\<open>try: m except Exception\<close>, with the exception as a value.\<close>

definition tried :: "('m, 'a) prog \<Rightarrow> ('m, kernel_error + 'a) prog" where
  "tried m = (\<lambda>Es w. case m Es w of (r, v) \<Rightarrow> (Inr r, v))"

definition memo :: "('m, 'm) prog" where
  "memo = (\<lambda>Es w. (Inr (w_memo w), w))"

definition set_memo :: "('m \<Rightarrow> 'm) \<Rightarrow> ('m, unit) prog" where
  "set_memo f = (\<lambda>Es w. (Inr (), w\<lparr>w_memo := f (w_memo w)\<rparr>))"

text \<open>Running a program with a \<open>state\<close> of its own, returned with the result.\<close>

definition with_memo :: "'n \<Rightarrow> ('n, 'a) prog \<Rightarrow> ('m, 'a \<times> 'n) prog" where
  "with_memo s m = (\<lambda>Es w. case m Es \<lparr>w_calls = w_calls w, w_ledger = w_ledger w, w_effects = w_effects w, w_memo = s\<rparr> of
      (r, v) \<Rightarrow> (bindE r (\<lambda>x. Inr (x, w_memo v)),
        \<lparr>w_calls = w_calls v, w_ledger = w_ledger v, w_effects = w_effects v, w_memo = w_memo w\<rparr>))"

text \<open>
  Invoking an adapter: code outside the kernel, given by what it answers.  Its answer may depend
  on everything invoked before, and has the shape of the protocol method called: an adapter result,
  an output mapping, one receipt or several.
\<close>

datatype adapter_answer =
    Result_answer AdapterResult
  | Outputs_answer mapping_items
  | Receipt_answer Receipt
  | Receipts_answer "Receipt list"

type_synonym adapter_host = "effect list \<Rightarrow> AdapterInvocation \<Rightarrow> pyval \<Rightarrow> kernel_error + adapter_answer"

definition invoke_adapter :: "adapter_host \<Rightarrow> AdapterInvocation \<Rightarrow> pyval \<Rightarrow> ('m, adapter_answer) prog" where
  "invoke_adapter host a x = (\<lambda>Es w. (host (w_effects w) a x, w\<lparr>w_effects := w_effects w @ [Adapter_called a x]\<rparr>))"

text \<open>\<open>str(exc)\<close>: a \<open>KeyError\<close> shows the repr of its key.\<close>

fun exception_text :: "kernel_error \<Rightarrow> string" where
  "exception_text (ValueError s) = s"
| "exception_text (TypeError s) = s"
| "exception_text (KeyError s) = repr_str s"
| "exception_text (RuntimeError s) = s"
| "exception_text (OverflowError s) = s"
| "exception_text (LedgerConflict s) = s"
| "exception_text (LedgerSchemaError s) = s"
| "exception_text (IntegrityError s) = s"
| "exception_text (ProgrammingError s) = s"
| "exception_text (WorkflowValidationError s) = s"
| "exception_text (AdapterRegistryError s) = s"
| "exception_text (AttributeError s) = s"
| "exception_text AssertionError = []"
| "exception_text (OSError s) = s"
| "exception_text (PromptRegistryError s) = s"
| "exception_text (MissingPromptError s) = s"
| "exception_text (PromptHashMismatchError s) = s"
| "exception_text (InactivePromptError s) = s"
| "exception_text (SurfaceProfileError s) = s"

section \<open>Running a program\<close>

named_theorems prog_simps \<open>inversion of program runs\<close>

lemma ret_run [simp]: "ret x Es w = (Inr x, w)" "raise e Es w = (Inl e, w)" "liftP r Es w = (r, w)"
  "query f Es w = (f (w_ledger w), w)" "memo Es w = (Inr (w_memo w), w)"
  "set_memo g Es w = (Inr (), w\<lparr>w_memo := g (w_memo w)\<rparr>)"
  by (simp_all add: ret_def raise_def liftP_def query_def memo_def set_memo_def)

lemma bindP_Inr [prog_simps]:
  "bindP m f Es w = (Inr y, v) \<longleftrightarrow> (\<exists>x u. m Es w = (Inr x, u) \<and> f x Es u = (Inr y, v))"
  by (auto simp: bindP_def split: prod.splits sum.splits)

lemma bindP_Inl: "bindP m f Es w = (Inl e, v) \<longleftrightarrow>
    m Es w = (Inl e, v) \<or> (\<exists>x u. m Es w = (Inr x, u) \<and> f x Es u = (Inl e, v))"
  by (auto simp: bindP_def split: prod.splits sum.splits)

lemma bindP_run: "m Es w = (Inr x, u) \<Longrightarrow> bindP m f Es w = f x Es u"
  by (simp add: bindP_def)

lemma bindP_raise: "m Es w = (Inl e, u) \<Longrightarrow> bindP m f Es w = (Inl e, u)"
  by (simp add: bindP_def)

lemma call_Inr [prog_simps]: "call f Es w = (Inr x, v) \<longleftrightarrow> (\<exists>L. f (Es (w_calls w)) (w_ledger w) = Inr (x, L) \<and>
    v = w\<lparr>w_calls := Suc (w_calls w), w_ledger := L\<rparr>)"
  by (auto simp: call_def split: sum.splits prod.splits)

lemma call_Inl: "call f Es w = (Inl e, v) \<longleftrightarrow> f (Es (w_calls w)) (w_ledger w) = Inl e \<and> v = w\<lparr>w_calls := Suc (w_calls w)\<rparr>"
  by (auto simp: call_def split: sum.splits prod.splits)

lemma ask_Inr [prog_simps]: "ask f Es w = (Inr x, v) \<longleftrightarrow> f (Es (w_calls w)) = Inr x \<and> v = w\<lparr>w_calls := Suc (w_calls w)\<rparr>"
  by (auto simp: ask_def)

lemma tried_Inr [prog_simps]: "tried m Es w = (Inr r, v) \<longleftrightarrow> m Es w = (r, v)"
  by (auto simp: tried_def split: prod.splits)

section \<open>What any run of a program keeps\<close>

text \<open>
  \<open>acts u m\<close>: whatever happens, a run of \<open>m\<close> on a consistent ledger changes it by ledger actions
  only, and never takes an external effect back.
\<close>

definition extends_world :: "(nat \<Rightarrow> string) \<Rightarrow> 'm world \<Rightarrow> 'n world \<Rightarrow> bool" where
  "extends_world u w v \<longleftrightarrow> actions u (w_ledger w) (w_ledger v) \<and> prefix (w_effects w) (w_effects v)"

definition acts :: "(nat \<Rightarrow> string) \<Rightarrow> ('m, 'a) prog \<Rightarrow> bool" where
  "acts u m \<longleftrightarrow> (\<forall>Es w. (\<forall>n. uuid_hex (Es n) = u) \<longrightarrow> ledger_ok (w_ledger w) \<longrightarrow> extends_world u w (snd (m Es w)))"

lemma actsI: "(\<And>Es w r v. m Es w = (r, v) \<Longrightarrow> \<forall>n. uuid_hex (Es n) = u \<Longrightarrow> ledger_ok (w_ledger w) \<Longrightarrow> extends_world u w v) \<Longrightarrow> acts u m"
  unfolding acts_def by (metis prod.collapse)

lemma actsD: "acts u m \<Longrightarrow> m Es w = (r, v) \<Longrightarrow> \<forall>n. uuid_hex (Es n) = u \<Longrightarrow> ledger_ok (w_ledger w) \<Longrightarrow> extends_world u w v"
  unfolding acts_def by (metis snd_conv)

lemma extends_refl: "w_ledger v = w_ledger w \<Longrightarrow> w_effects v = w_effects w \<Longrightarrow> extends_world u w v"
  by (simp add: extends_world_def)

lemma extends_trans: "extends_world u w v \<Longrightarrow> extends_world u v x \<Longrightarrow> extends_world u w x"
  unfolding extends_world_def by (meson rtranclp_trans prefix_order.trans)

lemma extends_ok: "extends_world u w v \<Longrightarrow> ledger_ok (w_ledger w) \<Longrightarrow> ledger_ok (w_ledger v)"
  unfolding extends_world_def using actions_ledger_ok by blast

named_theorems acts_intro \<open>programs that act through the ledger only\<close>

lemma acts_pure [acts_intro]: "acts u (ret x)" "acts u (raise e)" "acts u (liftP r)" "acts u (query f)" "acts u memo"
  "acts u (set_memo g)" "acts u (ask h)"
  by (auto intro!: actsI extends_refl simp: ask_def)

lemma acts_bind [acts_intro]: assumes "acts u m" "\<And>x. acts u (f x)" shows "acts u (bindP m f)"
proof (rule actsI)
  fix Es w r v
  assume run: "bindP m f Es w = (r, v)" and u: "\<forall>n. uuid_hex (Es n) = u" and ok: "ledger_ok (w_ledger w)"
  obtain q t where m: "m Es w = (q, t)" by (cases "m Es w")
  have t: "extends_world u w t" by (rule actsD[OF assms(1) m u ok])
  show "extends_world u w v"
  proof (cases q)
    case (Inl e)
    then show ?thesis using t run m by (simp add: bindP_def)
  next
    case (Inr x)
    then have "f x Es t = (r, v)" using run m by (simp add: bindP_def)
    then show ?thesis using actsD[OF assms(2) _ u extends_ok[OF t ok]] extends_trans[OF t] by blast
  qed
qed

lemma acts_call [acts_intro]:
  assumes "\<And>E L x L'. f E L = Inr (x, L') \<Longrightarrow> uuid_hex E = u \<Longrightarrow> ledger_ok L \<Longrightarrow> actions u L L'"
  shows "acts u (call f)"
  using assms by (fastforce intro!: actsI simp: call_def extends_world_def split: sum.splits prod.splits)

lemma acts_tried [acts_intro]: "acts u m \<Longrightarrow> acts u (tried m)"
  by (rule actsI) (auto simp: tried_def split: prod.splits dest: actsD)

lemma acts_with_memo [acts_intro]: assumes "acts u m" shows "acts u (with_memo s m)"
proof (rule actsI)
  fix Es and w :: "'c world" and r v
  assume run: "with_memo s m Es w = (r, v)" and u: "\<forall>n. uuid_hex (Es n) = u" and ok: "ledger_ok (w_ledger w)"
  let ?w = "\<lparr>w_calls = w_calls w, w_ledger = w_ledger w, w_effects = w_effects w, w_memo = s\<rparr>"
  obtain q t where m: "m Es ?w = (q, t)" by (cases "m Es ?w")
  have "extends_world u ?w t" using actsD[OF assms m u] ok by simp
  then show "extends_world u w v" using run m by (auto simp: with_memo_def extends_world_def)
qed

lemma acts_if [acts_intro]: "(b \<Longrightarrow> acts u m) \<Longrightarrow> (\<not> b \<Longrightarrow> acts u n) \<Longrightarrow> acts u (if b then m else n)"
  by simp

lemma acts_option [acts_intro]: "(x = None \<Longrightarrow> acts u m) \<Longrightarrow> (\<And>a. x = Some a \<Longrightarrow> acts u (f a)) \<Longrightarrow> acts u (case x of None \<Rightarrow> m | Some a \<Rightarrow> f a)"
  by (cases x) auto

lemma acts_sum [acts_intro]: "(\<And>e. x = Inl e \<Longrightarrow> acts u (g e)) \<Longrightarrow> (\<And>a. x = Inr a \<Longrightarrow> acts u (f a)) \<Longrightarrow> acts u (case x of Inl e \<Rightarrow> g e | Inr a \<Rightarrow> f a)"
  by (cases x) auto

lemma acts_prod [acts_intro]: "(\<And>a b. x = (a, b) \<Longrightarrow> acts u (f a b)) \<Longrightarrow> acts u (case x of (a, b) \<Rightarrow> f a b)"
  by (cases x) auto

lemma acts_draw [acts_intro]: "acts u draw_hex"
  unfolding draw_hex_def by (rule acts_call) (auto simp: next_uuid_def intro!: r_into_rtranclp action.draw)

lemma acts_invoke [acts_intro]: "acts u (invoke_adapter host a x)"
  by (rule actsI) (auto simp: invoke_adapter_def extends_world_def)

text \<open>A program that acts keeps every invariant of the ledger and only adds to its history.\<close>

lemma acts_keeps:
  assumes "acts u m" "m Es w = (r, v)" "\<forall>n. uuid_hex (Es n) = u" "ledger_inv u (w_ledger w)"
  shows "ledger_inv u (w_ledger v) \<and> history (w_ledger w) (w_ledger v) \<and> prefix (w_effects w) (w_effects v)"
proof -
  have "extends_world u w v" using actsD[OF assms(1-3)] assms(4) by (simp add: ledger_inv_def)
  then show ?thesis using actions_ledger_inv assms(4) actions_history by (auto simp: extends_world_def)
qed

end
