(* ===== verification/Runner.thy ===== *)
theory Runner
  imports Kernel_Program Ledger_Gates
begin

text \<open>
  \<^verbatim>\<open>runner.py\<close>: one runner pass (sweep, claim, start, handle, settle) and the owned loop that drives
  a kernel until nothing is left to do.  The stage handler is the adapter boundary, a program
  given as an argument; the loop takes the kernel facade it drives as a record of programs.
\<close>

section \<open>One pass\<close>

record RunnerResult =
  rr_decision :: string
  rr_receipt :: "Receipt option"
  rr_output_hash :: "string option"
  rr_failure_class :: "string option"
  rr_failure_summary :: "string option"
  rr_retry_after_at :: ts_arg
  rr_approval_required :: bool

record RunnerStep =
  rs_stage_run :: "StageRun option"
  rs_decision :: string

type_synonym 'm handler = "StageRun \<Rightarrow> ('m, RunnerResult) prog"

definition status_for_failure :: "string option \<Rightarrow> StageRunStatus" where
  "status_for_failure fc = (if fc = Some (failure_value FC_INVALID_OUTPUT) then SR_INVALID_OUTPUT else SR_FAILED)"

definition handler_scope :: "StageRun \<Rightarrow> mapping_items" where
  "handler_scope run = [(''boundary'', PStr ''stage_handler''), (''adapter_invocation_may_start'', PBool True),
     (''adapter_id'', opt_str (run_adapter_id run)), (''stage_id'', PStr (run_stage_id run))]"

text \<open>\<open>claim_next_queued_run\<close> as a program: an exception raised after the commit is still an exception.\<close>

definition claim_run :: "string \<Rightarrow> string option \<Rightarrow> pyval \<Rightarrow> (StageRun \<Rightarrow> kernel_error + ResolvedLeasePolicy) option \<Rightarrow>
    (StageRun \<Rightarrow> kernel_error + bool) option \<Rightarrow> mapping_items \<Rightarrow> ts_arg \<Rightarrow> ('m, StageRun option) prog" where
  "claim_run owner inst secs resolver predicate context now =
     bindP (call (\<lambda>E. claim_next_queued_run E owner inst secs resolver predicate context now)) liftP"

text \<open>The ledger call a handler's decision leads to.\<close>

definition settle_result :: "string \<Rightarrow> ts_arg \<Rightarrow> string \<Rightarrow> string \<Rightarrow> RunnerResult \<Rightarrow> ('m, unit) prog" where
  "settle_result owner now i t r = (let d = rr_decision r in
     if d = ''succeeded'' then
       call (\<lambda>E. complete_stage_run E i t (map_option rcpt_id (rr_receipt r)) (rr_output_hash r) now owner (Some owner))
     else if d = ''retry'' then
       if rr_retry_after_at r = TsNone then raise (ValueError ''retry decisions must include retry_after_at'')
       else call (\<lambda>E. schedule_retry E i t (str_or (rr_failure_class r) (failure_value FC_RUNTIME_FAILURE))
              (str_or (rr_failure_summary r) ''Stage scheduled for retry.'') (rr_retry_after_at r) now owner (Some owner))
     else if d = ''blocked'' then
       call (\<lambda>E. block_stage_run E i t (str_or (rr_failure_class r) (failure_value FC_DOMAIN_BLOCKED))
              (str_or (rr_failure_summary r) ''Stage blocked by handler.'') (rr_approval_required r) now owner (Some owner))
     else if d = ''waiting_on_human'' then
       call (\<lambda>E. wait_stage_run_for_human_decision E i t (str_or (rr_failure_class r) (failure_value FC_DOMAIN_BLOCKED))
              (str_or (rr_failure_summary r) ''Stage is waiting on a human decision.'') now owner (Some owner))
     else if d = ''failed'' then
       call (\<lambda>E. fail_stage_run E i t (str_or (rr_failure_class r) (failure_value FC_RUNTIME_FAILURE))
              (str_or (rr_failure_summary r) ''Stage failed.'') (status_for_failure (rr_failure_class r)) TsNone now owner (Some owner))
     else raise (ValueError (''unknown runner decision: '' @ repr_str d)))"

definition record_result :: "RunnerResult \<Rightarrow> ('m, unit) prog" where
  "record_result r = (case rr_receipt r of None \<Rightarrow> ret () | Some c \<Rightarrow> call (\<lambda>E. record_receipt E c))"

text \<open>The handler under \<open>try\<close>, and what follows it either way.\<close>

definition handle_and_settle :: "string \<Rightarrow> ts_arg \<Rightarrow> string \<Rightarrow> 'm handler \<Rightarrow> StageRun \<Rightarrow> ('m, RunnerStep) prog" where
  "handle_and_settle owner now t handler run =
     bindP (tried (handler run)) (\<lambda>outcome. case outcome of
       Inl exc \<Rightarrow>
         bindP (call (\<lambda>E. fail_stage_run E (run_id run) t (failure_value FC_RUNTIME_FAILURE) (exception_text exc)
             SR_FAILED TsNone now owner (Some owner))) (\<lambda>_.
         ret \<lparr>rs_stage_run = Some run, rs_decision = ''failed''\<rparr>)
     | Inr result \<Rightarrow>
         bindP (record_result result) (\<lambda>_.
         bindP (settle_result owner now (run_id run) t result) (\<lambda>_.
         ret \<lparr>rs_stage_run = Some run, rs_decision = rr_decision result\<rparr>)))"

text \<open>
  Starting a claimed run.  After the start the run is read back; the token the settling calls
  pass is the read-back run's (\<open>lease_token\<close> of a run just started under that token, so the same
  text).
\<close>

definition start_claimed :: "string \<Rightarrow> ts_arg \<Rightarrow> 'm handler \<Rightarrow> StageRun \<Rightarrow> ('m, RunnerStep) prog" where
  "start_claimed owner now handler run = (case run_lease_token run of
     None \<Rightarrow> raise (RuntimeError (''claimed stage run '' @ repr_str (run_id run) @ '' has no lease token''))
   | Some t \<Rightarrow>
     bindP (call (\<lambda>E. mark_stage_run_started E (run_id run) t owner (Some owner) (run_idempotency_key run)
         (handler_scope run) None None None None now)) (\<lambda>_.
     bindP (query (get_stage_run (run_id run))) (\<lambda>refreshed.
     let started = the_or run refreshed in
     handle_and_settle owner now (the_or t (run_lease_token started)) handler started)))"

definition run_pass :: "string \<Rightarrow> 'm handler \<Rightarrow> string option \<Rightarrow> pyval \<Rightarrow>
    (StageRun \<Rightarrow> kernel_error + ResolvedLeasePolicy) option \<Rightarrow> (StageRun \<Rightarrow> kernel_error + bool) option \<Rightarrow>
    mapping_items \<Rightarrow> ts_arg \<Rightarrow> ('m, RunnerStep) prog" where
  "run_pass owner handler inst secs resolver predicate context now =
     bindP (call (\<lambda>E. sweep_stale_leases E now owner)) (\<lambda>_.
     bindP (claim_run owner inst secs resolver predicate context now) (\<lambda>claimed. case claimed of
       None \<Rightarrow> ret \<lparr>rs_stage_run = None, rs_decision = ''idle''\<rparr>
     | Some run \<Rightarrow> start_claimed owner now handler run))"

section \<open>The owned loop\<close>

record KernelStep =
  ks_stage_run :: "StageRun option"
  ks_decision :: string
  ks_adapter_result :: "AdapterResult option"
  ks_receipt_id :: "string option"
  ks_failure_summary :: "string option"

record SurfaceResult =
  su_status :: string
  su_surface_ref :: "mapping_items option"
  su_outputs :: mapping_items

record ReviewResult =
  rv_status :: string
  rv_human_ref :: "string option"

datatype surface_entry = Surface_step SurfaceResult | Review_step ReviewResult

record OwnedRunSummary =
  os_status :: string
  os_instance_id :: "string option"
  os_stop_reason :: string
  os_kernel_steps :: "KernelStep list"
  os_surface_results :: "surface_entry list"

record gate_options =
  go_publish_human_gate :: bool
  go_ingest_human_decision :: bool
  go_surface_adapter_ref :: "string option"
  go_allowed_decisions :: "string list option"
  go_evidence_refs :: "string list option"
  go_title :: "string option"
  go_human_ask :: "string option"
  go_human_ref :: "string option"
  go_test_only :: bool
  go_non_live :: bool

text \<open>
  \<open>KernelExecutionFacade\<close> and the optional automated reviewer, over the one ledger runner and
  kernel share.  \<open>ingest\<close> takes the human reference in force.
\<close>

record 'm facade =
  fc_workflow :: WorkflowDef
  fc_run_once :: "string \<Rightarrow> ts_arg \<Rightarrow> ('m, KernelStep) prog"
  fc_publish :: "string \<Rightarrow> gate_options \<Rightarrow> ts_arg \<Rightarrow> ('m, SurfaceResult) prog"
  fc_readback :: "string \<Rightarrow> mapping_items \<Rightarrow> gate_options \<Rightarrow> ts_arg \<Rightarrow> ('m, SurfaceResult) prog"
  fc_ingest :: "string \<Rightarrow> mapping_items \<Rightarrow> gate_options \<Rightarrow> string option \<Rightarrow> ts_arg \<Rightarrow> ('m, SurfaceResult) prog"
  fc_reviewer :: "(mapping_items \<Rightarrow> SurfaceResult \<Rightarrow> ('m, ReviewResult) prog) option"

definition next_owned_instance_id :: "WorkflowDef \<Rightarrow> bool \<Rightarrow> ts_arg \<Rightarrow> ('m, string option) prog" where
  "next_owned_instance_id w human now = (\<lambda>Es v.
     (bindE (find_next_workflow_instance_for_work (Es (w_calls v)) (Some (wd_id w)) (Some (wd_version w)) human human now (w_ledger v))
        (\<lambda>x. Inr (map_option inst_id x)), v\<lparr>w_calls := Suc (w_calls v)\<rparr>))"

definition idle_status :: "string \<Rightarrow> ledger \<Rightarrow> string \<times> string" where
  "idle_status i L = (case get_workflow_instance i L of
     None \<Rightarrow> (''idle'', ''instance_missing'')
   | Some x \<Rightarrow>
      if inst_status x = WF_WAITING_ON_HUMAN then (''waiting_on_human'', ''waiting_on_human'')
      else if inst_status x \<in> {WF_BLOCKED, WF_POLICY_DENIED, WF_FINAL_APPROVAL_REQUIRED, WF_CANCELLED}
      then (''blocked'', workflow_status_value (inst_status x))
      else if inst_status x = WF_DONE then (''done'', ''terminal'')
      else (''idle'', ''no_queued_work''))"

text \<open>The payload of an event is a JSON object.\<close>

definition payload_items :: "event_row \<Rightarrow> mapping_items" where
  "payload_items e = the_or [] (mapping_of (ev_payload e))"

definition published_ref :: "event_row \<Rightarrow> mapping_items option" where
  "published_ref e =
     (if ev_type e = ''human_gate_surface_published'' \<and> dict_get (payload_items e) ''status'' = PStr ''succeeded''
      then mapping_of (dict_get (payload_items e) ''surface_ref'') else None)"

definition latest_successful_surface_ref :: "string \<Rightarrow> ledger \<Rightarrow> mapping_items option" where
  "latest_successful_surface_ref i L = fetchone (List.map_filter published_ref (rev (list_events (Some i) L)))"

text \<open>The reviewer sees the published reference, with the note path of the readback when it names one.\<close>

definition reviewer_ref :: "mapping_items \<Rightarrow> SurfaceResult \<Rightarrow> mapping_items" where
  "reviewer_ref ref readback = (case mapping_of (dict_get (su_outputs readback) ''readback'') of
     None \<Rightarrow> ref
   | Some m \<Rightarrow> if truthy (dict_get m ''note_path'') then dict_set ref ''note_path'' (dict_get m ''note_path'') else ref)"

text \<open>The loop's local variables.\<close>

record loop_state =
  ls_steps :: "KernelStep list"
  ls_surfaces :: "surface_entry list"
  ls_human_ref :: "string option"

definition summary :: "string \<Rightarrow> string \<Rightarrow> string \<Rightarrow> loop_state \<Rightarrow> OwnedRunSummary" where
  "summary i status reason s = \<lparr>os_status = status, os_instance_id = Some i, os_stop_reason = reason,
     os_kernel_steps = ls_steps s, os_surface_results = ls_surfaces s\<rparr>"

definition add_surface :: "surface_entry \<Rightarrow> loop_state \<Rightarrow> loop_state" where
  "add_surface x s = s\<lparr>ls_surfaces := ls_surfaces s @ [x]\<rparr>"

text \<open>One iteration: \<open>Inl\<close> a summary to return, \<open>Inr\<close> the variables to go on with.\<close>

definition review_gate :: "'m facade \<Rightarrow> string \<Rightarrow> mapping_items \<Rightarrow> SurfaceResult \<Rightarrow> loop_state \<Rightarrow>
    ('m, OwnedRunSummary + loop_state) prog" where
  "review_gate k i ref readback s = (case fc_reviewer k of
     None \<Rightarrow> ret (Inr s)
   | Some reviewer \<Rightarrow>
       bindP (reviewer (reviewer_ref ref readback) readback) (\<lambda>review.
       let s' = add_surface (Review_step review) s in
       if rv_status review \<noteq> ''succeeded'' then ret (Inl (summary i ''blocked'' ''human_gate_automated_review_blocked'' s'))
       else ret (Inr (s'\<lparr>ls_human_ref := (if str_or (rv_human_ref review) [] = [] then ls_human_ref s' else rv_human_ref review)\<rparr>))))"

definition readback_gate :: "'m facade \<Rightarrow> string \<Rightarrow> gate_options \<Rightarrow> ts_arg \<Rightarrow> mapping_items \<Rightarrow> loop_state \<Rightarrow>
    ('m, OwnedRunSummary + loop_state) prog" where
  "readback_gate k i g now ref s =
     bindP (fc_readback k i ref g now) (\<lambda>readback.
     let s' = add_surface (Surface_step readback) s in
     if su_status readback \<noteq> ''succeeded'' then ret (Inl (summary i ''blocked'' ''human_gate_readback_blocked'' s'))
     else review_gate k i ref readback s')"

text \<open>Publishing, when asked to and not yet done: the reference in force afterwards.\<close>

definition publish_gate :: "'m facade \<Rightarrow> string \<Rightarrow> gate_options \<Rightarrow> ts_arg \<Rightarrow> mapping_items option \<Rightarrow> loop_state \<Rightarrow>
    ('m, OwnedRunSummary + (mapping_items option \<times> loop_state)) prog" where
  "publish_gate k i g now ref s =
     (if go_publish_human_gate g \<and> ref = None then
        bindP (fc_publish k i g now) (\<lambda>publish.
        let s' = add_surface (Surface_step publish) s in
        if su_status publish \<noteq> ''succeeded'' then ret (Inl (summary i ''blocked'' ''human_gate_publish_blocked'' s'))
        else ret (Inr (su_surface_ref publish, s')))
      else ret (Inr (ref, s)))"

definition ingest_gate :: "'m facade \<Rightarrow> string \<Rightarrow> gate_options \<Rightarrow> ts_arg \<Rightarrow> mapping_items option \<Rightarrow> loop_state \<Rightarrow>
    ('m, OwnedRunSummary + loop_state) prog" where
  "ingest_gate k i g now ref s =
     (if go_ingest_human_decision g then (case ref of
        None \<Rightarrow> ret (Inl (summary i ''blocked'' ''human_gate_surface_missing'' s))
      | Some r \<Rightarrow>
          bindP (fc_ingest k i r g (ls_human_ref s) now) (\<lambda>ingest.
          let s' = add_surface (Surface_step ingest) s in
          if su_status ingest \<noteq> ''succeeded'' then ret (Inl (summary i ''blocked'' ''human_gate_decision_blocked'' s'))
          else ret (Inr s')))
      else ret (Inl (summary i ''waiting_on_human'' ''waiting_on_human'' s)))"

definition waiting_iteration :: "'m facade \<Rightarrow> string \<Rightarrow> gate_options \<Rightarrow> ts_arg \<Rightarrow> StageRun \<Rightarrow> loop_state \<Rightarrow>
    ('m, OwnedRunSummary + loop_state) prog" where
  "waiting_iteration k i g now run s =
     bindP (query (\<lambda>L. Inr (latest_successful_surface_ref (run_id run) L))) (\<lambda>found.
     bindP (publish_gate k i g now found s) (\<lambda>p. case p of
       Inl stop \<Rightarrow> ret (Inl stop)
     | Inr (ref, s1) \<Rightarrow>
         bindP (case ref of None \<Rightarrow> ret (Inr s1)
            | Some r \<Rightarrow> if go_publish_human_gate g then readback_gate k i g now r s1 else ret (Inr s1)) (\<lambda>q.
         case q of Inl stop \<Rightarrow> ret (Inl stop) | Inr s2 \<Rightarrow> ingest_gate k i g now ref s2)))"

definition working_iteration :: "'m facade \<Rightarrow> string \<Rightarrow> ts_arg \<Rightarrow> loop_state \<Rightarrow> ('m, OwnedRunSummary + loop_state) prog" where
  "working_iteration k i now s =
     bindP (fc_run_once k i now) (\<lambda>step.
     if ks_decision step = ''idle'' \<or> ks_stage_run step = None
     then bindP (query (\<lambda>L. Inr (idle_status i L))) (\<lambda>(status, reason). ret (Inl (summary i status reason s)))
     else let s' = s\<lparr>ls_steps := ls_steps s @ [step]\<rparr> in
       if ks_decision step \<in> {''blocked'', ''failed''}
       then ret (Inl (summary i ''blocked'' (ks_decision step) s'))
       else ret (Inr s'))"

definition owned_iteration :: "'m facade \<Rightarrow> string \<Rightarrow> gate_options \<Rightarrow> ts_arg \<Rightarrow> loop_state \<Rightarrow>
    ('m, OwnedRunSummary + loop_state) prog" where
  "owned_iteration k i g now s =
     bindP (query (find_waiting_human_stage_run i)) (\<lambda>waiting. case waiting of
       Some run \<Rightarrow> waiting_iteration k i g now run s
     | None \<Rightarrow> working_iteration k i now s)"

fun owned_loop :: "nat \<Rightarrow> 'm facade \<Rightarrow> string \<Rightarrow> gate_options \<Rightarrow> ts_arg \<Rightarrow> loop_state \<Rightarrow> ('m, OwnedRunSummary) prog" where
  "owned_loop 0 k i g now s = ret (summary i ''max_steps'' ''max_steps_exceeded'' s)"
| "owned_loop (Suc n) k i g now s = bindP (owned_iteration k i g now s) (\<lambda>r. case r of
     Inl stop \<Rightarrow> ret stop | Inr s' \<Rightarrow> owned_loop n k i g now s')"

definition run_kernel_until_idle :: "'m facade \<Rightarrow> string option \<Rightarrow> int \<Rightarrow> gate_options \<Rightarrow> ts_arg \<Rightarrow>
    ('m, OwnedRunSummary) prog" where
  "run_kernel_until_idle k inst max_steps g now =
     (let human = go_publish_human_gate g \<or> go_ingest_human_decision g in
      bindP (if str_or inst [] = [] then next_owned_instance_id (fc_workflow k) human now else ret inst) (\<lambda>resolved.
      case resolved of
        None \<Rightarrow> ret \<lparr>os_status = ''idle'', os_instance_id = None, os_stop_reason = ''no_work'',
                    os_kernel_steps = [], os_surface_results = []\<rparr>
      | Some i \<Rightarrow> owned_loop (nat max_steps) k i g now
                    \<lparr>ls_steps = [], ls_surfaces = [], ls_human_ref = go_human_ref g\<rparr>))"

end
