(* ===== verification/Transition_Guards.thy ===== *)
theory Transition_Guards
  imports Stage_Outcomes Stage_Policy Lease_Policy Runner
begin

text \<open>
  The guards on transitions (\<^verbatim>\<open>kernel.py\<close> \<^verbatim>\<open>_evaluate_transition_guard\<close> and its helpers in
  \<^verbatim>\<open>_helpers.py\<close>): a recorded human approval, required artifacts, and the budgets that bound
  retries, revisions, ping-pong turns, research iterations and resumes.  A guard reads the ledger
  and decides; an unknown guard or an unresolved budget fails closed.
\<close>

section \<open>The guard tables\<close>

definition budget_guard_keys :: "string \<Rightarrow> string list" where
  "budget_guard_keys g =
     (if g = ''within_retry_budget'' then [''max_attempts'', ''max_retry_attempts'', ''max_retries'']
      else if g = ''within_revision_budget'' then [''max_revision_turns'', ''max_revisions'']
      else if g = ''within_ping_pong_budget'' then [''max_ping_pong_turns'', ''max_ping_pong'']
      else if g = ''within_research_iteration_budget'' then [''max_research_iterations'', ''max_research_turns'', ''max_iterations'']
      else if g = ''within_resume_budget'' then [''max_resume_attempts'', ''max_resumes'']
      else [])"

definition budget_guard_nested_keys :: "string \<Rightarrow> string list" where
  "budget_guard_nested_keys g =
     (if g = ''within_retry_budget'' then [''retry'', ''retry_budget'']
      else if g = ''within_revision_budget'' then [''revision_budget'']
      else if g = ''within_ping_pong_budget'' then [''ping_pong_budget'', ''a2a_budget'']
      else if g = ''within_research_iteration_budget'' then [''research_budget'', ''iteration_budget'']
      else if g = ''within_resume_budget'' then [''resume_budget'']
      else [])"

definition budget_consuming_outcomes :: "string \<Rightarrow> string list" where
  "budget_consuming_outcomes g =
     (if g = ''within_retry_budget'' then [''retry'', ''retry_needed'', ''retry_scheduled'']
      else if g = ''within_revision_budget'' then [''needs_revision'', ''revise'', ''refine'']
      else if g = ''within_ping_pong_budget'' then [''question'', ''answer'', ''needs_clarification'']
      else if g = ''within_research_iteration_budget'' then [''needs_more_research'', ''approve_more_research'', ''more_research'']
      else if g = ''within_resume_budget'' then [''retry_needed'', ''resume_needed'', ''recover'']
      else [])"

definition budget_transition_guards :: "string list" where
  "budget_transition_guards = [''within_retry_budget'', ''within_revision_budget'', ''within_ping_pong_budget'',
     ''within_research_iteration_budget'', ''within_resume_budget'']"

definition approving_human_decisions :: "string list" where
  "approving_human_decisions = [''approved'', ''approve'', ''approval_granted'', ''read_clear'', ''clear'', ''done'', ''succeeded'']"

record GuardDecision =
  gd_allowed :: bool
  gd_guard :: "string option"
  gd_reason :: string
  gd_details :: mapping_items

definition guard_decision :: "bool \<Rightarrow> string \<Rightarrow> string \<Rightarrow> mapping_items \<Rightarrow> GuardDecision" where
  "guard_decision allowed guard reason details =
     \<lparr>gd_allowed = allowed, gd_guard = Some guard, gd_reason = reason, gd_details = details\<rparr>"

section \<open>Required artifacts\<close>

definition guard_has_required_artifacts :: "StageDef \<Rightarrow> AdapterResult option \<Rightarrow> string \<Rightarrow> kernel_error + GuardDecision" where
  "guard_has_required_artifacts s result guard =
     bindE (required_artifact_roles (sd_outputs s)) (\<lambda>required.
     if required = [] then Inr (guard_decision True guard ''stage declares no required artifact roles'' [])
     else case result of
       None \<Rightarrow> Inr (guard_decision False guard
          (''Transition guard '' @ repr_str ''has_required_artifacts'' @ '' cannot inspect artifacts for this stage result.'')
          [(''required_roles'', str_list required)])
     | Some r \<Rightarrow>
        let present = map af_role (res_artifact_refs r);
            missing = filter (\<lambda>role. role \<notin> set present) required;
            details = [(''required_roles'', str_list required), (''present_roles'', str_list present)]
        in if missing \<noteq> []
           then Inr (guard_decision False guard
             (''Transition guard '' @ repr_str ''has_required_artifacts'' @ '' blocked missing required artifact roles: '' @
              join_with '', '' missing) details)
           else Inr (guard_decision True guard ''all required artifact roles are present'' details))"

section \<open>Budget limits\<close>

record BudgetLimit =
  bl_limit :: "int option"
  bl_source :: "string option"
  bl_key :: "string option"
  bl_reason :: "string option"

definition no_limit :: "string \<Rightarrow> string \<Rightarrow> string \<Rightarrow> BudgetLimit" where
  "no_limit source key reason = \<lparr>bl_limit = None, bl_source = Some source, bl_key = Some key, bl_reason = Some reason\<rparr>"

fun is_bool :: "pyval \<Rightarrow> bool" where
  "is_bool (PBool b) = True"
| "is_bool _ = False"

definition coerce_budget_limit :: "pyval \<Rightarrow> string \<Rightarrow> string \<Rightarrow> BudgetLimit" where
  "coerce_budget_limit v source key =
     (if is_bool v then no_limit source key ''budget value must be an integer, not boolean''
      else case py_int v of
        Inl _ \<Rightarrow> no_limit source key ''budget value must be an integer''
      | Inr n \<Rightarrow> if n < 0 then no_limit source key ''budget value must be non-negative''
          else \<lparr>bl_limit = Some n, bl_source = Some source, bl_key = Some key, bl_reason = None\<rparr>)"

text \<open>The first key of the guard a mapping has.\<close>

fun first_budget_key :: "string list \<Rightarrow> string \<Rightarrow> mapping_items \<Rightarrow> BudgetLimit option" where
  "first_budget_key [] source m = None"
| "first_budget_key (k # ks) source m = (if has_key m k then Some (coerce_budget_limit (dict_get m k) source k)
     else first_budget_key ks source m)"

fun nested_budget :: "string list \<Rightarrow> string list \<Rightarrow> string \<Rightarrow> mapping_items \<Rightarrow> BudgetLimit option" where
  "nested_budget keys [] source m = None"
| "nested_budget keys (nk # nks) source m = (case mapping_of (dict_get m nk) of
     Some nested \<Rightarrow> (case first_budget_key keys (source @ ''.'' @ nk) nested of
        Some b \<Rightarrow> Some b | None \<Rightarrow> nested_budget keys nks source m)
   | None \<Rightarrow> if has_key m nk \<and> \<not> none_or_empty (dict_get m nk)
        then Some (no_limit source nk ''budget section is not a mapping'')
        else nested_budget keys nks source m)"

definition budget_limit_from_mapping :: "string \<Rightarrow> mapping_items \<Rightarrow> string \<Rightarrow> BudgetLimit option" where
  "budget_limit_from_mapping source m guard = (case first_budget_key (budget_guard_keys guard) source m of
     Some b \<Rightarrow> Some b
   | None \<Rightarrow> nested_budget (budget_guard_keys guard) (budget_guard_nested_keys guard) source m)"

definition mapping_source :: "string \<Rightarrow> pyval \<Rightarrow> (string \<times> mapping_items) list" where
  "mapping_source source v = (case mapping_of v of None \<Rightarrow> [] | Some m \<Rightarrow> [(source, m)])"

definition stage_budget_sources :: "StageDef \<Rightarrow> string \<Rightarrow> (string \<times> mapping_items) list" where
  "stage_budget_sources s guard =
     [(''stages.'' @ sd_id s @ ''.budget'', sd_budget s)] @
     (if guard = ''within_retry_budget'' then [(''stages.'' @ sd_id s @ ''.retry'', sd_retry s)] else []) @
     [(''stages.'' @ sd_id s @ ''.policy'', sd_policy s)]"

definition budget_sources_for_guard :: "WorkflowDef \<Rightarrow> StageDef \<Rightarrow> StageDef option \<Rightarrow> string \<Rightarrow> (string \<times> mapping_items) list" where
  "budget_sources_for_guard w s target guard =
     stage_budget_sources s guard @
     (case target of None \<Rightarrow> [] | Some t \<Rightarrow> if sd_id t \<noteq> sd_id s then stage_budget_sources t guard else []) @
     (if guard = ''within_retry_budget'' then mapping_source ''defaults.retry'' (dict_get (wd_defaults w) ''retry'') else []) @
     mapping_source ''defaults.budget'' (dict_get (wd_defaults w) ''budget'') @
     [(''defaults'', wd_defaults w)] @
     mapping_source ''policies.budget'' (dict_get (wd_policies w) ''budget'') @
     [(''policies'', wd_policies w)]"

definition resolve_budget_limit :: "WorkflowDef \<Rightarrow> StageDef \<Rightarrow> StageDef option \<Rightarrow> string \<Rightarrow> BudgetLimit" where
  "resolve_budget_limit w s target guard =
     (case fetchone (List.map_filter (\<lambda>(source, m). budget_limit_from_mapping source m guard) (budget_sources_for_guard w s target guard)) of
        Some b \<Rightarrow> b
      | None \<Rightarrow> \<lparr>bl_limit = None, bl_source = None, bl_key = None, bl_reason = Some (''no configured budget found for '' @ guard)\<rparr>)"

section \<open>Budget use\<close>

definition budget_guard_consumes_transition :: "string \<Rightarrow> Transition \<Rightarrow> bool" where
  "budget_guard_consumes_transition guard t \<longleftrightarrow> normalize_policy_name (tr_on t) \<in> set (budget_consuming_outcomes guard)"

definition count_stage_runs :: "string \<Rightarrow> string \<Rightarrow> ledger \<Rightarrow> nat" where
  "count_stage_runs i s L = length (filter (\<lambda>r. sr_instance_id r = i \<and> sr_stage_id r = s) (stage_runs L))"

text \<open>The budget metadata of the instance's transition events under a guard.\<close>

definition guard_budget_of :: "string \<Rightarrow> string \<Rightarrow> event_row \<Rightarrow> mapping_items option" where
  "guard_budget_of i guard e =
     (if ev_instance_id e = i \<and> ev_type e = ''workflow_transitioned'' \<and> dict_get (payload_items e) ''guard'' = PStr guard
      then mapping_of (dict_get (payload_items e) ''guard_budget'') else None)"

definition guard_budgets :: "string \<Rightarrow> string \<Rightarrow> ledger \<Rightarrow> mapping_items list" where
  "guard_budgets i guard L = List.map_filter (guard_budget_of i guard) (list_events None L)"

definition consumed_budget :: "string \<Rightarrow> string \<Rightarrow> ledger \<Rightarrow> nat" where
  "consumed_budget i guard L = length (filter (\<lambda>b. dict_get b ''consumed'' = PBool True) (guard_budgets i guard L))"

definition budget_iteration_usage :: "string \<Rightarrow> string \<Rightarrow> Transition \<Rightarrow> bool \<Rightarrow> ledger \<Rightarrow> int \<times> string" where
  "budget_iteration_usage i guard t consumes L =
     (if guard_budgets i guard L \<noteq> [] then (int (consumed_budget i guard L), ''events.guard_budget'')
      else case (if consumes then to_stage t else Some (from_stage t)) of
        None \<Rightarrow> (0, ''stage_runs.unavailable'')
      | Some s \<Rightarrow> (int (count_stage_runs i s L), ''stage_runs.fallback''))"

definition stage_by_id :: "WorkflowDef \<Rightarrow> string \<Rightarrow> StageDef option" where
  "stage_by_id w i = find (\<lambda>s. sd_id s = i) (rev (wd_stages w))"

definition next_stage_for_transition :: "WorkflowDef \<Rightarrow> Transition \<Rightarrow> StageDef option" where
  "next_stage_for_transition w t = (case to_stage t of None \<Rightarrow> None | Some s \<Rightarrow> stage_by_id w s)"

definition budget_details :: "string \<Rightarrow> int \<Rightarrow> BudgetLimit \<Rightarrow> int \<Rightarrow> int \<Rightarrow> bool \<Rightarrow> string \<Rightarrow> mapping_items" where
  "budget_details guard limit b used requested consumes usage_source = [(''budget'', PDict
     [(''resolved'', PBool True), (''guard'', PStr guard), (''limit'', PInt limit), (''source'', opt_str (bl_source b)),
      (''key'', opt_str (bl_key b)), (''used'', PInt used), (''requested'', PInt requested), (''consumed'', PBool consumes),
      (''usage_source'', PStr usage_source)])]"

text \<open>How much the guard's budget is used, and how much the transition asks for.\<close>

definition budget_request :: "string \<Rightarrow> string \<Rightarrow> Transition \<Rightarrow> StageDef option \<Rightarrow> bool \<Rightarrow> ledger \<Rightarrow> (int \<times> int \<times> string) option" where
  "budget_request i guard t target consumes L =
     (if guard = ''within_retry_budget'' then
        map_option (\<lambda>s. let used = int (count_stage_runs i (sd_id s) L) in (used, used + 1, ''stage_runs.target_stage'')) target
      else let (used, source) = budget_iteration_usage i guard t consumes L
           in Some (used, if consumes then used + 1 else used, source))"

definition guard_within_budget :: "WorkflowDef \<Rightarrow> StageRun \<Rightarrow> StageDef \<Rightarrow> Transition \<Rightarrow> string \<Rightarrow> ledger \<Rightarrow> GuardDecision" where
  "guard_within_budget w run s t guard L =
    (let target = next_stage_for_transition w t;
         b = resolve_budget_limit w s target guard;
         name = ''Transition guard '' @ repr_str guard;
         consumes = budget_guard_consumes_transition guard t
     in case bl_limit b of
       None \<Rightarrow> guard_decision False guard (name @ '' cannot resolve a valid budget; failing closed.'')
         [(''budget'', PDict [(''resolved'', PBool False), (''source'', opt_str (bl_source b)), (''key'', opt_str (bl_key b)),
            (''reason'', PStr (str_or (bl_reason b) ''missing budget''))])]
     | Some limit \<Rightarrow> (case budget_request (run_instance_id run) guard t target consumes L of
         None \<Rightarrow> guard_decision False guard (name @ '' requires a target stage.'')
           [(''budget'', PDict [(''resolved'', PBool True), (''limit'', PInt limit)])]
       | Some (used, requested, usage_source) \<Rightarrow>
           let share = show_int requested @ ''/'' @ show_int limit;
               details = budget_details guard limit b used requested consumes usage_source
           in if requested \<le> limit
              then guard_decision True guard (name @ '' is within budget '' @ share @ ''.'') details
              else guard_decision False guard (name @ '' exhausted budget '' @ share @ ''; failing closed.'') details))"

section \<open>Human approval\<close>

definition latest_decision :: "string \<Rightarrow> string \<Rightarrow> ledger \<Rightarrow> decision_row option" where
  "latest_decision i r L = fetchlast (sort_key (\<lambda>d. (hd_created_at d, hd_id d))
     (filter (\<lambda>d. hd_instance_id d = i \<and> hd_stage_run_id d = r) (human_decisions L)))"

definition guard_policy_approved :: "StageRun \<Rightarrow> string \<Rightarrow> ledger \<Rightarrow> GuardDecision" where
  "guard_policy_approved run guard L = (case latest_decision (run_instance_id run) (run_id run) L of
     None \<Rightarrow> guard_decision False guard
       (''Transition guard '' @ repr_str ''policy_approved'' @ '' requires a recorded human approval decision.'') []
   | Some d \<Rightarrow>
      let seen = [(''decision_id'', PStr (hd_id d)), (''gate_id'', PStr (hd_gate_id d)), (''decision'', PStr (hd_decision d))] in
      if hd_decision d \<notin> set approving_human_decisions
      then guard_decision False guard
        (''Transition guard '' @ repr_str ''policy_approved'' @ '' found non-approving decision '' @ repr_str (hd_decision d) @ ''.'') seen
      else guard_decision True guard ''human approval decision is recorded''
        (seen @ [(''human_ref'', PStr (hd_human_ref d)), (''canonical_surface'', PStr (hd_canonical_surface d))]))"

section \<open>The guard of a transition\<close>

definition evaluate_transition_guard :: "WorkflowDef \<Rightarrow> StageRun \<Rightarrow> StageDef \<Rightarrow> Transition \<Rightarrow> AdapterResult option \<Rightarrow> ledger \<Rightarrow>
    kernel_error + GuardDecision" where
  "evaluate_transition_guard w run s t result L = (case tr_guard t of
     None \<Rightarrow> Inr \<lparr>gd_allowed = True, gd_guard = None, gd_reason = ''no transition guard declared'', gd_details = []\<rparr>
   | Some guard \<Rightarrow>
      let allowed = [(''allowed_guards'', str_list (sort allowed_transition_guards))] in
      if guard \<notin> set allowed_transition_guards
      then Inr (guard_decision False guard (''Unknown transition guard '' @ repr_str guard @ ''; failing closed.'') allowed)
      else if guard = ''policy_approved'' then Inr (guard_policy_approved run guard L)
      else if guard = ''has_required_artifacts'' then guard_has_required_artifacts s result guard
      else if guard \<in> set budget_transition_guards then Inr (guard_within_budget w run s t guard L)
      else if guard \<in> set fail_closed_transition_guards
      then Inr (guard_decision False guard (''Transition guard '' @ repr_str guard @
          '' is reserved for a runner-owned budget/recovery evaluator and fails closed until implemented.'')
          [(''implemented'', PBool False), (''stub'', PBool True)])
      else Inr (guard_decision False guard
          (''Transition guard '' @ repr_str guard @ '' has no evaluator; failing closed.'') allowed))"

end
