(* ===== verification/Ledger_Example.thy ===== *)
theory Ledger_Example
  imports Ledger_Machine
begin

text \<open>
  A concrete scenario for the witnesses: one workflow instance with one stage run that is
  claimed, started and completed, in an environment whose clock stands still and whose uuid
  supply is injective.  \<open>ledger_eval\<close> collects the definitions that let \<open>simp\<close> run it; timestamps
  stay symbolic, as \<open>isoformat\<close> of an instant.
\<close>

named_theorems ledger_eval \<open>definitions the simplifier unfolds to run an operation on a concrete ledger\<close>

definition demo_env :: env where
  "demo_env = \<lparr>clock = (\<lambda>n. Utc 0), uuid_hex = (\<lambda>n. replicate (Suc n) CHR ''u''), local_offset = (\<lambda>_. 0)\<rparr>"

definition late_env :: env where
  "late_env = demo_env\<lparr>clock := (\<lambda>n. Utc 90000000)\<rparr>"

definition demo_instance :: WorkflowInstance where
  "demo_instance = \<lparr>inst_id = ''i'', inst_workflow_def_id = ''w'', inst_workflow_version = ''1'',
     inst_status = WF_RUNNING, inst_input_hash = ''h'', inst_current_stage_id = Some ''s'',
     inst_idempotency_key = None, inst_recovery_epoch = 0\<rparr>"

definition demo_run :: StageRun where
  "demo_run = \<lparr>run_id = ''r'', run_instance_id = ''i'', run_stage_id = ''s'', run_status = SR_QUEUED,
     run_attempt = 1, run_adapter_id = Some ''a'', run_actor_ref = None, run_lease_token = None,
     run_lease_seconds = None, run_lease_source = None, run_lease_source_ref = None,
     run_receipt_id = None, run_failure_class = None, run_retry_after_at = None,
     run_idempotency_key = None\<rparr>"

definition queueing :: "(env \<times> ledger_op) list" where
  "queueing = [(demo_env, On_instance (Insert_workflow_instance demo_instance TsNone PNone None None None)),
     (demo_env, On_lease (Insert_stage_run demo_run ''h'' None None TsNone))]"

definition claiming :: "(env \<times> ledger_op) list" where
  "claiming = [(demo_env, On_lease (Claim_next_queued_run ''o'' None (PInt 60) None None [] TsNone))]"

definition starting :: "(env \<times> ledger_op) list" where
  "starting = [(demo_env, On_lease (Mark_stage_run_started ''r'' ''u'' ''o'' None None [] None None None None TsNone))]"

definition completing :: "(env \<times> ledger_op) list" where
  "completing = [(demo_env, On_lease (Complete_stage_run ''r'' ''u'' None None TsNone ''o'' None))]"

definition demo_trace :: "(env \<times> ledger_op) list" where
  "demo_trace = queueing @ claiming @ starting @ completing"

lemma demo_env_simps [ledger_eval, simp]:
  "clock demo_env n = Utc 0" "clock late_env n = Utc 90000000"
  "uuid_hex demo_env = (\<lambda>n. replicate (Suc n) CHR ''u'')" "uuid_hex late_env = uuid_hex demo_env"
  by (simp_all add: demo_env_def late_env_def)

lemma inj_demo_uuid: "inj (uuid_hex demo_env)"
proof (rule injI)
  fix m n assume "uuid_hex demo_env m = uuid_hex demo_env n"
  then have "length (uuid_hex demo_env m) = length (uuid_hex demo_env n)" by simp
  then show "m = n" by (simp add: demo_env_def)
qed

lemma legal_demo: "legal_trace (uuid_hex demo_env) demo_trace"
  "legal_trace (uuid_hex demo_env) (queueing @ claiming)"
  "legal_trace (uuid_hex demo_env) queueing"
  "legal_trace (uuid_hex demo_env) (claiming @ starting @ completing)"
  by (simp_all add: legal_trace_def demo_trace_def queueing_def claiming_def starting_def completing_def)

lemma coerce_demo [ledger_eval]: "0 \<le> n \<Longrightarrow> n < max_micros \<Longrightarrow> coerce_datetime E (isoformat (Utc n)) = Inr (Utc n)"
  by (simp add: in_range_def)

lemma isoformat_nonempty [ledger_eval]: "isoformat t \<noteq> []"
  by (simp add: isoformat_def Let_def split_beta)

lemma iso_timestamp_none [ledger_eval]: "iso_timestamp t TsNone = Inr (isoformat t)"
  by (simp add: iso_timestamp_def)

lemmas trace_eval [ledger_eval] = demo_trace_def queueing_def claiming_def starting_def completing_def
  demo_instance_def demo_run_def committed_def empty_ledger_def

lemmas statement_eval [ledger_eval] = insert_row_def foreign_key_def guardE_def has_instance_def has_run_def
  opt_ref_def run_slot_def insert_instance_def insert_run_def insert_event_def insert_receipt_def
  insert_artifact_def insert_invocation_def insert_child_def insert_decision_def insert_late_def
  update_runs_def update_instances_def update_where_def select_one_def next_uuid_def emit_def
  find_run_def find_instance_def less_eq_utc_def less_utc_def checked_utc_def in_range_def
  max_micros_def add_seconds_def opt_str_def coalesce_def str_or_def

lemmas operation_eval [ledger_eval] = insert_workflow_instance_def insert_stage_run_def new_run_row_def
  claim_next_queued_run_def claim_candidate_def claimable_def due_def lease_for_def positive_int_def
  grant_claim_def claim_row_def created_order_def mark_stage_run_started_def require_leased_run_def
  leased_as_def complete_stage_run_def clear_lease_def all_active_lease_def all_run_status_def
  active_lease_def

definition queued_ledger :: ledger where "queued_ledger = run_trace queueing empty_ledger"
definition claimed_ledger :: ledger where "claimed_ledger = run_trace (queueing @ claiming) empty_ledger"
definition started_ledger :: ledger where "started_ledger = run_trace (queueing @ claiming @ starting) empty_ledger"
definition completed_ledger :: ledger where "completed_ledger = run_trace demo_trace empty_ledger"

lemmas demo_ledger_defs [ledger_eval] = queued_ledger_def claimed_ledger_def started_ledger_def completed_ledger_def

lemma demo_ledgers_ok: "ledger_ok queued_ledger" "ledger_ok claimed_ledger" "ledger_ok started_ledger" "ledger_ok completed_ledger"
proof -
  have ok: "ledger_ok (run_trace tr empty_ledger)" if "legal_trace (uuid_hex demo_env) tr" for tr
    using run_trace_inv[OF that] by (simp add: ledger_inv_def)
  show "ledger_ok queued_ledger" "ledger_ok claimed_ledger" "ledger_ok started_ledger" "ledger_ok completed_ledger"
    unfolding demo_ledger_defs
    by (rule ok, simp add: legal_trace_def demo_trace_def queueing_def claiming_def starting_def completing_def)+
qed

lemma queued_demo: "map (\<lambda>r. (sr_id r, sr_status r)) (stage_runs (run_trace queueing empty_ledger)) = [(''r'', SR_QUEUED)]"
  by (simp add: ledger_eval)

lemma claimed_demo: "map (\<lambda>r. (sr_status r, sr_lease_owner r, sr_lease_token r))
    (stage_runs (run_trace (queueing @ claiming) empty_ledger)) = [(SR_CLAIMED, Some ''o'', Some ''u'')]"
  by (simp add: ledger_eval)

lemma completed_demo: "map (\<lambda>r. (sr_id r, sr_status r)) (stage_runs (run_trace demo_trace empty_ledger)) = [(''r'', SR_SUCCEEDED)]"
  by (simp add: ledger_eval)

end
