(* ===== verification/Ledger_Scheduling.thy ===== *)
theory Ledger_Scheduling
  imports Ledger_Contract Ledger_Example
begin

text \<open>
  Properties of claiming, renewing, settling and retrying: which run a claim takes, that a
  lapsed lease cannot be renewed, that a settling call works once and under authority only,
  and the shape of the child attempt a retry queues.
\<close>

section \<open>The scan of the candidates\<close>

lemma first_match_found: "first_match p rs = Inr (Some r) \<longleftrightarrow>
    (\<exists>xs ys. rs = xs @ r # ys \<and> p r = Inr True \<and> (\<forall>x \<in> set xs. p x = Inr False))"
proof (induction rs)
  case (Cons a rs)
  show ?case
  proof (cases "p a")
    case (Inl e)
    then show ?thesis by (auto simp: Cons_eq_append_conv)
  next
    case (Inr b)
    show ?thesis
    proof (cases b)
      case True
      then show ?thesis using Inr by (auto simp: Cons_eq_append_conv)
    next
      case False
      then have "(\<exists>xs ys. a # rs = xs @ r # ys \<and> p r = Inr True \<and> (\<forall>x \<in> set xs. p x = Inr False)) \<longleftrightarrow>
          (\<exists>xs ys. rs = xs @ r # ys \<and> p r = Inr True \<and> (\<forall>x \<in> set xs. p x = Inr False))"
        using Inr by (auto simp: Cons_eq_append_conv) (metis append_Cons list.set_intros(2) set_ConsD)+
      then show ?thesis using Cons.IH Inr False by simp
    qed
  qed
qed simp

lemma first_match_none: "first_match p rs = Inr None \<longleftrightarrow> (\<forall>r \<in> set rs. p r = Inr False)"
  by (induction rs) (auto simp: bindE_eq_Inr)

definition accepts :: "(StageRun \<Rightarrow> kernel_error + bool) option \<Rightarrow> stage_run_row \<Rightarrow> kernel_error + bool" where
  "accepts claim_predicate r =
     (case claim_predicate of None \<Rightarrow> Inr True | Some p \<Rightarrow> bindE (stage_run_from_row r) p)"

text \<open>In a stable sort, everything strictly below a member stands before it.\<close>

lemma sorted_prefix:
  assumes "sort_key k rows = xs @ r # ys" "s \<in> set rows" "k s < k r"
  shows "s \<in> set xs"
proof -
  have "sorted (map k (xs @ r # ys))" using sorted_sort_key[of k rows] by (simp add: assms(1))
  then have "\<forall>y \<in> set ys. k r \<le> k y" by (simp add: sorted_append)
  moreover have "s \<in> set xs \<or> s = r \<or> s \<in> set ys"
    using assms(2) set_sort[of k rows] by (auto simp: assms(1))
  ultimately show ?thesis using assms(3) by auto
qed

lemma claim_candidate_found:
  assumes "claim_candidate at inst pr L = Inr (Some r)"
  shows "r \<in> set (stage_runs L)" "claimable at inst r" "accepts pr r = Inr True"
    "\<And>s. s \<in> set (stage_runs L) \<Longrightarrow> claimable at inst s \<Longrightarrow> created_order s < created_order r \<Longrightarrow> accepts pr s = Inr False"
proof -
  obtain xs ys where split: "sort_key created_order (filter (claimable at inst) (stage_runs L)) = xs @ r # ys"
    and hit: "accepts pr r = Inr True" and miss: "\<forall>x \<in> set xs. accepts pr x = Inr False"
    using assms unfolding claim_candidate_def accepts_def[abs_def] first_match_found by blast
  show "r \<in> set (stage_runs L)" "claimable at inst r" using claim_candidate_row[OF assms] by auto
  show "accepts pr r = Inr True" by (rule hit)
  show "accepts pr s = Inr False" if "s \<in> set (stage_runs L)" "claimable at inst s" "created_order s < created_order r" for s
    using sorted_prefix[OF split _ that(3)] that(1,2) miss by simp
qed

lemma claim_candidate_none:
  "claim_candidate at inst pr L = Inr None \<longleftrightarrow>
     (\<forall>r \<in> set (stage_runs L). claimable at inst r \<longrightarrow> accepts pr r = Inr False)"
  unfolding claim_candidate_def accepts_def[abs_def] first_match_none by auto

lemma claim_candidate_draws: "claim_candidate at inst pr (L\<lparr>uuid_draws := n\<rparr>) = claim_candidate at inst pr L"
  by (simp add: claim_candidate_def)

text \<open>The UPDATE of a claim rewrites exactly the chosen row.\<close>

lemma grant_claim_rows:
  assumes "grant_claim E w tok e lease ctx at row L = Inr L'" "ledger_ok L" "row \<in> set (stage_runs L)"
    "sr_status row = SR_QUEUED"
  shows "stage_runs L' = map (\<lambda>s. if s = row then claim_row w tok e lease at row else s) (stage_runs L)"
proof -
  have "stage_runs L' = update_where (\<lambda>r. sr_id r = sr_id row \<and> sr_status r = SR_QUEUED)
      (claim_row w tok e lease at) (stage_runs L)"
    using assms(1) by (auto simp: grant_claim_def emit_Inr update_runs_def)
  moreover have "s \<in> set (stage_runs L) \<Longrightarrow> sr_id s = sr_id row \<and> sr_status s = SR_QUEUED \<longleftrightarrow> s = row" for s
    using same_run[OF assms(2) _ assms(3)] assms(4) by blast
  ultimately show ?thesis by (simp add: update_where_def)
qed

text \<open>
  C11. A claim takes the oldest run it may take: the run is queued, due and in scope, the
  predicate accepts it, and every such run created earlier was refused by the predicate; it
  alone changes, into a claimed run holding the freshly drawn token for the resolved lease.
  With no such run nothing changes and nothing is returned.
\<close>

theorem claim_takes_oldest:
  assumes "claim_next_queued_run E w inst secs res pr ctx now L = Inr (x, L')" "ledger_ok L"
    "iso_timestamp (clock E 0) now = Inr at"
  shows "(x = Inr None \<and> stage_runs L' = stage_runs L \<and> events L' = events L \<and>
       (\<forall>r \<in> set (stage_runs L). claimable at inst r \<longrightarrow> accepts pr r = Inr False)) \<or>
     (\<exists>r \<in> set (stage_runs L). \<exists>lease m e. claimable at inst r \<and> accepts pr r = Inr True \<and>
       (\<forall>s \<in> set (stage_runs L). claimable at inst s \<and> created_order s < created_order r \<longrightarrow> accepts pr s = Inr False) \<and>
       lease_for secs res r = Inr lease \<and> coerce_datetime E at = Inr m \<and> add_seconds m (lp_lease_seconds lease) = Inr e \<and>
       stage_runs L' = map (\<lambda>s. if s = r then claim_row w (uuid_hex E (uuid_draws L)) (isoformat e) lease at r else s)
         (stage_runs L))"
proof -
  let ?M = "L\<lparr>uuid_draws := Suc (uuid_draws L)\<rparr>"
  have M: "ledger_ok ?M" using assms(2) by simp
  consider (none) "x = Inr None" "L' = ?M" "claim_candidate at inst pr ?M = Inr None" | (taken) row lease m e where
      "claim_candidate at inst pr ?M = Inr (Some row)" "lease_for secs res row = Inr lease"
      "coerce_datetime E at = Inr m" "add_seconds m (lp_lease_seconds lease) = Inr e"
      "grant_claim E w (uuid_hex E (uuid_draws L)) (isoformat e) lease ctx at row ?M = Inr L'"
    using claim_next_queued_run_Inr[OF assms(1)] assms(3) by auto
  then show ?thesis
  proof cases
    case none
    have "claim_candidate at inst pr L = Inr None" using none(3) by (simp add: claim_candidate_draws)
    then show ?thesis using none by (simp add: claim_candidate_none)
  next
    case taken
    note cand = taken(1)[unfolded claim_candidate_draws]
    note found = claim_candidate_found[OF cand]
    have "sr_status row = SR_QUEUED" using found(2) by (simp add: claimable_def)
    then have "stage_runs L' = map (\<lambda>s. if s = row then claim_row w (uuid_hex E (uuid_draws L)) (isoformat e) lease at row else s)
         (stage_runs L)"
      using grant_claim_rows[OF taken(5) M] found(1) by simp
    then show ?thesis using found taken(2-4) by blast
  qed
qed

lemma claim_takes_oldest_witness:
  "\<exists>x L' r. claim_next_queued_run demo_env ''o'' None (PInt 60) None None [] TsNone queued_ledger = Inr (x, L') \<and>
     r \<in> set (stage_runs queued_ledger) \<and> claimable (isoformat (Utc 0)) None r \<and> map sr_status (stage_runs L') = [SR_CLAIMED]"
proof -
  obtain x L' where c: "claim_next_queued_run demo_env ''o'' None (PInt 60) None None [] TsNone queued_ledger = Inr (x, L')"
    and st: "map sr_status (stage_runs L') = [SR_CLAIMED]"
    by (simp add: ledger_eval)
  have "map sr_status (stage_runs queued_ledger) = [SR_QUEUED]" by (simp add: ledger_eval)
  then have "stage_runs L' \<noteq> stage_runs queued_ledger" using st by auto
  then show ?thesis
    using claim_takes_oldest[OF c demo_ledgers_ok(1), of "isoformat (Utc 0)"] c st by (auto simp: iso_timestamp_def)
qed

section \<open>Renewal\<close>

text \<open>The run a renewal is about: id, owner and token match.\<close>

definition owned_as :: "string \<Rightarrow> string \<Rightarrow> string \<Rightarrow> stage_run_row \<Rightarrow> bool" where
  "owned_as i w t r \<longleftrightarrow> sr_id r = i \<and> sr_lease_owner r = Some w \<and> sr_lease_token r = Some t"

lemma select_owned:
  assumes "ledger_ok L"
  shows "select_one (\<lambda>r. sr_id r = i \<and> sr_lease_owner r = Some w \<and> sr_lease_token r = Some t) (stage_runs L) = Some r \<longleftrightarrow>
    r \<in> set (stage_runs L) \<and> owned_as i w t r"
  using select_one_key[OF ledger_ok_runs(1)[OF assms], of r i "\<lambda>r. sr_lease_owner r = Some w \<and> sr_lease_token r = Some t"]
    select_one_Some[of "\<lambda>r. sr_id r = i \<and> sr_lease_owner r = Some w \<and> sr_lease_token r = Some t" "stage_runs L" r]
  unfolding owned_as_def by blast

lemma owned_unique:
  "ledger_ok L \<Longrightarrow> r \<in> set (stage_runs L) \<Longrightarrow> owned_as i w t r \<Longrightarrow> s \<in> set (stage_runs L) \<Longrightarrow> owned_as i w t s \<longleftrightarrow> s = r"
  using same_run[of L s r] by (auto simp: owned_as_def)

text \<open>
  A renewal succeeds exactly for the owner and token of a run that is still active and
  whose lease has not lapsed; it then moves only that run's expiry, to the renewal time plus the
  lease seconds.  Otherwise it answers False and the ledger is untouched: a lapsed lease
  is never revived.
\<close>

theorem renewal_needs_live_lease:
  assumes "renew_lease E i w t secs now L = Inr (b, L')" "ledger_ok L"
    "iso_timestamp (clock E 0) now = Inr at" "coerce_datetime E at = Inr m" "add_seconds m secs = Inr x"
  shows "(b \<longleftrightarrow> (\<exists>r \<in> set (stage_runs L). owned_as i w t r \<and> active_lease (sr_status r) \<and> lease_lapsed E r m = Inr False)) \<and>
    (if b then stage_runs L' = map (\<lambda>r. if owned_as i w t r
          then r\<lparr>sr_lease_expires_at := Some (isoformat x), sr_updated_at := at\<rparr> else r) (stage_runs L)
     else L' = L)"
proof (cases "select_one (\<lambda>r. sr_id r = i \<and> sr_lease_owner r = Some w \<and> sr_lease_token r = Some t) (stage_runs L)")
  case None
  then have "\<not> owned_as i w t r" if "r \<in> set (stage_runs L)" for r
    using that by (auto simp: select_one_None owned_as_def)
  then show ?thesis using assms(1,3-5) None by (auto simp: renew_lease_def)
next
  case (Some row)
  then have row: "row \<in> set (stage_runs L)" "owned_as i w t row" using select_owned[OF assms(2)] by auto
  note uniq = owned_unique[OF assms(2) row]
  obtain lapsed where lapsed: "lease_lapsed E row m = Inr lapsed"
    using assms(1,3-5) Some by (auto simp: renew_lease_def bindE_eq_Inr)
  have iff: "(\<exists>r \<in> set (stage_runs L). owned_as i w t r \<and> active_lease (sr_status r) \<and> lease_lapsed E r m = Inr False) \<longleftrightarrow>
      active_lease (sr_status row) \<and> \<not> lapsed"
    using row uniq lapsed by auto
  show ?thesis
  proof (cases "lapsed \<or> \<not> active_lease (sr_status row)")
    case True
    then have "\<not> b" "L' = L" using assms(1,3-5) Some lapsed by (auto simp: renew_lease_def)
    then show ?thesis unfolding iff using True by auto
  next
    case False
    then have "b" "stage_runs L' = map (\<lambda>r. if owned_as i w t r
          then r\<lparr>sr_lease_expires_at := Some (isoformat x), sr_updated_at := at\<rparr> else r) (stage_runs L)"
      using assms(1,3-5) Some lapsed
      by (auto simp: renew_lease_def bindE_eq_Inr emit_Inr update_runs_def update_where_def owned_as_def)
    then show ?thesis unfolding iff using False by auto
  qed
qed

lemma renewal_needs_live_lease_witness:
  "(\<exists>L'. renew_lease demo_env ''r'' ''o'' ''u'' 30 TsNone claimed_ledger = Inr (True, L') \<and>
     (\<exists>r \<in> set (stage_runs claimed_ledger). owned_as ''r'' ''o'' ''u'' r \<and> active_lease (sr_status r))) \<and>
   renew_lease late_env ''r'' ''o'' ''u'' 30 TsNone claimed_ledger = Inr (False, claimed_ledger)"
proof
  obtain L' where c: "renew_lease demo_env ''r'' ''o'' ''u'' 30 TsNone claimed_ledger = Inr (True, L')"
    by (simp add: ledger_eval renew_lease_def lease_lapsed_def)
  then show "\<exists>L'. renew_lease demo_env ''r'' ''o'' ''u'' 30 TsNone claimed_ledger = Inr (True, L') \<and>
     (\<exists>r \<in> set (stage_runs claimed_ledger). owned_as ''r'' ''o'' ''u'' r \<and> active_lease (sr_status r))"
    using renewal_needs_live_lease[OF c demo_ledgers_ok(2), of "isoformat (Utc 0)" "Utc 0" "Utc 30000000"]
    by (auto simp: ledger_eval)
  show "renew_lease late_env ''r'' ''o'' ''u'' 30 TsNone claimed_ledger = Inr (False, claimed_ledger)"
    by (simp add: ledger_eval renew_lease_def lease_lapsed_def)
qed

end
