(* ===== verification/Ledger_Settling.thy ===== *)
theory Ledger_Settling
  imports Ledger_Scheduling
begin

text \<open>
  Properties of the settling operations, read off the interpretations of
  \<open>lease_settlement\<close>, and of a scheduled retry.
\<close>

section \<open>Completion\<close>

text \<open>
  C12. Completing a run succeeds exactly when the caller owns a live lease on it: the run
  carries this token and owner, is in an active status, and its expiry lies strictly after
  the completion time.
\<close>

theorem completion_needs_authority:
  assumes "ledger_ok L" "fresh_uuid E L" "iso_timestamp (clock E 0) now = Inr at"
  shows "(\<exists>L'. complete_stage_run E i t rid oh now a w L = Inr ((), L')) \<longleftrightarrow>
    (\<exists>r. holds_lease E L i t (str_or w a) at r)"
  by (rule completion.settle_succeeds[OF assms]) simp

lemma completion_needs_authority_witness:
  "(\<exists>L'. complete_stage_run demo_env ''r'' ''u'' None None TsNone ''o'' None started_ledger = Inr ((), L')) \<and>
   \<not> (\<exists>L'. complete_stage_run late_env ''r'' ''u'' None None TsNone ''o'' None started_ledger = Inr ((), L'))"
proof -
  have fresh: "fresh_uuid demo_env started_ledger" "fresh_uuid late_env started_ledger"
    by (simp_all add: fresh_uuid_def ledger_eval)
  have "\<exists>r. holds_lease demo_env started_ledger ''r'' ''u'' ''o'' (isoformat (Utc 0)) r"
    by (simp add: holds_lease_def ledger_eval)
  moreover have "\<not> (\<exists>r. holds_lease late_env started_ledger ''r'' ''u'' ''o'' (isoformat (Utc 90000000)) r)"
    by (simp add: holds_lease_def ledger_eval)
  ultimately show ?thesis
    using completion_needs_authority[OF demo_ledgers_ok(3) fresh(1), of TsNone "isoformat (Utc 0)" "''r''" "''u''" None None "''o''" None]
      completion_needs_authority[OF demo_ledgers_ok(3) fresh(2), of TsNone "isoformat (Utc 90000000)" "''r''" "''u''" None None "''o''" None]
    by (simp add: iso_timestamp_def str_or_def)
qed

text \<open>
  A completion rewrites exactly the leased run, to succeeded with its lease cleared,
  appends exactly one \<open>stage_completed\<close> event about it, and leaves the instances alone; the
  token is dead: the same call made again raises the conflict "not leased by this token".
\<close>

theorem completion_effect:
  assumes "complete_stage_run E i t rid oh now a w L = Inr ((), L')" "ledger_ok L"
  shows "(\<exists>at r. holds_lease E L i t (str_or w a) at r \<and>
      stage_runs L' = map (\<lambda>s. if s = r then clear_lease (r\<lparr>sr_status := SR_SUCCEEDED,
         sr_receipt_id := coalesce rid (sr_receipt_id r), sr_output_hash := coalesce oh (sr_output_hash r),
         sr_completed_at := Some at, sr_updated_at := at\<rparr>) else s) (stage_runs L) \<and>
      (\<exists>e. events L' = events L @ [e] \<and> ev_type e = ''stage_completed'' \<and> ev_stage_run_id e = Some i)) \<and>
    workflow_instances L' = workflow_instances L \<and>
    complete_stage_run E i t rid oh now a w L' =
      Inl (LedgerConflict (''stage run '' @ repr_str i @ '' is not leased by this token''))"
proof -
  obtain at r where at: "iso_timestamp (clock E 0) now = Inr at" and
    r: "holds_lease E L i t (str_or w a) at r" and
    rows: "stage_runs L' = map (\<lambda>s. if s = r then clear_lease (r\<lparr>sr_status := SR_SUCCEEDED,
         sr_receipt_id := coalesce rid (sr_receipt_id r), sr_output_hash := coalesce oh (sr_output_hash r),
         sr_completed_at := Some at, sr_updated_at := at\<rparr>) else s) (stage_runs L)" and
    ev: "events L' = events L @ [event_of E (sr_instance_id r) (Some i) ''stage_completed'' a
        (PDict [(''receipt_id'', opt_str rid), (''output_hash'', opt_str oh)]) at L]" and
    inst: "workflow_instances L' = workflow_instances L"
    using completion.settle_effect[OF assms] by blast
  show ?thesis using r rows ev inst completion.settle_once[OF assms at refl] by (auto simp: event_of_def)
qed

lemma completion_effect_witness:
  "\<exists>L'. complete_stage_run demo_env ''r'' ''u'' None None TsNone ''o'' None started_ledger = Inr ((), L') \<and>
     complete_stage_run demo_env ''r'' ''u'' None None TsNone ''o'' None L' =
       Inl (LedgerConflict (''stage run '' @ repr_str ''r'' @ '' is not leased by this token''))"
proof -
  obtain L' where "complete_stage_run demo_env ''r'' ''u'' None None TsNone ''o'' None started_ledger = Inr ((), L')"
    by (simp add: ledger_eval)
  then show ?thesis using completion_effect[OF _ demo_ledgers_ok(3)] by blast
qed

text \<open>What a settled token can no longer do.\<close>

lemma dead_token_useless:
  assumes "\<And>r. r \<in> set (stage_runs L) \<Longrightarrow> \<not> leased_as i t r"
  shows "complete_stage_run E i t rid oh now a w L \<noteq> Inr ((), M)"
    "fail_stage_run E i t fc fs st ra now a w L \<noteq> Inr ((), M)"
    "block_stage_run E i t fc fs ap now a w L \<noteq> Inr ((), M)"
    "wait_stage_run_for_human_decision E i t fc fs now a w L \<noteq> Inr ((), M)"
    "mark_stage_run_started E i t a w idem sc fam ad opn rh now L \<noteq> Inr ((), M)"
    "schedule_retry E i t fc fs ra' now a w L \<noteq> Inr ((), M)"
    "renew_lease E i v t secs now L \<noteq> Inr (True, M)"
proof -
  have dead: "require_leased_run E i t at v ps L \<noteq> Inr r" for at v ps r
    by (simp add: require_leased_run_dead[OF assms])
  show "complete_stage_run E i t rid oh now a w L \<noteq> Inr ((), M)"
    "fail_stage_run E i t fc fs st ra now a w L \<noteq> Inr ((), M)"
    "block_stage_run E i t fc fs ap now a w L \<noteq> Inr ((), M)"
    "wait_stage_run_for_human_decision E i t fc fs now a w L \<noteq> Inr ((), M)"
    "mark_stage_run_started E i t a w idem sc fam ad opn rh now L \<noteq> Inr ((), M)"
    "schedule_retry E i t fc fs ra' now a w L \<noteq> Inr ((), M)"
    by (simp_all add: complete_stage_run_def fail_stage_run_def block_stage_run_def
        wait_stage_run_for_human_decision_def mark_stage_run_started_def schedule_retry_def bindE_eq_Inr dead)
  have "select_one (\<lambda>r. sr_id r = i \<and> sr_lease_owner r = Some v \<and> sr_lease_token r = Some t) (stage_runs L) = None"
    using assms by (auto simp: select_one_None leased_as_def)
  then show "renew_lease E i v t secs now L \<noteq> Inr (True, M)"
    by (auto simp: renew_lease_def bindE_eq_Inr)
qed

text \<open>
  C13. A settled lease is dead: once a run has been completed, failed, blocked or parked on a
  human under a token, no operation that needs the token succeeds with it again, at whatever
  time and for whatever caller, and no renewal brings it back.
\<close>

theorem settled_token_dead:
  assumes "complete_stage_run E i t rid oh now a w L = Inr ((), L') \<or>
      fail_stage_run E i t fc fs st ra now a w L = Inr ((), L') \<or>
      block_stage_run E i t fc fs ap now a w L = Inr ((), L') \<or>
      wait_stage_run_for_human_decision E i t fc fs now a w L = Inr ((), L')" "ledger_ok L"
  shows "complete_stage_run F i t rid' oh' now' a' w' L' \<noteq> Inr ((), M) \<and>
    fail_stage_run F i t fc' fs' st' ra' now' a' w' L' \<noteq> Inr ((), M) \<and>
    block_stage_run F i t fc' fs' ap' now' a' w' L' \<noteq> Inr ((), M) \<and>
    wait_stage_run_for_human_decision F i t fc' fs' now' a' w' L' \<noteq> Inr ((), M) \<and>
    mark_stage_run_started F i t a' w' idem sc fam ad opn rh now' L' \<noteq> Inr ((), M) \<and>
    schedule_retry F i t fc' fs' ra' now' a' w' L' \<noteq> Inr ((), M) \<and>
    renew_lease F i v t secs now' L' \<noteq> Inr (True, M)"
proof -
  have "\<not> leased_as i t r" if "r \<in> set (stage_runs L')" for r
    using assms(1)
  proof (elim disjE)
    show "complete_stage_run E i t rid oh now a w L = Inr ((), L') \<Longrightarrow> \<not> leased_as i t r"
      by (rule completion.settle_kills_token[OF _ assms(2) that])
    show "fail_stage_run E i t fc fs st ra now a w L = Inr ((), L') \<Longrightarrow> \<not> leased_as i t r"
      by (rule failure.settle_kills_token[OF _ assms(2) that])
    show "block_stage_run E i t fc fs ap now a w L = Inr ((), L') \<Longrightarrow> \<not> leased_as i t r"
      by (rule blocking.settle_kills_token[OF _ assms(2) that])
    show "wait_stage_run_for_human_decision E i t fc fs now a w L = Inr ((), L') \<Longrightarrow> \<not> leased_as i t r"
      by (rule waiting.settle_kills_token[OF _ assms(2) that])
  qed
  then show ?thesis by (intro conjI dead_token_useless)
qed

lemma settled_token_dead_witness:
  "\<exists>L'. block_stage_run demo_env ''r'' ''u'' ''domain_blocked'' ''no'' True TsNone ''o'' None started_ledger = Inr ((), L') \<and>
     (\<forall>M. renew_lease demo_env ''r'' ''o'' ''u'' 60 TsNone L' \<noteq> Inr (True, M))"
proof -
  obtain L' where b: "block_stage_run demo_env ''r'' ''u'' ''domain_blocked'' ''no'' True TsNone ''o'' None started_ledger = Inr ((), L')"
    by (simp add: ledger_eval block_stage_run_def)
  have "renew_lease demo_env ''r'' ''o'' ''u'' 60 TsNone L' \<noteq> Inr (True, M)" for M
    by (rule settled_token_dead[OF disjI2[OF disjI2[OF disjI1[OF b]]] demo_ledgers_ok(3), THEN conjunct2, THEN conjunct2,
        THEN conjunct2, THEN conjunct2, THEN conjunct2, THEN conjunct2])
  then show ?thesis using b by blast
qed

section \<open>Retries\<close>

lemma foldl_max_start: "a \<le> foldl max a xs" for a :: int
  by (induction xs arbitrary: a) (auto intro: order.trans[OF max.cobounded1])

lemma foldl_max_le: "x \<in> set xs \<Longrightarrow> x \<le> foldl max a xs" for x :: int
proof (induction xs arbitrary: a)
  case (Cons y ys)
  then show ?case using foldl_max_start[of "max a y" ys] by auto
qed simp

lemma next_attempt_above:
  assumes "r \<in> set (stage_runs L)" "sr_instance_id r = i" "sr_stage_id r = s"
  shows "sr_attempt r < next_attempt L i s"
proof -
  let ?as = "[sr_attempt r. r \<leftarrow> stage_runs L, sr_instance_id r = i \<and> sr_stage_id r = s]"
  have mem: "sr_attempt r \<in> set ?as" using assms by force
  show ?thesis
  proof (cases ?as)
    case Nil
    then show ?thesis using mem by auto
  next
    case (Cons a as)
    then have "sr_attempt r \<le> foldl max a as" using mem foldl_max_start[of a as] foldl_max_le[of "sr_attempt r" as a] by auto
    then show ?thesis using Cons by (simp add: next_attempt_def)
  qed
qed

lemma insert_run_rows: "insert_run r L = Inr L' \<Longrightarrow> stage_runs L' = stage_runs L @ [r]"
  by (auto simp: insert_run_Inr)

lemma emit_rows: "emit E i s ty a p c L = Inr L' \<Longrightarrow> stage_runs L' = stage_runs L \<and> workflow_instances L' = workflow_instances L"
  by (auto simp: emit_Inr)

text \<open>What a retry does to the runs: the leased row is retired and one child is appended.\<close>

lemma schedule_retry_rows:
  assumes "schedule_retry E i t fc fs ra now a w L = Inr ((), L')" "ledger_ok L"
  shows "\<exists>at retry_at r. holds_lease E L i t (str_or w a) at r \<and> iso_timestamp (clock E 1) ra = Inr retry_at \<and>
    stage_runs L' = map (\<lambda>s. if s = r then retried_row fc fs (sr_retry_count r + 1) retry_at at r else s) (stage_runs L) @
      [retry_child r (next_attempt L (sr_instance_id r) (sr_stage_id r)) (sr_retry_count r + 1) retry_at at]"
proof -
  obtain at retry_at r L2 L3 c d where ra: "iso_timestamp (clock E 1) ra = Inr retry_at"
    and lease: "require_leased_run E i t at (str_or w a) all_active_lease L = Inr r"
    and ins: "insert_run (retry_child r (next_attempt L (sr_instance_id r) (sr_stage_id r)) (sr_retry_count r + 1) retry_at at)
       (update_runs (leased_as i t) (retried_row fc fs (sr_retry_count r + 1) retry_at at) L) = Inr L2"
    and ev: "emit E (sr_instance_id r) (Some i) ''stage_retry_scheduled'' a c at L2 = Inr L3"
      "emit E (sr_instance_id r) (Some (sr_id (retry_child r (next_attempt L (sr_instance_id r) (sr_stage_id r))
         (sr_retry_count r + 1) retry_at at))) ''stage_retry_queued'' a d at L3 = Inr L'"
    using schedule_retry_Inr[OF assms(1)] by blast
  have holds: "holds_lease E L i t (str_or w a) at r" using lease by (simp add: require_leased_run_holds[OF assms(2)])
  have "stage_runs (update_runs (leased_as i t) (retried_row fc fs (sr_retry_count r + 1) retry_at at) L) =
      map (\<lambda>s. if s = r then retried_row fc fs (sr_retry_count r + 1) retry_at at r else s) (stage_runs L)"
    using holds_lease_unique[OF assms(2) holds] by (auto simp: update_runs_def update_where_def)
  then have rows: "stage_runs L' = map (\<lambda>s. if s = r then retried_row fc fs (sr_retry_count r + 1) retry_at at r else s)
      (stage_runs L) @ [retry_child r (next_attempt L (sr_instance_id r) (sr_stage_id r)) (sr_retry_count r + 1) retry_at at]"
    using emit_rows[OF ev(2)] emit_rows[OF ev(1)] insert_run_rows[OF ins] by simp
  then show ?thesis using holds ra by blast
qed

text \<open>
  C14. A retry retires the leased attempt and queues exactly one child attempt: the child is
  queued without a lease, names the attempt as its parent, keeps its idempotency key and input,
  is numbered above every attempt of the stage, counts one more retry, and cannot be claimed
  before the retry time.
\<close>

theorem retry_queues_child:
  assumes "schedule_retry E i t fc fs ra now a w L = Inr ((), L')" "ledger_ok L"
  shows "\<exists>at retry_at r child. holds_lease E L i t (str_or w a) at r \<and> iso_timestamp (clock E 1) ra = Inr retry_at \<and>
    stage_runs L' = map (\<lambda>s. if s = r then retried_row fc fs (sr_retry_count r + 1) retry_at at r else s) (stage_runs L) @ [child] \<and>
    sr_status child = SR_QUEUED \<and> lease_cleared child \<and> sr_parent child = Some i \<and>
    sr_idempotency_key child = sr_idempotency_key r \<and> sr_input_hash child = sr_input_hash r \<and>
    sr_retry_count child = sr_retry_count r + 1 \<and>
    (\<forall>s \<in> set (stage_runs L). sr_instance_id s = sr_instance_id r \<and> sr_stage_id s = sr_stage_id r \<longrightarrow>
       sr_attempt s < sr_attempt child) \<and>
    (\<forall>at' scope. claimable at' scope child \<longrightarrow> retry_at \<le> at')"
proof -
  obtain at retry_at r where holds: "holds_lease E L i t (str_or w a) at r" and ra: "iso_timestamp (clock E 1) ra = Inr retry_at"
    and rows: "stage_runs L' = map (\<lambda>s. if s = r then retried_row fc fs (sr_retry_count r + 1) retry_at at r else s) (stage_runs L) @
      [retry_child r (next_attempt L (sr_instance_id r) (sr_stage_id r)) (sr_retry_count r + 1) retry_at at]"
    using schedule_retry_rows[OF assms] by blast
  define child where "child = retry_child r (next_attempt L (sr_instance_id r) (sr_stage_id r)) (sr_retry_count r + 1) retry_at at"
  have id: "sr_id r = i" using holds by (simp add: holds_lease_def leased_as_def)
  have c: "sr_status child = SR_QUEUED" "lease_cleared child" "sr_parent child = Some i"
    "sr_idempotency_key child = sr_idempotency_key r" "sr_input_hash child = sr_input_hash r"
    "sr_retry_count child = sr_retry_count r + 1" "sr_retry_after_at child = Some retry_at"
    "sr_attempt child = next_attempt L (sr_instance_id r) (sr_stage_id r)"
    by (simp_all add: child_def retry_child_def new_run_row_def lease_cleared_def id)
  have above: "\<forall>s \<in> set (stage_runs L). sr_instance_id s = sr_instance_id r \<and> sr_stage_id s = sr_stage_id r \<longrightarrow>
      sr_attempt s < sr_attempt child"
    unfolding c(8) using next_attempt_above by simp
  have "\<forall>at' scope. claimable at' scope child \<longrightarrow> retry_at \<le> at'" by (simp add: claimable_def due_def c(7))
  then show ?thesis using holds ra rows[folded child_def] c above by blast
qed

lemma show_nat_digit: "n < 10 \<Longrightarrow> show_nat n = [digit_char n]"
  by (simp add: show_nat.simps)

lemma retry_queues_child_witness:
  "\<exists>L' child. schedule_retry demo_env ''r'' ''u'' ''runtime_failure'' ''x'' (TsText ''z'') TsNone ''o'' None started_ledger = Inr ((), L') \<and>
     child \<in> set (stage_runs L') \<and> sr_status child = SR_QUEUED \<and> sr_parent child = Some ''r''"
proof -
  obtain L' where s: "schedule_retry demo_env ''r'' ''u'' ''runtime_failure'' ''x'' (TsText ''z'') TsNone ''o'' None started_ledger = Inr ((), L')"
    by (simp add: ledger_eval schedule_retry_def iso_timestamp_def next_attempt_def retry_child_def retried_row_def attempt_id_def
        stage_status_for_failure_def show_int_def show_nat_digit digit_char_def)
  obtain rows child where rows: "stage_runs L' = rows @ [child]" and child: "sr_status child = SR_QUEUED" "sr_parent child = Some ''r''"
    using retry_queues_child[OF s demo_ledgers_ok(3)] by blast
  have "child \<in> set (stage_runs L')" by (simp add: rows)
  then show ?thesis using s child by blast
qed

end
