(* ===== verification/Runner_Safety.thy ===== *)
theory Runner_Safety
  imports Runner Ledger_Settling Lease_Policy
begin

text \<open>
  The runner over any handler: it changes the ledger by ledger actions only, hands a run to the
  handler exactly when that run is started under the runner's own lease, leaves a settled run
  without a lease, and its loop is bounded and stops at the first step that needs attention.
\<close>

section \<open>Ledger calls as programs\<close>

lemma acts_append_event [acts_intro]: "ty \<noteq> ''stage_started'' \<Longrightarrow> acts u (call (\<lambda>E. append_event E i s ty a p c))"
  by (rule acts_call) (auto intro: append_event_actions)

lemma acts_update_workflow_instance [acts_intro]:
  "ty \<noteq> ''stage_started'' \<Longrightarrow> acts u (call (\<lambda>E. update_workflow_instance E i st cs ua a ty p))"
  by (rule acts_call) (auto intro: update_workflow_instance_actions)

lemma acts_fail_stage_run [acts_intro]:
  "verdict_status st \<Longrightarrow> acts u (call (\<lambda>E. fail_stage_run E i t fc fs st ra now a w))"
  by (rule acts_call) (auto intro: fail_stage_run_actions)

lemma acts_complete_waiting_human [acts_intro]:
  "verdict_status st \<Longrightarrow> acts u (call (\<lambda>E. complete_waiting_human_stage_run E i st rid oh fc fs now a))"
  by (rule acts_call) (auto intro: complete_waiting_human_stage_run_actions)

lemma acts_operations [acts_intro]:
  "acts u (call (\<lambda>E. sweep_stale_leases E now a))"
  "acts u (call (\<lambda>E. claim_next_queued_run E w inst secs res pr ctx now))"
  "acts u (call (\<lambda>E. mark_stage_run_started E i t a ow idem scope fam ad op rh now))"
  "acts u (call (\<lambda>E. complete_stage_run E i t rid oh now a ow))"
  "acts u (call (\<lambda>E. schedule_retry E i t fc fs ra now a ow))"
  "acts u (call (\<lambda>E. block_stage_run E i t fc fs ar now a ow))"
  "acts u (call (\<lambda>E. wait_stage_run_for_human_decision E i t fc fs now a ow))"
  "acts u (call (\<lambda>E. record_receipt E c))"
  "acts u (call (\<lambda>E. insert_stage_run E run ih idk par ca))"
  "acts u (call (\<lambda>E. insert_workflow_instance E wi ca snap dj dh su))"
  "acts u (call (\<lambda>E. record_human_decision E d i s ca a))"
  "acts u (call (\<lambda>E. record_adapter_invocation_started E v rq a sc sa))"
  "acts u (call (\<lambda>E. complete_adapter_invocation E i st a rp ex ec es co))"
  "acts u (call (\<lambda>E. record_stage_run_prompt_context i ph cr ch rch))"
  by (rule acts_call; auto intro: operation_actions)+

lemma verdict_status_for_failure [simp]: "verdict_status (status_for_failure fc)"
  by (simp add: status_for_failure_def verdict_status_def)

lemma verdict_simps [simp]: "verdict_status SR_FAILED" "verdict_status SR_BLOCKED" "verdict_status SR_SUCCEEDED"
  by (simp_all add: verdict_status_def)

lemma acts_settle_result [acts_intro]: "acts u (settle_result owner now i t r)"
  unfolding settle_result_def Let_def by (intro acts_intro) simp_all

lemma acts_record_result [acts_intro]: "acts u (record_result r)"
  unfolding record_result_def by (intro acts_intro)

lemma acts_claim_run [acts_intro]: "acts u (claim_run owner inst secs res pr ctx now)"
  unfolding claim_run_def by (intro acts_intro)

lemma acts_handle_and_settle [acts_intro]: "(\<And>run. acts u (h run)) \<Longrightarrow> acts u (handle_and_settle owner now t h run)"
  unfolding handle_and_settle_def by (intro acts_intro) simp_all

lemma acts_start_claimed [acts_intro]: "(\<And>run. acts u (h run)) \<Longrightarrow> acts u (start_claimed owner now h run)"
  unfolding start_claimed_def Let_def by (intro acts_intro)

lemma acts_run_pass [acts_intro]: "(\<And>run. acts u (h run)) \<Longrightarrow> acts u (run_pass owner h inst secs res pr ctx now)"
  unfolding run_pass_def by (intro acts_intro)

section \<open>The run the handler gets\<close>

text \<open>The run is started under the owner's lease, and its start is the last thing the ledger recorded.\<close>

definition started_under_lease :: "string \<Rightarrow> ledger \<Rightarrow> StageRun \<Rightarrow> bool" where
  "started_under_lease owner L run \<longleftrightarrow> run_status run = SR_STARTED \<and> run_lease_token run \<noteq> None \<and>
     (\<exists>r \<in> set (stage_runs L). stage_run_from_row r = Inr run \<and> sr_lease_owner r = Some owner) \<and>
     (\<exists>es e. events L = es @ [e] \<and> ev_type e = ''stage_started'' \<and> ev_stage_run_id e = Some (run_id run) \<and> ev_actor e = owner)"

lemma stage_run_from_row_Inr: "stage_run_from_row r = Inr run \<Longrightarrow> run_id run = sr_id r \<and> run_status run = sr_status r \<and>
    run_lease_token run = sr_lease_token r \<and> run_instance_id run = sr_instance_id r \<and> run_stage_id run = sr_stage_id r \<and>
    run_attempt run = sr_attempt r"
  by (auto simp: stage_run_from_row_def bindE_eq_Inr split: option.splits if_splits)

lemma get_stage_run_found: "ledger_ok L \<Longrightarrow> r \<in> set (stage_runs L) \<Longrightarrow> get_stage_run (sr_id r) L = bindE (stage_run_from_row r) (\<lambda>x. Inr (Some x))"
  using find_run_iff[of L "sr_id r" r] by (simp add: get_stage_run_def)

lemma mark_started_effect:
  assumes "mark_stage_run_started E i t a (Some a) idem scope fam ad op rh now L = Inr (x, L')" "ledger_ok L"
  shows "\<exists>r es e. r \<in> set (stage_runs L') \<and> sr_id r = i \<and> sr_lease_token r = Some t \<and> sr_lease_owner r = Some a \<and>
    sr_status r = SR_STARTED \<and> events L' = es @ [e] \<and> ev_type e = ''stage_started'' \<and> ev_stage_run_id e = Some i \<and> ev_actor e = a"
proof -
  obtain at q f c where lease: "require_leased_run E i t at (str_or (Some a) a) [SR_CLAIMED] L = Inr q"
    and f: "f = (\<lambda>r. r\<lparr>sr_status := SR_STARTED, sr_started_at := coalesce (sr_started_at r) (Some at),
               sr_idempotency_key := coalesce (sr_idempotency_key r) idem, sr_updated_at := at\<rparr>)"
    and ev: "emit E (sr_instance_id q) (Some i) ''stage_started'' a c at (update_runs (leased_as i t) f L) = Inr L'"
    using assms(1) unfolding mark_stage_run_started_def by (auto simp: bindE_eq_Inr)
  have q: "q \<in> set (stage_runs L)" "leased_as i t q" "sr_lease_owner q = Some a"
    using lease select_one_Some[of "leased_as i t" "stage_runs L" q] by (auto simp: require_leased_run_Inr str_or_def)
  have rows: "stage_runs L' = update_where (leased_as i t) f (stage_runs L)"
    and evs: "events L' = events L @ [event_of E (sr_instance_id q) (Some i) ''stage_started'' a c at (update_runs (leased_as i t) f L)]"
    using ev by (simp_all add: emit_Inr update_runs_def)
  have "f q \<in> set (stage_runs L')" using q(1,2) unfolding rows update_where_def by force
  moreover have "sr_id (f q) = i \<and> sr_lease_token (f q) = Some t \<and> sr_lease_owner (f q) = Some a \<and> sr_status (f q) = SR_STARTED"
    using q by (simp add: f leased_as_def)
  ultimately show ?thesis unfolding evs by (auto simp: event_of_def)
qed

lemma started_run_readback:
  assumes "mark_stage_run_started E i t a (Some a) idem scope fam ad op rh now L = Inr (x, L')" "ledger_ok L"
    "get_stage_run i L' = Inr found"
  shows "\<exists>run. found = Some run \<and> run_lease_token run = Some t \<and> run_id run = i \<and> started_under_lease a L' run"
proof -
  obtain r es e where r: "r \<in> set (stage_runs L')" "sr_id r = i" "sr_lease_token r = Some t" "sr_lease_owner r = Some a" "sr_status r = SR_STARTED"
    and ev: "events L' = es @ [e]" "ev_type e = ''stage_started''" "ev_stage_run_id e = Some i" "ev_actor e = a"
    using mark_started_effect[OF assms(1,2)] by blast
  have "ledger_ok L'" using mark_stage_run_started_actions[OF assms(1,2)] actions_ledger_ok assms(2) by blast
  then obtain run where run: "stage_run_from_row r = Inr run" "found = Some run"
    using get_stage_run_found[of L' r] r(1,2) assms(3) by (cases "stage_run_from_row r") auto
  then show ?thesis using r ev stage_run_from_row_Inr[OF run(1)] by (auto simp: started_under_lease_def)
qed

lemma start_claimed_congruent:
  assumes "\<And>run Es v. started_under_lease owner (w_ledger v) run \<Longrightarrow> h run Es v = h' run Es v"
    and "ledger_ok (w_ledger w)"
  shows "start_claimed owner now h run Es w = start_claimed owner now h' run Es w"
proof (cases "run_lease_token run")
  case (Some t)
  let ?mark = "call (\<lambda>E. mark_stage_run_started E (run_id run) t owner (Some owner) (run_idempotency_key run)
             (handler_scope run) None None None None now) Es w"
  have rest: "handle_and_settle owner now t' h run' Es v = handle_and_settle owner now t' h' run' Es v"
    if "started_under_lease owner (w_ledger v) run'" for t' run' v
    using assms(1)[OF that] by (simp add: handle_and_settle_def bindP_def tried_def)
  show ?thesis
  proof (cases "fst ?mark")
    case (Inl e)
    then have mark: "?mark = (Inl e, snd ?mark)" by (metis prod.collapse)
    show ?thesis unfolding start_claimed_def Some option.case by (subst (1 2) bindP_raise[where e = e and u = "snd ?mark"]) (use mark in auto)
  next
    case (Inr x)
    then have mark: "?mark = (Inr x, snd ?mark)" by (metis prod.collapse)
    let ?v = "snd ?mark"
    have m: "mark_stage_run_started (Es (w_calls w)) (run_id run) t owner (Some owner) (run_idempotency_key run)
        (handler_scope run) None None None None now (w_ledger w) = Inr (x, w_ledger ?v)"
      using mark[unfolded call_Inr] by auto
    show ?thesis
    proof (cases "get_stage_run (run_id run) (w_ledger ?v)")
      case found: (Inr found)
      then obtain run' where "found = Some run'" "started_under_lease owner (w_ledger ?v) run'"
        using started_run_readback[OF m assms(2) found] by blast
      then show ?thesis unfolding start_claimed_def Some option.case
        by (subst (1 2) bindP_run[where x = x and u = ?v]) (use mark found rest in \<open>auto simp: bindP_def\<close>)
    next
      case (Inl e)
      then show ?thesis unfolding start_claimed_def Some option.case
        by (subst (1 2) bindP_run[where x = x and u = ?v]) (use mark in \<open>auto simp: bindP_def\<close>)
    qed
  qed
qed (simp add: start_claimed_def)

lemma run_pass_congruent:
  assumes "\<And>run Es v. started_under_lease owner (w_ledger v) run \<Longrightarrow> h run Es v = h' run Es v"
    and "ledger_ok (w_ledger w)" "\<forall>n. uuid_hex (Es n) = u"
  shows "run_pass owner h inst secs resolver predicate context now Es w = run_pass owner h' inst secs resolver predicate context now Es w"
proof -
  let ?sweep = "call (\<lambda>E. sweep_stale_leases E now owner) :: ('a, _) prog"
  let ?claim = "claim_run owner inst secs resolver predicate context now :: ('a, _) prog"
  obtain r1 w1 where s: "?sweep Es w = (r1, w1)" by (cases "?sweep Es w")
  have ok1: "ledger_ok (w_ledger w1)" using actsD[OF acts_operations(1) s assms(3,2)] extends_ok assms(2) by blast
  obtain r2 w2 where c: "?claim Es w1 = (r2, w2)" by (cases "?claim Es w1")
  have ok2: "ledger_ok (w_ledger w2)" using actsD[OF acts_claim_run c assms(3) ok1] extends_ok ok1 by blast
  have "start_claimed owner now h run Es w2 = start_claimed owner now h' run Es w2" for run
    by (rule start_claimed_congruent[OF assms(1) ok2])
  then show ?thesis unfolding run_pass_def using s c
    by (cases r1; cases r2) (auto simp: bindP_run bindP_raise split: option.splits)
qed

text \<open>A runner over the queued run of \<^verbatim>\<open>Ledger_Example\<close>, with a handler that succeeds.\<close>

definition demo_world :: "unit world" where
  "demo_world = \<lparr>w_calls = 0, w_ledger = queued_ledger, w_effects = [], w_memo = ()\<rparr>"

definition demo_result :: RunnerResult where
  "demo_result = \<lparr>rr_decision = ''succeeded'', rr_receipt = None, rr_output_hash = Some ''h'', rr_failure_class = None,
     rr_failure_summary = None, rr_retry_after_at = TsNone, rr_approval_required = False\<rparr>"

definition demo_pass :: "unit handler \<Rightarrow> (kernel_error + RunnerStep) \<times> unit world" where
  "demo_pass h = run_pass ''o'' h None (PInt 60) None None [] TsNone (\<lambda>_. demo_env) demo_world"

lemmas program_eval [ledger_eval] = run_pass_def start_claimed_def handle_and_settle_def record_result_def settle_result_def
  claim_run_def call_def bindP_def tried_def sweep_stale_leases_def leased_rows_def get_stage_run_def stage_run_from_row_def

lemma demo_pass_runs: "\<exists>step v run. demo_pass (\<lambda>_. ret demo_result) = (Inr step, v) \<and> rs_stage_run step = Some run \<and> run_id run = ''r''"
  by (simp add: ledger_eval demo_pass_def demo_world_def demo_result_def Let_def)

lemma demo_world_ok: "ledger_ok (w_ledger demo_world)"
  by (simp add: demo_world_def demo_ledgers_ok del: ledger_ok_def)

text \<open>A handler that refuses to run without the lease.\<close>

definition guarded :: "string \<Rightarrow> 'm handler \<Rightarrow> 'm handler" where
  "guarded owner h run = (\<lambda>Es v. if started_under_lease owner (w_ledger v) run then h run Es v
     else (Inl (RuntimeError ''handler called without a lease''), v))"

text \<open>
  The handler only ever sees a run that is started under the runner's own lease, with its
  start as the last recorded event: checking this before the handler runs changes no pass,
  whatever the handler, the ledger and the clock.
\<close>

theorem handler_needs_lease:
  assumes "ledger_ok (w_ledger w)" "\<forall>n. uuid_hex (Es n) = u"
  shows "run_pass owner (guarded owner h) inst secs resolver predicate context now Es w =
    run_pass owner h inst secs resolver predicate context now Es w"
  by (rule run_pass_congruent[OF _ assms]) (simp add: guarded_def)

lemma handler_needs_lease_witness:
  "\<exists>step v. demo_pass (guarded ''o'' (\<lambda>_. ret demo_result)) = (Inr step, v) \<and> rs_stage_run step \<noteq> None"
proof -
  have "demo_pass (guarded ''o'' (\<lambda>_. ret demo_result)) = demo_pass (\<lambda>_. ret demo_result)"
    unfolding demo_pass_def by (rule handler_needs_lease[OF demo_world_ok]) simp
  then show ?thesis using demo_pass_runs by auto
qed

section \<open>What a pass leaves behind\<close>

text \<open>The status a decision ends in.\<close>

definition decided_as :: "string \<Rightarrow> StageRunStatus \<Rightarrow> bool" where
  "decided_as d st \<longleftrightarrow> (d, st) \<in> {(''succeeded'', SR_SUCCEEDED), (''blocked'', SR_BLOCKED), (''waiting_on_human'', SR_WAITING_ON_HUMAN),
     (''failed'', SR_FAILED), (''failed'', SR_INVALID_OUTPUT), (''retry'', SR_FAILED), (''retry'', SR_INVALID_OUTPUT)}"

lemma settled_in_place:
  assumes "stage_runs L' = map (\<lambda>s. if s = r then f r else s) (stage_runs L) @ extra" "holds_lease E L i t w at r"
    "same_run r (f r)" "lease_cleared (f r)"
  shows "\<exists>row \<in> set (stage_runs L'). sr_id row = i \<and> lease_cleared row \<and> sr_status row = sr_status (f r)"
  using assms unfolding holds_lease_def leased_as_def by (intro bexI[of _ "f r"]) (auto simp: same_run_defs)

lemma settle_result_effect:
  assumes "settle_result owner now i t r Es w = (Inr x, v)" "ledger_ok (w_ledger w)"
  shows "\<exists>row \<in> set (stage_runs (w_ledger v)). sr_id row = i \<and> lease_cleared row \<and> decided_as (rr_decision r) (sr_status row)"
proof -
  note run = assms(1)[unfolded settle_result_def Let_def]
  consider "rr_decision r = ''succeeded''" | "rr_decision r = ''retry''" | "rr_decision r = ''blocked''"
    | "rr_decision r = ''waiting_on_human''" | "rr_decision r = ''failed''"
    using run by (auto split: if_splits)
  then show ?thesis
  proof cases
    case 1
    then have "complete_stage_run (Es (w_calls w)) i t (map_option rcpt_id (rr_receipt r)) (rr_output_hash r) now owner (Some owner) (w_ledger w)
        = Inr ((), w_ledger v)"
      using run by (auto simp: call_Inr)
    from completion.settle_effect[OF this assms(2)] show ?thesis
      by (auto dest!: settled_in_place[where extra = "[]", simplified] simp: 1 decided_as_def same_run_defs)
  next
    case 2
    then have "schedule_retry (Es (w_calls w)) i t (str_or (rr_failure_class r) (failure_value FC_RUNTIME_FAILURE))
        (str_or (rr_failure_summary r) ''Stage scheduled for retry.'') (rr_retry_after_at r) now owner (Some owner) (w_ledger w)
        = Inr ((), w_ledger v)"
      using run by (auto simp: call_Inr split: if_splits)
    from schedule_retry_rows[OF this assms(2)] show ?thesis
      by (auto dest!: settled_in_place simp: 2 decided_as_def same_run_defs retried_row_def stage_status_for_failure_def split: if_splits)
  next
    case 3
    then have "block_stage_run (Es (w_calls w)) i t (str_or (rr_failure_class r) (failure_value FC_DOMAIN_BLOCKED))
        (str_or (rr_failure_summary r) ''Stage blocked by handler.'') (rr_approval_required r) now owner (Some owner) (w_ledger w)
        = Inr ((), w_ledger v)"
      using run by (auto simp: call_Inr)
    from blocking.settle_effect[OF this assms(2)] show ?thesis
      by (auto dest!: settled_in_place[where extra = "[]", simplified] simp: 3 decided_as_def same_run_defs)
  next
    case 4
    then have "wait_stage_run_for_human_decision (Es (w_calls w)) i t (str_or (rr_failure_class r) (failure_value FC_DOMAIN_BLOCKED))
        (str_or (rr_failure_summary r) ''Stage is waiting on a human decision.'') now owner (Some owner) (w_ledger w) = Inr ((), w_ledger v)"
      using run by (auto simp: call_Inr)
    from waiting.settle_effect[OF this assms(2)] show ?thesis
      by (auto dest!: settled_in_place[where extra = "[]", simplified] simp: 4 decided_as_def same_run_defs)
  next
    case 5
    then have "fail_stage_run (Es (w_calls w)) i t (str_or (rr_failure_class r) (failure_value FC_RUNTIME_FAILURE))
        (str_or (rr_failure_summary r) ''Stage failed.'') (status_for_failure (rr_failure_class r)) TsNone now owner (Some owner) (w_ledger w)
        = Inr ((), w_ledger v)"
      using run by (auto simp: call_Inr)
    from failure.settle_effect[OF this assms(2)] show ?thesis
      by (auto dest!: settled_in_place[where extra = "[]", simplified] simp: 5 decided_as_def same_run_defs status_for_failure_def split: if_splits)
  qed
qed

lemma handle_and_settle_effect:
  assumes "handle_and_settle owner now t h run Es w = (Inr step, v)" "\<And>run. acts u (h run)"
    "ledger_ok (w_ledger w)" "\<forall>n. uuid_hex (Es n) = u"
  shows "rs_stage_run step = Some run \<and> (\<exists>row \<in> set (stage_runs (w_ledger v)).
    sr_id row = run_id run \<and> lease_cleared row \<and> decided_as (rs_decision step) (sr_status row))"
proof -
  obtain outcome w1 where h: "h run Es w = (outcome, w1)" by (cases "h run Es w")
  have ok: "ledger_ok (w_ledger w1)" using actsD[OF assms(2) h assms(4,3)] extends_ok assms(3) by blast
  have run: "(case outcome of
       Inl exc \<Rightarrow>
         bindP (call (\<lambda>E. fail_stage_run E (run_id run) t (failure_value FC_RUNTIME_FAILURE) (exception_text exc)
             SR_FAILED TsNone now owner (Some owner))) (\<lambda>_.
         ret \<lparr>rs_stage_run = Some run, rs_decision = ''failed''\<rparr>)
     | Inr result \<Rightarrow>
         bindP (record_result result) (\<lambda>_.
         bindP (settle_result owner now (run_id run) t result) (\<lambda>_.
         ret \<lparr>rs_stage_run = Some run, rs_decision = rr_decision result\<rparr>))) Es w1 = (Inr step, v)"
    using assms(1) h by (simp add: handle_and_settle_def bindP_def tried_def)
  show ?thesis
  proof (cases outcome)
    case (Inl exc)
    then have "fail_stage_run (Es (w_calls w1)) (run_id run) t (failure_value FC_RUNTIME_FAILURE) (exception_text exc)
        SR_FAILED TsNone now owner (Some owner) (w_ledger w1) = Inr ((), w_ledger v)"
      and step: "step = \<lparr>rs_stage_run = Some run, rs_decision = ''failed''\<rparr>"
      using run by (auto simp: bindP_Inr call_Inr)
    from failure.settle_effect[OF this(1) ok] show ?thesis
      by (auto dest!: settled_in_place[where extra = "[]", simplified] simp: step decided_as_def same_run_defs)
  next
    case (Inr result)
    then obtain w2 w3 where r: "record_result result Es w1 = (Inr (), w2)"
      and s: "settle_result owner now (run_id run) t result Es w2 = (Inr (), w3)"
      and step: "v = w3" "step = \<lparr>rs_stage_run = Some run, rs_decision = rr_decision result\<rparr>"
      using run by (auto simp: bindP_Inr)
    have "ledger_ok (w_ledger w2)" using actsD[OF acts_record_result r assms(4) ok] extends_ok ok by blast
    from settle_result_effect[OF s this] show ?thesis by (simp add: step)
  qed
qed

text \<open>
  C28. A pass that returns has settled its run: the run it returns no longer holds a lease, and
  its status is the one the decision stands for (an exception of the handler counts as failed);
  an unknown decision is an error.
\<close>

theorem pass_settles_run:
  assumes "run_pass owner h inst secs resolver predicate context now Es w = (Inr step, v)"
    "rs_stage_run step = Some run" "\<And>run. acts u (h run)" "ledger_ok (w_ledger w)" "\<forall>n. uuid_hex (Es n) = u"
  shows "\<exists>row \<in> set (stage_runs (w_ledger v)). sr_id row = run_id run \<and> lease_cleared row \<and>
    decided_as (rs_decision step) (sr_status row)"
proof -
  obtain s c w1 w2 where sweep: "call (\<lambda>E. sweep_stale_leases E now owner) Es w = (Inr s, w1)"
    and claim: "claim_run owner inst secs resolver predicate context now Es w1 = (Inr c, w2)"
    and rest: "(case c of None \<Rightarrow> ret \<lparr>rs_stage_run = None, rs_decision = ''idle''\<rparr>
      | Some run \<Rightarrow> start_claimed owner now h run) Es w2 = (Inr step, v)"
    using assms(1) unfolding run_pass_def by (auto simp: bindP_Inr)
  have ok1: "ledger_ok (w_ledger w1)" using actsD[OF acts_operations(1) sweep assms(5,4)] extends_ok assms(4) by blast
  have ok2: "ledger_ok (w_ledger w2)" using actsD[OF acts_claim_run claim assms(5) ok1] extends_ok ok1 by blast
  obtain claimed where "c = Some claimed" using rest assms(2) by (cases c) auto
  then have "start_claimed owner now h claimed Es w2 = (Inr step, v)" using rest by simp
  then obtain t m w3 t' started where mark: "call (\<lambda>E. mark_stage_run_started E (run_id claimed) t owner (Some owner)
        (run_idempotency_key claimed) (handler_scope claimed) None None None None now) Es w2 = (Inr m, w3)"
    and h: "handle_and_settle owner now t' h started Es w3 = (Inr step, v)"
    unfolding start_claimed_def by (auto simp: bindP_Inr Let_def split: option.splits)
  have "ledger_ok (w_ledger w3)" using actsD[OF acts_operations(3) mark assms(5) ok2] extends_ok ok2 by blast
  from handle_and_settle_effect[OF h assms(3) this assms(5)] show ?thesis using assms(2) by auto
qed

lemma pass_settles_run_witness:
  "\<exists>step v. demo_pass (\<lambda>_. ret demo_result) = (Inr step, v) \<and>
     (\<exists>row \<in> set (stage_runs (w_ledger v)). sr_id row = ''r'' \<and> lease_cleared row)"
proof -
  obtain step v run where p: "demo_pass (\<lambda>_. ret demo_result) = (Inr step, v)" "rs_stage_run step = Some run" "run_id run = ''r''"
    using demo_pass_runs by blast
  show ?thesis
    using pass_settles_run[OF p(1)[unfolded demo_pass_def] p(2) acts_pure(1) demo_world_ok, of "uuid_hex demo_env"] p(1,3) by auto
qed

section \<open>The owned loop\<close>

definition runs_on :: "KernelStep \<Rightarrow> bool" where
  "runs_on k \<longleftrightarrow> ks_decision k \<notin> {''idle'', ''blocked'', ''failed''} \<and> ks_stage_run k \<noteq> None"

text \<open>What one iteration does to the steps: it adds at most one, and one that stops the loop is reported.\<close>

definition iteration_ok :: "KernelStep list \<Rightarrow> OwnedRunSummary + loop_state \<Rightarrow> bool" where
  "iteration_ok steps r = (case r of
     Inl stop \<Rightarrow> os_kernel_steps stop = steps \<and> os_status stop \<noteq> ''max_steps'' \<or>
       (\<exists>k. os_kernel_steps stop = steps @ [k] \<and> ks_decision k \<in> {''blocked'', ''failed''} \<and> os_status stop = ''blocked'' \<and>
          os_stop_reason stop = ks_decision k)
   | Inr s \<Rightarrow> ls_steps s = steps \<or> (\<exists>k. ls_steps s = steps @ [k] \<and> runs_on k))"

lemma idle_status_kind: "fst (idle_status i L) \<noteq> ''max_steps''"
  by (auto simp: idle_status_def split: option.splits)

lemma working_iteration_ok:
  assumes "working_iteration k i now s Es w = (Inr r, v)"
  shows "iteration_ok (ls_steps s) r"
proof -
  obtain step w1 where rest: "(if ks_decision step = ''idle'' \<or> ks_stage_run step = None
     then bindP (query (\<lambda>L. Inr (idle_status i L))) (\<lambda>(status, reason). ret (Inl (summary i status reason s)))
     else let s' = s\<lparr>ls_steps := ls_steps s @ [step]\<rparr> in
       if ks_decision step \<in> {''blocked'', ''failed''}
       then ret (Inl (summary i ''blocked'' (ks_decision step) s'))
       else ret (Inr s')) Es w1 = (Inr r, v)"
    using assms unfolding working_iteration_def by (auto simp: bindP_Inr)
  consider "ks_decision step = ''idle'' \<or> ks_stage_run step = None"
    | "\<not> (ks_decision step = ''idle'' \<or> ks_stage_run step = None)" "ks_decision step \<in> {''blocked'', ''failed''}"
    | "\<not> (ks_decision step = ''idle'' \<or> ks_stage_run step = None)" "ks_decision step \<notin> {''blocked'', ''failed''}" by argo
  then show ?thesis
  proof cases
    case 1
    obtain st re where st: "idle_status i (w_ledger w1) = (st, re)" by (cases "idle_status i (w_ledger w1)")
    have "r = Inl (summary i st re s)" using rest 1 st by (simp add: bindP_def)
    moreover have "st \<noteq> ''max_steps''" using idle_status_kind[of i "w_ledger w1"] st by simp
    ultimately show ?thesis by (simp add: iteration_ok_def summary_def)
  next
    case 2
    then show ?thesis using rest by (auto simp: iteration_ok_def summary_def Let_def)
  next
    case 3
    then show ?thesis using rest by (auto simp: iteration_ok_def runs_on_def Let_def)
  qed
qed

text \<open>The gate calls leave the steps alone.\<close>

definition keeps_steps :: "KernelStep list \<Rightarrow> OwnedRunSummary + loop_state \<Rightarrow> bool" where
  "keeps_steps steps r = (case r of Inl stop \<Rightarrow> os_kernel_steps stop = steps \<and> os_status stop \<noteq> ''max_steps''
     | Inr s \<Rightarrow> ls_steps s = steps)"

lemma keeps_simps [simp]: "ls_steps (add_surface x s) = ls_steps s" "keeps_steps steps (Inr s) \<longleftrightarrow> ls_steps s = steps"
  "status \<noteq> ''max_steps'' \<Longrightarrow> keeps_steps steps (Inl (summary i status reason s)) \<longleftrightarrow> ls_steps s = steps"
  by (simp_all add: add_surface_def keeps_steps_def summary_def)

lemma review_gate_keeps: "review_gate k i ref rb s Es w = (Inr q, v) \<Longrightarrow> keeps_steps (ls_steps s) q"
  unfolding review_gate_def by (auto simp: bindP_Inr Let_def split: option.splits if_splits)

lemma readback_gate_keeps: "readback_gate k i g now ref s Es w = (Inr q, v) \<Longrightarrow> keeps_steps (ls_steps s) q"
  unfolding readback_gate_def by (auto simp: bindP_Inr Let_def split: if_splits dest: review_gate_keeps)

lemma publish_gate_keeps: "publish_gate k i g now ref s Es w = (Inr p, v) \<Longrightarrow>
    keeps_steps (ls_steps s) (case p of Inl stop \<Rightarrow> Inl stop | Inr (r, s') \<Rightarrow> Inr s')"
  unfolding publish_gate_def by (auto simp: bindP_Inr Let_def split: if_splits)

lemma ingest_gate_keeps: "ingest_gate k i g now ref s Es w = (Inr q, v) \<Longrightarrow> keeps_steps (ls_steps s) q"
  unfolding ingest_gate_def by (auto simp: bindP_Inr Let_def split: option.splits if_splits)

lemma waiting_iteration_keeps:
  assumes "waiting_iteration k i g now run s Es w = (Inr r, v)"
  shows "keeps_steps (ls_steps s) r"
proof -
  obtain found p w1 w2 where p: "publish_gate k i g now found s Es w1 = (Inr p, w2)"
    and rest: "(case p of Inl stop \<Rightarrow> ret (Inl stop)
     | Inr (ref, s1) \<Rightarrow>
         bindP (case ref of None \<Rightarrow> ret (Inr s1)
            | Some r \<Rightarrow> if go_publish_human_gate g then readback_gate k i g now r s1 else ret (Inr s1)) (\<lambda>q.
         case q of Inl stop \<Rightarrow> ret (Inl stop) | Inr s2 \<Rightarrow> ingest_gate k i g now ref s2)) Es w2 = (Inr r, v)"
    using assms unfolding waiting_iteration_def by (auto simp: bindP_Inr)
  note kp = publish_gate_keeps[OF p]
  show ?thesis
  proof (cases p)
    case (Inl stop)
    then show ?thesis using rest kp by simp
  next
    case (Inr x)
    obtain ref s1 where x: "x = (ref, s1)" by (cases x)
    obtain q w3 where q: "(case ref of None \<Rightarrow> ret (Inr s1)
            | Some r \<Rightarrow> if go_publish_human_gate g then readback_gate k i g now r s1 else ret (Inr s1)) Es w2 = (Inr q, w3)"
      and rest2: "(case q of Inl stop \<Rightarrow> ret (Inl stop) | Inr s2 \<Rightarrow> ingest_gate k i g now ref s2) Es w3 = (Inr r, v)"
      using rest Inr x by (auto simp: bindP_Inr)
    have s1: "ls_steps s1 = ls_steps s" using kp Inr x by simp
    have "keeps_steps (ls_steps s1) q" using q by (auto split: option.splits if_splits dest: readback_gate_keeps)
    then show ?thesis using rest2 s1
      by (cases q) (auto simp: keeps_steps_def[of _ "Inl _"] dest: ingest_gate_keeps)
  qed
qed

lemma waiting_iteration_ok: "waiting_iteration k i g now run s Es w = (Inr r, v) \<Longrightarrow> iteration_ok (ls_steps s) r"
  using waiting_iteration_keeps[of k i g now run s Es w r v] by (auto simp: iteration_ok_def keeps_steps_def split: sum.splits)

lemma owned_iteration_ok: "owned_iteration k i g now s Es w = (Inr r, v) \<Longrightarrow> iteration_ok (ls_steps s) r"
  unfolding owned_iteration_def by (auto simp: bindP_Inr intro: working_iteration_ok waiting_iteration_ok split: option.splits)

text \<open>What the loop adds to the steps it was entered with.\<close>

definition loop_ok :: "nat \<Rightarrow> KernelStep list \<Rightarrow> OwnedRunSummary \<Rightarrow> bool" where
  "loop_ok n steps out \<longleftrightarrow> (\<exists>new. os_kernel_steps out = steps @ new \<and> length new \<le> n \<and> (\<forall>k \<in> set (butlast new). runs_on k) \<and>
     (new \<noteq> [] \<longrightarrow> runs_on (last new) \<or> os_status out = ''blocked'' \<and> os_stop_reason out = ks_decision (last new)))"

lemma loop_ok_stop: "iteration_ok steps (Inl stop) \<Longrightarrow> loop_ok (Suc n) steps stop"
  by (auto simp: iteration_ok_def loop_ok_def)

lemma loop_ok_more: "iteration_ok steps (Inr s) \<Longrightarrow> loop_ok n (ls_steps s) out \<Longrightarrow> loop_ok (Suc n) steps out"
proof -
  assume it: "iteration_ok steps (Inr s)" and ok: "loop_ok n (ls_steps s) out"
  obtain new where new: "os_kernel_steps out = ls_steps s @ new" "length new \<le> n" "\<forall>k \<in> set (butlast new). runs_on k"
    "new \<noteq> [] \<longrightarrow> runs_on (last new) \<or> os_status out = ''blocked'' \<and> os_stop_reason out = ks_decision (last new)"
    using ok unfolding loop_ok_def by blast
  consider "ls_steps s = steps" | k where "ls_steps s = steps @ [k]" "runs_on k"
    using it by (auto simp: iteration_ok_def)
  then show ?thesis
  proof cases
    case 1
    then show ?thesis unfolding loop_ok_def using new by (intro exI[of _ new]) simp
  next
    case (2 k)
    then show ?thesis unfolding loop_ok_def using new by (intro exI[of _ "k # new"]) auto
  qed
qed

lemma owned_loop_ok: "owned_loop n k i g now s Es w = (Inr out, v) \<Longrightarrow> loop_ok n (ls_steps s) out"
proof (induction n arbitrary: s w)
  case 0
  then show ?case by (auto simp: loop_ok_def summary_def)
next
  case (Suc n)
  obtain r w1 where r: "owned_iteration k i g now s Es w = (Inr r, w1)"
    and rest: "(case r of Inl stop \<Rightarrow> ret stop | Inr s' \<Rightarrow> owned_loop n k i g now s') Es w1 = (Inr out, v)"
    using Suc.prems by (auto simp: bindP_Inr)
  note it = owned_iteration_ok[OF r]
  show ?case
  proof (cases r)
    case (Inl stop)
    then show ?thesis using loop_ok_stop[of "ls_steps s" stop n] it rest by simp
  next
    case (Inr s')
    then show ?thesis using loop_ok_more[of "ls_steps s" s' n out] it rest Suc.IH[of s' w1] by simp
  qed
qed

text \<open>
  C29. The owned loop is bounded and stops at the first step that needs attention: it makes at
  most \<open>max_steps\<close> kernel steps, every step but the last really ran and was neither blocked nor
  failed, and a last step that was makes the summary blocked with that decision as its reason.
\<close>

theorem owned_run_bounded:
  assumes "run_kernel_until_idle k inst max_steps g now Es w = (Inr out, v)"
  shows "int (length (os_kernel_steps out)) \<le> max 0 max_steps \<and> (\<forall>s \<in> set (butlast (os_kernel_steps out)). runs_on s) \<and>
    (os_kernel_steps out \<noteq> [] \<longrightarrow> runs_on (last (os_kernel_steps out)) \<or>
       os_status out = ''blocked'' \<and> os_stop_reason out = ks_decision (last (os_kernel_steps out)))"
proof -
  obtain x w1 where rest: "(case x of
        None \<Rightarrow> ret \<lparr>os_status = ''idle'', os_instance_id = None, os_stop_reason = ''no_work'',
                    os_kernel_steps = [], os_surface_results = []\<rparr>
      | Some i \<Rightarrow> owned_loop (nat max_steps) k i g now
                    \<lparr>ls_steps = [], ls_surfaces = [], ls_human_ref = go_human_ref g\<rparr>) Es w1 = (Inr out, v)"
    using assms unfolding run_kernel_until_idle_def by (auto simp: bindP_Inr Let_def)
  show ?thesis
  proof (cases x)
    case None
    then show ?thesis using rest by auto
  next
    case (Some i)
    then have "loop_ok (nat max_steps) [] out"
      using rest owned_loop_ok[of "nat max_steps" k i g now _ Es w1 out v] by fastforce
    then show ?thesis by (auto simp: loop_ok_def)
  qed
qed

text \<open>A facade whose step always succeeds on the demo run.\<close>

definition busy_facade :: "unit facade" where
  "busy_facade = \<lparr>fc_workflow = demo_workflow,
     fc_run_once = (\<lambda>i now. ret \<lparr>ks_stage_run = Some \<lparr>run_id = ''r'', run_instance_id = i, run_stage_id = ''s'', run_status = SR_SUCCEEDED,
        run_attempt = 1, run_adapter_id = None, run_actor_ref = None, run_lease_token = None, run_lease_seconds = None,
        run_lease_source = None, run_lease_source_ref = None, run_receipt_id = None, run_failure_class = None,
        run_retry_after_at = None, run_idempotency_key = None\<rparr>, ks_decision = ''succeeded'', ks_adapter_result = None,
        ks_receipt_id = None, ks_failure_summary = None\<rparr>),
     fc_publish = (\<lambda>_ _ _. raise (ValueError [])), fc_readback = (\<lambda>_ _ _ _. raise (ValueError [])),
     fc_ingest = (\<lambda>_ _ _ _ _. raise (ValueError [])), fc_reviewer = None\<rparr>"

definition no_options :: gate_options where
  "no_options = \<lparr>go_publish_human_gate = False, go_ingest_human_decision = False, go_surface_adapter_ref = None,
     go_allowed_decisions = None, go_evidence_refs = None, go_title = None, go_human_ask = None, go_human_ref = None,
     go_test_only = True, go_non_live = True\<rparr>"

lemma owned_run_bounded_witness:
  "\<exists>out v. run_kernel_until_idle busy_facade (Some ''i'') 2 no_options TsNone (\<lambda>_. demo_env) demo_world = (Inr out, v) \<and>
     length (os_kernel_steps out) = 2 \<and> runs_on (last (os_kernel_steps out))"
proof -
  have "\<exists>out v. run_kernel_until_idle busy_facade (Some ''i'') 2 no_options TsNone (\<lambda>_. demo_env) demo_world = (Inr out, v) \<and>
      length (os_kernel_steps out) = 2 \<and> os_status out = ''max_steps''"
    by (simp add: run_kernel_until_idle_def busy_facade_def no_options_def str_or_def numeral_2_eq_2 owned_iteration_def
        find_waiting_human_stage_run_def fetchlast_def working_iteration_def bindP_def summary_def demo_world_def ledger_eval Let_def)
  then obtain out v where o: "run_kernel_until_idle busy_facade (Some ''i'') 2 no_options TsNone (\<lambda>_. demo_env) demo_world = (Inr out, v)"
    "length (os_kernel_steps out) = 2" "os_status out = ''max_steps''" by blast
  then have "os_kernel_steps out \<noteq> []" by auto
  then show ?thesis using owned_run_bounded[OF o(1)] o by auto
qed

end
