(* ===== verification/Kernel_Routing.thy ===== *)
theory Kernel_Routing
  imports Transition_Guards Runner_Safety Prompts
begin

text \<open>
  Where a finished stage leads (\<^verbatim>\<open>kernel.py\<close>): starting an instance, queueing a stage, and following
  the one transition of an outcome, if its guard allows it, to the next stage or to a terminal
  status.  Each ledger call is a transaction of its own, in the source's order.
\<close>

section \<open>The kernel object\<close>

type_synonym transition_index = "((string \<times> string) \<times> Transition) list"

record kernel =
  k_workflow :: WorkflowDef
  k_owner :: string
  k_registry :: registry
  k_prompts :: "prompt_registry option"
  k_default_lease_seconds :: int
  k_worker_platform :: "string option"
  k_transitions :: transition_index

definition index_transition :: "Transition \<Rightarrow> transition_index \<Rightarrow> kernel_error + transition_index" where
  "index_transition t idx = (let key = (from_stage t, tr_on t) in
     if map_of idx key \<noteq> None
     then Inl (ValueError (''duplicate transition for stage '' @ repr_str (from_stage t) @ '' outcome '' @ repr_str (tr_on t)))
     else Inr (idx @ [(key, t)]))"

definition index_transitions :: "Transition list \<Rightarrow> kernel_error + transition_index" where
  "index_transitions ts = foldE index_transition ts []"

definition new_kernel :: "WorkflowDef \<Rightarrow> string \<Rightarrow> registry \<Rightarrow> prompt_registry option \<Rightarrow> int \<Rightarrow> string option \<Rightarrow> kernel_error + kernel" where
  "new_kernel w owner reg prompts secs platform = bindE (index_transitions (wd_transitions w)) (\<lambda>idx.
     Inr \<lparr>k_workflow = w, k_owner = owner, k_registry = reg, k_prompts = prompts, k_default_lease_seconds = secs,
       k_worker_platform = platform, k_transitions = idx\<rparr>)"

section \<open>Queueing\<close>

definition queued_input_hash :: "StageDef \<Rightarrow> mapping_items \<Rightarrow> int \<Rightarrow> string" where
  "queued_input_hash s inputs attempt = digest_data (PDict [(''stage'', stage_plain s), (''inputs'', PDict inputs), (''attempt'', PInt attempt)])"

definition queued_run :: "StageDef \<Rightarrow> string \<Rightarrow> int \<Rightarrow> StageRun" where
  "queued_run s i attempt = \<lparr>run_id = attempt_id i (sd_id s) attempt, run_instance_id = i, run_stage_id = sd_id s,
     run_status = SR_QUEUED, run_attempt = attempt, run_adapter_id = Some (sd_adapter s), run_actor_ref = actor_ref s,
     run_lease_token = None, run_lease_seconds = None, run_lease_source = None, run_lease_source_ref = None,
     run_receipt_id = None, run_failure_class = None, run_retry_after_at = None, run_idempotency_key = None\<rparr>"

definition queue_stage :: "StageDef \<Rightarrow> string \<Rightarrow> int \<Rightarrow> mapping_items \<Rightarrow> string \<Rightarrow> ('m, unit) prog" where
  "queue_stage s i attempt inputs created_at =
     call (\<lambda>E. insert_stage_run E (queued_run s i attempt) (queued_input_hash s inputs attempt)
       (Some (attempt_id i (sd_id s) attempt)) None (TsText created_at))"

text \<open>\<open>iso_timestamp(now)\<close> taken by the kernel itself.\<close>

definition stamp :: "ts_arg \<Rightarrow> ('m, string) prog" where
  "stamp now = ask (\<lambda>E. iso_timestamp (clock E 0) now)"

definition started_payload :: "kernel \<Rightarrow> StageDef \<Rightarrow> string \<Rightarrow> mapping_items" where
  "started_payload k first input_hash = [(''workflow_id'', PStr (wd_id (k_workflow k))),
     (''workflow_version'', PStr (wd_version (k_workflow k))), (''first_stage_id'', PStr (sd_id first)),
     (''input_hash'', PStr input_hash), (''workflow_definition_hash'', PStr (definition_hash (k_workflow k)))]"

definition start_input_hash :: "WorkflowDef \<Rightarrow> mapping_items \<Rightarrow> string" where
  "start_input_hash w inputs = digest_data (PDict [(''workflow_id'', PStr (wd_id w)), (''workflow_version'', PStr (wd_version w)),
     (''inputs'', PDict inputs)])"

definition is_integrity_error :: "kernel_error \<Rightarrow> bool" where
  "is_integrity_error e = (case e of IntegrityError s \<Rightarrow> True | _ \<Rightarrow> False)"

text \<open>\<open>WorkflowKernel.start\<close>; an existing instance is reported as a ValueError.\<close>

definition start :: "kernel \<Rightarrow> string \<Rightarrow> mapping_items \<Rightarrow> string option \<Rightarrow> ts_arg \<Rightarrow> ('m, WorkflowInstance) prog" where
  "start k i inputs idempotency_key now = (case wd_stages (k_workflow k) of
     [] \<Rightarrow> raise (ValueError ''workflow has no stages'')
   | first # _ \<Rightarrow>
       let w = k_workflow k;
           input_hash = start_input_hash w inputs;
           inst = \<lparr>inst_id = i, inst_workflow_def_id = wd_id w, inst_workflow_version = wd_version w,
             inst_status = WF_RUNNING, inst_input_hash = input_hash, inst_current_stage_id = Some (sd_id first),
             inst_idempotency_key = idempotency_key, inst_recovery_epoch = 0\<rparr>
       in bindP (stamp now) (\<lambda>created_at.
          bindP (tried (call (\<lambda>E. insert_workflow_instance E inst (TsText created_at) (PDict inputs)
             (Some (workflow_to_canonical_json w)) (Some (definition_hash w)) None))) (\<lambda>inserted.
          case inserted of
            Inl e \<Rightarrow> raise (if is_integrity_error e then ValueError (''workflow instance already exists: '' @ i) else e)
          | Inr _ \<Rightarrow>
              bindP (queue_stage first i 1 inputs created_at) (\<lambda>_.
              bindP (call (\<lambda>E. append_event E i None ''workflow_started'' (k_owner k)
                 (started_payload k first input_hash) (TsText created_at))) (\<lambda>_.
              ret inst)))))"

section \<open>Following a transition\<close>

record TransitionResult =
  tx_decision :: string
  tx_queued_stage_id :: "string option"
  tx_terminal_status :: "WorkflowStatus option"
  tx_failure_summary :: "string option"

definition blocked_transition :: "string \<Rightarrow> TransitionResult" where
  "blocked_transition reason = \<lparr>tx_decision = ''blocked'', tx_queued_stage_id = None, tx_terminal_status = None,
     tx_failure_summary = Some reason\<rparr>"

text \<open>The repeated \<open>update_workflow_instance(..., status=BLOCKED, event_type="workflow_blocked")\<close>.\<close>

definition block_workflow :: "kernel \<Rightarrow> string \<Rightarrow> string \<Rightarrow> mapping_items \<Rightarrow> ts_arg \<Rightarrow> ('m, unit) prog" where
  "block_workflow k i stage_id payload now =
     call (\<lambda>E. update_workflow_instance E i WF_BLOCKED (Some stage_id) now (k_owner k) ''workflow_blocked'' payload)"

definition guard_receipt :: "kernel \<Rightarrow> StageRun \<Rightarrow> StageDef \<Rightarrow> Transition \<Rightarrow> GuardDecision \<Rightarrow> string \<Rightarrow> Receipt" where
  "guard_receipt k run s t g created_at =
    (let guard_name = the_or [] (gd_guard g) in
     \<lparr>rcpt_id = ''receipt:kernel:'' @ run_id run @ '':transition_guard:'' @ (if guard_name = [] then ''none'' else guard_name),
      rcpt_kind = ''kernel.transition_guard'', rcpt_workflow_id = wd_id (k_workflow k), rcpt_instance_id = run_instance_id run,
      rcpt_stage_id = sd_id s, rcpt_stage_run_id = run_id run, rcpt_status = ''blocked'', rcpt_summary = gd_reason g,
      rcpt_created_at = created_at, rcpt_artifact_refs = [], rcpt_context_packet_ref = None, rcpt_prompt_provenance = [],
      rcpt_runtime_provenance = [(''actor'', PStr (k_owner k)), (''checks_run'', str_list [''transition_guard_evaluated'']),
        (''guard'', PStr guard_name), (''guard_details'', PDict (gd_details g)), (''transition'', transition_plain t)],
      rcpt_policy_snapshot = [], rcpt_residual_risk = Some (gd_reason g),
      rcpt_next_action = Some ''Satisfy the named transition guard before retrying the transition.''\<rparr>)"

definition block_transition_guard :: "kernel \<Rightarrow> StageRun \<Rightarrow> StageDef \<Rightarrow> Transition \<Rightarrow> GuardDecision \<Rightarrow> string \<Rightarrow> ts_arg \<Rightarrow>
    ('m, TransitionResult) prog" where
  "block_transition_guard k run s t g outcome now =
     bindP (stamp now) (\<lambda>created_at.
     let receipt = guard_receipt k run s t g created_at; guard_name = the_or [] (gd_guard g) in
     bindP (call (\<lambda>E. record_receipt E receipt)) (\<lambda>_.
     bindP (call (\<lambda>E. append_event E (run_instance_id run) (Some (run_id run)) ''transition_guard_blocked'' (k_owner k)
        [(''from_stage'', PStr (from_stage t)), (''outcome'', PStr (tr_on t)), (''guard'', PStr guard_name),
         (''reason'', PStr (gd_reason g)), (''receipt_id'', PStr (rcpt_id receipt))] (TsText created_at))) (\<lambda>_.
     bindP (block_workflow k (run_instance_id run) (sd_id s)
        [(''stage_id'', PStr (sd_id s)), (''stage_run_id'', PStr (run_id run)), (''outcome'', PStr outcome),
         (''reason'', PStr ''transition_guard_failed''), (''guard'', PStr guard_name), (''guard_reason'', PStr (gd_reason g)),
         (''receipt_id'', PStr (rcpt_id receipt))] now) (\<lambda>_.
     ret (blocked_transition (gd_reason g))))))"

definition transitioned_payload :: "Transition \<Rightarrow> StageDef \<Rightarrow> string \<Rightarrow> GuardDecision \<Rightarrow> mapping_items" where
  "transitioned_payload t next queued_id g =
     [(''from_stage'', PStr (from_stage t)), (''outcome'', PStr (tr_on t)), (''to_stage'', PStr (sd_id next)),
      (''queued_stage_run_id'', PStr queued_id)] @
     (if str_or (gd_guard g) [] = [] then []
      else [(''guard'', opt_str (gd_guard g)), (''guard_details'', PDict (gd_details g)),
            (''guard_budget'', dict_get_or (gd_details g) ''budget'' (PDict []))])"

text \<open>The allowed transition, followed.\<close>

definition follow_transition :: "kernel \<Rightarrow> StageRun \<Rightarrow> StageDef \<Rightarrow> Transition \<Rightarrow> GuardDecision \<Rightarrow> string \<Rightarrow> ts_arg \<Rightarrow>
    ('m, TransitionResult) prog" where
  "follow_transition k run s t g outcome now = (case tr_terminal t of
     Some terminal \<Rightarrow>
       let status = workflow_status_for_terminal terminal in
       bindP (call (\<lambda>E. update_workflow_instance E (run_instance_id run) status None now (k_owner k) ''workflow_terminal''
          [(''from_stage'', PStr (from_stage t)), (''outcome'', PStr (tr_on t)), (''terminal'', PStr terminal)])) (\<lambda>_.
       ret \<lparr>tx_decision = ''terminal'', tx_queued_stage_id = None, tx_terminal_status = Some status, tx_failure_summary = None\<rparr>)
   | None \<Rightarrow> (case next_stage_for_transition (k_workflow k) t of
       None \<Rightarrow>
         bindP (block_workflow k (run_instance_id run) (sd_id s)
            [(''stage_id'', PStr (sd_id s)), (''stage_run_id'', PStr (run_id run)), (''outcome'', PStr outcome),
             (''reason'', PStr ''invalid_transition'')] now) (\<lambda>_.
         ret (blocked_transition (''Transition from '' @ repr_str (from_stage t) @ '' on '' @ repr_str (tr_on t) @
            '' does not point to a known stage.'')))
     | Some next \<Rightarrow>
         bindP (stamp now) (\<lambda>created_at.
         bindP (query (\<lambda>L. Inr (next_attempt L (run_instance_id run) (sd_id next)))) (\<lambda>attempt.
         bindP (queue_stage next (run_instance_id run) attempt
            [(''from_stage_run_id'', PStr (run_id run)), (''transition_outcome'', PStr outcome)] created_at) (\<lambda>_.
         bindP (call (\<lambda>E. update_workflow_instance E (run_instance_id run) WF_RUNNING (Some (sd_id next)) now (k_owner k)
            ''workflow_transitioned'' (transitioned_payload t next (attempt_id (run_instance_id run) (sd_id next) attempt) g))) (\<lambda>_.
         ret \<lparr>tx_decision = ''queued'', tx_queued_stage_id = Some (sd_id next), tx_terminal_status = None,
              tx_failure_summary = None\<rparr>))))))"

definition find_transition :: "kernel \<Rightarrow> StageDef \<Rightarrow> string \<Rightarrow> Transition option" where
  "find_transition k s outcome = map_of (k_transitions k) (sd_id s, outcome)"

definition advance_after_outcome :: "kernel \<Rightarrow> StageRun \<Rightarrow> StageDef \<Rightarrow> string \<Rightarrow> AdapterResult option \<Rightarrow> ts_arg \<Rightarrow>
    ('m, TransitionResult) prog" where
  "advance_after_outcome k run s outcome result now = (case find_transition k s outcome of
     None \<Rightarrow>
       bindP (block_workflow k (run_instance_id run) (sd_id s)
          [(''stage_id'', PStr (sd_id s)), (''stage_run_id'', PStr (run_id run)), (''outcome'', PStr outcome),
           (''reason'', PStr ''missing_transition'')] now) (\<lambda>_.
       ret (blocked_transition (''No transition configured for stage '' @ repr_str (sd_id s) @ '' outcome '' @ repr_str outcome @ ''.'')))
   | Some t \<Rightarrow>
       bindP (query (evaluate_transition_guard (k_workflow k) run s t result)) (\<lambda>g.
       if gd_allowed g then follow_transition k run s t g outcome now
       else block_transition_guard k run s t g outcome now))"

text \<open>\<open>_resolve_lease_for_run\<close> and the claim predicate.\<close>

definition unknown_stage :: "StageRun \<Rightarrow> StageDef" where
  "unknown_stage run = \<lparr>sd_id = run_stage_id run, sd_type = ST_BLOCKED, sd_adapter = str_or (run_adapter_id run) ''unknown'',
     sd_outcomes = [''blocked''], sd_actors = (if str_or (run_actor_ref run) [] = [] then [] else [(''actor'', opt_str (run_actor_ref run))]),
     sd_inputs = [], sd_outputs = [], sd_prompt_refs = [], sd_no_prompt_reason = None, sd_policy = [], sd_budget = [],
     sd_retry = [], sd_lease = [], sd_timeout_seconds = None, sd_surface = []\<rparr>"

definition resolve_lease_for_run :: "kernel \<Rightarrow> int option \<Rightarrow> StageRun \<Rightarrow> kernel_error + ResolvedLeasePolicy" where
  "resolve_lease_for_run k explicit run = resolve_stage_lease_policy (k_workflow k)
     (the_or (unknown_stage run) (stage_by_id (k_workflow k) (run_stage_id run))) (k_default_lease_seconds k) explicit"

definition stage_claim_is_platform_eligible :: "kernel \<Rightarrow> StageRun \<Rightarrow> bool" where
  "stage_claim_is_platform_eligible k run = (case stage_by_id (k_workflow k) (run_stage_id run) of
     None \<Rightarrow> False
   | Some s \<Rightarrow> let required = dict_get (sd_policy s) ''required_platform'' in
       none_or_empty required \<or> opt_str (k_worker_platform k) = required)"

section \<open>Programs that act through the ledger\<close>

lemma acts_queue_stage [acts_intro]: "acts u (queue_stage s i n inputs c)"
  unfolding queue_stage_def by (intro acts_intro)

lemma acts_stamp [acts_intro]: "acts u (stamp now)"
  unfolding stamp_def by (intro acts_intro)

lemma acts_start [acts_intro]: "acts u (start k i inputs idem now)"
  unfolding start_def Let_def by (cases "wd_stages (k_workflow k)") (auto intro!: acts_intro)

lemma acts_block_workflow [acts_intro]: "acts u (block_workflow k i s p now)"
  unfolding block_workflow_def by (intro acts_intro) simp

lemma acts_block_transition_guard [acts_intro]: "acts u (block_transition_guard k run s t g outcome now)"
  unfolding block_transition_guard_def Let_def by (intro acts_intro) simp

lemma acts_follow_transition [acts_intro]: "acts u (follow_transition k run s t g outcome now)"
  unfolding follow_transition_def Let_def by (intro acts_intro) simp_all

lemma acts_advance [acts_intro]: "acts u (advance_after_outcome k run s outcome result now)"
  unfolding advance_after_outcome_def by (intro acts_intro)

end
