(* ===== verification/Adapter_Receipts.thy ===== *)
theory Adapter_Receipts
  imports Stage_Inputs Kernel_Routing
begin

text \<open>
  Receipts of adapter work: \<^verbatim>\<open>make_adapter_receipt\<close> (\<^verbatim>\<open>adapters.py\<close>), the kernel's receipt with usage,
  lease and prompt provenance, the receipts of a blocked stage, and the lane adapters' results
  (\<^verbatim>\<open>_helpers.py\<close>, \<^verbatim>\<open>kernel.py\<close>).
\<close>

section \<open>Plain data\<close>

definition policy_gate_items :: "PolicyGate \<Rightarrow> mapping_items" where
  "policy_gate_items g =
     [(''gate_id'', PStr (pg_gate_id g)), (''workflow_id'', PStr (pg_workflow_id g)), (''instance_id'', PStr (pg_instance_id g)),
      (''stage_id'', PStr (pg_stage_id g)), (''requested_action'', PStr (pg_requested_action g)),
      (''action_fingerprint'', PStr (pg_action_fingerprint g)), (''risk_classes'', str_list (map risk_value (pg_risk_classes g))),
      (''decision'', PStr (pg_decision g)), (''evidence_refs'', str_list (pg_evidence_refs g)),
      (''approval_receipt_ref'', opt_str (pg_approval_receipt_ref g)), (''decision_reason'', opt_str (pg_decision_reason g))]"

definition policy_snapshot :: "PolicyGate \<Rightarrow> EffectivePolicy \<Rightarrow> mapping_items" where
  "policy_snapshot g p = policy_gate_items g @ [(''effective_policy'', effective_policy_plain p)]"

definition adapter_result_plain :: "AdapterResult \<Rightarrow> pyval" where
  "adapter_result_plain r = PDict
     [(''invocation_id'', PStr (res_invocation_id r)), (''status'', PStr (res_status r)), (''outputs'', PDict (res_outputs r)),
      (''artifact_refs'', PList (map artifact_plain (res_artifact_refs r))), (''receipt_ref'', opt_str (res_receipt_ref r)),
      (''residual_risk'', opt_str (res_residual_risk r)), (''next_hint'', opt_str (res_next_hint r))]"

definition side_effect_scope :: "AdapterRegistration \<Rightarrow> StageDef \<Rightarrow> string \<Rightarrow> PolicyGate \<Rightarrow> mapping_items" where
  "side_effect_scope reg s operation g =
     [(''workflow_adapter_ref'', PStr (sd_adapter s)), (''adapter_id'', PStr (rg_adapter_id reg)),
      (''adapter_family'', PStr (family_value (rg_family reg))), (''operation'', PStr operation), (''stage_id'', PStr (sd_id s)),
      (''stage_type'', PStr (stage_type_value (sd_type s))), (''side_effects'', str_list (map risk_value (rg_side_effects reg))),
      (''replay_safe'', PBool (rg_replay_safe reg)), (''requires_idempotency_key'', PBool (rg_requires_idempotency_key reg)),
      (''policy_decision'', PStr (pg_decision g)), (''policy_reason'', opt_str (pg_decision_reason g))]"

section \<open>Receipts of an invocation\<close>

text \<open>The keyword arguments of \<open>make_adapter_receipt\<close> beyond the invocation.\<close>

record receipt_arguments =
  ra_status :: string
  ra_summary :: string
  ra_created_at :: string
  ra_stage_id :: "string option"
  ra_artifact_refs :: "ArtifactRef list"
  ra_outputs :: mapping_items
  ra_checks_run :: "string list"
  ra_policy_snapshot :: mapping_items
  ra_residual_risk :: "string option"
  ra_next_action :: "string option"

definition make_adapter_receipt :: "AdapterInvocation \<Rightarrow> receipt_arguments \<Rightarrow> Receipt" where
  "make_adapter_receipt i a =
     \<lparr>rcpt_id = ''receipt:'' @ inv_id i @ '':'' @ ra_status a,
      rcpt_kind = ''adapter.'' @ family_value (inv_family i) @ ''.'' @ inv_operation i,
      rcpt_workflow_id = inv_workflow_id i, rcpt_instance_id = inv_instance_id i,
      rcpt_stage_id = str_or (ra_stage_id a) (inv_stage_run_id i), rcpt_stage_run_id = inv_stage_run_id i,
      rcpt_status = ra_status a, rcpt_summary = ra_summary a, rcpt_created_at = ra_created_at a,
      rcpt_artifact_refs = ra_artifact_refs a, rcpt_context_packet_ref = inv_context_packet_ref i, rcpt_prompt_provenance = [],
      rcpt_runtime_provenance = [(''adapter_family'', PStr (family_value (inv_family i))), (''adapter_id'', PStr (inv_adapter_id i)),
         (''operation'', PStr (inv_operation i)), (''invocation_id'', PStr (inv_id i)), (''input_ref'', opt_str (inv_input_ref i)),
         (''idempotency_key'', opt_str (inv_idempotency_key i)), (''checks_run'', str_list (ra_checks_run a)),
         (''outputs'', PDict (ra_outputs a))],
      rcpt_policy_snapshot = ra_policy_snapshot a, rcpt_residual_risk = ra_residual_risk a, rcpt_next_action = ra_next_action a\<rparr>"

definition usage_keys :: "string list" where
  "usage_keys = [''input_tokens'', ''output_tokens'', ''total_tokens'', ''cached_input_tokens'', ''reasoning_tokens'',
     ''wall_time_ms'', ''cold_start'', ''session_id'', ''model'', ''source'']"

definition usage_from_outputs :: "mapping_items \<Rightarrow> mapping_items" where
  "usage_from_outputs outputs = (case mapping_of (dict_get outputs ''usage'') of None \<Rightarrow> []
     | Some m \<Rightarrow> filter (\<lambda>(k, _). k \<in> set usage_keys) m)"

definition make_kernel_adapter_receipt :: "AdapterInvocation \<Rightarrow> RenderedContext option \<Rightarrow> ResolvedLeasePolicy option \<Rightarrow>
    receipt_arguments \<Rightarrow> Receipt" where
  "make_kernel_adapter_receipt i rendered lease a =
    (let receipt = make_adapter_receipt i a;
         usage = usage_from_outputs (ra_outputs a);
         r1 = (if usage = [] then receipt
               else receipt\<lparr>rcpt_runtime_provenance := dict_set (rcpt_runtime_provenance receipt) ''usage'' (PDict usage)\<rparr>);
         r2 = (case lease of None \<Rightarrow> r1
               | Some p \<Rightarrow> r1\<lparr>rcpt_runtime_provenance := dict_set (rcpt_runtime_provenance r1) ''lease'' (lease_plain p)\<rparr>)
     in case rendered of None \<Rightarrow> r2
        | Some x \<Rightarrow> r2\<lparr>rcpt_context_packet_ref := Some (cp_context_id (rx_packet x)),
             rcpt_prompt_provenance := build_prompt_provenance x\<rparr>)"

text \<open>\<open>**({"lease": ...} if lease_policy else {})\<close>: the policy object is always truthy.\<close>

definition lease_items :: "StageRun \<Rightarrow> mapping_items" where
  "lease_items run = (case resolved_lease_policy_from_stage_run run of None \<Rightarrow> [] | Some p \<Rightarrow> [(''lease'', lease_plain p)])"

definition policy_preflight_receipt :: "kernel \<Rightarrow> StageDef \<Rightarrow> StageRun \<Rightarrow> AdapterRegistration \<Rightarrow> string \<Rightarrow> string \<Rightarrow> PolicyGate \<Rightarrow>
    EffectivePolicy \<Rightarrow> string \<Rightarrow> Receipt" where
  "policy_preflight_receipt k s run reg operation created_at g policy reason =
     \<lparr>rcpt_id = ''receipt:kernel:'' @ run_id run @ '':policy_preflight_blocked'', rcpt_kind = ''kernel.policy_preflight'',
      rcpt_workflow_id = wd_id (k_workflow k), rcpt_instance_id = run_instance_id run, rcpt_stage_id = sd_id s,
      rcpt_stage_run_id = run_id run, rcpt_status = ''blocked'', rcpt_summary = reason, rcpt_created_at = created_at,
      rcpt_artifact_refs = [], rcpt_context_packet_ref = None, rcpt_prompt_provenance = [],
      rcpt_runtime_provenance = [(''actor'', PStr (k_owner k)), (''adapter_id'', PStr (rg_adapter_id reg)),
         (''adapter_family'', PStr (family_value (rg_family reg))), (''operation'', PStr operation),
         (''checks_run'', str_list [''adapter_registered'', ''effective_policy_compiled'', ''policy_preflight''])] @ lease_items run,
      rcpt_policy_snapshot = policy_snapshot g policy, rcpt_residual_risk = Some reason,
      rcpt_next_action = Some ''Route through an explicit human approval gate or narrow the declared policy.''\<rparr>"

definition prompt_failure_receipt :: "kernel \<Rightarrow> StageDef \<Rightarrow> StageRun \<Rightarrow> string \<Rightarrow> string \<Rightarrow> PolicyGate \<Rightarrow> FailureClass \<Rightarrow> Receipt" where
  "prompt_failure_receipt k s run reason created_at g fc =
     \<lparr>rcpt_id = ''receipt:kernel:'' @ run_id run @ '':prompt_context_blocked'', rcpt_kind = ''kernel.prompt_context'',
      rcpt_workflow_id = wd_id (k_workflow k), rcpt_instance_id = run_instance_id run, rcpt_stage_id = sd_id s,
      rcpt_stage_run_id = run_id run, rcpt_status = ''blocked'', rcpt_summary = reason, rcpt_created_at = created_at,
      rcpt_artifact_refs = [], rcpt_context_packet_ref = None,
      rcpt_prompt_provenance = [(''error'', PDict [(''class'', PStr (failure_value fc)), (''summary'', PStr reason)]),
         (''refs'', PList (map prompt_ref_plain (sd_prompt_refs s)))],
      rcpt_runtime_provenance = [(''actor'', PStr (k_owner k)), (''checks_run'', str_list [''prompt_registry_resolution_failed''])] @
         lease_items run,
      rcpt_policy_snapshot = policy_gate_items g, rcpt_residual_risk = None,
      rcpt_next_action = Some ''Fix prompt registry configuration before retrying the stage.''\<rparr>"

section \<open>Artifacts of a stage input\<close>

text \<open>
  A raw reference needs its four identifying keys.  The size and the creator of a well-typed
  reference are an integer and a text, or absent.
\<close>

definition opt_int_of :: "pyval \<Rightarrow> int option" where
  "opt_int_of v = (case v of PInt n \<Rightarrow> Some n | _ \<Rightarrow> None)"

definition opt_str_of :: "pyval \<Rightarrow> string option" where
  "opt_str_of v = (case v of PStr s \<Rightarrow> Some s | _ \<Rightarrow> None)"

definition artifact_from_raw :: "pyval \<Rightarrow> ArtifactRef option" where
  "artifact_from_raw raw = (case mapping_of raw of None \<Rightarrow> None
     | Some m \<Rightarrow> if list_all (has_key m) [''artifact_id'', ''role'', ''uri'', ''content_hash'']
         then Some \<lparr>af_id = py_str (dict_get m ''artifact_id''), af_role = py_str (dict_get m ''role''),
           af_uri = py_str (dict_get m ''uri''), af_content_hash = py_str (dict_get m ''content_hash''),
           af_mime_type = py_str (dict_get_or m ''mime_type'' (PStr ''text/plain'')),
           af_size_bytes = opt_int_of (dict_get m ''size_bytes''), af_created_by = opt_str_of (dict_get m ''created_by''),
           af_visibility = py_str (dict_get_or m ''visibility'' (PStr ''internal''))\<rparr>
         else None)"

definition artifact_refs_from_stage_input :: "mapping_items \<Rightarrow> ArtifactRef list" where
  "artifact_refs_from_stage_input stage_input = (case dict_get stage_input ''artifact_refs'' of
     PList vs \<Rightarrow> List.map_filter artifact_from_raw vs | _ \<Rightarrow> [])"

section \<open>Surface outputs\<close>

definition surface_ref_from_outputs :: "mapping_items \<Rightarrow> mapping_items option" where
  "surface_ref_from_outputs outputs = mapping_of (dict_get outputs ''surface_ref'')"

definition surface_external_ref :: "mapping_items \<Rightarrow> string option" where
  "surface_external_ref outputs = (case surface_ref_from_outputs outputs of None \<Rightarrow> None
     | Some m \<Rightarrow> map_option py_str (find truthy (map (dict_get m) [''external_id'', ''surface_id'', ''note_path''])))"

definition receipt_outputs :: "Receipt \<Rightarrow> mapping_items" where
  "receipt_outputs c = the_or [] (mapping_of (dict_get_or (rcpt_runtime_provenance c) ''outputs'' (PDict [])))"

definition is_surface_decision_receipt :: "Receipt \<Rightarrow> bool" where
  "is_surface_decision_receipt c \<longleftrightarrow> (let d = dict_get (receipt_outputs c) ''decision'' in d \<noteq> PNone \<and> strip (py_str d) \<noteq> [])"

end
