(* ===== verification/Human_Gates.thy ===== *)
theory Human_Gates
  imports Kernel_Routing Stage_Inputs
begin

text \<open>
  Human gates (\<^verbatim>\<open>kernel.py\<close>, \<^verbatim>\<open>_helpers.py\<close>): the request a gate's authority is bound to, the envelope
  published to the human, the validation of a decision against it, and the ingestion that records
  the decision, closes the waiting run and routes its outcome.
\<close>

section \<open>What a gate offers\<close>

definition human_decision_action :: "StageDef \<Rightarrow> string" where
  "human_decision_action s = (let op = py_or (dict_get (sd_inputs s) ''decision_action'') (dict_get (sd_inputs s) ''operation'') in
     if op \<noteq> PNone then py_str op else ''human_decision'')"

text \<open>\<open>stage.surface.get(key, stage.inputs.get(key))\<close>.\<close>

definition surface_setting :: "StageDef \<Rightarrow> string \<Rightarrow> pyval" where
  "surface_setting s key = dict_get_or (sd_surface s) key (dict_get (sd_inputs s) key)"

definition choice_setting :: "StageDef \<Rightarrow> pyval" where
  "choice_setting s = py_or (dict_get (sd_surface s) ''choice_options'') (py_or (dict_get (sd_inputs s) ''choice_options'')
     (py_or (dict_get (sd_surface s) ''options'') (dict_get (sd_inputs s) ''options'')))"

definition choice_option :: "nat \<Rightarrow> pyval \<Rightarrow> mapping_items" where
  "choice_option index raw = (case mapping_of raw of
     Some m \<Rightarrow>
       let option_id = py_str (py_or (dict_get m ''id'') (py_or (dict_get m ''decision'') (py_or (dict_get m ''value'')
             (py_or (dict_get m ''label'') (PStr (''option_'' @ show_nat index))))));
           normalized = dict_set (sort_key fst m) ''id'' (PStr option_id)
       in if has_key normalized ''label'' then normalized else dict_set normalized ''label'' (PStr option_id)
   | None \<Rightarrow> [(''id'', PStr (py_str raw)), (''label'', PStr (py_str raw))])"

definition number_from :: "nat \<Rightarrow> 'a list \<Rightarrow> (nat \<times> 'a) list" where
  "number_from n xs = zip [n ..< n + length xs] xs"

definition human_gate_choice_options :: "StageDef \<Rightarrow> kernel_error + mapping_items list" where
  "human_gate_choice_options s = (case choice_setting s of
     PNone \<Rightarrow> Inr []
   | PDict m \<Rightarrow> Inr (map (\<lambda>(n, raw). choice_option n raw) (number_from 1
       (map (\<lambda>(k, v). PDict (dict_update [(''id'', PStr k)] (case mapping_of v of Some d \<Rightarrow> d | None \<Rightarrow> [(''label'', v)]))) m)))
   | PStr t \<Rightarrow> Inr [choice_option 1 (PStr t)]
   | PList vs \<Rightarrow> Inr (map (\<lambda>(n, raw). choice_option n raw) (number_from 1 vs))
   | v \<Rightarrow> Inl (TypeError (repr_str (type_name v) @ '' object is not iterable'')))"

definition human_gate_allowed_decisions :: "StageDef \<Rightarrow> kernel_error + string list" where
  "human_gate_allowed_decisions s = (let configured = surface_setting s ''allowed_decisions'' in
     if configured \<noteq> PNone then string_tuple configured
     else bindE (human_gate_choice_options s) (\<lambda>options.
       Inr (if options \<noteq> [] then map (\<lambda>m. py_str (dict_get m ''id'')) options
            else if sd_outcomes s \<noteq> [] then sd_outcomes s
            else [''approved'', ''rejected'', ''revise'', ''park''])))"

definition human_gate_evidence_refs :: "StageDef \<Rightarrow> string list \<Rightarrow> kernel_error + string list" where
  "human_gate_evidence_refs s gate_refs = (let configured = surface_setting s ''evidence_refs'' in
     if configured \<noteq> PNone then string_tuple configured else Inr gate_refs)"

definition human_gate_choice_manifest :: "StageDef \<Rightarrow> kernel_error + mapping_items" where
  "human_gate_choice_manifest s = bindE (human_gate_choice_options s) (\<lambda>options.
     Inr (if options = [] then []
          else [(''schema'', PStr ''human_gate_choice_manifest.v1''), (''stage_id'', PStr (sd_id s)), (''options'', PList (map PDict options))]))"

definition human_gate_action_arguments :: "StageDef \<Rightarrow> kernel_error + mapping_items" where
  "human_gate_action_arguments s = bindE (human_gate_choice_manifest s) (\<lambda>manifest.
     Inr ([(''outcomes'', str_list (sd_outcomes s))] @
       (if manifest = [] then []
        else [(''choice_option_ids'', str_list (map (\<lambda>o'. py_str (dict_get (the_or [] (mapping_of o')) ''id'')) (list_items (dict_get manifest ''options'')))),
              (''choice_manifest_hash'', PStr (digest_data (PDict manifest)))])))"

definition human_ref :: "StageDef \<Rightarrow> string" where
  "human_ref s = (let configured = surface_setting s ''human_ref'' in
     if configured \<noteq> PNone then py_str configured else str_or (actor_ref s) ''human'')"

section \<open>The authority request\<close>

text \<open>An expiry that is neither a text nor absent makes the fingerprint raise.\<close>

definition expiry_arg :: "pyval \<Rightarrow> kernel_error + ts_arg" where
  "expiry_arg v = (case v of PNone \<Rightarrow> Inr TsNone | PStr t \<Rightarrow> Inr (TsText t)
     | _ \<Rightarrow> Inl (AttributeError (repr_str (type_name v) @ '' object has no attribute '' @ repr_str ''strip'')))"

text \<open>The run's pinned context and its instance's epoch (\<open>export_stage_run_audit\<close>; a missing run has neither).\<close>

definition audited_run :: "string \<Rightarrow> ledger \<Rightarrow> (stage_run_row \<times> instance_row) option" where
  "audited_run i L = (case find_run i L of None \<Rightarrow> None
     | Some r \<Rightarrow> map_option (\<lambda>w. (r, w)) (find_instance (sr_instance_id r) L))"

definition bound_artifact_hashes :: "StageRun \<Rightarrow> ledger \<Rightarrow> string list" where
  "bound_artifact_hashes run L = map ar_content_hash (sort_key (\<lambda>a. (ar_content_hash a, ar_id a))
     (filter (\<lambda>a. ar_instance_id a = run_instance_id run \<and> (case ar_stage_run_id a of None \<Rightarrow> False | Some r \<Rightarrow> r \<noteq> run_id run))
       (artifact_refs L)))"

definition human_gate_request :: "kernel \<Rightarrow> StageDef \<Rightarrow> StageRun \<Rightarrow> ledger \<Rightarrow> kernel_error + ActionRequest" where
  "human_gate_request k s run L =
     bindE (effective_policy_for_stage (k_workflow k) s None True) (\<lambda>policy.
     bindE (human_gate_action_arguments s) (\<lambda>arguments.
     bindE (human_gate_evidence_refs s []) (\<lambda>evidence.
     bindE (human_gate_allowed_decisions s) (\<lambda>allowed.
     bindE (expiry_arg (py_or (dict_get (sd_surface s) ''expires_at'') (dict_get (sd_inputs s) ''expires_at''))) (\<lambda>expires.
     let request = stage_action_request (k_workflow k) s run None (human_decision_action s) policy (Some (sd_adapter s)) arguments evidence;
         audit = audited_run (run_id run) L
     in Inr (request\<lparr>rq_artifact_hashes := bound_artifact_hashes run L,
          rq_context_packet_digest := (case audit of None \<Rightarrow> None | Some (r, w) \<Rightarrow> sr_context_packet_hash r),
          rq_allowed_decisions := allowed,
          rq_state_constraints := [(''required_stage_run_status'', PStr (run_status_value SR_WAITING_ON_HUMAN)),
             (''recovery_epoch'', case audit of None \<Rightarrow> PNone | Some (r, w) \<Rightarrow> PInt (wi_recovery_epoch w))],
          rq_expires_at := expires\<rparr>))))))"

text \<open>\<open>_human_gate\<close>: the policy engine on that request, without an approval.\<close>

definition human_gate :: "kernel \<Rightarrow> StageDef \<Rightarrow> StageRun \<Rightarrow> ('m, PolicyGate) prog" where
  "human_gate k s run = bindP (query (human_gate_request k s run)) (\<lambda>request.
     ask (\<lambda>E. evaluate E request None TsNone))"

section \<open>The published authority\<close>

definition surface_authority_from_outputs :: "mapping_items \<Rightarrow> mapping_items option" where
  "surface_authority_from_outputs outputs = (case mapping_of (dict_get outputs ''surface_packet'') of
     None \<Rightarrow> None
   | Some packet \<Rightarrow> (case dict_get_or packet ''authority_context'' (dict_get packet ''authority'') of
       PDict m \<Rightarrow> Some m
     | PStr (c # cs) \<Rightarrow> (case json_loads (c # cs) of None \<Rightarrow> None | Some v \<Rightarrow> mapping_of v)
     | _ \<Rightarrow> None))"

definition published_authority_of :: "ledger \<Rightarrow> event_row \<Rightarrow> mapping_items option" where
  "published_authority_of L e =
     (let ref = dict_get (payload_items e) ''receipt_id''; rid = (if truthy ref then py_str ref else []) in
      if ev_type e \<noteq> ''human_gate_surface_published'' \<or> rid = [] then None
      else case select_one (\<lambda>c. rc_id c = rid) (receipts L) of
        None \<Rightarrow> None
      | Some c \<Rightarrow> surface_authority_from_outputs (receipt_runtime_outputs (rc_receipt c)))"

definition published_human_gate_authority :: "StageRun \<Rightarrow> ledger \<Rightarrow> mapping_items option" where
  "published_human_gate_authority run L =
     fetchone (List.map_filter (published_authority_of L) (rev (list_events (Some (run_id run)) L)))"

text \<open>\<open>str(authority.get(key) or "")\<close>.\<close>

definition text_field :: "mapping_items \<Rightarrow> string \<Rightarrow> string" where
  "text_field m key = (let v = dict_get m key in if truthy v then py_str v else [])"

text \<open>\<open>tuple(str(x) for x in value or ())\<close>.\<close>

definition string_items :: "pyval \<Rightarrow> kernel_error + string list" where
  "string_items v = (if \<not> truthy v then Inr [] else (case v of PStr s \<Rightarrow> Inr (map (\<lambda>c. [c]) s) | _ \<Rightarrow> string_tuple v))"

definition authority_matches :: "kernel \<Rightarrow> StageDef \<Rightarrow> StageRun \<Rightarrow> ActionRequest \<Rightarrow> mapping_items \<Rightarrow> string list \<Rightarrow> bool" where
  "authority_matches k s run request a allowed \<longleftrightarrow>
     text_field a ''workflow_id'' = wd_id (k_workflow k) \<and> text_field a ''instance_id'' = run_instance_id run \<and>
     text_field a ''stage_id'' = sd_id s \<and> text_field a ''stage_run_id'' = run_id run \<and>
     text_field a ''definition_hash'' = the_or [] (rq_workflow_definition_hash request) \<and> set allowed = set (sd_outcomes s)"

text \<open>The gate a decision is validated against: the published envelope, when it fits the pinned workflow.\<close>

definition decision_validation_gate :: "kernel \<Rightarrow> StageRun \<Rightarrow> StageDef \<Rightarrow> PolicyGate \<Rightarrow> ledger \<Rightarrow>
    kernel_error + (PolicyGate \<times> string option)" where
  "decision_validation_gate k run s gate L = (case published_human_gate_authority run L of
     None \<Rightarrow> Inr (gate, None)
   | Some a \<Rightarrow>
      bindE (human_gate_request k s run L) (\<lambda>request.
      bindE (string_items (dict_get a ''allowed_decisions'')) (\<lambda>allowed.
      let gate_id = text_field a ''gate_id''; action = text_field a ''requested_action''; fp = text_field a ''action_fingerprint'' in
      if \<not> authority_matches k s run request a allowed \<or> gate_id = [] \<or> action = [] \<or> fp = []
      then Inr (gate, Some ''Durable published human-gate authority does not match the current pinned workflow.'')
      else Inr (gate\<lparr>pg_gate_id := gate_id, pg_requested_action := action, pg_action_fingerprint := fp\<rparr>, None))))"

section \<open>Decisions\<close>

definition known_human_decisions :: "string list" where
  "known_human_decisions = [''approved'', ''rejected'', ''revise'', ''park'', ''approve'', ''approval_granted'', ''read_clear'',
     ''clear'', ''reject'', ''denied'', ''approval_denied'', ''revision_requested'', ''revise_plan'', ''needs_revision'', ''parked'',
     ''defer'', ''blocked'']"

text \<open>\<open>None\<close> when the receipt decides this gate, a reason otherwise.\<close>

definition human_decision_validation_error :: "env \<Rightarrow> HumanApprovalReceipt option \<Rightarrow> PolicyGate \<Rightarrow> ts_arg \<Rightarrow> string list \<Rightarrow>
    kernel_error + string option" where
  "human_decision_validation_error E decision gate now allowed = (case decision of
     None \<Rightarrow> Inr (Some ''Missing human decision receipt.'')
   | Some d \<Rightarrow> let text = approval_decision_value (ap_decision d) in
      if ap_approval_id d = [] then Inr (Some ''Human decision receipt is missing an approval_id.'')
      else if ap_human_ref d = [] then Inr (Some ''Human decision receipt is missing a human_ref.'')
      else if ap_canonical_surface d = [] then Inr (Some ''Human decision receipt is missing a canonical_surface.'')
      else if text \<notin> set known_human_decisions \<and> text \<notin> set allowed
      then Inr (Some (''Unsupported human decision '' @ repr_str text @ ''.''))
      else if ap_gate_id d \<noteq> pg_gate_id gate then Inr (Some ''Human decision receipt does not match the waiting gate.'')
      else if ap_exact_action_approved d \<noteq> pg_requested_action gate
      then Inr (Some ''Human decision receipt does not name the exact waiting action.'')
      else if ap_action_fingerprint d \<noteq> pg_action_fingerprint gate
      then Inr (Some ''Human decision receipt fingerprint does not match the waiting gate.'')
      else bindE (policy_coerce_datetime now) (\<lambda>given.
        let current = the_or (clock E 0) given in
        bindE (policy_coerce_datetime (ap_revoked_at d)) (\<lambda>revoked.
        if (case revoked of None \<Rightarrow> False | Some t \<Rightarrow> t \<le> current) then Inr (Some ''Human decision receipt has been revoked.'')
        else bindE (policy_coerce_datetime (ap_expires_at d)) (\<lambda>expires.
          if (case expires of None \<Rightarrow> False | Some t \<Rightarrow> t \<le> current) then Inr (Some ''Human decision receipt has expired.'')
          else Inr None))))"

definition decision_aliases :: "(string \<times> string list) list" where
  "decision_aliases =
     [(''approved'', [''approved'', ''approval_granted'', ''read_clear'', ''clear'', ''done'', ''succeeded'']),
      (''approve'', [''approve'', ''approved'', ''approval_granted'', ''read_clear'', ''clear'', ''done'', ''succeeded'']),
      (''approval_granted'', [''approval_granted'', ''approved'', ''read_clear'', ''clear'', ''done'', ''succeeded'']),
      (''read_clear'', [''read_clear'', ''approved'', ''approval_granted'', ''clear'', ''done'', ''succeeded'']),
      (''clear'', [''clear'', ''read_clear'', ''approved'', ''approval_granted'', ''done'', ''succeeded'']),
      (''rejected'', [''rejected'', ''reject'', ''denied'', ''approval_denied'', ''blocked'']),
      (''reject'', [''reject'', ''rejected'', ''denied'', ''approval_denied'', ''blocked'']),
      (''denied'', [''denied'', ''rejected'', ''reject'', ''approval_denied'', ''blocked'']),
      (''revise'', [''revise'', ''revision_requested'', ''revise_plan'', ''needs_revision'']),
      (''revision_requested'', [''revision_requested'', ''revise'', ''revise_plan'', ''needs_revision'']),
      (''park'', [''park'', ''parked'', ''defer'', ''blocked'']),
      (''parked'', [''parked'', ''park'', ''defer'', ''blocked'']),
      (''defer'', [''defer'', ''park'', ''parked'', ''blocked'']),
      (''blocked'', [''blocked'', ''park'', ''defer''])]"

definition human_decision_outcome_candidates :: "string \<Rightarrow> string list" where
  "human_decision_outcome_candidates text = the_or [text] (map_of decision_aliases text)"

definition outcome_for_human_decision :: "kernel \<Rightarrow> StageDef \<Rightarrow> string \<Rightarrow> string option" where
  "outcome_for_human_decision k s text = find (\<lambda>c. find_transition k s c \<noteq> None) (human_decision_outcome_candidates text)"

definition approval_with_bound_hash :: "HumanApprovalReceipt \<Rightarrow> StageDef \<Rightarrow> string \<Rightarrow> ledger \<Rightarrow> HumanApprovalReceipt" where
  "approval_with_bound_hash d s i L =
     (if approval_decision_value (ap_decision d) \<notin> set approving_human_decisions then d
      else case stage_binds_to s of
        None \<Rightarrow> d
      | Some b \<Rightarrow> (case resolve_bound_content_hash b L i of
          None \<Rightarrow> d
        | Some h \<Rightarrow> if h = [] then d
            else d\<lparr>ap_constraints := dict_set (dict_set (ap_constraints d) ''approved_content_hash'' (PStr h))
                    ''approved_content_binds_to'' (PStr b)\<rparr>))"

section \<open>Ingesting a decision\<close>

record KernelDecisionResult =
  kd_stage_run :: "StageRun option"
  kd_decision :: string
  kd_outcome :: "string option"
  kd_queued_stage_id :: "string option"
  kd_terminal_status :: "WorkflowStatus option"
  kd_failure_summary :: "string option"

definition blocked_decision :: "StageRun option \<Rightarrow> string \<Rightarrow> KernelDecisionResult" where
  "blocked_decision run reason = \<lparr>kd_stage_run = run, kd_decision = ''blocked'', kd_outcome = None, kd_queued_stage_id = None,
     kd_terminal_status = None, kd_failure_summary = Some reason\<rparr>"

definition definition_mismatch_summary :: "kernel \<Rightarrow> string \<Rightarrow> ledger \<Rightarrow> string option" where
  "definition_mismatch_summary k i L = (case find_instance i L of
     None \<Rightarrow> Some (''Workflow instance '' @ repr_str i @ '' is missing from the ledger.'')
   | Some x \<Rightarrow> let stored = the_or [] (wi_definition_hash x); current = definition_hash (k_workflow k) in
       if stored = [] \<or> stored = current then None
       else Some (''Workflow definition hash mismatch for in-flight instance '' @ repr_str i @ '': ledger has '' @ stored @
              '', current kernel has '' @ current @ ''.''))"

definition block_waiting_human_run :: "kernel \<Rightarrow> StageRun \<Rightarrow> string \<Rightarrow> ts_arg \<Rightarrow> ('m, unit) prog" where
  "block_waiting_human_run k run reason now =
     bindP (call (\<lambda>E. complete_waiting_human_stage_run E (run_id run) SR_BLOCKED None None (Some (failure_value FC_DOMAIN_BLOCKED))
        (Some reason) now (k_owner k))) (\<lambda>_.
     block_workflow k (run_instance_id run) (run_stage_id run)
        [(''stage_id'', PStr (run_stage_id run)), (''stage_run_id'', PStr (run_id run)), (''reason'', PStr reason)] now)"

text \<open>Refusing a decision: the waiting run and its instance are blocked with the reason.\<close>

definition refuse :: "kernel \<Rightarrow> StageRun \<Rightarrow> string \<Rightarrow> ts_arg \<Rightarrow> ('m, KernelDecisionResult) prog" where
  "refuse k run reason now = bindP (block_waiting_human_run k run reason now) (\<lambda>_. ret (blocked_decision (Some run) reason))"

definition decision_digest :: "HumanApprovalReceipt \<Rightarrow> string" where
  "decision_digest d = digest_data (approval_plain d)"

definition unrouted_decision :: "kernel \<Rightarrow> StageRun \<Rightarrow> StageDef \<Rightarrow> HumanApprovalReceipt \<Rightarrow> string \<Rightarrow> ts_arg \<Rightarrow>
    ('m, KernelDecisionResult) prog" where
  "unrouted_decision k run s d i now =
    (let text = approval_decision_value (ap_decision d);
         reason = ''No configured transition for human decision '' @ repr_str text @ '' from stage '' @ repr_str (sd_id s) @ ''.''
     in bindP (call (\<lambda>E. record_human_decision E d i (run_id run) now (k_owner k))) (\<lambda>_.
        bindP (call (\<lambda>E. complete_waiting_human_stage_run E (run_id run) SR_BLOCKED (Some (ap_approval_id d)) (Some (decision_digest d))
           (Some (failure_value FC_HUMAN_REJECTION)) (Some reason) now (k_owner k))) (\<lambda>_.
        bindP (block_workflow k i (sd_id s)
           [(''stage_id'', PStr (sd_id s)), (''stage_run_id'', PStr (run_id run)), (''decision'', PStr text), (''reason'', PStr reason)] now) (\<lambda>_.
        ret (blocked_decision (Some run) reason)))))"

definition routed_decision :: "kernel \<Rightarrow> StageRun \<Rightarrow> StageDef \<Rightarrow> HumanApprovalReceipt \<Rightarrow> string \<Rightarrow> string \<Rightarrow> ts_arg \<Rightarrow>
    ('m, KernelDecisionResult) prog" where
  "routed_decision k run s d outcome i now =
     bindP (call (\<lambda>E. record_human_decision E d i (run_id run) now (k_owner k))) (\<lambda>_.
     bindP (call (\<lambda>E. complete_waiting_human_stage_run E (run_id run) SR_SUCCEEDED (Some (ap_approval_id d)) (Some (decision_digest d))
        None None now (k_owner k))) (\<lambda>_.
     bindP (advance_after_outcome k run s outcome None now) (\<lambda>t.
     ret \<lparr>kd_stage_run = Some run, kd_decision = tx_decision t, kd_outcome = Some outcome, kd_queued_stage_id = tx_queued_stage_id t,
          kd_terminal_status = tx_terminal_status t, kd_failure_summary = tx_failure_summary t\<rparr>)))"

text \<open>The decision that passed validation: bound to content, then recorded and routed.\<close>

definition accept_decision :: "kernel \<Rightarrow> StageRun \<Rightarrow> StageDef \<Rightarrow> HumanApprovalReceipt \<Rightarrow> string \<Rightarrow> ts_arg \<Rightarrow>
    ('m, KernelDecisionResult) prog" where
  "accept_decision k run s decision i now =
     bindP (query (\<lambda>L. Inr (approval_with_bound_hash decision s i L))) (\<lambda>d.
     case outcome_for_human_decision k s (approval_decision_value (ap_decision d)) of
       None \<Rightarrow> unrouted_decision k run s d i now
     | Some outcome \<Rightarrow> routed_decision k run s d outcome i now)"

text \<open>The error the kernel finds with a decision on a waiting gate: first the published authority, then the receipt.\<close>

definition decision_error :: "kernel \<Rightarrow> StageRun \<Rightarrow> StageDef \<Rightarrow> HumanApprovalReceipt option \<Rightarrow> ts_arg \<Rightarrow>
    ('m, string option) prog" where
  "decision_error k run s decision now =
     bindP (human_gate k s run) (\<lambda>gate.
     bindP (query (decision_validation_gate k run s gate)) (\<lambda>(vgate, authority_error).
     case authority_error of Some e \<Rightarrow> ret (Some e)
     | None \<Rightarrow> ask (\<lambda>E. human_decision_validation_error E decision vgate now (sd_outcomes s))))"

definition ingest_human_decision :: "kernel \<Rightarrow> string \<Rightarrow> HumanApprovalReceipt option \<Rightarrow> ts_arg \<Rightarrow>
    ('m, KernelDecisionResult) prog" where
  "ingest_human_decision k i decision now =
     bindP (query (find_waiting_human_stage_run i)) (\<lambda>waiting. case waiting of
       None \<Rightarrow> ret (blocked_decision None (''No human gate is waiting for instance '' @ repr_str i @ ''.''))
     | Some run \<Rightarrow>
       bindP (query (\<lambda>L. Inr (definition_mismatch_summary k i L))) (\<lambda>mismatch. case mismatch of
         Some reason \<Rightarrow> refuse k run reason now
       | None \<Rightarrow> (case stage_by_id (k_workflow k) (run_stage_id run) of
           None \<Rightarrow> refuse k run ''Waiting run does not match a human gate in this workflow.'' now
         | Some s \<Rightarrow>
           if sd_type s \<noteq> ST_HUMAN_GATE then refuse k run ''Waiting run does not match a human gate in this workflow.'' now
           else bindP (decision_error k run s decision now) (\<lambda>error. case error of
             Some reason \<Rightarrow> refuse k run reason now
           | None \<Rightarrow> (case decision of
               None \<Rightarrow> raise AssertionError
             | Some d \<Rightarrow> accept_decision k run s d i now)))))"

section \<open>Programs that act through the ledger\<close>

lemma acts_human_gate [acts_intro]: "acts u (human_gate k s run)"
  unfolding human_gate_def by (intro acts_intro)

lemma acts_block_waiting [acts_intro]: "acts u (block_waiting_human_run k run reason now)"
  unfolding block_waiting_human_run_def by (intro acts_intro) simp

lemma acts_refuse [acts_intro]: "acts u (refuse k run reason now)"
  unfolding refuse_def by (intro acts_intro)

lemma acts_unrouted [acts_intro]: "acts u (unrouted_decision k run s d i now)"
  unfolding unrouted_decision_def Let_def by (intro acts_intro) simp

lemma acts_routed [acts_intro]: "acts u (routed_decision k run s d outcome i now)"
  unfolding routed_decision_def by (intro acts_intro) simp

lemma acts_accept [acts_intro]: "acts u (accept_decision k run s d i now)"
  unfolding accept_decision_def by (intro acts_intro)

lemma acts_decision_error [acts_intro]: "acts u (decision_error k run s d now)"
  unfolding decision_error_def by (intro acts_intro)

lemma acts_ingest [acts_intro]: "acts u (ingest_human_decision k i d now)"
  unfolding ingest_human_decision_def by (intro acts_intro)

end
