(* ===== verification/Program_Frames.thy ===== *)
theory Program_Frames
  imports Human_Gates
begin

text \<open>
  What a program leaves alone.  A frame is a preorder between what programs can change, the ledger
  and the external effects; \<open>stays R m\<close> says that every run of \<open>m\<close>, raising or not, ends in a
  world related to the one it began in.  The frames of the safety proofs are interpretations:
  decisions are only recorded by ingestion, adapters only called by invocations.
\<close>

section \<open>Frames\<close>

type_synonym core = "ledger \<times> effect list"

definition core :: "'m world \<Rightarrow> core" where
  "core w = (w_ledger w, w_effects w)"

definition stays :: "(core \<Rightarrow> core \<Rightarrow> bool) \<Rightarrow> ('m, 'a) prog \<Rightarrow> bool" where
  "stays R m \<longleftrightarrow> (\<forall>Es w. R (core w) (core (snd (m Es w))))"

lemma staysD: "stays R m \<Longrightarrow> m Es w = (r, v) \<Longrightarrow> R (core w) (core v)"
  unfolding stays_def by (metis snd_conv)

lemma staysI: "(\<And>Es w r v. m Es w = (r, v) \<Longrightarrow> R (core w) (core v)) \<Longrightarrow> stays R m"
  unfolding stays_def by (metis prod.collapse)

named_theorems frame_intro \<open>programs that stay within a frame\<close>

lemma stays_if [frame_intro]: "(b \<Longrightarrow> stays R m) \<Longrightarrow> (\<not> b \<Longrightarrow> stays R n) \<Longrightarrow> stays R (if b then m else n)"
  by simp

lemma stays_option [frame_intro]: "(x = None \<Longrightarrow> stays R m) \<Longrightarrow> (\<And>a. x = Some a \<Longrightarrow> stays R (f a)) \<Longrightarrow>
    stays R (case x of None \<Rightarrow> m | Some a \<Rightarrow> f a)"
  by (cases x) auto

lemma stays_sum [frame_intro]: "(\<And>e. x = Inl e \<Longrightarrow> stays R (g e)) \<Longrightarrow> (\<And>a. x = Inr a \<Longrightarrow> stays R (f a)) \<Longrightarrow>
    stays R (case x of Inl e \<Rightarrow> g e | Inr a \<Rightarrow> f a)"
  by (cases x) auto

lemma stays_prod [frame_intro]: "(\<And>a b. x = (a, b) \<Longrightarrow> stays R (f a b)) \<Longrightarrow> stays R (case x of (a, b) \<Rightarrow> f a b)"
  by (cases x) auto

lemma stays_tried [frame_intro]: "stays R m \<Longrightarrow> stays R (tried m)"
  by (rule staysI) (auto simp: tried_def split: prod.splits dest: staysD)

lemma stays_with_memo [frame_intro]: assumes "stays R m" shows "stays R (with_memo s m)"
proof (rule staysI)
  fix Es and w :: "'c world" and r v
  assume run: "with_memo s m Es w = (r, v)"
  let ?w = "\<lparr>w_calls = w_calls w, w_ledger = w_ledger w, w_effects = w_effects w, w_memo = s\<rparr>"
  obtain q t where m: "m Es ?w = (q, t)" by (cases "m Es ?w")
  have "R (core ?w) (core t)" by (rule staysD[OF assms m])
  then show "R (core w) (core v)" using run m by (auto simp: with_memo_def core_def)
qed

locale frame =
  fixes R :: "core \<Rightarrow> core \<Rightarrow> bool"
  assumes same: "R c c" and linked: "R a b \<Longrightarrow> R b c \<Longrightarrow> R a c"
begin

lemma stays_pure [frame_intro]: "stays R (ret x)" "stays R (raise e)" "stays R (liftP r)" "stays R (query f)"
  "stays R memo" "stays R (set_memo g)" "stays R (ask h)"
  by (auto intro!: staysI simp: ask_def core_def same)

lemma stays_bind [frame_intro]: assumes "stays R m" "\<And>x. stays R (f x)" shows "stays R (bindP m f)"
proof (rule staysI)
  fix Es w r v assume run: "bindP m f Es w = (r, v)"
  obtain q t where m: "m Es w = (q, t)" by (cases "m Es w")
  have t: "R (core w) (core t)" by (rule staysD[OF assms(1) m])
  show "R (core w) (core v)"
  proof (cases q)
    case (Inl e)
    then show ?thesis using t run m by (simp add: bindP_def)
  next
    case (Inr x)
    then have "f x Es t = (r, v)" using run m by (simp add: bindP_def)
    then show ?thesis using staysD[OF assms(2)] linked[OF t] by blast
  qed
qed

lemma stays_call:
  assumes "\<And>E L x L' e. f E L = Inr (x, L') \<Longrightarrow> R (L, e) (L', e)"
  shows "stays R (call f)"
  using assms by (fastforce intro!: staysI simp: call_def core_def same split: sum.splits prod.splits)

end

section \<open>The frames of the development\<close>

definition same_decisions :: "core \<Rightarrow> core \<Rightarrow> bool" where
  "same_decisions a b \<longleftrightarrow> human_decisions (fst b) = human_decisions (fst a)"

definition same_effects :: "core \<Rightarrow> core \<Rightarrow> bool" where
  "same_effects a b \<longleftrightarrow> snd b = snd a"

interpretation decisions: frame same_decisions
  by unfold_locales (auto simp: same_decisions_def)

interpretation effects: frame same_effects
  by unfold_locales (auto simp: same_effects_def)

lemma silent_call [frame_intro]: "stays same_effects (call f)"
  by (rule effects.stays_call) (simp add: same_effects_def)

section \<open>Operations that record no decision\<close>

lemma record_artifacts_decisions: "foldE (record_artifact c) as L = Inr L' \<Longrightarrow> human_decisions L' = human_decisions L"
  by (induction as arbitrary: L) (auto simp: record_artifact_def bindE_eq_Inr insert_artifact_Inr)

lemma quiet_calls [frame_intro]:
  "stays same_decisions (call (\<lambda>E. update_workflow_instance E i st cs now a ty p))"
  "stays same_decisions (call (\<lambda>E. append_event E i s ty a p c))"
  "stays same_decisions (call (\<lambda>E. record_receipt E rc))"
  "stays same_decisions (call (\<lambda>E. insert_stage_run E run h idem par c))"
  "stays same_decisions (call (\<lambda>E. complete_waiting_human_stage_run E r st' rid oh fc fs now a))"
  by (rule decisions.stays_call, auto simp: same_decisions_def update_workflow_instance_def append_event_def record_receipt_def
      insert_stage_run_def complete_waiting_human_stage_run_def update_instances_def update_runs_def insert_receipt_Inr emit_Inr
      insert_run_Inr bindE_eq_Inr split: option.splits dest!: record_artifacts_decisions)+

lemma quiet_routing [frame_intro]:
  "stays same_decisions (queue_stage s i n inputs c)" "stays same_decisions (stamp now)"
  "stays same_decisions (block_workflow k i st p now)"
  unfolding queue_stage_def stamp_def block_workflow_def by (intro frame_intro)+

lemma quiet_guard [frame_intro]: "stays same_decisions (block_transition_guard k run s t g outcome now)"
  unfolding block_transition_guard_def Let_def by (intro frame_intro)

lemma quiet_follow [frame_intro]: "stays same_decisions (follow_transition k run s t g outcome now)"
  unfolding follow_transition_def Let_def by (intro frame_intro)

lemma quiet_advance [frame_intro]: "stays same_decisions (advance_after_outcome k run s outcome result now)"
  unfolding advance_after_outcome_def by (intro frame_intro)

lemma quiet_refuse [frame_intro]: "stays same_decisions (refuse k run reason now)"
  unfolding refuse_def block_waiting_human_run_def by (intro frame_intro)

lemma quiet_decision_error [frame_intro]: "stays same_decisions (decision_error k run s decision now)"
  unfolding decision_error_def human_gate_def by (intro frame_intro)

end
