(* ===== verification/Stage_Step.thy ===== *)
theory Stage_Step
  imports Adapter_Receipts Program_Frames
begin

text \<open>
  The stage handler of the kernel and one kernel step (\<^verbatim>\<open>kernel.py\<close> \<^verbatim>\<open>_handle_stage\<close>, \<^verbatim>\<open>run_once\<close>, with their
  helpers in \<^verbatim>\<open>_helpers.py\<close>): the policy preflight, the content-bound approval, prompts, the recorded
  invocation of the adapter, the output contract and the retry of a failure, and what the kernel
  makes of the runner's decision.
\<close>

section \<open>What lies outside the kernel\<close>

text \<open>
  The adapters' answers, whether an adapter object has an \<open>invoke\<close> method, and the file system with
  the YAML parser at each reading.
\<close>

record outside =
  out_adapters :: adapter_host
  out_has_invoke :: "string \<Rightarrow> bool"
  out_files :: "nat \<Rightarrow> host_files"

text \<open>Reading the file system, and reading the clock together with the ledger.\<close>

definition read_files :: "outside \<Rightarrow> (host_files \<Rightarrow> kernel_error + 'a) \<Rightarrow> ('m, 'a) prog" where
  "read_files out f = (\<lambda>Es w. (f (out_files out (w_calls w)), w\<lparr>w_calls := Suc (w_calls w)\<rparr>))"

definition inspect :: "(env \<Rightarrow> ledger \<Rightarrow> kernel_error + 'a) \<Rightarrow> ('m, 'a) prog" where
  "inspect f = (\<lambda>Es w. (f (Es (w_calls w)) (w_ledger w), w\<lparr>w_calls := Suc (w_calls w)\<rparr>))"

text \<open>The \<open>state\<close> dict of a step.\<close>

record step_state =
  ss_failure_summary :: "string option"
  ss_receipt_id :: "string option"
  ss_adapter_result :: "AdapterResult option"

definition fresh_state :: step_state where
  "fresh_state = \<lparr>ss_failure_summary = None, ss_receipt_id = None, ss_adapter_result = None\<rparr>"

section \<open>Results of the handler\<close>

definition blocked_result :: "FailureClass \<Rightarrow> string \<Rightarrow> RunnerResult" where
  "blocked_result fc reason = \<lparr>rr_decision = ''blocked'', rr_receipt = None, rr_output_hash = None,
     rr_failure_class = Some (failure_value fc), rr_failure_summary = Some reason, rr_retry_after_at = TsNone,
     rr_approval_required = False\<rparr>"

definition with_receipt :: "Receipt \<Rightarrow> string \<Rightarrow> RunnerResult \<Rightarrow> RunnerResult" where
  "with_receipt c h r = r\<lparr>rr_receipt := Some c, rr_output_hash := Some h\<rparr>"

text \<open>\<open>_blocked\<close>.\<close>

definition blocked :: "FailureClass \<Rightarrow> string \<Rightarrow> (step_state, RunnerResult) prog" where
  "blocked fc reason = bindP (set_memo (ss_failure_summary_update (\<lambda>_. Some reason))) (\<lambda>_. ret (blocked_result fc reason))"

text \<open>A block with a receipt of its own: the state remembers both.\<close>

definition blocked_with :: "Receipt \<Rightarrow> string \<Rightarrow> RunnerResult \<Rightarrow> (step_state, RunnerResult) prog" where
  "blocked_with receipt reason r =
     bindP (set_memo (\<lambda>m. m\<lparr>ss_failure_summary := Some reason, ss_receipt_id := Some (rcpt_id receipt)\<rparr>)) (\<lambda>_.
     ret (with_receipt receipt (digest_data (receipt_plain receipt)) r))"

section \<open>Prompts\<close>

text \<open>\<open>_prompt_tool_permissions\<close>: the block of the first policy prompt that parses to one.\<close>

definition contains :: "string \<Rightarrow> string \<Rightarrow> bool" where
  "contains needle s \<longleftrightarrow> list_ex (\<lambda>n. starts_with needle (drop n s)) [0 ..< Suc (length s)]"

definition prompt_permissions :: "host_files \<Rightarrow> ResolvedPrompt \<Rightarrow> mapping_items option" where
  "prompt_permissions files p =
     (if pr_kind (rp_ref p) \<noteq> ''policy'' \<or> \<not> contains ''tool_permissions:'' (rp_content p) then None
      else case hf_yaml files (rp_content p) of None \<Rightarrow> None
      | Some v \<Rightarrow> (case mapping_of v of None \<Rightarrow> None | Some m \<Rightarrow> mapping_of (dict_get m ''tool_permissions'')))"

definition prompt_tool_permissions :: "host_files \<Rightarrow> PromptBundle \<Rightarrow> mapping_items" where
  "prompt_tool_permissions files b = the_or [] (fetchone (List.map_filter (prompt_permissions files) (pb_prompts b)))"

definition workflow_state :: "string \<Rightarrow> ledger \<Rightarrow> mapping_items" where
  "workflow_state i L = (let x = get_workflow_instance i L in
     [(''status'', opt_str (map_option (\<lambda>x. workflow_status_value (inst_status x)) x)),
      (''current_stage_id'', case x of None \<Rightarrow> PNone | Some y \<Rightarrow> opt_str (inst_current_stage_id y)),
      (''recovery_epoch'', opt_int (map_option inst_recovery_epoch x))])"

text \<open>
  The arguments of the context packet.  The inputs an instance was started with are its snapshot;
  the copy a kernel object keeps of the instances it started itself is the same.
\<close>

definition context_of_stage :: "kernel \<Rightarrow> StageDef \<Rightarrow> StageRun \<Rightarrow> AdapterRegistration option \<Rightarrow> PolicyGate \<Rightarrow> EffectivePolicy \<Rightarrow>
    mapping_items \<Rightarrow> ledger \<Rightarrow> context_arguments" where
  "context_of_stage k s run reg g policy tools L =
    (let i = run_instance_id run; w = k_workflow k;
         permissions = [(''policy_gate'', PDict (policy_gate_items g)),
           (''adapter_side_effects'', str_list (case reg of None \<Rightarrow> [] | Some r \<Rightarrow> map risk_value (rg_side_effects r))),
           (''effective_policy'', effective_policy_plain policy)] @ optional_items (tools \<noteq> []) [(''tool_permissions'', PDict tools)]
     in \<lparr>ca_workflow_id = wd_id w, ca_workflow_version = wd_version w, ca_instance_id = i, ca_stage_id = sd_id s,
         ca_stage_run_id = run_id run, ca_stage_type = stage_type_value (sd_type s), ca_attempt = run_attempt run,
         ca_workflow_state = workflow_state i L,
         ca_actor = [(''actor_ref'', opt_str (run_actor_ref run)),
           (''runtime_target'', PStr (case reg of None \<Rightarrow> sd_adapter s | Some r \<Rightarrow> rg_adapter_id r)),
           (''adapter_family'', PStr (family_value (case reg of None \<Rightarrow> adapter_family_for_stage (sd_type s) (sd_adapter s) | Some r \<Rightarrow> rg_family r)))],
         ca_inputs = [(''workflow'', PDict (the_or [] (get_workflow_input_snapshot i L))), (''stage'', PDict (sd_inputs s))],
         ca_artifacts = [], ca_prior_receipts = prior_receipts i L, ca_approvals = [],
         ca_variables = [(''workflow_id'', PStr (wd_id w)), (''instance_id'', PStr i), (''stage_id'', PStr (sd_id s)),
           (''stage_run_id'', PStr (run_id run))],
         ca_constraints = [(''stage_policy'', PDict (sd_policy s)), (''budget'', PDict (sd_budget s)), (''outputs'', PDict (sd_outputs s))],
         ca_permissions = Some permissions, ca_context_id = None\<rparr>)"

definition render_stage_context :: "kernel \<Rightarrow> outside \<Rightarrow> StageDef \<Rightarrow> StageRun \<Rightarrow> AdapterRegistration option \<Rightarrow> PolicyGate \<Rightarrow>
    EffectivePolicy \<Rightarrow> ('m, RenderedContext) prog" where
  "render_stage_context k out s run reg g policy = (case k_prompts k of
     None \<Rightarrow> raise (PromptRegistryError ''Stage declares prompt_refs but no prompt registry is configured.'')
   | Some registry \<Rightarrow>
       bindP (read_files out (\<lambda>files. bindE (resolve_prompts registry files (sd_prompt_refs s)) (\<lambda>b.
         Inr (b, prompt_tool_permissions files b)))) (\<lambda>(b, tools).
       query (\<lambda>L. Inr (render_context_packet b (context_of_stage k s run reg g policy tools L)))))"

text \<open>\<open>except PromptRegistryError\<close>, and the failure class of what it caught.\<close>

definition prompt_failure_class :: "kernel_error \<Rightarrow> FailureClass option" where
  "prompt_failure_class e = (case e of
     PromptRegistryError _ \<Rightarrow> Some FC_MISSING_DEPENDENCY
   | MissingPromptError _ \<Rightarrow> Some FC_MISSING_DEPENDENCY
   | InactivePromptError _ \<Rightarrow> Some FC_MISSING_DEPENDENCY
   | PromptHashMismatchError _ \<Rightarrow> Some FC_INVALID_OUTPUT
   | _ \<Rightarrow> None)"

text \<open>Rendering, when the stage has prompts, and going on with the context or blocked.\<close>

definition with_prompts :: "kernel \<Rightarrow> outside \<Rightarrow> StageDef \<Rightarrow> StageRun \<Rightarrow> string \<Rightarrow> AdapterRegistration option \<Rightarrow> PolicyGate \<Rightarrow>
    EffectivePolicy \<Rightarrow> (RenderedContext option \<Rightarrow> (step_state, RunnerResult) prog) \<Rightarrow> (step_state, RunnerResult) prog" where
  "with_prompts k out s run created_at reg g policy go =
     (if sd_prompt_refs s = [] then go None
      else bindP (tried (render_stage_context k out s run reg g policy)) (\<lambda>rendered. case rendered of
        Inl e \<Rightarrow> (case prompt_failure_class e of
            None \<Rightarrow> raise e
          | Some fc \<Rightarrow> blocked_with (prompt_failure_receipt k s run (exception_text e) created_at g fc) (exception_text e)
              (blocked_result fc (exception_text e)))
      | Inr x \<Rightarrow>
          bindP (call (\<lambda>E. record_stage_run_prompt_context (run_id run) (prompt_bundle_digest (rx_prompt_bundle x))
             (cp_context_id (rx_packet x)) (rx_packet_digest x) (rx_rendered_input_digest x))) (\<lambda>_. go (Some x))))"

section \<open>The human gate\<close>

definition handle_gate :: "kernel \<Rightarrow> outside \<Rightarrow> ts_arg \<Rightarrow> StageDef \<Rightarrow> StageRun \<Rightarrow> string \<Rightarrow> (step_state, RunnerResult) prog" where
  "handle_gate k out now s run created_at =
     bindP (liftP (effective_policy_for_stage (k_workflow k) s None True)) (\<lambda>policy.
     bindP (query (human_gate_request k s run)) (\<lambda>request.
     bindP (ask (\<lambda>E. evaluate E request None now)) (\<lambda>g.
     with_prompts k out s run created_at None g policy (\<lambda>_.
       let reason = ''Human gate reached; waiting for explicit decision ingestion.'' in
       bindP (set_memo (ss_failure_summary_update (\<lambda>_. Some reason))) (\<lambda>_.
       ret \<lparr>rr_decision = ''waiting_on_human'', rr_receipt = None, rr_output_hash = None,
         rr_failure_class = Some (failure_value FC_DOMAIN_BLOCKED), rr_failure_summary = Some reason,
         rr_retry_after_at = TsNone, rr_approval_required = True\<rparr>)))))"

section \<open>Approval of content\<close>

definition approval_decision_of :: "string \<Rightarrow> ApprovalDecision" where
  "approval_decision_of t = (if t = ''approved'' then APPROVED else if t = ''rejected'' then REJECTED
     else if t = ''revise'' then REVISE else if t = ''park'' then PARK else DECISION_TEXT t)"

text \<open>\<open>str(receipt.get(key) or decision.get(other) or "")\<close>.\<close>

definition either_text :: "mapping_items \<Rightarrow> string \<Rightarrow> mapping_items \<Rightarrow> string \<Rightarrow> string" where
  "either_text receipt key decision other = (let v = py_or (dict_get receipt key) (dict_get decision other) in
     if truthy v then py_str v else [])"

text \<open>The receipt and constraints of a decision that approves exactly this content, fixtures excluded.\<close>

definition approves_content :: "string \<Rightarrow> mapping_items \<Rightarrow> (mapping_items \<times> mapping_items) option" where
  "approves_content h d =
     (if py_str (dict_get d ''decision'') \<notin> set approving_human_decisions then None
      else case mapping_of (dict_get d ''receipt'') of None \<Rightarrow> None
      | Some receipt \<Rightarrow> (case mapping_of (dict_get receipt ''constraints'') of None \<Rightarrow> None
        | Some c \<Rightarrow> if dict_get c ''test_only'' = PBool True \<or> dict_get c ''non_live'' = PBool True \<or> text_field c ''approved_content_hash'' \<noteq> h
            then None else Some (receipt, c)))"

definition passed :: "utc option \<Rightarrow> utc \<Rightarrow> bool" where
  "passed t now \<longleftrightarrow> (case t of None \<Rightarrow> False | Some x \<Rightarrow> x \<le> now)"

definition recorded_time :: "mapping_items \<Rightarrow> string \<Rightarrow> kernel_error + utc option" where
  "recorded_time receipt key = bindE (expiry_arg (dict_get receipt key)) policy_coerce_datetime"

text \<open>The search through the recorded decisions, latest first.\<close>

fun content_approval_in :: "utc \<Rightarrow> string \<Rightarrow> mapping_items list \<Rightarrow>
    kernel_error + (mapping_items \<times> mapping_items \<times> mapping_items) option" where
  "content_approval_in now h [] = Inr None"
| "content_approval_in now h (d # ds) = (case approves_content h d of
     None \<Rightarrow> content_approval_in now h ds
   | Some (receipt, c) \<Rightarrow>
       bindE (recorded_time receipt ''revoked_at'') (\<lambda>revoked. if passed revoked now then content_approval_in now h ds
       else bindE (recorded_time receipt ''expires_at'') (\<lambda>expires. if passed expires now then content_approval_in now h ds
       else Inr (Some (d, receipt, c)))))"

text \<open>The approval stamped onto this action.\<close>

definition restamped :: "string \<Rightarrow> string \<Rightarrow> mapping_items \<Rightarrow> mapping_items \<Rightarrow> mapping_items \<Rightarrow> kernel_error + HumanApprovalReceipt" where
  "restamped fp act d receipt c =
     bindE (string_tuple (dict_get_or receipt ''evidence_refs'' (PList []))) (\<lambda>evidence.
     bindE (expiry_arg (dict_get receipt ''expires_at'')) (\<lambda>expires.
     bindE (expiry_arg (dict_get receipt ''revoked_at'')) (\<lambda>revoked.
     Inr \<lparr>ap_approval_id = either_text receipt ''approval_id'' d ''decision_id'', ap_gate_id = either_text receipt ''gate_id'' d ''gate_id'',
       ap_human_ref = either_text receipt ''human_ref'' d ''human_ref'',
       ap_canonical_surface = either_text receipt ''canonical_surface'' d ''canonical_surface'',
       ap_decision = approval_decision_of (py_str (dict_get d ''decision'')), ap_exact_action_approved = act,
       ap_action_fingerprint = fp, ap_evidence_refs = evidence, ap_constraints = c,
       ap_created_at = (case py_or (dict_get receipt ''created_at'') (dict_get d ''created_at'') of PStr t \<Rightarrow> TsText t | _ \<Rightarrow> TsNone),
       ap_expires_at = expires, ap_revoked_at = revoked,
       ap_message_ref = (let m = text_field receipt ''transcript_or_message_ref'' in if m = [] then None else Some m)\<rparr>)))"

definition content_bound_human_approval :: "StageDef \<Rightarrow> StageRun \<Rightarrow> string \<Rightarrow> string \<Rightarrow> ts_arg \<Rightarrow> env \<Rightarrow> ledger \<Rightarrow>
    kernel_error + HumanApprovalReceipt option" where
  "content_bound_human_approval s run fp act now E L = (case stage_binds_to s of None \<Rightarrow> Inr None
     | Some b \<Rightarrow> (case resolve_bound_content_hash b L (run_instance_id run) of None \<Rightarrow> Inr None
       | Some h \<Rightarrow> if h = [] then Inr None
           else bindE (policy_coerce_datetime now) (\<lambda>given.
             bindE (content_approval_in (the_or (clock E 0) given) h (rev (prior_human_decisions (run_instance_id run) L))) (\<lambda>found.
             case found of None \<Rightarrow> Inr None
             | Some (d, receipt, c) \<Rightarrow> bindE (restamped fp act d receipt c) (\<lambda>a. Inr (Some a))))))"

text \<open>The policy preflight: the engine's decision, asked again with an approval of the content.\<close>

definition preflight :: "StageDef \<Rightarrow> StageRun \<Rightarrow> ActionRequest \<Rightarrow> ts_arg \<Rightarrow> ('m, PolicyGate) prog" where
  "preflight s run request now =
     bindP (ask (\<lambda>E. evaluate E request None now)) (\<lambda>g.
     if pg_decision g = gate_decision_value REQUIRE_HUMAN
     then bindP (inspect (content_bound_human_approval s run (pg_action_fingerprint g) (rq_action request) now)) (\<lambda>bound.
       case bound of None \<Rightarrow> ret g | Some a \<Rightarrow> ask (\<lambda>E. evaluate E request (Some a) now))
     else ret g)"

section \<open>Invoking the adapter\<close>

text \<open>An answer of another shape than the called method's is a protocol violation and raises.\<close>

definition outputs_of :: "adapter_answer \<Rightarrow> kernel_error + mapping_items" where
  "outputs_of x = (case x of Outputs_answer m \<Rightarrow> Inr m | _ \<Rightarrow> Inl (TypeError ''adapter answer is not a mapping''))"

definition result_of :: "adapter_answer \<Rightarrow> kernel_error + AdapterResult" where
  "result_of x = (case x of Result_answer r \<Rightarrow> Inr r | _ \<Rightarrow> Inl (AttributeError ''adapter answer is not an adapter result''))"

definition receipt_of :: "adapter_answer \<Rightarrow> kernel_error + Receipt" where
  "receipt_of x = (case x of Receipt_answer c \<Rightarrow> Inr c | _ \<Rightarrow> Inl (AttributeError ''adapter answer is not a receipt''))"

definition asking :: "outside \<Rightarrow> AdapterInvocation \<Rightarrow> pyval \<Rightarrow> (adapter_answer \<Rightarrow> kernel_error + 'a) \<Rightarrow> ('m, 'a) prog" where
  "asking out i x f = bindP (invoke_adapter (out_adapters out) i x) (\<lambda>answer. liftP (f answer))"

definition lane_result :: "AdapterInvocation \<Rightarrow> WorkflowDef \<Rightarrow> StageDef \<Rightarrow> string \<Rightarrow> mapping_items \<Rightarrow> ArtifactRef list \<Rightarrow> AdapterResult" where
  "lane_result i w s created_at outputs refs =
    (let plain = with_default_lane_outcome s outputs;
         receipt = make_adapter_receipt i \<lparr>ra_status = ''succeeded'',
           ra_summary = ''Kernel invoked lane adapter '' @ inv_adapter_id i @ ''.'' @ inv_operation i @ '' for workflow '' @ wd_id w @ ''.'',
           ra_created_at = created_at, ra_stage_id = Some (sd_id s), ra_artifact_refs = refs, ra_outputs = plain,
           ra_checks_run = [''lane_adapter_registered'', ''owned_lane_operation_supported''], ra_policy_snapshot = [],
           ra_residual_risk = None, ra_next_action = None\<rparr>
     in \<lparr>res_invocation_id = inv_id i, res_status = ''succeeded'', res_outputs = plain, res_artifact_refs = rcpt_artifact_refs receipt,
         res_receipt_ref = Some (rcpt_id receipt), res_residual_risk = rcpt_residual_risk receipt, res_next_hint = rcpt_next_action receipt\<rparr>)"

definition lane_validation_result :: "AdapterInvocation \<Rightarrow> StageDef \<Rightarrow> nat \<Rightarrow> Receipt \<Rightarrow> AdapterResult" where
  "lane_validation_result i s n c =
     \<lparr>res_invocation_id = inv_id i, res_status = rcpt_status c,
      res_outputs = with_default_lane_outcome s [(''lane_receipt_ref'', PStr (rcpt_id c)), (''lane_receipt'', receipt_plain c),
        (''artifact_count'', PInt (int n))],
      res_artifact_refs = rcpt_artifact_refs c, res_receipt_ref = Some (rcpt_id c), res_residual_risk = rcpt_residual_risk c,
      res_next_hint = rcpt_next_action c\<rparr>"

definition invoke_lane_stage_adapter :: "outside \<Rightarrow> AdapterInvocation \<Rightarrow> WorkflowDef \<Rightarrow> StageDef \<Rightarrow> StageRun \<Rightarrow> mapping_items \<Rightarrow>
    string \<Rightarrow> ('m, AdapterResult) prog" where
  "invoke_lane_stage_adapter out i w s run stage_input created_at =
    (let operation = inv_operation i; both = PList [stage_run_plain run, PDict stage_input] in
     if operation = ''open_work'' then
       bindP (asking out i (PDict stage_input) outputs_of) (\<lambda>outputs. ret (lane_result i w s created_at outputs []))
     else if operation = ''build_stage_input'' then
       bindP (asking out i both outputs_of) (\<lambda>outputs. ret (lane_result i w s created_at outputs (artifact_refs_from_stage_input outputs)))
     else if operation = ''prepare_human_gate'' then
       bindP (asking out i both outputs_of) (\<lambda>outputs. ret (lane_result i w s created_at outputs []))
     else if operation = ''validate_artifacts'' then
       let refs = artifact_refs_from_stage_input stage_input in
       bindP (asking out i (PList [stage_run_plain run, PList (map artifact_plain refs)]) receipt_of) (\<lambda>c.
       ret (lane_validation_result i s (length refs) c))
     else raise (ValueError (inv_adapter_id i @ '' does not implement owned lane operation '' @ repr_str operation)))"

definition invoke_registered_stage_adapter :: "outside \<Rightarrow> AdapterRegistration \<Rightarrow> AdapterInvocation \<Rightarrow> WorkflowDef \<Rightarrow> StageDef \<Rightarrow>
    StageRun \<Rightarrow> mapping_items \<Rightarrow> string \<Rightarrow> ('m, AdapterResult) prog" where
  "invoke_registered_stage_adapter out reg i w s run stage_input created_at =
     (if rg_family reg = FAMILY_RUNTIME then asking out i (PDict stage_input) result_of
      else if rg_family reg = FAMILY_LANE then invoke_lane_stage_adapter out i w s run stage_input created_at
      else if rg_family reg = FAMILY_HOST \<and> out_has_invoke out (rg_adapter_id reg) then asking out i (PDict stage_input) result_of
      else raise (ValueError (''adapter family '' @ repr_str (family_value (rg_family reg)) @ '' is not supported for owned stage invocation'')))"

section \<open>After the invocation\<close>

definition retry_result :: "kernel \<Rightarrow> StageDef \<Rightarrow> StageRun \<Rightarrow> AdapterRegistration \<Rightarrow> AdapterResult \<Rightarrow> string \<Rightarrow> env \<Rightarrow>
    kernel_error + RunnerResult option" where
  "retry_result k s run reg result created_at E =
    (let policy = effective_retry_policy (k_workflow k) s reg; status = res_status result in
     if \<not> retry_enabled policy \<or> retry_max_attempts policy \<le> run_attempt run then Inr None
     else if \<not> retry_is_safe reg (run_idempotency_key run)
     then Inr (Some ((blocked_result FC_UNKNOWN_SIDE_EFFECT_STATE (''Adapter returned '' @ status @
       ''; retry policy is configured, but replay is not proven safe for this adapter side-effect scope.''))\<lparr>rr_approval_required := True\<rparr>))
     else bindE (retry_after_at created_at policy E) (\<lambda>at. Inr (Some \<lparr>rr_decision = ''retry'', rr_receipt = None, rr_output_hash = None,
       rr_failure_class = Some (failure_value FC_RUNTIME_FAILURE),
       rr_failure_summary = Some (''Adapter returned '' @ status @ ''; queued append-only retry.''), rr_retry_after_at = at,
       rr_approval_required = False\<rparr>)))"

text \<open>A failed attempt: retried or blocked by the retry policy, or else as \<open>otherwise\<close> says.\<close>

definition retry_or :: "kernel \<Rightarrow> StageDef \<Rightarrow> StageRun \<Rightarrow> AdapterRegistration \<Rightarrow> AdapterResult \<Rightarrow> string \<Rightarrow> Receipt \<Rightarrow> string \<Rightarrow>
    string \<Rightarrow> FailureClass \<Rightarrow> string \<Rightarrow> (step_state, RunnerResult) prog" where
  "retry_or k s run reg result created_at receipt response_hash decision fc reason =
     bindP (ask (retry_result k s run reg result created_at)) (\<lambda>retry. case retry of
       Some r \<Rightarrow> bindP (set_memo (ss_failure_summary_update (\<lambda>_. rr_failure_summary r))) (\<lambda>_. ret (with_receipt receipt response_hash r))
     | None \<Rightarrow> bindP (set_memo (ss_failure_summary_update (\<lambda>_. Some reason))) (\<lambda>_.
         ret (with_receipt receipt response_hash ((blocked_result fc reason)\<lparr>rr_decision := decision\<rparr>))))"

definition remember :: "AdapterResult \<Rightarrow> Receipt \<Rightarrow> (step_state, unit) prog" where
  "remember result receipt = set_memo (\<lambda>m. m\<lparr>ss_adapter_result := Some result, ss_receipt_id := Some (rcpt_id receipt)\<rparr>)"

text \<open>The adapter raised.\<close>

definition after_exception :: "kernel \<Rightarrow> StageDef \<Rightarrow> StageRun \<Rightarrow> AdapterRegistration \<Rightarrow> AdapterInvocation \<Rightarrow> RenderedContext option \<Rightarrow>
    PolicyGate \<Rightarrow> EffectivePolicy \<Rightarrow> string \<Rightarrow> string \<Rightarrow> (step_state, RunnerResult) prog" where
  "after_exception k s run reg i rendered g policy created_at message =
    (let response_hash = digest_data (PDict [(''adapter_exception'', PStr message)]);
         outputs = [(''error_class'', PStr ''adapter_exception''), (''error_summary'', PStr message)];
         result = \<lparr>res_invocation_id = inv_id i, res_status = ''failed'', res_outputs = outputs, res_artifact_refs = [], res_receipt_ref = None,
           res_residual_risk = Some ''Adapter raised before a trusted output was produced.'',
           res_next_hint = Some ''Retry only through the runner recovery policy.''\<rparr>;
         receipt = make_kernel_adapter_receipt i rendered (resolved_lease_policy_from_stage_run run) \<lparr>ra_status = ''failed'',
           ra_summary = ''Kernel invocation of '' @ rg_adapter_id reg @ ''.'' @ inv_operation i @ '' raised before trusted output.'',
           ra_created_at = created_at, ra_stage_id = Some (sd_id s), ra_artifact_refs = [], ra_outputs = outputs,
           ra_checks_run = [''adapter_registered'', ''policy_preflight'', ''adapter_exception_recorded''],
           ra_policy_snapshot = policy_snapshot g policy, ra_residual_risk = res_residual_risk result,
           ra_next_action = res_next_hint result\<rparr>
     in bindP (call (\<lambda>E. complete_adapter_invocation E (inv_id i) ''failed'' (k_owner k) (Some response_hash) None
           (Some ''adapter_exception'') (Some message) (TsText created_at))) (\<lambda>_.
        bindP (remember result receipt) (\<lambda>_.
        retry_or k s run reg result created_at receipt response_hash ''failed'' FC_RUNTIME_FAILURE message)))"

text \<open>The adapter answered: its output is checked against the stage's contract when it succeeded.\<close>

definition invalid_output :: "StageDef \<Rightarrow> StageRun \<Rightarrow> AdapterInvocation \<Rightarrow> RenderedContext option \<Rightarrow> PolicyGate \<Rightarrow> string \<Rightarrow>
    AdapterResult \<Rightarrow> string \<Rightarrow> string list \<Rightarrow> (step_state, RunnerResult) prog" where
  "invalid_output s run i rendered g created_at result response_hash errors =
    (let reason = ''Adapter output failed stage contract validation: '' @ join_with ''; '' errors;
         receipt = make_kernel_adapter_receipt i rendered (resolved_lease_policy_from_stage_run run)
           \<lparr>ra_status = run_status_value SR_INVALID_OUTPUT, ra_summary = reason, ra_created_at = created_at,
            ra_stage_id = Some (sd_id s), ra_artifact_refs = res_artifact_refs result,
            ra_outputs = dict_set (res_outputs result) ''output_contract_errors'' (str_list errors),
            ra_checks_run = [''adapter_registered'', ''policy_preflight'', ''output_contract_validation''],
            ra_policy_snapshot = policy_gate_items g, ra_residual_risk = Some reason,
            ra_next_action = Some ''Fix adapter output or stage contract before retrying.''\<rparr>
     in bindP (set_memo (\<lambda>m. m\<lparr>ss_receipt_id := Some (rcpt_id receipt), ss_failure_summary := Some reason\<rparr>)) (\<lambda>_.
        ret (with_receipt receipt response_hash ((blocked_result FC_INVALID_OUTPUT reason)\<lparr>rr_decision := ''failed''\<rparr>))))"

definition succeeded_result :: "Receipt \<Rightarrow> string \<Rightarrow> RunnerResult" where
  "succeeded_result c h = \<lparr>rr_decision = ''succeeded'', rr_receipt = Some c, rr_output_hash = Some h, rr_failure_class = None,
     rr_failure_summary = None, rr_retry_after_at = TsNone, rr_approval_required = False\<rparr>"

definition after_answer :: "kernel \<Rightarrow> StageDef \<Rightarrow> StageRun \<Rightarrow> AdapterRegistration \<Rightarrow> AdapterInvocation \<Rightarrow> RenderedContext option \<Rightarrow>
    PolicyGate \<Rightarrow> EffectivePolicy \<Rightarrow> string \<Rightarrow> AdapterResult \<Rightarrow> (step_state, RunnerResult) prog" where
  "after_answer k s run reg i rendered g policy created_at result =
    (let status = res_status result; ok = (status = ''succeeded''); reason = ''Adapter returned '' @ status @ ''.'';
         response_hash = digest_data (adapter_result_plain result);
         receipt = make_kernel_adapter_receipt i rendered (resolved_lease_policy_from_stage_run run) \<lparr>ra_status = status,
           ra_summary = ''Kernel invoked '' @ rg_adapter_id reg @ ''.'' @ inv_operation i @ ''.'', ra_created_at = created_at,
           ra_stage_id = Some (sd_id s), ra_artifact_refs = res_artifact_refs result, ra_outputs = res_outputs result,
           ra_checks_run = [''adapter_registered'', ''policy_preflight''], ra_policy_snapshot = policy_snapshot g policy,
           ra_residual_risk = res_residual_risk result, ra_next_action = res_next_hint result\<rparr>
     in bindP (call (\<lambda>E. complete_adapter_invocation E (inv_id i) status (k_owner k) (Some response_hash) None
           (if ok then None else Some ''adapter_result'') (if ok then None else Some reason) (TsText created_at))) (\<lambda>_.
        bindP (remember result receipt) (\<lambda>_.
        if ok then bindP (liftP (stage_output_contract_errors s result)) (\<lambda>errors.
          if errors \<noteq> [] then invalid_output s run i rendered g created_at result response_hash errors
          else ret (succeeded_result receipt response_hash))
        else retry_or k s run reg result created_at receipt response_hash ''blocked'' FC_DOMAIN_BLOCKED reason)))"

definition stage_invocation :: "kernel \<Rightarrow> StageDef \<Rightarrow> StageRun \<Rightarrow> AdapterRegistration \<Rightarrow> string \<Rightarrow> RenderedContext option \<Rightarrow> string \<Rightarrow>
    AdapterInvocation" where
  "stage_invocation k s run reg operation rendered hex =
     \<lparr>inv_id = ''kernel:'' @ run_id run @ '':'' @ take 12 hex, inv_workflow_id = wd_id (k_workflow k),
      inv_instance_id = run_instance_id run, inv_stage_run_id = run_id run, inv_family = rg_family reg,
      inv_adapter_id = rg_adapter_id reg, inv_operation = operation, inv_input_ref = Some (''stage:'' @ sd_id s @ '':input''),
      inv_context_packet_ref = map_option (\<lambda>x. cp_context_id (rx_packet x)) rendered,
      inv_idempotency_key = Some (str_or (run_idempotency_key run) (attempt_id (run_instance_id run) (sd_id s) (run_attempt run)))\<rparr>"

definition request_digest :: "AdapterInvocation \<Rightarrow> mapping_items \<Rightarrow> PolicyGate \<Rightarrow> EffectivePolicy \<Rightarrow> string" where
  "request_digest i input g policy = digest_data (PDict [(''invocation'', invocation_plain i), (''runtime_input'', PDict input),
     (''policy_gate'', PDict (policy_gate_items g)), (''effective_policy'', effective_policy_plain policy)])"

text \<open>The invocation: recorded as started first, then called, then completed.\<close>

definition perform_invocation :: "kernel \<Rightarrow> outside \<Rightarrow> StageDef \<Rightarrow> StageRun \<Rightarrow> AdapterRegistration \<Rightarrow> PolicyGate \<Rightarrow> EffectivePolicy \<Rightarrow>
    string \<Rightarrow> RenderedContext option \<Rightarrow> AdapterInvocation \<Rightarrow> mapping_items \<Rightarrow> (step_state, RunnerResult) prog" where
  "perform_invocation k out s run reg g policy created_at rendered i input =
     bindP (call (\<lambda>E. record_adapter_invocation_started E i (Some (request_digest i input g policy)) (k_owner k)
        (side_effect_scope reg s (inv_operation i) g) (TsText created_at))) (\<lambda>_.
     bindP (tried (invoke_registered_stage_adapter out reg i (k_workflow k) s run input created_at)) (\<lambda>answered. case answered of
        Inl e \<Rightarrow> after_exception k s run reg i rendered g policy created_at (exception_text e)
      | Inr result \<Rightarrow> after_answer k s run reg i rendered g policy created_at result))"

definition invoke_stage :: "kernel \<Rightarrow> outside \<Rightarrow> StageDef \<Rightarrow> StageRun \<Rightarrow> AdapterRegistration \<Rightarrow> string \<Rightarrow> PolicyGate \<Rightarrow> EffectivePolicy \<Rightarrow>
    string \<Rightarrow> RenderedContext option \<Rightarrow> (step_state, RunnerResult) prog" where
  "invoke_stage k out s run reg operation g policy created_at rendered =
     bindP draw_hex (\<lambda>hex.
     bindP (query (\<lambda>L. Inr (runtime_input (k_workflow k) s run (get_workflow_input_snapshot (run_instance_id run) L) rendered L))) (\<lambda>input.
     perform_invocation k out s run reg g policy created_at rendered (stage_invocation k s run reg operation rendered hex) input))"

section \<open>The handler\<close>

definition denied :: "kernel \<Rightarrow> StageDef \<Rightarrow> StageRun \<Rightarrow> AdapterRegistration \<Rightarrow> string \<Rightarrow> PolicyGate \<Rightarrow> EffectivePolicy \<Rightarrow> string \<Rightarrow> string \<Rightarrow>
    bool \<Rightarrow> (step_state, RunnerResult) prog" where
  "denied k s run reg operation g policy created_at fallback approval =
    (let reason = str_or (pg_decision_reason g) fallback in
     blocked_with (policy_preflight_receipt k s run reg operation created_at g policy reason) reason
       ((blocked_result FC_POLICY_DENIAL reason)\<lparr>rr_approval_required := approval\<rparr>))"

definition run_stage :: "kernel \<Rightarrow> outside \<Rightarrow> ts_arg \<Rightarrow> StageDef \<Rightarrow> StageRun \<Rightarrow> string \<Rightarrow> AdapterRegistration \<Rightarrow> string \<Rightarrow>
    (step_state, RunnerResult) prog" where
  "run_stage k out now s run created_at reg operation =
     bindP (liftP (effective_policy_for_stage (k_workflow k) s (Some reg) True)) (\<lambda>policy.
     bindP (preflight s run (stage_action_request (k_workflow k) s run (Some reg) operation policy None [] []) now) (\<lambda>g.
     if pg_decision g = gate_decision_value DENY
     then denied k s run reg operation g policy created_at ''Policy denied action.'' False
     else if pg_decision g = gate_decision_value REQUIRE_HUMAN
     then denied k s run reg operation g policy created_at ''Policy requires human approval.'' True
     else with_prompts k out s run created_at (Some reg) g policy (invoke_stage k out s run reg operation g policy created_at)))"

definition handle_work :: "kernel \<Rightarrow> outside \<Rightarrow> ts_arg \<Rightarrow> StageDef \<Rightarrow> StageRun \<Rightarrow> string \<Rightarrow> (step_state, RunnerResult) prog" where
  "handle_work k out now s run created_at =
    (let operation = operation_for_stage s (adapter_family_for_stage (sd_type s) (sd_adapter s)) in
     case resolve (k_registry k) (sd_adapter s) (sd_type s) of
       Inl e \<Rightarrow> blocked FC_ADAPTER_UNAVAILABLE (exception_text e)
     | Inr reg \<Rightarrow>
         if rg_family reg \<notin> {FAMILY_RUNTIME, FAMILY_LANE, FAMILY_HOST}
         then blocked FC_ADAPTER_UNAVAILABLE ''Only runtime, lane, and invokable host adapter stages are implemented in this kernel slice.''
         else if \<not> supports reg operation
         then blocked FC_ADAPTER_UNAVAILABLE (rg_adapter_id reg @ '' does not support operation '' @ repr_str operation @ ''.'')
         else run_stage k out now s run created_at reg operation)"

definition handle_stage :: "kernel \<Rightarrow> outside \<Rightarrow> ts_arg \<Rightarrow> step_state handler" where
  "handle_stage k out now run =
     bindP (stamp now) (\<lambda>created_at.
     case stage_by_id (k_workflow k) (run_stage_id run) of
       None \<Rightarrow> blocked FC_DOMAIN_BLOCKED ''Unknown workflow stage.''
     | Some s \<Rightarrow>
         bindP (query (\<lambda>L. Inr (definition_mismatch_summary k (run_instance_id run) L))) (\<lambda>mismatch. case mismatch of
           Some reason \<Rightarrow> blocked FC_DOMAIN_BLOCKED reason
         | None \<Rightarrow> if sd_type s = ST_HUMAN_GATE then handle_gate k out now s run created_at
             else handle_work k out now s run created_at))"

section \<open>One step of the kernel\<close>

text \<open>The instance update most decisions lead to.\<close>

definition note_stage :: "kernel \<Rightarrow> StageRun \<Rightarrow> StageDef \<Rightarrow> WorkflowStatus \<Rightarrow> string \<Rightarrow> mapping_items \<Rightarrow> ts_arg \<Rightarrow> ('m, unit) prog" where
  "note_stage k run s status event items now =
     call (\<lambda>E. update_workflow_instance E (run_instance_id run) status (Some (sd_id s)) now (k_owner k) event
       ([(''stage_id'', PStr (sd_id s)), (''stage_run_id'', PStr (run_id run))] @ items))"

definition reason_item :: "step_state \<Rightarrow> string \<Rightarrow> mapping_items" where
  "reason_item m decision = [(''reason'', PStr (the_or decision (ss_failure_summary m)))]"

text \<open>A stage that succeeded: routed by its outcome; \<open>Some\<close> the summary when the routing blocked.\<close>

definition after_success :: "kernel \<Rightarrow> StageRun \<Rightarrow> StageDef \<Rightarrow> step_state \<Rightarrow> ts_arg \<Rightarrow> ('m, string option option) prog" where
  "after_success k run s m now =
    (let outcome = outcome_for_stage_result s (ss_adapter_result m) in
     if wd_transitions (k_workflow k) \<noteq> []
     then bindP (advance_after_outcome k run s outcome (ss_adapter_result m) now) (\<lambda>t.
       ret (if tx_decision t = ''blocked'' then Some (tx_failure_summary t) else None))
     else bindP (note_stage k run s WF_RUNNING ''workflow_stage_succeeded'' [(''outcome'', PStr outcome)] now) (\<lambda>_. ret None))"

definition after_waiting :: "kernel \<Rightarrow> StageRun \<Rightarrow> StageDef \<Rightarrow> step_state \<Rightarrow> ts_arg \<Rightarrow> ('m, unit) prog" where
  "after_waiting k run s m now =
     bindP (human_gate k s run) (\<lambda>g.
     bindP (call (\<lambda>E. append_event E (run_instance_id run) (Some (run_id run)) ''human_gate_waiting'' (k_owner k)
        [(''gate_id'', PStr (pg_gate_id g)), (''requested_action'', PStr (pg_requested_action g)),
         (''action_fingerprint'', PStr (pg_action_fingerprint g)), (''stage_id'', PStr (sd_id s)),
         (''stage_run_id'', PStr (run_id run)), (''outcomes'', str_list (sd_outcomes s))] now)) (\<lambda>_.
     note_stage k run s WF_WAITING_ON_HUMAN ''workflow_waiting''
        ([(''gate_id'', PStr (pg_gate_id g))] @ reason_item m ''waiting_on_human'') now))"

definition after_decision :: "kernel \<Rightarrow> StageRun \<Rightarrow> StageDef \<Rightarrow> string \<Rightarrow> step_state \<Rightarrow> ts_arg \<Rightarrow> ('m, string option option) prog" where
  "after_decision k run s d m now =
     (if d = ''succeeded'' then after_success k run s m now
      else bindP
        (if d = ''waiting_on_human'' then after_waiting k run s m now
         else if d = ''blocked'' then
           (if sd_type s = ST_HUMAN_GATE then note_stage k run s WF_WAITING_ON_HUMAN ''workflow_waiting'' (reason_item m d) now
            else note_stage k run s WF_BLOCKED ''workflow_blocked'' (reason_item m d) now)
         else if d = ''failed'' then note_stage k run s WF_BLOCKED ''workflow_blocked'' (reason_item m d) now
         else if d = ''retry'' then note_stage k run s WF_RETRYING ''workflow_retrying'' (reason_item m d) now
         else ret ()) (\<lambda>_. ret None))"

definition kernel_pass :: "kernel \<Rightarrow> outside \<Rightarrow> string option \<Rightarrow> int option \<Rightarrow> ts_arg \<Rightarrow> ('m, RunnerStep \<times> step_state) prog" where
  "kernel_pass k out inst lease_seconds now =
     with_memo fresh_state (run_pass (k_owner k) (handle_stage k out now) inst PNone
       (Some (resolve_lease_for_run k lease_seconds)) (Some (\<lambda>run. Inr (stage_claim_is_platform_eligible k run)))
       [(''worker_platform'', opt_str (k_worker_platform k))] now)"

definition kernel_step :: "StageRun \<Rightarrow> string \<Rightarrow> step_state \<Rightarrow> string option option \<Rightarrow> KernelStep" where
  "kernel_step run d m block = \<lparr>ks_stage_run = Some run, ks_decision = (if block = None then d else ''blocked''),
     ks_adapter_result = ss_adapter_result m, ks_receipt_id = ss_receipt_id m,
     ks_failure_summary = (case block of None \<Rightarrow> ss_failure_summary m | Some x \<Rightarrow> x)\<rparr>"

definition run_once :: "kernel \<Rightarrow> outside \<Rightarrow> string option \<Rightarrow> int option \<Rightarrow> ts_arg \<Rightarrow> ('m, KernelStep) prog" where
  "run_once k out inst lease_seconds now =
     bindP (kernel_pass k out inst lease_seconds now) (\<lambda>(step, m). case rs_stage_run step of
       None \<Rightarrow> ret \<lparr>ks_stage_run = None, ks_decision = ''idle'', ks_adapter_result = None, ks_receipt_id = None, ks_failure_summary = None\<rparr>
     | Some run \<Rightarrow> (case stage_by_id (k_workflow k) (run_stage_id run) of
           None \<Rightarrow> ret (kernel_step run (rs_decision step) m None)
         | Some s \<Rightarrow> bindP (after_decision k run s (rs_decision step) m now) (\<lambda>block. ret (kernel_step run (rs_decision step) m block))))"

section \<open>Programs that act through the ledger\<close>

lemma acts_outside [acts_intro]: "acts u (read_files out f)" "acts u (inspect h)"
  by (auto intro!: actsI extends_refl simp: read_files_def inspect_def)

lemma acts_blocked [acts_intro]: "acts u (blocked fc reason)" "acts u (blocked_with c reason r)"
  unfolding blocked_def blocked_with_def by (intro acts_intro)+

lemma acts_render [acts_intro]: "acts u (render_stage_context k out s run reg g policy)"
  unfolding render_stage_context_def by (intro acts_intro)

lemma acts_with_prompts [acts_intro]:
  "(\<And>x. acts u (go x)) \<Longrightarrow> acts u (with_prompts k out s run c reg g policy go)"
  unfolding with_prompts_def by (intro acts_intro) auto

lemma acts_handle_gate [acts_intro]: "acts u (handle_gate k out now s run c)"
  unfolding handle_gate_def Let_def by (intro acts_intro)

lemma acts_preflight [acts_intro]: "acts u (preflight s run request now)"
  unfolding preflight_def by (intro acts_intro)

lemma acts_asking [acts_intro]: "acts u (asking out i x f)"
  unfolding asking_def by (intro acts_intro)

lemma acts_invoke_registered [acts_intro]: "acts u (invoke_registered_stage_adapter out reg i w s run x c)"
  unfolding invoke_registered_stage_adapter_def invoke_lane_stage_adapter_def Let_def by (intro acts_intro)

lemma acts_retry_or [acts_intro]: "acts u (retry_or k s run reg result c receipt h d fc reason)"
  unfolding retry_or_def by (intro acts_intro)

lemma acts_after_exception [acts_intro]: "acts u (after_exception k s run reg i rendered g policy c message)"
  unfolding after_exception_def remember_def Let_def by (intro acts_intro)

lemma acts_after_answer [acts_intro]: "acts u (after_answer k s run reg i rendered g policy c result)"
  unfolding after_answer_def invalid_output_def remember_def Let_def by (intro acts_intro)

lemma acts_invoke_stage [acts_intro]: "acts u (invoke_stage k out s run reg operation g policy c rendered)"
  unfolding invoke_stage_def perform_invocation_def by (intro acts_intro)

lemma acts_run_stage [acts_intro]: "acts u (run_stage k out now s run c reg operation)"
  unfolding run_stage_def denied_def Let_def by (intro acts_intro)

lemma acts_handle_stage [acts_intro]: "acts u (handle_stage k out now run)"
  unfolding handle_stage_def handle_work_def Let_def by (intro acts_intro)

lemma acts_note_stage [acts_intro]:
  "event \<noteq> ''stage_started'' \<Longrightarrow> acts u (note_stage k run s status event items now)"
  unfolding note_stage_def by (intro acts_intro) simp

lemma acts_after_decision [acts_intro]: "acts u (after_decision k run s d m now)"
  unfolding after_decision_def after_success_def after_waiting_def Let_def by (intro acts_intro) simp_all

lemma acts_run_once [acts_intro]: "acts u (run_once k out inst secs now)"
  unfolding run_once_def kernel_pass_def by (intro acts_intro)

end
