(* ===== verification/Surface_Lifecycle.thy ===== *)
theory Surface_Lifecycle
  imports Stage_Step
begin

text \<open>
  A waiting human gate on its surface (\<^verbatim>\<open>kernel.py\<close>, \<^verbatim>\<open>_helpers.py\<close>): publishing the packet with the authority
  the human is to decide on, reading it back, and ingesting the one structured decision the surface
  adapter returns; and the kernel as the execution facade the owned runner drives.
\<close>

record HumanGateSurfaceResult = SurfaceResult +
  hs_stage_run :: StageRun
  hs_adapter_id :: string
  hs_operation :: string
  hs_receipt_id :: "string option"
  hs_decision_result :: "KernelDecisionResult option"
  hs_failure_summary :: "string option"

section \<open>Before the call\<close>

definition waiting_human_gate_context :: "kernel \<Rightarrow> string \<Rightarrow> ('m, StageRun \<times> StageDef \<times> PolicyGate) prog" where
  "waiting_human_gate_context k i =
     bindP (query (\<lambda>L. Inr (definition_mismatch_summary k i L))) (\<lambda>mismatch. case mismatch of
       Some reason \<Rightarrow> raise (ValueError reason)
     | None \<Rightarrow> bindP (query (find_waiting_human_stage_run i)) (\<lambda>waiting. case waiting of
         None \<Rightarrow> raise (ValueError (''No human gate is waiting for instance '' @ repr_str i @ ''.''))
       | Some run \<Rightarrow> (case stage_by_id (k_workflow k) (run_stage_id run) of
           None \<Rightarrow> raise (ValueError ''Waiting run does not match a human gate in this workflow.'')
         | Some s \<Rightarrow> if sd_type s \<noteq> ST_HUMAN_GATE then raise (ValueError ''Waiting run does not match a human gate in this workflow.'')
             else bindP (human_gate k s run) (\<lambda>g. ret (run, s, g)))))"

definition resolve_surface_registration :: "kernel \<Rightarrow> StageDef \<Rightarrow> string \<Rightarrow> string option \<Rightarrow> kernel_error + AdapterRegistration" where
  "resolve_surface_registration k s operation ref =
     bindE (resolve (k_registry k) (str_or ref (sd_adapter s)) ST_HUMAN_GATE) (\<lambda>reg.
     if rg_family reg \<noteq> FAMILY_SURFACE
     then Inl (AdapterRegistryError ''human gate surface lifecycle requires a surface adapter registration'')
     else if \<not> supports reg operation
     then Inl (AdapterRegistryError (rg_adapter_id reg @ '' does not support operation '' @ repr_str operation @ ''.''))
     else Inr reg)"

definition require_surface_policy_allows :: "kernel \<Rightarrow> StageRun \<Rightarrow> StageDef \<Rightarrow> PolicyGate \<Rightarrow> AdapterRegistration \<Rightarrow> string \<Rightarrow> ts_arg \<Rightarrow>
    ('m, unit) prog" where
  "require_surface_policy_allows k run s g reg operation now =
     bindP (liftP (effective_policy_for_stage (k_workflow k) s (Some reg) False)) (\<lambda>policy.
     bindP (liftP (human_gate_evidence_refs s (pg_evidence_refs g))) (\<lambda>evidence.
     bindP (ask (\<lambda>E. evaluate E (stage_action_request (k_workflow k) s run (Some reg) (''human_gate_surface.'' @ operation) policy None
        [(''operation'', PStr operation), (''waiting_gate_id'', PStr (pg_gate_id g))] evidence) None now)) (\<lambda>surface_gate.
     if pg_decision surface_gate \<in> {gate_decision_value DENY, gate_decision_value REQUIRE_HUMAN}
     then raise (AdapterRegistryError (''human gate surface adapter policy blocked '' @ rg_adapter_id reg @ ''.'' @ operation @ '': '' @
       the_or ''None'' (pg_decision_reason surface_gate)))
     else ret ())))"

definition surface_invocation :: "kernel \<Rightarrow> StageRun \<Rightarrow> AdapterRegistration \<Rightarrow> string \<Rightarrow> string \<Rightarrow> string \<Rightarrow> AdapterInvocation" where
  "surface_invocation k run reg operation idempotency_key hex =
     \<lparr>inv_id = ''kernel:'' @ run_id run @ '':human_gate_surface:'' @ operation @ '':'' @ take 12 hex,
      inv_workflow_id = wd_id (k_workflow k), inv_instance_id = run_instance_id run, inv_stage_run_id = run_id run,
      inv_family = rg_family reg, inv_adapter_id = rg_adapter_id reg, inv_operation = operation,
      inv_input_ref = Some (''stage:'' @ run_stage_id run @ '':human_gate_surface''), inv_context_packet_ref = None,
      inv_idempotency_key = Some idempotency_key\<rparr>"

section \<open>The packet and the query\<close>

definition stage_run_prompt_provenance :: "StageDef \<Rightarrow> string \<Rightarrow> ledger \<Rightarrow> mapping_items" where
  "stage_run_prompt_provenance s i L = (case find_run i L of None \<Rightarrow> []
     | Some r \<Rightarrow> if str_or (sr_prompt_hash r) [] = [] then []
         else [(''prompt_bundle_digest'', opt_str (sr_prompt_hash r)), (''context_packet_ref'', opt_str (sr_context_packet_ref r)),
           (''context_packet_hash'', opt_str (sr_context_packet_hash r)), (''rendered_input_digest'', opt_str (sr_rendered_context_hash r)),
           (''refs'', PList (map prompt_ref_plain (sd_prompt_refs s)))])"

text \<open>The request's expiry as it was configured: a text or absent.\<close>

definition expiry_plain :: "ts_arg \<Rightarrow> pyval" where
  "expiry_plain t = (case t of TsText x \<Rightarrow> PStr x | _ \<Rightarrow> PNone)"

definition authority_envelope :: "ActionRequest \<Rightarrow> PolicyGate \<Rightarrow> string \<Rightarrow> string list \<Rightarrow> mapping_items" where
  "authority_envelope r g human evidence =
     [(''schema'', PStr ''awk.human_gate_authority.v1''), (''workflow_id'', PStr (rq_workflow_id r)),
      (''instance_id'', PStr (rq_instance_id r)), (''stage_id'', PStr (rq_stage_id r)), (''stage_run_id'', opt_str (rq_stage_run_id r)),
      (''definition_hash'', opt_str (rq_workflow_definition_hash r)), (''artifact_hashes'', str_list (rq_artifact_hashes r)),
      (''reviewed_body_hash'', PStr []), (''gate_id'', PStr (pg_gate_id g)), (''requested_action'', PStr (pg_requested_action g)),
      (''human_ref'', PStr human), (''context_packet_digest'', opt_str (rq_context_packet_digest r)),
      (''allowed_decisions'', str_list (rq_allowed_decisions r)), (''risk_classes'', str_list (map risk_value (rq_risk_classes r))),
      (''hard_gates'', str_list (map hard_gate_value (rq_hard_gates r))), (''state_constraints'', PDict (rq_state_constraints r)),
      (''expires_at'', expiry_plain (rq_expires_at r)), (''action_fingerprint'', PStr (pg_action_fingerprint g)),
      (''provenance_refs'', str_list evidence)]"

definition check_allowed :: "string list option \<Rightarrow> string list \<Rightarrow> kernel_error + unit" where
  "check_allowed given decisions = (if given \<noteq> None \<and> given \<noteq> Some decisions
     then Inl (ValueError ''allowed_decisions must match the workflow-bound human-gate outcomes'') else Inr ())"

text \<open>\<open>evidence_refs or _human_gate_evidence_refs(stage, gate)\<close>.\<close>

definition surface_evidence :: "StageDef \<Rightarrow> PolicyGate \<Rightarrow> string list option \<Rightarrow> kernel_error + string list" where
  "surface_evidence s g given = (case given of Some (e # es) \<Rightarrow> Inr (e # es) | _ \<Rightarrow> human_gate_evidence_refs s (pg_evidence_refs g))"

definition manifest_items :: "mapping_items \<Rightarrow> mapping_items" where
  "manifest_items manifest = [(''choice_options'', dict_get_or manifest ''options'' (PList [])), (''choice_manifest'', PDict manifest),
     (''choice_manifest_hash'', if manifest = [] then PNone else PStr (digest_data (PDict manifest)))]"

definition gate_identity :: "kernel \<Rightarrow> StageDef \<Rightarrow> StageRun \<Rightarrow> PolicyGate \<Rightarrow> mapping_items" where
  "gate_identity k s run g =
     [(''workflow_id'', PStr (wd_id (k_workflow k))), (''workflow_version'', PStr (wd_version (k_workflow k))),
      (''instance_id'', PStr (run_instance_id run)), (''stage_id'', PStr (sd_id s)), (''stage_run_id'', PStr (run_id run)),
      (''gate_id'', PStr (pg_gate_id g)), (''requested_action'', PStr (pg_requested_action g)),
      (''exact_action'', PStr (pg_requested_action g)), (''exact_action_approved'', PStr (pg_requested_action g))]"

definition human_gate_surface_packet :: "kernel \<Rightarrow> StageDef \<Rightarrow> StageRun \<Rightarrow> PolicyGate \<Rightarrow> gate_options \<Rightarrow> ledger \<Rightarrow>
    kernel_error + mapping_items" where
  "human_gate_surface_packet k s run g o' L =
     bindE (human_gate_allowed_decisions s) (\<lambda>decisions.
     bindE (check_allowed (go_allowed_decisions o') decisions) (\<lambda>_.
     bindE (surface_evidence s g (go_evidence_refs o')) (\<lambda>evidence.
     bindE (human_gate_choice_manifest s) (\<lambda>manifest.
     bindE (human_gate_request k s run L) (\<lambda>request.
     let human = str_or (go_human_ref o') (human_ref s) in
     Inr (dict_update (sd_surface s) ([(''schema'', PStr ''human_gate_surface_packet.v1'')] @ gate_identity k s run g @
       [(''action_fingerprint'', PStr (pg_action_fingerprint g)), (''authority'', PDict (authority_envelope request g human evidence)),
        (''allowed_decisions'', str_list decisions), (''evidence_refs'', str_list evidence)] @ manifest_items manifest @
       [(''prompt_provenance'', PDict (stage_run_prompt_provenance s (run_id run) L)), (''policy_gate'', PDict (policy_gate_items g)),
        (''readback_required'', PBool True), (''test_only'', PBool (go_test_only o')), (''non_live'', PBool (go_non_live o')),
        (''human_ref'', PStr human),
        (''title'', py_or (opt_str (go_title o')) (py_or (dict_get (sd_surface s) ''title'') (PStr (''Human gate: '' @ sd_id s)))),
        (''human_ask'', py_or (opt_str (go_human_ask o')) (py_or (dict_get (sd_surface s) ''human_ask'')
           (py_or (dict_get (sd_surface s) ''ask'') (PStr ''Choose exactly one allowed decision.''))))])))))))"

definition human_gate_surface_query :: "kernel \<Rightarrow> StageDef \<Rightarrow> StageRun \<Rightarrow> PolicyGate \<Rightarrow> mapping_items \<Rightarrow> gate_options \<Rightarrow> ledger \<Rightarrow>
    kernel_error + mapping_items" where
  "human_gate_surface_query k s run g ref o' L =
     bindE (human_gate_allowed_decisions s) (\<lambda>decisions.
     bindE (check_allowed (go_allowed_decisions o') decisions) (\<lambda>_.
     bindE (human_gate_choice_manifest s) (\<lambda>manifest.
     bindE (surface_evidence s g (go_evidence_refs o')) (\<lambda>evidence.
     bindE (human_gate_request k s run L) (\<lambda>request.
     let human = str_or (go_human_ref o') (human_ref s);
         published = the_or [] (published_human_gate_authority run L) in
     Inr ([(''query_id'', PStr (run_id run @ '':human_gate_surface_decision''))] @ gate_identity k s run g @
       [(''expected_action_fingerprint'', PStr (pg_action_fingerprint g)), (''action_fingerprint'', PStr (pg_action_fingerprint g)),
        (''authority'', PDict (if published \<noteq> [] then published else authority_envelope request g human evidence)),
        (''allowed_decisions'', str_list decisions), (''evidence_refs'', str_list evidence)] @ manifest_items manifest @
       [(''prompt_provenance'', PDict (stage_run_prompt_provenance s (run_id run) L)), (''human_ref'', PStr human),
        (''surface_ref'', PDict ref), (''policy_gate'', PDict (policy_gate_items g))]))))))"

definition resolve_human_gate_surface_ref :: "StageRun \<Rightarrow> mapping_items option \<Rightarrow> ledger \<Rightarrow> kernel_error + mapping_items" where
  "resolve_human_gate_surface_ref run given L = (case given of Some r \<Rightarrow> Inr r
     | None \<Rightarrow> (case latest_successful_surface_ref (run_id run) L of
         None \<Rightarrow> Inl (ValueError ''No published human-gate surface reference is available; publish the waiting gate first.'')
       | Some r \<Rightarrow> Inr r))"

section \<open>The authority an adapter publishes\<close>

text \<open>Python's equality of plain data: booleans are integers, the order of keys does not count.\<close>

fun bools_as_ints :: "pyval \<Rightarrow> pyval" where
  "bools_as_ints (PBool b) = PInt (if b then 1 else 0)"
| "bools_as_ints (PList vs) = PList (map bools_as_ints vs)"
| "bools_as_ints (PDict m) = PDict (map (\<lambda>(k, v). (k, bools_as_ints v)) m)"
| "bools_as_ints v = v"

definition py_equal :: "pyval \<Rightarrow> pyval \<Rightarrow> bool" where
  "py_equal a b \<longleftrightarrow> canonical_data (bools_as_ints a) = canonical_data (bools_as_ints b)"

definition changed_authority :: "mapping_items \<Rightarrow> mapping_items \<Rightarrow> string option" where
  "changed_authority requested published = map_option fst
     (find (\<lambda>(key, v). key \<noteq> ''reviewed_body_hash'' \<and> \<not> py_equal (dict_get published key) v) requested)"

definition validate_published_human_gate_authority :: "mapping_items \<Rightarrow> mapping_items \<Rightarrow> kernel_error + unit" where
  "validate_published_human_gate_authority packet outputs =
     (case (mapping_of (dict_get packet ''authority''), surface_authority_from_outputs outputs) of
        (Some requested, Some published) \<Rightarrow> (case changed_authority requested published of
            Some key \<Rightarrow> Inl (AdapterRegistryError (''surface adapter changed AWK authority field '' @ repr_str key @ '' while publishing''))
          | None \<Rightarrow> let reviewed = text_field published ''reviewed_body_hash'' in
              if reviewed \<noteq> [] \<and> \<not> starts_with ''sha256:'' reviewed
              then Inl (AdapterRegistryError ''surface adapter reviewed_body_hash must be a sha256 digest'') else Inr ())
      | _ \<Rightarrow> Inr ())"

section \<open>The approval in a surface receipt\<close>

definition required_approval_fields :: "string list" where
  "required_approval_fields = [''gate_id'', ''human_ref'', ''canonical_surface'', ''decision'', ''exact_action_approved'', ''action_fingerprint'']"

definition carried_context_keys :: "string list" where
  "carried_context_keys = [''selected_option'', ''longform_option'', ''choice_manifest'', ''choice_manifest_hash'', ''operator_comments'', ''annotated_draft'']"

definition missing_approval_fields :: "mapping_items \<Rightarrow> string list" where
  "missing_approval_fields outputs = filter (\<lambda>f. strip (py_str (dict_get_or outputs f (PStr []))) = []) required_approval_fields"

definition surface_constraints :: "Receipt \<Rightarrow> string \<Rightarrow> mapping_items \<Rightarrow> mapping_items" where
  "surface_constraints c adapter_id outputs =
     [(''surface_adapter_id'', PStr adapter_id), (''surface_receipt_ref'', PStr (rcpt_id c))] @
     map (\<lambda>f. (f, PBool (truthy (dict_get outputs f)))) (filter (has_key outputs) [''test_only'', ''non_live'']) @
     map (\<lambda>f. (f, dict_get outputs f)) (filter (has_key outputs) carried_context_keys)"

text \<open>\<open>Inr (Inl reason)\<close> when fields are missing, \<open>Inr (Inr approval)\<close> otherwise.\<close>

definition human_approval_from_surface_receipt :: "Receipt \<Rightarrow> string \<Rightarrow> kernel_error + (string + HumanApprovalReceipt)" where
  "human_approval_from_surface_receipt c adapter_id =
    (let outputs = receipt_outputs c; missing = missing_approval_fields outputs; field = (\<lambda>f. py_str (dict_get outputs f)) in
     if missing \<noteq> [] then Inr (Inl (''Surface decision receipt is missing required approval fields: '' @ join_with '', '' missing))
     else bindE (string_tuple (dict_get_or outputs ''evidence_refs'' (PList []))) (\<lambda>evidence.
       Inr (Inr \<lparr>ap_approval_id = py_str (py_or (dict_get outputs ''approval_id'') (PStr (rcpt_id c))), ap_gate_id = field ''gate_id'',
         ap_human_ref = field ''human_ref'', ap_canonical_surface = field ''canonical_surface'',
         ap_decision = approval_decision_of (field ''decision''), ap_exact_action_approved = field ''exact_action_approved'',
         ap_action_fingerprint = field ''action_fingerprint'', ap_evidence_refs = evidence,
         ap_constraints = surface_constraints c adapter_id outputs, ap_created_at = TsText (rcpt_created_at c),
         ap_expires_at = TsNone, ap_revoked_at = TsNone,
         ap_message_ref = Some (py_str (py_or (dict_get outputs ''transcript_or_message_ref'')
           (py_or (dict_get outputs ''source_note_path'') (PStr (rcpt_id c)))))\<rparr>)))"

definition surface_ingest_failure_summary :: "Receipt list \<Rightarrow> Receipt list \<Rightarrow> string" where
  "surface_ingest_failure_summary cs candidates =
     (if cs = [] then ''Surface adapter returned no human decision receipts.''
      else if length candidates \<noteq> 1 then (case find (\<lambda>c. rcpt_status c \<noteq> ''succeeded'') cs of
          Some c \<Rightarrow> rcpt_summary c
        | None \<Rightarrow> ''Surface decision ingest must return exactly one structured human decision receipt; got '' @ show_nat (length candidates) @ ''.'')
      else if rcpt_status (hd candidates) \<noteq> ''succeeded'' then rcpt_summary (hd candidates)
      else [])"

text \<open>
  The one decision an ingestion yields, or why there is none.  A decision needs exactly one
  structured receipt that succeeded and names all its fields.
\<close>

definition surface_decision :: "Receipt list \<Rightarrow> string \<Rightarrow> kernel_error + (string + HumanApprovalReceipt)" where
  "surface_decision cs adapter_id = (let candidates = filter is_surface_decision_receipt cs in
     case candidates of
       [c] \<Rightarrow> if rcpt_status c = ''succeeded'' then human_approval_from_surface_receipt c adapter_id
              else Inr (Inl (surface_ingest_failure_summary cs candidates))
     | _ \<Rightarrow> Inr (Inl (surface_ingest_failure_summary cs candidates)))"

section \<open>Calling the surface adapter\<close>

text \<open>The adapter's \<open>ingest_decisions\<close> answers with receipts.\<close>

definition receipts_of :: "adapter_answer \<Rightarrow> kernel_error + Receipt list" where
  "receipts_of x = (case x of Receipts_answer cs \<Rightarrow> Inr cs | _ \<Rightarrow> Inl (TypeError ''adapter answer is not a sequence of receipts''))"

definition record_surface_call :: "kernel \<Rightarrow> StageDef \<Rightarrow> AdapterRegistration \<Rightarrow> PolicyGate \<Rightarrow> AdapterInvocation \<Rightarrow> string \<Rightarrow> pyval \<Rightarrow>
    string \<Rightarrow> ('m, unit) prog" where
  "record_surface_call k s reg g i key subject created_at =
     call (\<lambda>E. record_adapter_invocation_started E i (Some (digest_data (PDict [(''invocation'', invocation_plain i), (key, subject)])))
       (k_owner k) (side_effect_scope reg s (inv_operation i) g) (TsText created_at))"

text \<open>After the call: the invocation is completed, the receipt recorded, the event appended.\<close>

definition record_surface_outcome :: "kernel \<Rightarrow> StageRun \<Rightarrow> AdapterInvocation \<Rightarrow> PolicyGate \<Rightarrow> string \<Rightarrow> string option \<Rightarrow> string option \<Rightarrow>
    string option \<Rightarrow> Receipt \<Rightarrow> string \<Rightarrow> mapping_items \<Rightarrow> string \<Rightarrow> ('m, unit) prog" where
  "record_surface_outcome k run i g response_hash external_ref error_class error_summary receipt event items created_at =
     bindP (call (\<lambda>E. complete_adapter_invocation E (inv_id i) (rcpt_status receipt) (k_owner k) (Some response_hash) external_ref
        error_class error_summary (TsText created_at))) (\<lambda>_.
     bindP (call (\<lambda>E. record_receipt E receipt)) (\<lambda>_.
     call (\<lambda>E. append_event E (run_instance_id run) (Some (run_id run)) event (k_owner k)
        ([(''adapter_id'', PStr (inv_adapter_id i)), (''gate_id'', PStr (pg_gate_id g)), (''receipt_id'', PStr (rcpt_id receipt)),
          (''status'', PStr (rcpt_status receipt))] @ items) (TsText created_at))))"

definition surface_receipt :: "StageRun \<Rightarrow> AdapterInvocation \<Rightarrow> receipt_arguments \<Rightarrow> Receipt" where
  "surface_receipt run i a = make_kernel_adapter_receipt i None (resolved_lease_policy_from_stage_run run) a"

definition opt_mapping :: "mapping_items option \<Rightarrow> pyval" where
  "opt_mapping m = (case m of None \<Rightarrow> PNone | Some d \<Rightarrow> PDict d)"

definition publish_waiting_human_gate :: "kernel \<Rightarrow> outside \<Rightarrow> string \<Rightarrow> gate_options \<Rightarrow> ts_arg \<Rightarrow> ('m, HumanGateSurfaceResult) prog" where
  "publish_waiting_human_gate k out i o' now =
     bindP (waiting_human_gate_context k i) (\<lambda>(run, s, g).
     bindP (liftP (resolve_surface_registration k s ''publish'' (go_surface_adapter_ref o'))) (\<lambda>reg.
     bindP (require_surface_policy_allows k run s g reg ''publish'' now) (\<lambda>_.
     bindP (query (human_gate_surface_packet k s run g o')) (\<lambda>packet.
     bindP (stamp now) (\<lambda>created_at.
     bindP draw_hex (\<lambda>hex.
     let v = surface_invocation k run reg ''publish'' (run_id run @ '':human_gate_surface:publish'') hex in
     bindP (record_surface_call k s reg g v ''surface_packet'' (PDict packet) created_at) (\<lambda>_.
     bindP (asking out v (PDict packet) result_of) (\<lambda>result.
     bindP (liftP (validate_published_human_gate_authority packet (res_outputs result))) (\<lambda>_.
     let ref = surface_ref_from_outputs (res_outputs result);
         receipt = surface_receipt run v \<lparr>ra_status = res_status result,
           ra_summary = ''Kernel published waiting human gate through '' @ rg_adapter_id reg @ ''.'', ra_created_at = created_at,
           ra_stage_id = Some (sd_id s), ra_artifact_refs = res_artifact_refs result, ra_outputs = res_outputs result,
           ra_checks_run = [''surface_adapter_registered'', ''waiting_gate_bound'', ''surface_packet_published''],
           ra_policy_snapshot = policy_gate_items g, ra_residual_risk = res_residual_risk result, ra_next_action = res_next_hint result\<rparr> in
     bindP (record_surface_outcome k run v g (digest_data (adapter_result_plain result)) (surface_external_ref (res_outputs result))
        None None receipt ''human_gate_surface_published'' [(''surface_ref'', opt_mapping ref)] created_at) (\<lambda>_.
     ret \<lparr>su_status = res_status result, su_surface_ref = ref, su_outputs = res_outputs result, hs_stage_run = run,
       hs_adapter_id = rg_adapter_id reg, hs_operation = ''publish'', hs_receipt_id = Some (rcpt_id receipt), hs_decision_result = None,
       hs_failure_summary = (if res_status result = ''succeeded'' then None else res_residual_risk result)\<rparr>))))))))))"

definition readback_human_gate_surface :: "kernel \<Rightarrow> outside \<Rightarrow> string \<Rightarrow> mapping_items option \<Rightarrow> string option \<Rightarrow> ts_arg \<Rightarrow>
    ('m, HumanGateSurfaceResult) prog" where
  "readback_human_gate_surface k out i given adapter_ref now =
     bindP (waiting_human_gate_context k i) (\<lambda>(run, s, g).
     bindP (liftP (resolve_surface_registration k s ''readback'' adapter_ref)) (\<lambda>reg.
     bindP (require_surface_policy_allows k run s g reg ''readback'' now) (\<lambda>_.
     bindP (query (resolve_human_gate_surface_ref run given)) (\<lambda>ref.
     bindP (stamp now) (\<lambda>created_at.
     bindP draw_hex (\<lambda>key.
     bindP draw_hex (\<lambda>hex.
     let v = surface_invocation k run reg ''readback'' (run_id run @ '':human_gate_surface:readback:'' @ take 8 key) hex in
     bindP (record_surface_call k s reg g v ''surface_ref'' (PDict ref) created_at) (\<lambda>_.
     bindP (asking out v (PDict ref) receipt_of) (\<lambda>c.
     let outputs = [(''surface_ref'', PDict ref), (''adapter_receipt'', receipt_plain c), (''readback'', PDict (receipt_outputs c))];
         receipt = surface_receipt run v \<lparr>ra_status = rcpt_status c, ra_summary = rcpt_summary c, ra_created_at = created_at,
           ra_stage_id = Some (sd_id s), ra_artifact_refs = rcpt_artifact_refs c, ra_outputs = outputs,
           ra_checks_run = [''surface_adapter_registered'', ''surface_ref_readback''], ra_policy_snapshot = policy_gate_items g,
           ra_residual_risk = rcpt_residual_risk c, ra_next_action = rcpt_next_action c\<rparr> in
     bindP (record_surface_outcome k run v g (digest_data (PDict outputs)) (surface_external_ref [(''surface_ref'', PDict ref)])
        None None receipt ''human_gate_surface_readback'' [(''surface_ref'', PDict ref)] created_at) (\<lambda>_.
     ret \<lparr>su_status = rcpt_status c, su_surface_ref = Some ref, su_outputs = outputs, hs_stage_run = run,
       hs_adapter_id = rg_adapter_id reg, hs_operation = ''readback'', hs_receipt_id = Some (rcpt_id receipt), hs_decision_result = None,
       hs_failure_summary = (if rcpt_status c = ''succeeded'' then None else Some (rcpt_summary c))\<rparr>))))))))))"

text \<open>What the gate's receipt shows of an ingestion.\<close>

definition ingest_outputs :: "mapping_items \<Rightarrow> mapping_items \<Rightarrow> Receipt list \<Rightarrow> string + HumanApprovalReceipt \<Rightarrow> mapping_items" where
  "ingest_outputs ref surface_query cs decided =
     [(''surface_ref'', PDict ref), (''surface_query'', PDict surface_query),
      (''candidate_decision_count'', PInt (int (length (filter is_surface_decision_receipt cs)))),
      (''adapter_receipts'', PList (map receipt_plain cs))] @
     (case decided of Inl _ \<Rightarrow> [] | Inr a \<Rightarrow> (''decision'', PStr (approval_decision_value (ap_decision a))) #
        (let comments = dict_get (ap_constraints a) ''operator_comments'' in optional_items (truthy comments) [(''operator_comments'', comments)]))"

definition ingest_receipt :: "StageDef \<Rightarrow> StageRun \<Rightarrow> PolicyGate \<Rightarrow> AdapterInvocation \<Rightarrow> mapping_items \<Rightarrow> string + HumanApprovalReceipt \<Rightarrow>
    string \<Rightarrow> Receipt" where
  "ingest_receipt s run g v outputs decided created_at =
    (let problem = (case decided of Inl reason \<Rightarrow> Some reason | Inr _ \<Rightarrow> None) in
     surface_receipt run v \<lparr>ra_status = (if problem = None then ''succeeded'' else ''blocked''),
       ra_summary = the_or ''Kernel ingested one human-gate surface decision.'' problem, ra_created_at = created_at,
       ra_stage_id = Some (sd_id s), ra_artifact_refs = [], ra_outputs = outputs,
       ra_checks_run = [''surface_adapter_registered'', ''exactly_one_decision_receipt''], ra_policy_snapshot = policy_gate_items g,
       ra_residual_risk = problem,
       ra_next_action = (if problem = None then None else Some ''Fix the surface decision and retry from a fresh waiting gate.'')\<rparr>)"

definition ingest_result :: "StageRun \<Rightarrow> AdapterRegistration \<Rightarrow> mapping_items \<Rightarrow> mapping_items \<Rightarrow> Receipt \<Rightarrow> KernelDecisionResult \<Rightarrow>
    HumanGateSurfaceResult" where
  "ingest_result run reg ref outputs receipt d =
     \<lparr>su_status = (if kd_decision d \<noteq> ''blocked'' then ''succeeded'' else ''blocked''), su_surface_ref = Some ref, su_outputs = outputs,
      hs_stage_run = run, hs_adapter_id = rg_adapter_id reg, hs_operation = ''ingest_decisions'', hs_receipt_id = Some (rcpt_id receipt),
      hs_decision_result = Some d, hs_failure_summary = kd_failure_summary d\<rparr>"

text \<open>Acting on what the surface decided: the gate is blocked, or the decision ingested.\<close>

definition act_on_surface_decision :: "kernel \<Rightarrow> StageRun \<Rightarrow> string \<Rightarrow> string + HumanApprovalReceipt \<Rightarrow> ts_arg \<Rightarrow>
    ('m, KernelDecisionResult) prog" where
  "act_on_surface_decision k run i decided now = (case decided of
     Inl reason \<Rightarrow> bindP (block_waiting_human_run k run reason now) (\<lambda>_. ret (blocked_decision (Some run) reason))
   | Inr a \<Rightarrow> ingest_human_decision k i (Some a) now)"

definition record_ingestion :: "kernel \<Rightarrow> StageDef \<Rightarrow> StageRun \<Rightarrow> PolicyGate \<Rightarrow> AdapterInvocation \<Rightarrow> mapping_items \<Rightarrow> mapping_items \<Rightarrow>
    Receipt list \<Rightarrow> string + HumanApprovalReceipt \<Rightarrow> Receipt \<Rightarrow> string \<Rightarrow> ('m, unit) prog" where
  "record_ingestion k s run g v ref outputs cs decided receipt created_at =
     record_surface_outcome k run v g (digest_data (PDict outputs)) (surface_external_ref [(''surface_ref'', PDict ref)])
       (case decided of Inl _ \<Rightarrow> Some ''human_decision_ingest_blocked'' | Inr _ \<Rightarrow> None)
       (case decided of Inl reason \<Rightarrow> Some reason | Inr _ \<Rightarrow> None) receipt ''human_gate_surface_decision_ingested''
       [(''candidate_decision_count'', PInt (int (length (filter is_surface_decision_receipt cs))))] created_at"

definition ingest_human_gate_surface_decision :: "kernel \<Rightarrow> outside \<Rightarrow> string \<Rightarrow> mapping_items option \<Rightarrow> gate_options \<Rightarrow> ts_arg \<Rightarrow>
    ('m, HumanGateSurfaceResult) prog" where
  "ingest_human_gate_surface_decision k out i given o' now =
     bindP (waiting_human_gate_context k i) (\<lambda>(run, s, g).
     bindP (liftP (resolve_surface_registration k s ''ingest_decisions'' (go_surface_adapter_ref o'))) (\<lambda>reg.
     bindP (require_surface_policy_allows k run s g reg ''ingest_decisions'' now) (\<lambda>_.
     bindP (query (resolve_human_gate_surface_ref run given)) (\<lambda>ref.
     bindP (query (human_gate_surface_query k s run g ref o')) (\<lambda>surface_query.
     bindP (stamp now) (\<lambda>created_at.
     bindP draw_hex (\<lambda>key.
     bindP draw_hex (\<lambda>hex.
     let v = surface_invocation k run reg ''ingest_decisions'' (run_id run @ '':human_gate_surface:ingest:'' @ take 8 key) hex in
     bindP (record_surface_call k s reg g v ''surface_query'' (PDict surface_query) created_at) (\<lambda>_.
     bindP (asking out v (PDict surface_query) receipts_of) (\<lambda>cs.
     bindP (liftP (surface_decision cs (rg_adapter_id reg))) (\<lambda>decided.
     let outputs = ingest_outputs ref surface_query cs decided; receipt = ingest_receipt s run g v outputs decided created_at in
     bindP (record_ingestion k s run g v ref outputs cs decided receipt created_at) (\<lambda>_.
     bindP (act_on_surface_decision k run i decided now) (\<lambda>d.
     ret (ingest_result run reg ref outputs receipt d))))))))))))))"

section \<open>The kernel as execution facade\<close>

definition plain_surface_result :: "('m, HumanGateSurfaceResult) prog \<Rightarrow> ('m, SurfaceResult) prog" where
  "plain_surface_result m = bindP m (\<lambda>r. ret (SurfaceResult.truncate r))"

definition kernel_facade :: "kernel \<Rightarrow> outside \<Rightarrow> (mapping_items \<Rightarrow> SurfaceResult \<Rightarrow> ('m, ReviewResult) prog) option \<Rightarrow> 'm facade" where
  "kernel_facade k out reviewer =
     \<lparr>fc_workflow = k_workflow k, fc_run_once = (\<lambda>i now. run_once k out (Some i) None now),
      fc_publish = (\<lambda>i o' now. plain_surface_result (publish_waiting_human_gate k out i o' now)),
      fc_readback = (\<lambda>i ref o' now. plain_surface_result (readback_human_gate_surface k out i (Some ref) (go_surface_adapter_ref o') now)),
      fc_ingest = (\<lambda>i ref o' human now. plain_surface_result
        (ingest_human_gate_surface_decision k out i (Some ref) (o'\<lparr>go_human_ref := human\<rparr>) now)),
      fc_reviewer = reviewer\<rparr>"

section \<open>Surface operations act through the ledger\<close>

lemma acts_context [acts_intro]: "acts u (waiting_human_gate_context k i)"
  unfolding waiting_human_gate_context_def by (intro acts_intro)

lemma acts_surface_policy [acts_intro]: "acts u (require_surface_policy_allows k run s g reg operation now)"
  unfolding require_surface_policy_allows_def by (intro acts_intro)

lemma acts_surface_records [acts_intro]: "acts u (record_surface_call k s reg g i key subject c)"
  "event \<noteq> ''stage_started'' \<Longrightarrow> acts u (record_surface_outcome k run i g rh ex ec es receipt event items c)"
  unfolding record_surface_call_def record_surface_outcome_def by (intro acts_intro; simp)+

lemma acts_publish [acts_intro]: "acts u (publish_waiting_human_gate k out i o' now)"
  unfolding publish_waiting_human_gate_def Let_def by (intro acts_intro; simp)

lemma acts_readback [acts_intro]: "acts u (readback_human_gate_surface k out i given ref now)"
  unfolding readback_human_gate_surface_def Let_def by (intro acts_intro; simp)

lemma acts_act_on [acts_intro]: "acts u (act_on_surface_decision k run i decided now)"
  unfolding act_on_surface_decision_def by (intro acts_intro)

lemma acts_ingest_surface [acts_intro]: "acts u (ingest_human_gate_surface_decision k out i given o' now)"
  unfolding ingest_human_gate_surface_decision_def record_ingestion_def Let_def by (intro acts_intro; simp)

end
