(* ===== verification/Ledger_Sweep.thy ===== *)
theory Ledger_Sweep
  imports Ledger_Settling
begin

text \<open>
  The stale-lease sweep as a function: each lapsed lease gets the verdict its row and the
  start evidence before the sweep determine, whatever the other rows are, because a sweep
  writes no start evidence.  From this: what a sweep changes, that nothing which may have
  started is requeued, that no lapsed lease survives, and that sweeping again does nothing.
\<close>

definition lapsed_at :: "env \<Rightarrow> utc \<Rightarrow> stage_run_row \<Rightarrow> bool" where
  "lapsed_at E m r \<longleftrightarrow> (case sr_lease_expires_at r of None \<Rightarrow> False
     | Some e \<Rightarrow> (case coerce_datetime E e of Inl _ \<Rightarrow> False | Inr x \<Rightarrow> x \<le> m))"

definition sweep_verdict :: "env \<Rightarrow> utc \<Rightarrow> ledger \<Rightarrow> stage_run_row \<Rightarrow>
    (string \<times> StageRunStatus \<times> bool \<times> FailureClass \<times> string) option" where
  "sweep_verdict E m L r = (if lapsed_at E m r then stale_verdict L r else None)"

definition swept :: "env \<Rightarrow> utc \<Rightarrow> string \<Rightarrow> ledger \<Rightarrow> stage_run_row \<Rightarrow> stage_run_row" where
  "swept E m at L r = (case sweep_verdict E m L r of None \<Rightarrow> r
     | Some (_, st, approval, fc, summary) \<Rightarrow> swept_row st approval fc summary at r)"

lemma stale_verdict_active: "stale_verdict L r \<noteq> None \<longleftrightarrow> active_lease (sr_status r)"
  by (auto simp: stale_verdict_def active_lease_def)

lemma swept_row_simps [simp]:
  "sr_id (swept_row st ap fc sm at r) = sr_id r" "sr_lease_token (swept_row st ap fc sm at r) = None"
  "sr_status (swept_row st ap fc sm at r) = st" "sr_lease_expires_at (swept_row st ap fc sm at r) = None"
  "sr_approval_required (swept_row st ap fc sm at r) = ap"
  by (simp_all add: swept_row_def clear_lease_def)

lemma swept_id [simp]: "sr_id (swept E m at L r) = sr_id r"
  by (simp add: swept_def split: option.split prod.split)

section \<open>One row\<close>

lemma sweep_row_result:
  assumes "sweep_row E a at row (acts, L) = Inr (acts', L')" "coerce_datetime E at = Inr m"
  shows "case sweep_verdict E m L row of None \<Rightarrow> acts' = acts \<and> L' = L
    | Some v \<Rightarrow> acts' = acts @ [recovery_action row v] \<and> apply_verdict E a at row v L = Inr L'"
proof (cases "sr_lease_expires_at row")
  case None
  then show ?thesis using assms(1) by (simp add: sweep_row_def sweep_verdict_def lapsed_at_def)
next
  case (Some e)
  then obtain x where x: "coerce_datetime E e = Inr x"
    using assms by (auto simp: sweep_row_def error_simps)
  show ?thesis
  proof (cases "x \<le> m")
    case False
    then have "m < x" "(x \<le> m) = False" by simp_all
    then show ?thesis using assms Some x by (simp add: sweep_row_def sweep_verdict_def lapsed_at_def)
  next
    case True
    then have "\<not> m < x" by simp
    then show ?thesis using assms Some x True
      by (cases "stale_verdict L row") (auto simp: sweep_row_def sweep_verdict_def lapsed_at_def bindE_eq_Inr)
  qed
qed

lemma block_current_instance_effect:
  assumes "block_current_instance E a at row fc sm L = Inr L'"
  shows "stage_runs L' = stage_runs L" "adapter_invocations L' = adapter_invocations L"
    "\<exists>es. events L' = events L @ es \<and> (\<forall>e \<in> set es. ev_type e = ''workflow_blocked'')"
    "\<exists>f. workflow_instances L' = map f (workflow_instances L) \<and> (\<forall>w. wi_instance_id (f w) = wi_instance_id w \<and>
       wi_current_stage_id (f w) = wi_current_stage_id w \<and> (sweep_closed (wi_status w) \<longrightarrow> sweep_closed (wi_status (f w))))"
proof -
  have A: "stage_runs L' = stage_runs L \<and> adapter_invocations L' = adapter_invocations L \<and>
    (\<exists>es. events L' = events L @ es \<and> (\<forall>e \<in> set es. ev_type e = ''workflow_blocked'')) \<and>
    (\<exists>f. workflow_instances L' = map f (workflow_instances L) \<and> (\<forall>w. wi_instance_id (f w) = wi_instance_id w \<and>
       wi_current_stage_id (f w) = wi_current_stage_id w \<and> (sweep_closed (wi_status w) \<longrightarrow> sweep_closed (wi_status (f w)))))"
  proof (cases "L' = L")
    case True
    then show ?thesis by (intro conjI exI[of _ "[]"] exI[of _ id]) simp_all
  next
    case False
    then obtain c where log: "emit E (sr_instance_id row) (Some (sr_id row)) ''workflow_blocked'' a c at
      (update_instances (\<lambda>r. wi_instance_id r = sr_instance_id row) (\<lambda>r. r\<lparr>wi_status := WF_BLOCKED, wi_updated_at := at\<rparr>) L) = Inr L'"
      using assms by (auto simp: block_current_instance_def split: option.splits if_splits)
    show ?thesis
      using log by (intro conjI exI[of _ "\<lambda>w. if wi_instance_id w = sr_instance_id row
          then w\<lparr>wi_status := WF_BLOCKED, wi_updated_at := at\<rparr> else w"])
        (auto simp: emit_Inr event_of_def sweep_closed_def update_instances_def update_where_def)
  qed
  then show "stage_runs L' = stage_runs L" "adapter_invocations L' = adapter_invocations L"
    "\<exists>es. events L' = events L @ es \<and> (\<forall>e \<in> set es. ev_type e = ''workflow_blocked'')"
    "\<exists>f. workflow_instances L' = map f (workflow_instances L) \<and> (\<forall>w. wi_instance_id (f w) = wi_instance_id w \<and>
       wi_current_stage_id (f w) = wi_current_stage_id w \<and> (sweep_closed (wi_status w) \<longrightarrow> sweep_closed (wi_status (f w))))"
    by blast+
qed

text \<open>After blocking, the instance is closed if this run's stage is its current one.\<close>

lemma block_current_instance_closes:
  assumes "block_current_instance E a at row fc sm L = Inr L'" "ledger_ok L" "w \<in> set (workflow_instances L')"
    "wi_instance_id w = sr_instance_id row" "wi_current_stage_id w = Some (sr_stage_id row)"
  shows "sweep_closed (wi_status w)"
proof (cases "find_instance (sr_instance_id row) L")
  case None
  then have "L' = L" using assms(1) by (simp add: block_current_instance_def)
  then show ?thesis using None assms(3,4) by (auto simp: find_instance_def select_one_None)
next
  case (Some v)
  then have v: "v \<in> set (workflow_instances L)" "wi_instance_id v = sr_instance_id row"
    by (auto simp: find_instance_def dest: select_one_Some)
  note uniq = distinct_map_unique[OF ledger_ok_runs(2)[OF assms(2)] _ v(1)]
  show ?thesis
  proof (cases "wi_current_stage_id v = Some (sr_stage_id row) \<and> \<not> sweep_closed (wi_status v)")
    case True
    then show ?thesis using assms(1,3,4) Some
      by (auto simp: block_current_instance_def emit_Inr update_instances_def update_where_def sweep_closed_def)
  next
    case False
    then have "L' = L" using assms(1) Some by (auto simp: block_current_instance_def)
    then have "w = v" using uniq assms(3,4) v(2) by simp
    then show ?thesis using False assms(5) by blast
  qed
qed

section \<open>A verdict applied\<close>

lemma start_evidence_kept:
  assumes "adapter_invocations L' = adapter_invocations L" "events L' = events L @ es"
    "\<forall>e \<in> set es. ev_type e \<in> {''workflow_blocked'', ''recovery''}"
  shows "has_start_evidence L' i = has_start_evidence L i"
  using assms(3) by (auto simp: has_start_evidence_def assms(1,2))

lemma apply_verdict_effect:
  assumes "apply_verdict E a at row (act, st, ap, fc, sm) L = Inr L'" "ledger_ok L" "row \<in> set (stage_runs L)"
  shows "stage_runs L' = map (\<lambda>r. if r = row then swept_row st ap fc sm at row else r) (stage_runs L)"
    "has_start_evidence L' = has_start_evidence L"
    "\<exists>f. workflow_instances L' = map f (workflow_instances L) \<and> (\<forall>w. wi_instance_id (f w) = wi_instance_id w \<and>
       wi_current_stage_id (f w) = wi_current_stage_id w \<and> (sweep_closed (wi_status w) \<longrightarrow> sweep_closed (wi_status (f w))))"
    "act = ''blocked'' \<Longrightarrow> w \<in> set (workflow_instances L') \<Longrightarrow> wi_instance_id w = sr_instance_id row \<Longrightarrow>
       wi_current_stage_id w = Some (sr_stage_id row) \<Longrightarrow> sweep_closed (wi_status w)"
proof -
  let ?L2 = "bump_epoch (sr_instance_id row) at (update_runs (\<lambda>r. sr_id r = sr_id row) (swept_row st ap fc sm at) L)"
  obtain L3 c where L3: "(if act = ''blocked'' then block_current_instance E a at row fc sm ?L2 else Inr ?L2) = Inr L3"
    and log: "emit E (sr_instance_id row) (Some (sr_id row)) ''recovery'' a c at L3 = Inr L'"
    using assms(1) unfolding apply_verdict_def Let_def by (auto simp: bindE_eq_Inr simp del: if_split)
  let ?g = "\<lambda>w. if wi_instance_id w = sr_instance_id row
     then w\<lparr>wi_recovery_epoch := wi_recovery_epoch w + 1, wi_updated_at := at\<rparr> else w"
  have runs2: "stage_runs ?L2 = map (\<lambda>r. if r = row then swept_row st ap fc sm at row else r) (stage_runs L)"
    using same_run[OF assms(2) _ assms(3)] by (auto simp: bump_epoch_def update_instances_def update_runs_def update_where_def)
  have inst2: "workflow_instances ?L2 = map ?g (workflow_instances L)"
    by (simp add: bump_epoch_def update_instances_def update_runs_def update_where_def)
  have rest2: "adapter_invocations ?L2 = adapter_invocations L" "events ?L2 = events L"
    by (simp_all add: bump_epoch_def update_instances_def update_runs_def)
  have mid: "stage_runs L3 = stage_runs ?L2 \<and> adapter_invocations L3 = adapter_invocations ?L2 \<and>
    (\<exists>es. events L3 = events ?L2 @ es \<and> (\<forall>e \<in> set es. ev_type e = ''workflow_blocked'')) \<and>
    (\<exists>f. workflow_instances L3 = map f (workflow_instances ?L2) \<and> (\<forall>w. wi_instance_id (f w) = wi_instance_id w \<and>
       wi_current_stage_id (f w) = wi_current_stage_id w \<and> (sweep_closed (wi_status w) \<longrightarrow> sweep_closed (wi_status (f w)))))"
  proof (cases "act = ''blocked''")
    case True
    then show ?thesis using L3 block_current_instance_effect[of E a at row fc sm ?L2 L3] by simp
  next
    case False
    then show ?thesis using L3 by (intro conjI exI[of _ "[]"] exI[of _ id]) simp_all
  qed
  then obtain es f where es: "events L3 = events ?L2 @ es" "\<forall>e \<in> set es. ev_type e = ''workflow_blocked''"
    and f: "workflow_instances L3 = map f (workflow_instances ?L2)" "\<And>w. wi_instance_id (f w) = wi_instance_id w \<and>
       wi_current_stage_id (f w) = wi_current_stage_id w \<and> (sweep_closed (wi_status w) \<longrightarrow> sweep_closed (wi_status (f w)))"
    by blast
  note last = emit_rows[OF log]
  show "stage_runs L' = map (\<lambda>r. if r = row then swept_row st ap fc sm at row else r) (stage_runs L)"
    using last mid runs2 by simp
  obtain e where e: "events L' = events L3 @ [e]" "ev_type e = ''recovery''" "adapter_invocations L' = adapter_invocations L3"
    using log by (auto simp: emit_Inr event_of_def)
  show "has_start_evidence L' = has_start_evidence L"
    by (rule ext, rule start_evidence_kept[where es = "es @ [e]"]) (use e es mid rest2 in auto)
  show "\<exists>f. workflow_instances L' = map f (workflow_instances L) \<and> (\<forall>w. wi_instance_id (f w) = wi_instance_id w \<and>
       wi_current_stage_id (f w) = wi_current_stage_id w \<and> (sweep_closed (wi_status w) \<longrightarrow> sweep_closed (wi_status (f w))))"
    using last f unfolding inst2 by (intro exI[of _ "\<lambda>w. f (?g w)"]) auto
  assume act: "act = ''blocked''" and w: "w \<in> set (workflow_instances L')" "wi_instance_id w = sr_instance_id row"
    "wi_current_stage_id w = Some (sr_stage_id row)"
  have "ledger_ok ?L2" unfolding bump_epoch_def
    by (intro update_instances_ok update_runs_ok assms(2)) (simp_all add: same_run_keys_def swept_row_def clear_lease_def)
  then show "sweep_closed (wi_status w)"
    using block_current_instance_closes[of E a at row fc sm ?L2 L3 w] L3 act w last by simp
qed

section \<open>The whole sweep\<close>

definition closes :: "(instance_row \<Rightarrow> instance_row) \<Rightarrow> bool" where
  "closes f \<longleftrightarrow> (\<forall>w. wi_instance_id (f w) = wi_instance_id w \<and> wi_current_stage_id (f w) = wi_current_stage_id w \<and>
     (sweep_closed (wi_status w) \<longrightarrow> sweep_closed (wi_status (f w))))"

definition sweep_reports :: "env \<Rightarrow> utc \<Rightarrow> ledger \<Rightarrow> stage_run_row list \<Rightarrow> RecoveryAction list" where
  "sweep_reports E m L rows = [recovery_action r v. r \<leftarrow> rows, v \<leftarrow> (case sweep_verdict E m L r of None \<Rightarrow> [] | Some v \<Rightarrow> [v])]"

text \<open>Runs that the sweep blocked have a closed instance if theirs is its current stage.\<close>

definition instance_closed :: "ledger \<Rightarrow> stage_run_row \<Rightarrow> bool" where
  "instance_closed L r \<longleftrightarrow> (\<forall>w \<in> set (workflow_instances L). wi_instance_id w = sr_instance_id r \<longrightarrow>
     wi_current_stage_id w = Some (sr_stage_id r) \<longrightarrow> sweep_closed (wi_status w))"

definition blocked_verdict :: "env \<Rightarrow> utc \<Rightarrow> ledger \<Rightarrow> stage_run_row \<Rightarrow> bool" where
  "blocked_verdict E m L r \<longleftrightarrow> (case sweep_verdict E m L r of None \<Rightarrow> False | Some (act, _) \<Rightarrow> act = ''blocked'')"

lemma instance_closed_kept:
  "instance_closed L r \<Longrightarrow> workflow_instances L' = map f (workflow_instances L) \<Longrightarrow> closes f \<Longrightarrow> instance_closed L' r"
  by (auto simp: instance_closed_def closes_def)

lemma sweep_verdict_cong: "has_start_evidence L' = has_start_evidence L \<Longrightarrow> sweep_verdict E m L' = sweep_verdict E m L"
  by (simp add: sweep_verdict_def stale_verdict_def fun_eq_iff)

text \<open>What one row of the sweep does, whether or not its lease has lapsed.\<close>

lemma sweep_row_effect:
  assumes "sweep_row E a at row (acts, L) = Inr (acts', L')" "coerce_datetime E at = Inr m" "ledger_ok L"
    "row \<in> set (stage_runs L)"
  shows "acts' = acts @ sweep_reports E m L [row] \<and>
    stage_runs L' = map (\<lambda>r. if r = row then swept E m at L r else r) (stage_runs L) \<and>
    has_start_evidence L' = has_start_evidence L \<and> ledger_ok L' \<and>
    (\<exists>f. workflow_instances L' = map f (workflow_instances L) \<and> closes f) \<and>
    (blocked_verdict E m L row \<longrightarrow> instance_closed L' row) \<and> (sweep_verdict E m L row = None \<longrightarrow> L' = L)"
proof -
  have ok: "ledger_ok L'" using sweep_row_actions[OF assms(1,3,4)] actions_ledger_ok assms(3) by blast
  show ?thesis
  proof (cases "sweep_verdict E m L row")
    case None
    then have same: "acts' = acts" "L' = L" using sweep_row_result[OF assms(1,2)] by simp_all
    have "map (\<lambda>r. if r = row then swept E m at L r else r) (stage_runs L) = stage_runs L"
      using None by (intro map_idI) (simp add: swept_def)
    moreover have "closes (\<lambda>w. w)" by (simp add: closes_def)
    ultimately show ?thesis using None same ok
      by (intro conjI exI[of _ "\<lambda>w. w"]) (simp_all add: sweep_reports_def blocked_verdict_def)
  next
    case (Some v)
    obtain act st ap fc sm where v: "v = (act, st, ap, fc, sm)" by (cases v)
    have applied: "apply_verdict E a at row (act, st, ap, fc, sm) L = Inr L'" and acts: "acts' = acts @ [recovery_action row v]"
      using sweep_row_result[OF assms(1,2)] Some v by simp_all
    note eff = apply_verdict_effect[OF applied assms(3,4)]
    have row: "swept E m at L row = swept_row st ap fc sm at row" using Some v by (simp add: swept_def)
    have "stage_runs L' = map (\<lambda>r. if r = row then swept E m at L r else r) (stage_runs L)"
      unfolding eff(1) using row by (intro map_cong refl) simp
    moreover have "blocked_verdict E m L row \<longrightarrow> instance_closed L' row"
      using eff(4) Some v by (auto simp: blocked_verdict_def instance_closed_def)
    ultimately show ?thesis
      using eff(2,3) acts ok Some by (auto simp: sweep_reports_def closes_def)
  qed
qed

lemma sweep_rows_effect:
  assumes "foldE (sweep_row E a at) rows (acts, L) = Inr (acts', L')" "coerce_datetime E at = Inr m" "ledger_ok L"
    "distinct (map sr_id rows)" "set rows \<subseteq> set (stage_runs L)"
  shows "acts' = acts @ sweep_reports E m L rows \<and>
    stage_runs L' = map (\<lambda>r. if r \<in> set rows then swept E m at L r else r) (stage_runs L) \<and>
    has_start_evidence L' = has_start_evidence L \<and>
    (\<exists>f. workflow_instances L' = map f (workflow_instances L) \<and> closes f) \<and>
    (\<forall>r \<in> set rows. blocked_verdict E m L r \<longrightarrow> instance_closed L' r) \<and>
    ((\<forall>r \<in> set rows. sweep_verdict E m L r = None) \<longrightarrow> L' = L)"
  using assms(1,3-5)
proof (induction rows arbitrary: acts L)
  case Nil
  have "closes (\<lambda>w. w)" by (simp add: closes_def)
  then show ?case using Nil by (intro conjI exI[of _ "\<lambda>w. w"]) (auto simp: sweep_reports_def)
next
  case (Cons row rows)
  obtain acts1 L1 where row: "sweep_row E a at row (acts, L) = Inr (acts1, L1)"
    and rest: "foldE (sweep_row E a at) rows (acts1, L1) = Inr (acts', L')"
    using Cons.prems(1) by (auto simp: bindE_eq_Inr)
  have mem: "row \<in> set (stage_runs L)" using Cons.prems(4) by simp
  note R = sweep_row_effect[OF row assms(2) Cons.prems(2) mem]
  have one: "acts1 = acts @ sweep_reports E m L [row]"
    "stage_runs L1 = map (\<lambda>r. if r = row then swept E m at L r else r) (stage_runs L)"
    "has_start_evidence L1 = has_start_evidence L" "ledger_ok L1"
    "blocked_verdict E m L row \<longrightarrow> instance_closed L1 row" "sweep_verdict E m L row = None \<longrightarrow> L1 = L"
    using R by - (elim conjE, assumption)+
  obtain f where f: "workflow_instances L1 = map f (workflow_instances L)" "closes f"
    using R by (elim conjE exE)
  have other: "sr_id row \<notin> sr_id ` set rows" using Cons.prems(3) by simp
  have V: "sweep_verdict E m L1 = sweep_verdict E m L" by (rule sweep_verdict_cong[OF one(3)])
  have same: "swept E m at L1 = swept E m at L" "blocked_verdict E m L1 = blocked_verdict E m L"
    "sweep_reports E m L1 rows = sweep_reports E m L rows"
    by (simp_all add: swept_def blocked_verdict_def sweep_reports_def V fun_eq_iff)
  have "set rows \<subseteq> set (stage_runs L1)"
  proof
    fix r assume r: "r \<in> set rows"
    then have "r \<noteq> row" using other by auto
    then show "r \<in> set (stage_runs L1)" unfolding one(2) using r Cons.prems(4) by force
  qed
  moreover have "distinct (map sr_id rows)" using Cons.prems(3) by simp
  ultimately have S: "acts' = acts1 @ sweep_reports E m L rows \<and>
    stage_runs L' = map (\<lambda>r. if r \<in> set rows then swept E m at L r else r) (stage_runs L1) \<and>
    has_start_evidence L' = has_start_evidence L1 \<and>
    (\<exists>f. workflow_instances L' = map f (workflow_instances L1) \<and> closes f) \<and>
    (\<forall>r \<in> set rows. blocked_verdict E m L r \<longrightarrow> instance_closed L' r) \<and>
    ((\<forall>r \<in> set rows. sweep_verdict E m L r = None) \<longrightarrow> L' = L1)"
    using Cons.IH[OF rest one(4)] unfolding same V by blast
  have all: "acts' = acts1 @ sweep_reports E m L rows"
    "stage_runs L' = map (\<lambda>r. if r \<in> set rows then swept E m at L r else r) (stage_runs L1)"
    "has_start_evidence L' = has_start_evidence L1"
    "\<forall>r \<in> set rows. blocked_verdict E m L r \<longrightarrow> instance_closed L' r"
    "(\<forall>r \<in> set rows. sweep_verdict E m L r = None) \<longrightarrow> L' = L1"
    using S by - (elim conjE, assumption)+
  obtain g where g: "workflow_instances L' = map g (workflow_instances L1)" "closes g"
    using S by (elim conjE exE)
  have "swept E m at L row \<notin> set rows" using other by (metis image_eqI swept_id)
  then have "stage_runs L' = map (\<lambda>r. if r \<in> set (row # rows) then swept E m at L r else r) (stage_runs L)"
    unfolding all(2) one(2) by (auto simp: comp_def)
  moreover have "acts' = acts @ sweep_reports E m L (row # rows)" using one(1) all(1) by (simp add: sweep_reports_def)
  moreover have "workflow_instances L' = map (\<lambda>w. g (f w)) (workflow_instances L)" "closes (\<lambda>w. g (f w))"
    using f g by (simp_all add: closes_def)
  moreover have "blocked_verdict E m L row \<longrightarrow> instance_closed L' row"
    using one(5) instance_closed_kept[OF _ g] by blast
  moreover have "(\<forall>r \<in> set (row # rows). sweep_verdict E m L r = None) \<longrightarrow> L' = L" using one(6) all(5) by simp
  moreover have "has_start_evidence L' = has_start_evidence L" using one(3) all(3) by simp
  ultimately show ?case using all(4) by (intro conjI exI[of _ "\<lambda>w. g (f w)"]) simp_all
qed

lemma leased_rows_mem: "r \<in> set (leased_rows L) \<longleftrightarrow>
    r \<in> set (stage_runs L) \<and> sr_lease_token r \<noteq> None \<and> sr_lease_expires_at r \<noteq> None"
  by (auto simp: leased_rows_def)

lemma sweep_effect:
  assumes "sweep_stale_leases E now a L = Inr (acts, L')" "ledger_ok L"
    "iso_timestamp (clock E 0) now = Inr at" "coerce_datetime E at = Inr m"
  shows "acts = sweep_reports E m L (leased_rows L) \<and>
    stage_runs L' = map (\<lambda>r. if sr_lease_token r \<noteq> None then swept E m at L r else r) (stage_runs L) \<and>
    has_start_evidence L' = has_start_evidence L \<and>
    (\<forall>r \<in> set (leased_rows L). blocked_verdict E m L r \<longrightarrow> instance_closed L' r) \<and>
    ((\<forall>r \<in> set (leased_rows L). sweep_verdict E m L r = None) \<longrightarrow> L' = L)"
proof -
  have fold: "foldE (sweep_row E a at) (leased_rows L) ([], L) = Inr (acts, L')"
    using assms(1,3) by (simp add: sweep_stale_leases_def)
  note eff = sweep_rows_effect[OF fold assms(4,2) leased_rows_props[OF assms(2)]]
  have "(if r \<in> set (leased_rows L) then swept E m at L r else r) =
      (if sr_lease_token r \<noteq> None then swept E m at L r else r)" if "r \<in> set (stage_runs L)" for r
    using that by (auto simp: leased_rows_mem swept_def sweep_verdict_def lapsed_at_def)
  then show ?thesis using eff by (auto cong: map_cong)
qed

section \<open>Properties\<close>

lemmas sweep_eval = sweep_stale_leases_def leased_rows_def sweep_row_def stale_verdict_def has_start_evidence_def
  apply_verdict_def bump_epoch_def block_current_instance_def sweep_closed_def swept_row_def recovery_action_def

text \<open>
  C15. The sweep recovers exactly the lapsed leases of active runs, in the order of their
  expiry text: each such run gets the verdict its own row and the start evidence of the ledger
  before the sweep determine, every other run is untouched, and the report lists one action per
  recovered run.
\<close>

theorem sweep_recovers_lapsed:
  assumes "sweep_stale_leases E now a L = Inr (acts, L')" "ledger_ok L"
    "iso_timestamp (clock E 0) now = Inr at" "coerce_datetime E at = Inr m"
  shows "acts = sweep_reports E m L (leased_rows L) \<and>
    stage_runs L' = map (\<lambda>r. if sr_lease_token r \<noteq> None then swept E m at L r else r) (stage_runs L)"
  using sweep_effect[OF assms] by blast

lemma sweep_recovers_lapsed_witness:
  "\<exists>acts L'. sweep_stale_leases late_env TsNone ''rec'' claimed_ledger = Inr (acts, L') \<and>
     map ra_action acts = [''requeued''] \<and>
     stage_runs L' = map (\<lambda>r. if sr_lease_token r \<noteq> None
        then swept late_env (Utc 90000000) (isoformat (Utc 90000000)) claimed_ledger r else r) (stage_runs claimed_ledger)"
proof -
  obtain acts L' where s: "sweep_stale_leases late_env TsNone ''rec'' claimed_ledger = Inr (acts, L')"
    and acts: "map ra_action acts = [''requeued'']"
    by (simp add: sweep_eval ledger_eval)
  show ?thesis
    using sweep_recovers_lapsed[OF s demo_ledgers_ok(2), of "isoformat (Utc 90000000)" "Utc 90000000"] s acts
    by (auto simp: iso_timestamp_def in_range_def max_micros_def)
qed

text \<open>
  C16. The sweep never requeues work that may have begun: a run that is queued afterwards
  although it held a lease was only claimed, and no adapter invocation, start event or preflight
  event names it; a recovered run that had gone further is blocked and needs approval, and if its
  stage is the instance's current one, the instance is closed.
\<close>

theorem sweep_requeues_only_unstarted:
  assumes "sweep_stale_leases E now a L = Inr (acts, L')" "ledger_ok L"
    "iso_timestamp (clock E 0) now = Inr at" "coerce_datetime E at = Inr m"
    "r \<in> set (stage_runs L)" "sr_lease_token r \<noteq> None" "active_lease (sr_status r)" "lapsed_at E m r"
  shows "\<exists>s \<in> set (stage_runs L'). sr_id s = sr_id r \<and> sr_lease_token s = None \<and>
    (if sr_status r = SR_CLAIMED \<and> \<not> has_start_evidence L (sr_id r) then sr_status s = SR_QUEUED
     else sr_status s = SR_BLOCKED \<and> sr_approval_required s \<and> instance_closed L' r)"
proof -
  note eff = sweep_effect[OF assms(1-4)]
  obtain act st ap fc sm where v: "stale_verdict L r = Some (act, st, ap, fc, sm)"
    using assms(7) stale_verdict_active[of L r] by (metis not_None_eq prod_cases5)
  let ?s = "swept E m at L r"
  have "?s \<in> set (stage_runs L')" using eff assms(5,6) by force
  moreover have s: "?s = swept_row st ap fc sm at r" using v assms(8) by (simp add: swept_def sweep_verdict_def)
  moreover have "r \<in> set (leased_rows L)"
    using assms(5,6,8) by (auto simp: leased_rows_mem lapsed_at_def split: option.splits)
  then have "act = ''blocked'' \<longrightarrow> instance_closed L' r"
    using eff v assms(8) by (auto simp: blocked_verdict_def sweep_verdict_def)
  moreover have "if sr_status r = SR_CLAIMED \<and> \<not> has_start_evidence L (sr_id r) then st = SR_QUEUED
     else st = SR_BLOCKED \<and> ap \<and> act = ''blocked''"
    using v by (auto simp: stale_verdict_def split: if_splits)
  ultimately show ?thesis by (intro bexI[of _ ?s]) (auto simp: s)
qed

lemma sweep_requeues_only_unstarted_witness:
  "\<exists>acts L' s. sweep_stale_leases late_env TsNone ''rec'' started_ledger = Inr (acts, L') \<and>
     s \<in> set (stage_runs L') \<and> sr_status s = SR_BLOCKED \<and> sr_approval_required s"
proof -
  obtain acts L' where s: "sweep_stale_leases late_env TsNone ''rec'' started_ledger = Inr (acts, L')"
    by (simp add: sweep_eval ledger_eval)
  obtain r where r: "r \<in> set (stage_runs started_ledger)" "sr_lease_token r \<noteq> None" "sr_status r = SR_STARTED"
    "lapsed_at late_env (Utc 90000000) r"
    by (simp add: lapsed_at_def ledger_eval)
  show ?thesis
    using sweep_requeues_only_unstarted[OF s demo_ledgers_ok(3), of "isoformat (Utc 90000000)" "Utc 90000000", OF _ _ r(1,2) _ r(4)]
      s r(3) by (auto simp: iso_timestamp_def in_range_def max_micros_def active_lease_def)
qed

text \<open>
  C17. One sweep is enough: afterwards no active run holds a lease that had lapsed, and
  sweeping again at the same time recovers nothing and leaves the ledger exactly as it was.
\<close>

theorem sweep_idempotent:
  assumes "sweep_stale_leases E now a L = Inr (acts, L')" "ledger_ok L"
    "iso_timestamp (clock E 0) now = Inr at" "coerce_datetime E at = Inr m"
    "sweep_stale_leases E now a' L' = Inr (acts', L'')"
  shows "(\<forall>r \<in> set (stage_runs L'). sr_lease_token r \<noteq> None \<and> active_lease (sr_status r) \<longrightarrow> \<not> lapsed_at E m r) \<and>
    acts' = [] \<and> L'' = L'"
proof -
  note eff = sweep_effect[OF assms(1-4)]
  have none: "sweep_verdict E m L' s = None" if s: "s \<in> set (stage_runs L')" "sr_lease_token s \<noteq> None" for s
  proof -
    have "s \<in> (\<lambda>r. if sr_lease_token r \<noteq> None then swept E m at L r else r) ` set (stage_runs L)"
      using eff s(1) by (metis list.set_map)
    then obtain r where r: "s = (if sr_lease_token r \<noteq> None then swept E m at L r else r)" by (rule imageE)
    then have "sweep_verdict E m L r = None" "s = r" using s(2)
      by (auto simp: swept_def split: if_splits option.splits prod.splits)
    then show ?thesis using sweep_verdict_cong[of L' L E m] eff by simp
  qed
  have ok: "ledger_ok L'"
    using sweep_stale_leases_actions[OF assms(1,2)] actions_ledger_ok assms(2) by blast
  have quiet: "\<forall>r \<in> set (leased_rows L'). sweep_verdict E m L' r = None"
    using none by (simp add: leased_rows_mem)
  then have "sweep_reports E m L' (leased_rows L') = []" by (auto simp: sweep_reports_def concat_eq_Nil_conv)
  then have "acts' = [] \<and> L'' = L'" using sweep_effect[OF assms(5) ok assms(3,4)] quiet by simp
  moreover have "\<not> lapsed_at E m r" if "r \<in> set (stage_runs L')" "sr_lease_token r \<noteq> None" "active_lease (sr_status r)" for r
    using none[OF that(1,2)] that(3) stale_verdict_active[of L' r] by (auto simp: sweep_verdict_def split: if_splits)
  ultimately show ?thesis by blast
qed

lemma sweep_idempotent_witness:
  "\<exists>acts L'. sweep_stale_leases late_env TsNone ''rec'' claimed_ledger = Inr (acts, L') \<and>
     sweep_stale_leases late_env TsNone ''rec'' L' = Inr ([], L')"
proof -
  obtain acts L' acts' L'' where s: "sweep_stale_leases late_env TsNone ''rec'' claimed_ledger = Inr (acts, L')"
    "sweep_stale_leases late_env TsNone ''rec'' L' = Inr (acts', L'')"
    by (simp add: sweep_eval ledger_eval)
  show ?thesis
    using sweep_idempotent[OF s(1) demo_ledgers_ok(2), of "isoformat (Utc 90000000)" "Utc 90000000", OF _ _ s(2)] s
    by (auto simp: iso_timestamp_def in_range_def max_micros_def)
qed

end
