(* ===== verification/Ledger_Recovery.thy ===== *)
theory Ledger_Recovery
  imports Ledger_Sweep
begin

text \<open>
  Properties of the operations on whole instances (cancelling, parking, the blocked-stage
  repair), of the human-gate recoveries, and of late results.
\<close>

section \<open>Cancelling and parking\<close>

definition superseded :: "string \<Rightarrow> stage_run_row \<Rightarrow> stage_run_row" where
  "superseded now r = clear_lease (r\<lparr>sr_status := SR_SUPERSEDED, sr_updated_at := now\<rparr>)"

lemma superseded_simps [simp]:
  "superseded now (superseded now r) = superseded now r" "sr_id (superseded now r) = sr_id r"
  "sr_status (superseded now r) = SR_SUPERSEDED" "sr_instance_id (superseded now r) = sr_instance_id r"
  by (simp_all add: superseded_def clear_lease_def)

lemma supersede_rows:
  "stage_runs (supersede now ids L) = map (\<lambda>r. if sr_id r \<in> set ids then superseded now r else r) (stage_runs L) \<and>
   workflow_instances (supersede now ids L) = workflow_instances L \<and> events (supersede now ids L) = events L \<and>
   receipts (supersede now ids L) = receipts L \<and> human_decisions (supersede now ids L) = human_decisions L"
proof (induction ids arbitrary: L)
  case Nil
  show ?case by (simp add: supersede_def)
next
  case (Cons i ids)
  let ?M = "update_runs (\<lambda>r. sr_id r = i) (superseded now) L"
  have step: "supersede now (i # ids) L = supersede now ids ?M"
    unfolding supersede_def superseded_def[abs_def] by simp
  show ?case unfolding step using Cons.IH[of ?M] by (auto simp: update_runs_def update_where_def)
qed

text \<open>The runs a cancellation or a park retires are exactly the open ones of the instance.\<close>

lemma retirable_rows:
  assumes "ledger_ok L"
  shows "map (\<lambda>r. if sr_id r \<in> set (retirable_runs i L) then superseded now r else r) (stage_runs L) =
    map (\<lambda>r. if sr_instance_id r = i \<and> open_status (sr_status r) then superseded now r else r) (stage_runs L)"
proof (rule map_cong[OF refl])
  fix r assume r: "r \<in> set (stage_runs L)"
  have "sr_id r \<in> set (retirable_runs i L) \<longleftrightarrow> sr_instance_id r = i \<and> open_status (sr_status r)"
  proof
    assume "sr_id r \<in> set (retirable_runs i L)"
    then obtain q where "q \<in> set (stage_runs L)" "sr_id q = sr_id r" "sr_instance_id q = i" "retirable (sr_status q)"
      by (auto simp: retirable_runs_def)
    then show "sr_instance_id r = i \<and> open_status (sr_status r)"
      using same_run[OF assms _ r] retirable_open by metis
  next
    assume "sr_instance_id r = i \<and> open_status (sr_status r)"
    then show "sr_id r \<in> set (retirable_runs i L)" using r by (auto simp: retirable_runs_def retirable_open)
  qed
  then show "(if sr_id r \<in> set (retirable_runs i L) then superseded now r else r) =
      (if sr_instance_id r = i \<and> open_status (sr_status r) then superseded now r else r)" by simp
qed

lemma closed_rows:
  assumes "ws' = map (\<lambda>v. if wi_instance_id v = i then v\<lparr>wi_status := st, wi_current_stage_id := None, wi_updated_at := now\<rparr> else v) ws"
  shows "\<forall>v \<in> set ws'. wi_instance_id v = i \<longrightarrow> wi_status v = st \<and> wi_current_stage_id v = None"
proof (intro ballI impI)
  fix v assume v: "v \<in> set ws'" and id: "wi_instance_id v = i"
  obtain x where x: "v = (if wi_instance_id x = i then x\<lparr>wi_status := st, wi_current_stage_id := None, wi_updated_at := now\<rparr> else x)"
    using v unfolding assms list.set_map by (rule imageE)
  show "wi_status v = st \<and> wi_current_stage_id v = None"
  proof (cases "wi_instance_id x = i")
    case True
    then show ?thesis unfolding x by simp
  next
    case False
    then show ?thesis using x id by simp
  qed
qed

lemma retire_instance_effect:
  assumes "retire_instance E w st ty a rs ex now L = Inr (x, L')" "ledger_ok L"
  shows "ic_changed x \<and> ic_status x = st \<and> ic_previous_status x = wi_status w \<and>
    ic_superseded x = retirable_runs (wi_instance_id w) L \<and>
    stage_runs L' = map (\<lambda>r. if sr_instance_id r = wi_instance_id w \<and> open_status (sr_status r) then superseded now r else r) (stage_runs L) \<and>
    workflow_instances L' = map (\<lambda>v. if wi_instance_id v = wi_instance_id w
      then v\<lparr>wi_status := st, wi_current_stage_id := None, wi_updated_at := now\<rparr> else v) (workflow_instances L) \<and>
    receipts L' = receipts L \<and> human_decisions L' = human_decisions L"
  using assms(1) supersede_rows[of now "retirable_runs (wi_instance_id w) L" L] retirable_rows[OF assms(2), of "wi_instance_id w" now]
  unfolding retire_instance_def Let_def
  by (auto simp: bindE_eq_Inr emit_Inr update_instances_def update_where_def)

lemma cancel_cases:
  assumes "cancel_workflow_instance E i a rs ua force L = Inr (x, L')"
  shows "\<exists>w now. find_instance i L = Some w \<and>
    (if cancel_terminal (wi_status w) \<and> \<not> force then x = unchanged_instance w ''already_terminal'' \<and> L' = L
      else retire_instance E w WF_CANCELLED ''workflow_cancelled'' a rs [(''force'', PBool force)] now L = Inr (x, L'))"
proof (cases "find_instance i L")
  case None
  then show ?thesis using assms by (auto simp: cancel_workflow_instance_def bindE_eq_Inr)
next
  case (Some w)
  then show ?thesis using assms
    by (cases "cancel_terminal (wi_status w) \<and> \<not> force") (auto simp: cancel_workflow_instance_def bindE_eq_Inr)
qed

lemma park_cases:
  assumes "park_stale_workflow_instance E i a rs ua L = Inr (x, L')"
  shows "\<exists>w now. find_instance i L = Some w \<and>
    (if park_unchanged (wi_status w) then x = unchanged_instance w ''already_parked_or_terminal'' \<and> L' = L
      else retire_instance E w WF_BLOCKED ''workflow_auto_parked_stale_definition'' a rs [] now L = Inr (x, L'))"
proof (cases "find_instance i L")
  case None
  then show ?thesis using assms by (auto simp: park_stale_workflow_instance_def bindE_eq_Inr)
next
  case (Some w)
  then show ?thesis using assms
    by (cases "park_unchanged (wi_status w)") (auto simp: park_stale_workflow_instance_def bindE_eq_Inr)
qed

text \<open>
  C18. Cancelling retires exactly the open runs of the instance: each becomes superseded with its
  lease cleared, settled runs and other instances' runs stay as they are, receipts and
  decisions survive, and the instance is cancelled with no current stage.  A terminal instance is
  left alone unless forced, and cancelling a cancelled instance again changes nothing.
\<close>

theorem cancel_retires_open_runs:
  assumes "cancel_workflow_instance E i a rs ua force L = Inr (x, L')" "ledger_ok L"
  shows "\<exists>w. find_instance i L = Some w \<and>
    (if cancel_terminal (wi_status w) \<and> \<not> force then L' = L \<and> \<not> ic_changed x
     else ic_changed x \<and> ic_superseded x = retirable_runs i L \<and> receipts L' = receipts L \<and> human_decisions L' = human_decisions L \<and>
       (\<exists>now. stage_runs L' = map (\<lambda>r. if sr_instance_id r = i \<and> open_status (sr_status r) then superseded now r else r) (stage_runs L)) \<and>
       (\<forall>v \<in> set (workflow_instances L'). wi_instance_id v = i \<longrightarrow> wi_status v = WF_CANCELLED \<and> wi_current_stage_id v = None) \<and>
       (\<forall>F b q ub M y. cancel_workflow_instance F i b q ub False L' = Inr (y, M) \<longrightarrow> M = L' \<and> \<not> ic_changed y))"
proof -
  obtain w now where w: "find_instance i L = Some w"
    and go: "if cancel_terminal (wi_status w) \<and> \<not> force then x = unchanged_instance w ''already_terminal'' \<and> L' = L
      else retire_instance E w WF_CANCELLED ''workflow_cancelled'' a rs [(''force'', PBool force)] now L = Inr (x, L')"
    using cancel_cases[OF assms(1)] by blast
  have id: "wi_instance_id w = i" using w by (auto simp: find_instance_def dest: select_one_Some)
  show ?thesis
  proof (cases "cancel_terminal (wi_status w) \<and> \<not> force")
    case True
    then show ?thesis using w go by (auto simp: unchanged_instance_def)
  next
    case False
    then have eff: "retire_instance E w WF_CANCELLED ''workflow_cancelled'' a rs [(''force'', PBool force)] now L = Inr (x, L')"
      using go by auto
    note E = retire_instance_effect[OF eff assms(2), unfolded id]
    have inst: "workflow_instances L' = map (\<lambda>v. if wi_instance_id v = i
        then v\<lparr>wi_status := WF_CANCELLED, wi_current_stage_id := None, wi_updated_at := now\<rparr> else v) (workflow_instances L)"
      using E by (elim conjE)
    have status: "\<forall>v \<in> set (workflow_instances L'). wi_instance_id v = i \<longrightarrow> wi_status v = WF_CANCELLED \<and> wi_current_stage_id v = None"
      by (rule closed_rows[OF inst])
    have again: "M = L' \<and> \<not> ic_changed y" if call: "cancel_workflow_instance F i b q ub False L' = Inr (y, M)" for F b q ub M y
    proof -
      obtain v where v: "find_instance i L' = Some v"
        and unchanged: "cancel_terminal (wi_status v) \<longrightarrow> y = unchanged_instance v ''already_terminal'' \<and> M = L'"
        using cancel_cases[OF call] by (auto split: if_splits)
      then have "wi_status v = WF_CANCELLED" using status by (auto simp: find_instance_def dest!: select_one_Some)
      then show ?thesis using unchanged by (simp add: cancel_terminal_def unchanged_instance_def)
    qed
    have rows: "\<exists>now. stage_runs L' = map (\<lambda>r. if sr_instance_id r = i \<and> open_status (sr_status r)
        then superseded now r else r) (stage_runs L)"
      using E by blast
    show ?thesis
      by (intro exI[of _ w] conjI, rule w, subst if_not_P[OF False], intro conjI)
        (use E status rows in \<open>simp_all only:\<close>, use again in blast)
  qed
qed

lemma cancel_retires_open_runs_witness:
  "\<exists>x L'. cancel_workflow_instance demo_env ''i'' ''op'' None TsNone False claimed_ledger = Inr (x, L') \<and>
     map sr_status (stage_runs L') = [SR_SUPERSEDED] \<and>
     (\<forall>v \<in> set (workflow_instances L'). wi_instance_id v = ''i'' \<longrightarrow> wi_status v = WF_CANCELLED)"
proof -
  obtain x L' where c: "cancel_workflow_instance demo_env ''i'' ''op'' None TsNone False claimed_ledger = Inr (x, L')"
    and s: "map sr_status (stage_runs L') = [SR_SUPERSEDED]" and ch: "ic_changed x"
    by (simp add: cancel_workflow_instance_def cancel_terminal_def retire_instance_def retirable_runs_def retirable_def
        supersede_def str_list_def Let_def ledger_eval)
  have "\<forall>v \<in> set (workflow_instances L'). wi_instance_id v = ''i'' \<longrightarrow> wi_status v = WF_CANCELLED"
    using cancel_retires_open_runs[OF c demo_ledgers_ok(2)] ch by (elim exE conjE) (simp split: if_split_asm)
  then show ?thesis using c s by (intro exI conjI)
qed

text \<open>
  Parking a stranded instance blocks it without terminalising it: exactly its open runs are
  superseded, receipts and decisions survive, and an instance that is already blocked or terminal
  is left exactly as it was, so parking twice is parking once.
\<close>

theorem park_blocks_and_is_idempotent:
  assumes "park_stale_workflow_instance E i a rs ua L = Inr (x, L')" "ledger_ok L"
  shows "\<exists>w. find_instance i L = Some w \<and>
    (if park_unchanged (wi_status w) then L' = L \<and> \<not> ic_changed x
     else ic_changed x \<and> receipts L' = receipts L \<and> human_decisions L' = human_decisions L \<and>
       (\<exists>now. stage_runs L' = map (\<lambda>r. if sr_instance_id r = i \<and> open_status (sr_status r) then superseded now r else r) (stage_runs L)) \<and>
       (\<forall>v \<in> set (workflow_instances L'). wi_instance_id v = i \<longrightarrow> wi_status v = WF_BLOCKED \<and> wi_current_stage_id v = None)) \<and>
    (\<forall>F b q ub M y. park_stale_workflow_instance F i b q ub L' = Inr (y, M) \<longrightarrow> M = L' \<and> \<not> ic_changed y)"
proof -
  obtain w now where w: "find_instance i L = Some w"
    and go: "if park_unchanged (wi_status w) then x = unchanged_instance w ''already_parked_or_terminal'' \<and> L' = L
      else retire_instance E w WF_BLOCKED ''workflow_auto_parked_stale_definition'' a rs [] now L = Inr (x, L')"
    using park_cases[OF assms(1)] by blast
  have id: "wi_instance_id w = i" using w by (auto simp: find_instance_def dest: select_one_Some)
  have again: "M = L' \<and> \<not> ic_changed y"
    if "park_stale_workflow_instance F i b q ub L' = Inr (y, M)" "\<forall>v. find_instance i L' = Some v \<longrightarrow> park_unchanged (wi_status v)"
    for F b q ub M y
    using park_cases[OF that(1)] that(2) by (auto simp: unchanged_instance_def)
  show ?thesis
  proof (cases "park_unchanged (wi_status w)")
    case True
    then show ?thesis using w go again by (auto simp: unchanged_instance_def)
  next
    case False
    then have eff: "retire_instance E w WF_BLOCKED ''workflow_auto_parked_stale_definition'' a rs [] now L = Inr (x, L')"
      using go by auto
    note E = retire_instance_effect[OF eff assms(2), unfolded id]
    have inst: "workflow_instances L' = map (\<lambda>v. if wi_instance_id v = i
        then v\<lparr>wi_status := WF_BLOCKED, wi_current_stage_id := None, wi_updated_at := now\<rparr> else v) (workflow_instances L)"
      using E by (elim conjE)
    have status: "\<forall>v \<in> set (workflow_instances L'). wi_instance_id v = i \<longrightarrow> wi_status v = WF_BLOCKED \<and> wi_current_stage_id v = None"
      by (rule closed_rows[OF inst])
    then have "\<forall>v. find_instance i L' = Some v \<longrightarrow> park_unchanged (wi_status v)"
      by (auto simp: find_instance_def park_unchanged_def dest!: select_one_Some)
    then have twice: "\<forall>F b q ub M y. park_stale_workflow_instance F i b q ub L' = Inr (y, M) \<longrightarrow> M = L' \<and> \<not> ic_changed y"
      using again by blast
    have rows: "\<exists>now. stage_runs L' = map (\<lambda>r. if sr_instance_id r = i \<and> open_status (sr_status r)
        then superseded now r else r) (stage_runs L)"
      using E by blast
    show ?thesis
      by (rule exI[of _ w], rule conjI, rule w, rule conjI, subst if_not_P[OF False], intro conjI)
        (use E status rows in \<open>simp_all only:\<close>, rule twice)
  qed
qed

lemma park_blocks_and_is_idempotent_witness:
  "\<exists>x L'. park_stale_workflow_instance demo_env ''i'' ''sup'' None TsNone claimed_ledger = Inr (x, L') \<and> ic_changed x \<and>
     (\<forall>F b q ub M y. park_stale_workflow_instance F ''i'' b q ub L' = Inr (y, M) \<longrightarrow> M = L' \<and> \<not> ic_changed y)"
proof -
  obtain x L' where c: "park_stale_workflow_instance demo_env ''i'' ''sup'' None TsNone claimed_ledger = Inr (x, L')"
    and ch: "ic_changed x"
    by (simp add: park_stale_workflow_instance_def park_unchanged_def retire_instance_def retirable_runs_def retirable_def
        supersede_def str_list_def Let_def ledger_eval)
  have "\<forall>F b q ub M y. park_stale_workflow_instance F ''i'' b q ub L' = Inr (y, M) \<longrightarrow> M = L' \<and> \<not> ic_changed y"
    using park_blocks_and_is_idempotent[OF c demo_ledgers_ok(2)] by (elim exE conjE)
  then show ?thesis using c ch by (intro exI conjI)
qed

end
