(* ===== verification/Ledger_Gate_Safety.thy ===== *)
theory Ledger_Gate_Safety
  imports Ledger_Recovery
begin

text \<open>
  Safety of the human-gate recoveries: none reopens a gate that has a durable decision, each
  appends a fresh attempt and keeps the evidence, a retry across durable artifacts needs the
  exact diagnostic evidence, and a late result changes no status.
\<close>

section \<open>A decided gate stays decided\<close>

lemma latest_attempt_max:
  "latest_attempt i s L = Some r \<Longrightarrow> q \<in> set (stage_runs L) \<Longrightarrow> sr_instance_id q = i \<Longrightarrow> sr_stage_id q = s \<Longrightarrow>
   attempt_order q \<le> attempt_order r"
  unfolding latest_attempt_def by (erule fetchlast_sort_max) simp

text \<open>The guards the three gate recoveries share: status, latest attempt, approval flag, no decision.\<close>

lemma gate_guards_Inr:
  "bindE (parked_stage i st m L) (\<lambda>(s, latest). bindE (undecided_gate i st' m' d latest L) (k s)) = Inr y \<longleftrightarrow>
   (\<exists>w row. find_instance i L = Some w \<and> wi_status w = st \<and>
      latest_attempt i (the_or [] (wi_current_stage_id w)) L = Some row \<and> sr_status row = st' \<and>
      sr_approval_required row \<and> \<not> has_decision L (sr_id row) \<and> k (the_or [] (wi_current_stage_id w)) row = Inr y)"
  by (cases "find_instance i L") (auto simp: parked_stage_def undecided_gate_def bindE_def Let_def split: option.splits sum.splits if_splits)

text \<open>
  C19. A gate with a durable human decision is never reopened: if the latest attempt of an
  instance's current stage has a recorded decision, neither the blocked-gate retry, nor the
  transport repair, nor the published-gate restore succeeds, whatever the operator attests.
\<close>

theorem decided_gate_not_reopened:
  assumes "find_instance i L = Some w" "latest_attempt i (the_or [] (wi_current_stage_id w)) L = Some row"
    "has_decision L (sr_id row)"
  shows "retry_blocked_human_gate E i rs v a now L \<noteq> Inr x \<and>
    reissue_waiting_human_gate_for_transport_repair E i rs v a now L \<noteq> Inr x \<and>
    restore_published_human_gate_waiting E i rs v v' a now L \<noteq> Inr x"
  unfolding retry_blocked_human_gate_def reissue_waiting_human_gate_for_transport_repair_def
    restore_published_human_gate_waiting_def Let_def
  unfolding bindE_eq_Inr[of "guardE b e" for b e] bindE_eq_Inr[of "iso_timestamp t u" for t u] gate_guards_Inr
  using assms by auto

definition gate_decision :: HumanApprovalReceipt where
  "gate_decision = \<lparr>ap_approval_id = ''d'', ap_gate_id = ''g'', ap_human_ref = ''h'', ap_canonical_surface = ''c'',
     ap_decision = APPROVED, ap_exact_action_approved = ''x'', ap_action_fingerprint = ''f'', ap_evidence_refs = [],
     ap_constraints = [], ap_created_at = TsNone, ap_expires_at = TsNone, ap_revoked_at = TsNone,
     ap_message_ref = None\<rparr>"

text \<open>The started run, parked on its human gate; and with a decision recorded.\<close>

definition waiting_trace :: "(env \<times> ledger_op) list" where
  "waiting_trace = queueing @ claiming @ starting @
     [(demo_env, On_lease (Wait_for_human ''r'' ''u'' ''domain_blocked'' ''gate'' TsNone ''o'' None)),
      (demo_env, On_instance (Update_workflow_instance ''i'' WF_WAITING_ON_HUMAN (Some ''s'') TsNone ''k'' ''waiting'' []))]"

definition waiting_ledger :: ledger where "waiting_ledger = run_trace waiting_trace empty_ledger"

definition decided_ledger :: ledger where
  "decided_ledger = run_trace (waiting_trace @ [(demo_env, On_gate (Record_human_decision gate_decision ''i'' ''r'' TsNone ''h''))]) empty_ledger"

lemmas gate_eval = waiting_ledger_def decided_ledger_def waiting_trace_def gate_decision_def record_human_decision_def
  wait_stage_run_for_human_decision_def update_workflow_instance_def latest_attempt_def fetchlast_def has_decision_def
  approval_decision_value.simps

lemma legal_waiting: "legal_trace (uuid_hex demo_env) waiting_trace"
  by (simp add: legal_trace_def waiting_trace_def queueing_def claiming_def starting_def)

lemma decided_gate_not_reopened_witness:
  "\<exists>w row. find_instance ''i'' decided_ledger = Some w \<and>
     latest_attempt ''i'' (the_or [] (wi_current_stage_id w)) decided_ledger = Some row \<and>
     (\<forall>x. restore_published_human_gate_waiting demo_env ''i'' ''why'' True True ''op'' TsNone decided_ledger \<noteq> Inr x)"
proof -
  have "map (\<lambda>w. (wi_instance_id w, wi_current_stage_id w)) (workflow_instances decided_ledger) = [(''i'', Some ''s'')]"
    "map (\<lambda>r. (sr_id r, sr_instance_id r, sr_stage_id r)) (stage_runs decided_ledger) = [(''r'', ''i'', ''s'')]"
    and decided: "map hd_stage_run_id (human_decisions decided_ledger) = [''r'']"
    by (simp_all add: gate_eval ledger_eval)
  then obtain w row where rows: "workflow_instances decided_ledger = [w]" "stage_runs decided_ledger = [row]"
    and cols: "wi_instance_id w = ''i''" "wi_current_stage_id w = Some ''s''" "sr_id row = ''r''"
      "sr_instance_id row = ''i''" "sr_stage_id row = ''s''"
    by auto
  have "''r'' \<in> set (map hd_stage_run_id (human_decisions decided_ledger))" by (simp add: decided)
  then have w: "find_instance ''i'' decided_ledger = Some w"
    "latest_attempt ''i'' (the_or [] (wi_current_stage_id w)) decided_ledger = Some row" "has_decision decided_ledger (sr_id row)"
    by (auto simp: find_instance_def select_one_def latest_attempt_def fetchlast_def has_decision_def rows cols)
  have "restore_published_human_gate_waiting demo_env ''i'' ''why'' True True ''op'' TsNone decided_ledger \<noteq> Inr x" for x
    by (rule decided_gate_not_reopened[OF w, THEN conjunct2, THEN conjunct2])
  then show ?thesis using w by blast
qed

section \<open>Retrying a blocked gate\<close>

lemma append_attempt_effect:
  assumes "append_attempt E i s row idem au qu pl a rs at L = Inr (x, L')"
  shows "\<exists>new. stage_runs L' = stage_runs L @ [new] \<and> sr_status new = SR_QUEUED \<and> lease_cleared new \<and>
    sr_instance_id new = i \<and> sr_stage_id new = s \<and>
    sr_attempt new = sr_attempt row + 1 \<and> sr_parent new = Some (sr_id row) \<and> \<not> sr_approval_required new \<and>
    sr_input_hash new = sr_input_hash row \<and> sr_idempotency_key new = Some (idem (sr_id new)) \<and>
    rr_stage_run_id x = sr_id new \<and> \<not> has_run L (sr_id new) \<and>
    human_decisions L' = human_decisions L \<and> receipts L' = receipts L \<and> artifact_refs L' = artifact_refs L"
proof -
  obtain L1 L3 new where new: "new = (new_run_row (attempt_id i s (sr_attempt row + 1)) i s (sr_attempt row + 1) SR_QUEUED
        (sr_adapter_id row) (sr_actor_ref row) (Some (idem (attempt_id i s (sr_attempt row + 1)))) (sr_input_hash row)
        (Some (sr_id row)) at)\<lparr>sr_retry_count := sr_retry_count row + 1\<rparr>"
    and ins: "insert_run new L = Inr L1"
    and e1: "emit E i (Some (sr_id row)) au a (PDict (pl (sr_id new))) at (update_instances (\<lambda>r. wi_instance_id r = i)
       (\<lambda>r. r\<lparr>wi_status := WF_RUNNING, wi_recovery_epoch := wi_recovery_epoch r + 1, wi_updated_at := at\<rparr>) L1) = Inr L3"
    and e2: "emit E i (Some (sr_id new)) qu a (PDict (pl (sr_id new))) at L3 = Inr L'"
    and x: "x = \<lparr>rr_instance_id = i, rr_previous = Some (sr_id row), rr_stage_run_id = sr_id new,
        rr_stage_id = s, rr_attempt = sr_attempt row + 1, rr_status = SR_QUEUED, rr_reason = rs\<rparr>"
    using append_attempt_Inr[OF assms] by blast
  have "\<not> has_run L (sr_id new)" using ins by (auto simp: insert_run_Inr has_run_def)
  moreover have "stage_runs L' = stage_runs L @ [new] \<and> human_decisions L' = human_decisions L \<and> receipts L' = receipts L \<and>
      artifact_refs L' = artifact_refs L"
    using ins e1 e2 by (auto simp: insert_run_Inr emit_Inr update_instances_def)
  ultimately show ?thesis by (intro exI[of _ new]) (simp add: new x new_run_row_def lease_cleared_def)
qed

text \<open>
  Retrying a blocked human gate needs an attestation, a reason, an instance that is blocked,
  and a latest attempt of its current stage that is blocked, requires approval and has no
  decision.  It then appends one fresh queued attempt, numbered next and without the old approval
  flag, so that it needs a fresh decision; the blocked attempt, the receipts, the artifacts
  and the decisions stay as they were.
\<close>

theorem gate_retry_is_fresh_attempt:
  assumes "retry_blocked_human_gate E i rs v a now L = Inr (x, L')" "ledger_ok L"
  shows "v \<and> strip rs \<noteq> [] \<and> (\<exists>w row new. find_instance i L = Some w \<and> wi_status w = WF_BLOCKED \<and>
    latest_attempt i (the_or [] (wi_current_stage_id w)) L = Some row \<and> sr_status row = SR_BLOCKED \<and>
    sr_approval_required row \<and> \<not> has_decision L (sr_id row) \<and>
    stage_runs L' = stage_runs L @ [new] \<and> sr_status new = SR_QUEUED \<and> lease_cleared new \<and>
    sr_attempt new = sr_attempt row + 1 \<and> sr_parent new = Some (sr_id row) \<and> \<not> sr_approval_required new \<and>
    \<not> has_decision L' (sr_id new) \<and>
    human_decisions L' = human_decisions L \<and> receipts L' = receipts L \<and> artifact_refs L' = artifact_refs L)"
proof -
  obtain at w row where guards: "v" "strip rs \<noteq> []" "find_instance i L = Some w" "wi_status w = WF_BLOCKED"
    "latest_attempt i (the_or [] (wi_current_stage_id w)) L = Some row" "sr_status row = SR_BLOCKED"
    "sr_approval_required row" "\<not> has_decision L (sr_id row)"
    and app: "append_attempt E i (the_or [] (wi_current_stage_id w)) row (\<lambda>n. n) ''blocked_human_gate_retry_authorized''
       ''blocked_human_gate_retry_queued''
       (\<lambda>n. [(''blocked_stage_run_id'', PStr (sr_id row)), (''new_stage_run_id'', PStr n),
          (''reason'', PStr (strip rs)), (''verified_no_external_effect'', PBool True)]) a (strip rs) at L = Inr (x, L')"
    using assms(1) unfolding retry_blocked_human_gate_def Let_def
      bindE_eq_Inr[of "guardE b e" for b e] bindE_eq_Inr[of "iso_timestamp t u" for t u] gate_guards_Inr guardE_eq
    by blast
  obtain new where new: "stage_runs L' = stage_runs L @ [new]" "sr_status new = SR_QUEUED" "lease_cleared new"
    "sr_attempt new = sr_attempt row + 1" "sr_parent new = Some (sr_id row)" "\<not> sr_approval_required new"
    "\<not> has_run L (sr_id new)" "human_decisions L' = human_decisions L" "receipts L' = receipts L" "artifact_refs L' = artifact_refs L"
    using append_attempt_effect[OF app] by (elim exE conjE)
  have "\<not> has_decision L' (sr_id new)"
    using assms(2) new(7,8) by (auto simp: has_decision_def ledger_ok_def references_resolve_def resolves_def)
  with guards new show ?thesis by (intro conjI exI[of _ w] exI[of _ row] exI[of _ new])
qed

text \<open>The gate of \<open>waiting_ledger\<close>, blocked by a transport failure.\<close>

definition blocked_gate_ledger :: ledger where
  "blocked_gate_ledger = run_trace (waiting_trace @
     [(demo_env, On_gate (Complete_waiting_human ''r'' SR_BLOCKED None None (Some ''runtime_failure'') None TsNone ''h'')),
      (demo_env, On_instance (Update_workflow_instance ''i'' WF_BLOCKED (Some ''s'') TsNone ''k'' ''blocked'' []))]) empty_ledger"

lemma blocked_gate_ok: "ledger_ok blocked_gate_ledger" "ledger_ok waiting_ledger"
proof -
  have ok: "ledger_ok (run_trace tr empty_ledger)" if "legal_trace (uuid_hex demo_env) tr" for tr
    using run_trace_inv[OF that] by (simp add: ledger_inv_def)
  show "ledger_ok blocked_gate_ledger" "ledger_ok waiting_ledger"
    unfolding blocked_gate_ledger_def waiting_ledger_def
    by (rule ok, simp add: legal_trace_def waiting_trace_def queueing_def claiming_def starting_def verdict_status_def)+
qed

lemmas attempt_eval = append_attempt_def attempt_id_def show_int_def show_nat_digit digit_char_def quoted_instance_def
  parked_stage_def undecided_gate_def attempt_order_def

lemma gate_retry_is_fresh_attempt_witness:
  "\<exists>x L' new. retry_blocked_human_gate demo_env ''i'' ''why'' True ''op'' TsNone blocked_gate_ledger = Inr (x, L') \<and>
     stage_runs L' = stage_runs blocked_gate_ledger @ [new] \<and> sr_status new = SR_QUEUED \<and> \<not> has_decision L' (sr_id new)"
proof -
  obtain x L' where r: "retry_blocked_human_gate demo_env ''i'' ''why'' True ''op'' TsNone blocked_gate_ledger = Inr (x, L')"
    by (simp add: retry_blocked_human_gate_def blocked_gate_ledger_def complete_waiting_human_stage_run_def strip_def is_space_def
        Let_def attempt_eval gate_eval ledger_eval)
  show ?thesis using gate_retry_is_fresh_attempt[OF r blocked_gate_ok(1)] r by (elim exE conjE) (intro exI conjI)
qed

end
