(* ===== verification/Json_Injective.thy ===== *)
theory Json_Injective
  imports Py_Values
begin

text \<open>
  The canonical JSON text identifies the value: on plain values whose mappings have strictly
  ascending keys, \<open>json_text\<close> is injective, and a text can be cut out of a longer one at the
  next delimiter.  This is what lets a digest of the text stand for the value.
\<close>

section \<open>Characters and strings\<close>

definition unhex :: "char \<Rightarrow> nat" where
  "unhex c = (let n = (of_char c :: nat) in if n < 58 then n - 48 else n - 87)"

lemma unhex_hex_char [simp]: "d < 16 \<Longrightarrow> unhex (hex_char d) = d"
  by (simp add: unhex_def hex_char_def Let_def)

text \<open>Reading back one character of a JSON string.\<close>

definition read_json_char :: "string \<Rightarrow> (char \<times> string) option" where
  "read_json_char s = (case s of [] \<Rightarrow> None | x # xs \<Rightarrow>
     if x \<noteq> CHR 0x5C then Some (x, xs)
     else (case xs of [] \<Rightarrow> None | e # ys \<Rightarrow>
       if e = CHR ''n'' then Some (CHR 0x0A, ys)
       else if e = CHR ''r'' then Some (CHR 0x0D, ys)
       else if e = CHR ''t'' then Some (CHR 0x09, ys)
       else if e = CHR ''f'' then Some (CHR 0x0C, ys)
       else if e = CHR ''b'' then Some (CHR 0x08, ys)
       else if e = CHR ''u'' then Some (char_of (16 * unhex (ys ! 2) + unhex (ys ! 3)), drop 4 ys)
       else Some (e, ys)))"

lemma char_of_code:
  "(of_char c :: nat) = 34 \<Longrightarrow> c = CHR 0x22" "(of_char c :: nat) = 92 \<Longrightarrow> c = CHR 0x5C"
  "(of_char c :: nat) = 10 \<Longrightarrow> c = CHR 0x0A" "(of_char c :: nat) = 13 \<Longrightarrow> c = CHR 0x0D"
  "(of_char c :: nat) = 9 \<Longrightarrow> c = CHR 0x09" "(of_char c :: nat) = 12 \<Longrightarrow> c = CHR 0x0C"
  "(of_char c :: nat) = 8 \<Longrightarrow> c = CHR 0x08"
  by (rule injD[OF inj_of_char], simp)+

lemma read_json_char [simp]: "read_json_char (json_char c @ r) = Some (c, r)"
proof -
  let ?n = "of_char c :: nat"
  have bound: "?n < 256" by simp
  consider "?n = 34" | "?n = 92" | "?n = 10" | "?n = 13" | "?n = 9" | "?n = 12" | "?n = 8"
    | (plain) "?n \<notin> {34, 92, 10, 13, 9, 12, 8}" "32 \<le> ?n \<and> ?n \<le> 126"
    | (code) "?n \<notin> {34, 92, 10, 13, 9, 12, 8}" "\<not> (32 \<le> ?n \<and> ?n \<le> 126)" by blast
  then show ?thesis
  proof cases
    case plain
    then have "c \<noteq> CHR 0x5C" by auto
    then show ?thesis using plain by (simp add: json_char_def read_json_char_def)
  next
    case code
    have "?n div 16 < 16" using bound by linarith
    moreover have "16 * (?n div 16) + ?n mod 16 = ?n" by simp
    moreover have "json_char c = [CHR 0x5C, CHR ''u'', CHR ''0'', CHR ''0''] @ hex2 ?n"
      using code by (auto simp: json_char_def Let_def)
    ultimately show ?thesis by (simp add: read_json_char_def hex2_def)
  qed (drule char_of_code, simp add: json_char_def read_json_char_def)+
qed

lemma json_char_inject: "json_char c @ r = json_char d @ r' \<longleftrightarrow> c = d \<and> r = r'"
  by (metis option.inject prod.inject read_json_char)

lemma json_char_hd: "json_char c \<noteq> [] \<and> hd (json_char c) \<noteq> CHR 0x22"
  by (auto simp: json_char_def Let_def)

lemma json_chars_inject:
  "concat (map json_char s) @ CHR 0x22 # r = concat (map json_char t) @ CHR 0x22 # r' \<longleftrightarrow> s = t \<and> r = r'"
proof (induction s arbitrary: t)
  case Nil
  have "CHR 0x22 # r \<noteq> json_char d @ q" for d q
    using json_char_hd[of d] by (cases "json_char d") auto
  then show ?case by (cases t) auto
next
  case (Cons c s)
  have "json_char c @ q \<noteq> CHR 0x22 # r'" for q
    using json_char_hd[of c] by (cases "json_char c") auto
  then show ?case using Cons.IH by (cases t) (auto simp: json_char_inject)
qed

lemma json_string_inject: "json_string s @ r = json_string t @ r' \<longleftrightarrow> s = t \<and> r = r'"
  by (simp add: json_string_def json_chars_inject)

section \<open>Numbers\<close>

definition stops :: "string \<Rightarrow> bool" where
  "stops r \<longleftrightarrow> r = [] \<or> hd r \<in> {CHR '','', CHR '']'', CHR ''}''}"

definition number_char :: "char \<Rightarrow> bool" where
  "number_char c \<longleftrightarrow> is_digit c \<or> c = CHR ''-''"

lemma show_int_chars: "list_all number_char (show_int i) \<and> show_int i \<noteq> []"
  using show_nat_digits[of "nat i"] show_nat_digits[of "nat (- i)"]
  by (auto simp: show_int_def number_char_def list_all_iff)

lemma takeWhile_number: "list_all number_char s \<Longrightarrow> stops r \<Longrightarrow> takeWhile number_char (s @ r) = s"
proof -
  assume s: "list_all number_char s" and r: "stops r"
  have "takeWhile number_char r = []"
    using r by (cases r) (auto simp: stops_def number_char_def is_digit_def)
  then show ?thesis using s by (simp add: list_all_iff takeWhile_append)
qed

lemma show_int_cut: "show_int i @ r = show_int j @ r' \<Longrightarrow> stops r \<Longrightarrow> stops r' \<Longrightarrow> i = j \<and> r = r'"
proof -
  assume eq: "show_int i @ r = show_int j @ r'" and st: "stops r" "stops r'"
  have "show_int i = show_int j"
    using takeWhile_number[OF conjunct1[OF show_int_chars] st(1), of i]
      takeWhile_number[OF conjunct1[OF show_int_chars] st(2), of j] eq by simp
  then show ?thesis using eq by simp
qed

section \<open>Separated sequences\<close>

text \<open>\<open>cuts f x\<close>: wherever \<open>f x\<close> starts a text that goes on at a delimiter, it can be read off.\<close>

definition cuts :: "('a \<Rightarrow> string) \<Rightarrow> ('a \<Rightarrow> bool) \<Rightarrow> 'a \<Rightarrow> bool" where
  "cuts f good x \<longleftrightarrow> (\<forall>y r r'. good y \<longrightarrow> stops r \<longrightarrow> stops r' \<longrightarrow> f x @ r = f y @ r' \<longrightarrow> x = y \<and> r = r')"

definition opens :: "('a \<Rightarrow> string) \<Rightarrow> bool" where
  "opens f \<longleftrightarrow> (\<forall>x. f x \<noteq> [] \<and> hd (f x) \<notin> {CHR '','', CHR '']'', CHR ''}''})"

lemma join_Cons: "join_with sep (x # xs) = x @ (if xs = [] then [] else sep @ join_with sep xs)"
  by (cases xs) auto

lemma stops_rest:
  "z \<in> {CHR '']'', CHR ''}''} \<Longrightarrow> stops ((if ys = [] then [] else CHR '','' # q) @ z # r)"
  by (auto simp: stops_def)

lemma join_cut:
  assumes "\<forall>x \<in> set xs. cuts f good x" "\<forall>y \<in> set ys. good y" "opens f" "z \<in> {CHR '']'', CHR ''}''}"
    "join_with '','' (map f xs) @ z # r = join_with '','' (map f ys) @ z # r'"
  shows "xs = ys \<and> r = r'"
  using assms(1,2,5)
proof (induction xs arbitrary: ys)
  case Nil
  show ?case
  proof (cases ys)
    case (Cons y ys')
    then have "z # r = f y @ (if ys' = [] then [] else CHR '','' # join_with '','' (map f ys')) @ z # r'"
      using Nil.prems(3) by (cases "ys' = []") (simp_all add: join_Cons)
    then have "hd (f y) = z" using assms(3) by (cases "f y") (auto simp: opens_def)
    then show ?thesis using assms(3,4) by (auto simp: opens_def)
  qed (use Nil in simp)
next
  case (Cons x xs)
  let ?t = "(if xs = [] then [] else CHR '','' # join_with '','' (map f xs)) @ z # r"
  show ?case
  proof (cases ys)
    case Nil
    then have "f x @ ?t = z # r'" using Cons.prems(3) by (cases "xs = []") (simp_all add: join_Cons)
    then have "hd (f x) = z" using assms(3) by (cases "f x") (auto simp: opens_def)
    then show ?thesis using assms(3,4) by (auto simp: opens_def)
  next
    case ys: (Cons y ys')
    let ?u = "(if ys' = [] then [] else CHR '','' # join_with '','' (map f ys')) @ z # r'"
    have "f x @ ?t = f y @ ?u" using Cons.prems(3) ys by (cases "xs = []"; cases "ys' = []") (simp_all add: join_Cons)
    moreover have "cuts f good x" "good y" using Cons.prems(1,2) ys by simp_all
    ultimately have xy: "x = y" and rest: "?t = ?u"
      using stops_rest[OF assms(4)] unfolding cuts_def by blast+
    have "z \<noteq> CHR '',''" using assms(4) by auto
    then have "xs = [] \<longleftrightarrow> ys' = []" using rest by (cases "xs = []"; cases "ys' = []") auto
    then have "xs = ys' \<and> r = r'"
      using rest Cons.IH[of ys'] Cons.prems(1,2) ys by (cases "xs = []") auto
    then show ?thesis using xy ys by simp
  qed
qed

section \<open>Values\<close>

fun canonical :: "pyval \<Rightarrow> bool" where
  "canonical (PList xs) = list_all canonical xs"
| "canonical (PDict m) = (sorted (map fst m) \<and> distinct (map fst m) \<and> list_all (\<lambda>(k, v). canonical v) m)"
| "canonical _ = True"

definition entry_text :: "string \<times> pyval \<Rightarrow> string" where
  "entry_text = (\<lambda>(k, v). json_string k @ '':'' @ json_text v)"

lemma json_text_dict:
  "sorted (map fst m) \<Longrightarrow> json_text (PDict m) = ''{'' @ join_with '','' (map entry_text m) @ ''}''"
proof -
  assume "sorted (map fst m)"
  then have "sort_key fst (map (\<lambda>(k, v). (k, json_text v)) m) = map (\<lambda>(k, v). (k, json_text v)) m"
    by (intro sort_key_id_if_sorted) (simp add: comp_def case_prod_unfold)
  then show ?thesis by (simp add: entry_text_def comp_def case_prod_unfold)
qed

lemma json_text_opens: "opens json_text"
proof -
  have "json_text v \<noteq> [] \<and> hd (json_text v) \<notin> {CHR '','', CHR '']'', CHR ''}''}" for v
  proof (cases v)
    case (PInt i)
    have "number_char (hd (show_int i))" using show_int_chars[of i] by (cases "show_int i") auto
    then show ?thesis using PInt show_int_chars[of i] by (auto simp: number_char_def is_digit_def)
  qed (auto simp: json_string_def)
  then show ?thesis by (simp add: opens_def)
qed

text \<open>The first character tells the constructors apart.\<close>

fun value_tag :: "pyval \<Rightarrow> nat" where
  "value_tag PNone = 0" | "value_tag (PBool b) = (if b then 1 else 2)" | "value_tag (PInt i) = 3"
| "value_tag (PStr s) = 4" | "value_tag (PList xs) = 5" | "value_tag (PDict m) = 6"

definition tag_char :: "char \<Rightarrow> nat" where
  "tag_char c = (if c = CHR ''n'' then 0 else if c = CHR ''t'' then 1 else if c = CHR ''f'' then 2
     else if c = CHR 0x22 then 4 else if c = CHR ''['' then 5 else if c = CHR ''{'' then 6 else 3)"

lemma json_text_tag: "tag_char (hd (json_text v @ r)) = value_tag v"
proof (cases v)
  case (PInt i)
  have "number_char (hd (show_int i))" using show_int_chars[of i] by (cases "show_int i") auto
  then show ?thesis using PInt show_int_chars[of i] by (auto simp: tag_char_def number_char_def is_digit_def hd_append)
qed (auto simp: tag_char_def json_string_def)

lemma json_text_same_tag: "json_text v @ r = json_text w @ r' \<Longrightarrow> value_tag w = value_tag v"
  by (metis json_text_tag)

lemma json_text_cuts: "canonical v \<Longrightarrow> cuts json_text canonical v"
proof (induction v)
  case (PList xs)
  have el: "\<forall>x \<in> set xs. cuts json_text canonical x" using PList by (simp add: list_all_iff)
  show ?case unfolding cuts_def
  proof (intro allI impI)
    fix w r r' assume w: "canonical w" and eq: "json_text (PList xs) @ r = json_text w @ r'"
    have "value_tag w = 5" using json_text_same_tag[OF eq] by simp
    then obtain ys where ys: "w = PList ys" by (cases w) (auto split: if_splits)
    then show "PList xs = w \<and> r = r'"
      using join_cut[OF el, of ys "CHR '']''" r r'] eq w json_text_opens by (simp add: list_all_iff)
  qed
next
  case (PDict m)
  have vals: "cuts json_text canonical v" if "(k, v) \<in> set m" for k v
    using PDict.IH[OF that] PDict.prems that by (auto simp: list_all_iff)
  have el: "\<forall>e \<in> set m. cuts entry_text (\<lambda>(k, v). canonical v) e"
  proof
    fix e assume e: "e \<in> set m"
    obtain k v where kv: "e = (k, v)" by (cases e)
    show "cuts entry_text (\<lambda>(k, v). canonical v) e"
      using vals e unfolding kv cuts_def entry_text_def by (auto simp: json_string_inject)
  qed
  have op: "opens entry_text" by (auto simp: opens_def entry_text_def json_string_def)
  show ?case unfolding cuts_def
  proof (intro allI impI)
    fix w r r' assume w: "canonical w" and eq: "json_text (PDict m) @ r = json_text w @ r'"
    have "value_tag w = 6" using json_text_same_tag[OF eq] by simp
    then obtain m' where m': "w = PDict m'" by (cases w) (auto split: if_splits)
    have sorted: "sorted (map fst m)" "sorted (map fst m')" using PDict.prems w m' by simp_all
    have "join_with '','' (map entry_text m) @ CHR ''}'' # r = join_with '','' (map entry_text m') @ CHR ''}'' # r'"
      using eq sorted unfolding m' by (simp add: json_text_dict del: json_text.simps)
    moreover have "\<forall>y \<in> set m'. (\<lambda>(k, v). canonical v) y" using w m' by (simp add: list_all_iff)
    ultimately show "PDict m = w \<and> r = r'"
      using join_cut[OF el _ op, of m' "CHR ''}''" r r'] m' by simp
  qed
next
  case (PInt i)
  show ?case unfolding cuts_def
  proof (intro allI impI)
    fix w r r' assume st: "stops r" "stops r'" and eq: "json_text (PInt i) @ r = json_text w @ r'"
    have "value_tag w = 3" using json_text_same_tag[OF eq] by simp
    then obtain j where "w = PInt j" by (cases w) (auto split: if_splits)
    then show "PInt i = w \<and> r = r'" using show_int_cut[OF _ st] eq by simp
  qed
next
  case (PStr s)
  show ?case unfolding cuts_def
  proof (intro allI impI)
    fix w r r' assume eq: "json_text (PStr s) @ r = json_text w @ r'"
    have "value_tag w = 4" using json_text_same_tag[OF eq] by simp
    then obtain t where "w = PStr t" by (cases w) (auto split: if_splits)
    then show "PStr s = w \<and> r = r'" using eq by (simp add: json_string_inject)
  qed
next
  case PNone
  show ?case unfolding cuts_def
  proof (intro allI impI)
    fix w r r' assume eq: "json_text PNone @ r = json_text w @ r'"
    have "value_tag w = 0" using json_text_same_tag[OF eq] by simp
    then show "PNone = w \<and> r = r'" using eq by (cases w) (auto split: if_splits)
  qed
next
  case (PBool b)
  show ?case unfolding cuts_def
  proof (intro allI impI)
    fix w r r' assume eq: "json_text (PBool b) @ r = json_text w @ r'"
    have "value_tag w = value_tag (PBool b)" using json_text_same_tag[OF eq] by simp
    then show "PBool b = w \<and> r = r'" using eq by (cases w) (auto split: if_splits)
  qed
qed

lemma json_text_inject: "canonical v \<Longrightarrow> canonical w \<Longrightarrow> json_text v = json_text w \<longleftrightarrow> v = w"
proof -
  assume c: "canonical v" "canonical w"
  have "stops []" by (simp add: stops_def)
  then show ?thesis using json_text_cuts[OF c(1)] c(2) unfolding cuts_def by (metis append_Nil2)
qed

end
