(* ===== verification/Policy_Safety.thy ===== *)
theory Policy_Safety
  imports Policy Json_Injective Ledger_Example "HOL-Library.Multiset"
begin

text \<open>
  What the policy engine guarantees: an action is allowed only on an approval that a human gave
  for exactly this action, and the fingerprint that ties the two together is taken of a text
  which determines every authority field of the request.
\<close>

section \<open>Canonical data\<close>

fun unique_keys :: "pyval \<Rightarrow> bool" where
  "unique_keys (PList xs) = list_all unique_keys xs"
| "unique_keys (PDict m) = (distinct (map fst m) \<and> list_all (\<lambda>(k, v). unique_keys v) m)"
| "unique_keys _ = True"

lemma unique_keys_if_canonical: "canonical v \<Longrightarrow> unique_keys v"
proof (induction v)
  case (PDict m)
  then show ?case by (auto simp: list_all_iff)
qed (auto simp: list_all_iff)

lemma insort_map_fst: "insort_key fst (k, f v) (map (\<lambda>(k, v). (k, f v)) xs) = map (\<lambda>(k, v). (k, f v)) (insort_key fst (k, v) xs)"
  by (induction xs) auto

lemma sort_map_fst: "sort_key fst (map (\<lambda>(k, v). (k, f v)) xs) = map (\<lambda>(k, v). (k, f v)) (sort_key fst xs)"
  by (induction xs) (auto simp: insort_map_fst)

lemma distinct_keys_sort [simp]: "distinct (map fst (sort_key fst m)) = distinct (map fst m)"
  by (rule mset_eq_imp_distinct_iff) (simp add: mset_map)

lemma canonical_canonical_data: "unique_keys v \<Longrightarrow> canonical (canonical_data v)"
proof (induction v)
  case (PDict m)
  let ?m = "map (\<lambda>(k, v). (k, canonical_data v)) m"
  have keys: "map fst ?m = map fst m" by (simp add: comp_def case_prod_unfold)
  have "distinct (map fst (sort_key fst ?m))"
    unfolding distinct_keys_sort keys using PDict.prems by simp
  moreover have "canonical v" if kv: "(k, v) \<in> set (sort_key fst ?m)" for k v
  proof -
    obtain w where w: "(k, w) \<in> set m" "v = canonical_data w" using kv by auto
    then have "unique_keys w" using PDict.prems by (auto simp: list_all_iff)
    then show ?thesis using PDict.IH[OF w(1)] w(2) by simp
  qed
  moreover have "sorted (map fst (sort_key fst ?m))" by (rule sorted_sort_key)
  ultimately show ?case
    unfolding canonical_data.simps canonical.simps list_all_iff by (intro conjI ballI) (simp_all only: split_paired_all prod.case)
qed (auto simp: list_all_iff)

text \<open>Canonicalising does not change the text.\<close>

lemma json_text_canonical_data: "json_text (canonical_data v) = json_text v"
proof (induction v)
  case (PList xs)
  have "map (\<lambda>x. json_text (canonical_data x)) xs = map json_text xs" using PList.IH by (intro map_cong) auto
  from this[folded map_map[unfolded comp_def]] show ?case by (simp only: canonical_data.simps json_text.simps)
next
  case (PDict m)
  let ?t = "map (\<lambda>(k, v). (k, json_text v)) m"
  have vals: "map (\<lambda>(k, v). (k, json_text (canonical_data v))) m = ?t" using PDict.IH by auto
  have "map (\<lambda>(k, v). (k, json_text v)) (sort_key fst (map (\<lambda>(k, v). (k, canonical_data v)) m)) =
      sort_key fst ?t"
    unfolding sort_map_fst[symmetric] vals[symmetric] by (simp add: comp_def case_prod_unfold)
  moreover have "sort_key fst (sort_key fst ?t) = sort_key fst ?t" by (rule sort_key_id_if_sorted) simp
  ultimately show ?case by (simp del: map_map)
qed simp_all

lemma json_text_determines:
  "unique_keys v \<Longrightarrow> unique_keys w \<Longrightarrow> json_text v = json_text w \<Longrightarrow> canonical_data v = canonical_data w"
  by (metis canonical_canonical_data json_text_canonical_data json_text_inject)

lemma map_of_sort: "distinct (map fst m) \<Longrightarrow> map_of (sort_key fst m) = map_of m"
  by (simp add: map_of_inject_set)

lemma canonical_data_get:
  assumes "canonical_data (PDict m) = canonical_data (PDict m')" "distinct (map fst m)" "distinct (map fst m')"
  shows "canonical_data (dict_get m k) = canonical_data (dict_get m' k)"
proof -
  let ?c = "map (\<lambda>(k, v). (k, canonical_data v))"
  have keys: "distinct (map fst (?c x)) = distinct (map fst x)" for x by (simp add: comp_def case_prod_unfold)
  have "sort_key fst (?c m) = sort_key fst (?c m')" using assms(1) by simp
  then have "map_of (?c m) = map_of (?c m')" using map_of_sort[of "?c m"] map_of_sort[of "?c m'"] assms(2,3) keys by metis
  then have "map_option canonical_data (map_of m k) = map_option canonical_data (map_of m' k)"
    using map_of_map[of canonical_data m] map_of_map[of canonical_data m'] by (metis comp_apply)
  then show ?thesis by (cases "map_of m k"; cases "map_of m' k") (simp_all add: dict_get_def)
qed

section \<open>What a fingerprint binds\<close>

lemma canonical_data_leaf [simp]:
  "canonical_data (opt_str s) = opt_str s" "canonical_data (str_list xs) = str_list xs"
  by (cases s) (simp_all add: str_list_def comp_def)

lemma unique_keys_leaf [simp]: "unique_keys (opt_str s)" "unique_keys (str_list xs)"
  by (cases s) (simp_all add: str_list_def list_all_iff)

lemma opt_str_inject [simp]: "opt_str a = opt_str b \<longleftrightarrow> a = b"
  by (cases a; cases b) simp_all

lemma str_list_inject [simp]: "str_list xs = str_list ys \<longleftrightarrow> xs = ys"
  by (simp add: str_list_def inj_map_eq_map inj_on_def)

lemma canonical_data_idem [simp]: "canonical_data (canonical_data v) = canonical_data v"
proof (induction v)
  case (PDict m)
  let ?c = "map (\<lambda>(k, v). (k, canonical_data v))"
  have "?c (?c m) = ?c m" using PDict.IH by auto
  then have "?c (sort_key fst (?c m)) = sort_key fst (?c m)" by (metis sort_map_fst)
  moreover have "sort_key fst (sort_key fst (?c m)) = sort_key fst (?c m)" by (rule sort_key_id_if_sorted) simp
  ultimately show ?case by (simp only: canonical_data.simps)
qed simp_all

lemma risk_value_inj: "inj risk_value" by (rule injI) (auto elim!: risk_value.elims)

lemma hard_gate_value_inj: "inj hard_gate_value" by (rule injI) (auto elim!: hard_gate_value.elims)

lemma sort_eq_iff: "sort xs = sort ys \<longleftrightarrow> mset xs = mset (ys :: 'a::linorder list)"
  by (metis mset_sort properties_for_sort sorted_sort)

lemma sorted_values_eq: "inj f \<Longrightarrow> sort (map f xs) = sort (map f ys) \<longleftrightarrow> mset xs = mset ys"
  unfolding sort_eq_iff mset_map by (auto dest: injD[OF multiset.inj_map])

lemma unique_keys_canonical [simp]: "unique_keys v \<Longrightarrow> unique_keys (canonical_data v)"
  by (drule canonical_canonical_data) (rule unique_keys_if_canonical)

definition same_authority :: "ActionRequest \<Rightarrow> ActionRequest \<Rightarrow> bool" where
  "same_authority r s \<longleftrightarrow> rq_action r = rq_action s \<and> rq_target_ref r = rq_target_ref s \<and>
     canonical_data (PDict (rq_arguments r)) = canonical_data (PDict (rq_arguments s)) \<and>
     rq_artifact_hashes r = rq_artifact_hashes s \<and> rq_context_packet_digest r = rq_context_packet_digest s \<and>
     mset (rq_risk_classes r) = mset (rq_risk_classes s) \<and> mset (rq_hard_gates r) = mset (rq_hard_gates s) \<and>
     rq_workflow_id r = rq_workflow_id s \<and> rq_instance_id r = rq_instance_id s \<and> rq_stage_id r = rq_stage_id s \<and>
     rq_stage_run_id r = rq_stage_run_id s \<and> rq_workflow_definition_hash r = rq_workflow_definition_hash s \<and>
     mset (rq_allowed_decisions r) = mset (rq_allowed_decisions s) \<and>
     canonical_data (PDict (rq_state_constraints r)) = canonical_data (PDict (rq_state_constraints s)) \<and>
     policy_coerce_datetime (rq_expires_at r) = policy_coerce_datetime (rq_expires_at s)"

lemma policy_time_in_range: "policy_coerce_datetime v = Inr (Some t) \<Longrightarrow> in_range t"
  by (auto simp: policy_coerce_datetime_def datetime_to_utc_def checked_utc_def Let_def
bindE_eq_Inr
      split: ts_arg.splits option.splits if_splits sum.splits)

lemma canonical_timestamp_eq:
  assumes "canonical_timestamp v = Inr x" "canonical_timestamp w = Inr y"
  shows "x = y \<longleftrightarrow> policy_coerce_datetime v = policy_coerce_datetime w"
proof -
  obtain s t where st: "policy_coerce_datetime v = Inr s" "policy_coerce_datetime w = Inr t"
      "x = map_option isoformat s" "y = map_option isoformat t"
    using assms by (auto simp: canonical_timestamp_def bindE_eq_Inr)
  have "a = b" if "s = Some a" "t = Some b" "isoformat a = isoformat b" for a b
    using policy_time_in_range st that by (metis coerce_datetime_isoformat sum.inject(2))
  then show ?thesis using st by (cases s; cases t) auto
qed

lemma payload_unique_keys:
  "unique_keys (PDict (rq_arguments r)) \<Longrightarrow> unique_keys (PDict (rq_state_constraints r)) \<Longrightarrow>
   unique_keys (fingerprint_payload r x)"
  using unique_keys_canonical[of "PDict (rq_arguments r)"] unique_keys_canonical[of "PDict (rq_state_constraints r)"]
  by (simp add: fingerprint_payload_def del: canonical_data.simps)

lemma same_keys_map_of:
  assumes "map fst xs = map fst ys" "distinct (map fst xs)" "map_of xs = map_of ys"
  shows "xs = ys"
proof (rule nth_equalityI)
  show len: "length xs = length ys" using map_eq_imp_length_eq[OF assms(1)] .
  fix i assume i: "i < length xs"
  have k: "fst (xs ! i) = fst (ys ! i)" using arg_cong[OF assms(1), of "\<lambda>l. l ! i"] i len by simp
  have "map_of xs (fst (xs ! i)) = Some (snd (xs ! i))" using i assms(2) by simp
  moreover have "map_of ys (fst (ys ! i)) = Some (snd (ys ! i))" using i len assms(1,2) by simp
  ultimately show "xs ! i = ys ! i" using assms(3) k by (simp add: prod_eq_iff)
qed

text \<open>With the same distinct keys, canonical mappings are equal entry by entry.\<close>

lemma same_keys_canonical:
  assumes "map fst m = map fst m'" "distinct (map fst m)"
  shows "canonical_data (PDict m) = canonical_data (PDict m') \<longleftrightarrow>
    map (\<lambda>e. canonical_data (snd e)) m = map (\<lambda>e. canonical_data (snd e)) m'"
proof -
  let ?c = "map (\<lambda>(k, v). (k, canonical_data v))"
  have keys: "map fst (?c x) = map fst x" for x by (simp add: comp_def case_prod_unfold)
  have vals: "map snd (?c x) = map (\<lambda>e. canonical_data (snd e)) x" for x by (simp add: comp_def case_prod_unfold)
  have "?c m = ?c m'" if "sort_key fst (?c m) = sort_key fst (?c m')"
    using same_keys_map_of[of "?c m" "?c m'"] map_of_sort[of "?c m"] map_of_sort[of "?c m'"] assms keys that by metis
  moreover have "?c m = ?c m'" if "map (\<lambda>e. canonical_data (snd e)) m = map (\<lambda>e. canonical_data (snd e)) m'"
    using that assms(1) keys vals by (metis zip_map_fst_snd)
  moreover have "map (\<lambda>e. canonical_data (snd e)) m = map (\<lambda>e. canonical_data (snd e)) m'" if "?c m = ?c m'"
    using arg_cong[OF that, of "map snd"] unfolding vals .
  ultimately show ?thesis unfolding canonical_data.simps pyval.inject by (intro iffI) (blast, simp only:)
qed

lemma json_text_eq_iff:
  "unique_keys v \<Longrightarrow> unique_keys w \<Longrightarrow> json_text v = json_text w \<longleftrightarrow> canonical_data v = canonical_data w"
  by (metis json_text_canonical_data json_text_determines)

lemma payload_text_eq:
  assumes "unique_keys (PDict (rq_arguments r))" "unique_keys (PDict (rq_state_constraints r))"
    "unique_keys (PDict (rq_arguments s))" "unique_keys (PDict (rq_state_constraints s))"
    "canonical_timestamp (rq_expires_at r) = Inr x" "canonical_timestamp (rq_expires_at s) = Inr y"
  shows "json_text (fingerprint_payload r x) = json_text (fingerprint_payload s y) \<longleftrightarrow> same_authority r s"
  unfolding json_text_eq_iff[OF payload_unique_keys[OF assms(1,2)] payload_unique_keys[OF assms(3,4)]]
  unfolding fingerprint_payload_def
  by (simp add: same_keys_canonical same_authority_def inj_eq[OF multiset.inj_map[OF risk_value_inj]]
      inj_eq[OF multiset.inj_map[OF hard_gate_value_inj]] sort_eq_iff canonical_timestamp_eq[OF assms(5,6)]
      del: canonical_data.simps(2))

section \<open>Approvals in force\<close>

definition in_force :: "env \<Rightarrow> HumanApprovalReceipt \<Rightarrow> ts_arg \<Rightarrow> bool" where
  "in_force E a now \<longleftrightarrow> (\<exists>given revoked expires. policy_coerce_datetime now = Inr given \<and>
     policy_coerce_datetime (ap_revoked_at a) = Inr revoked \<and> policy_coerce_datetime (ap_expires_at a) = Inr expires \<and>
     (\<forall>t. revoked = Some t \<longrightarrow> the_or (clock E 0) given < t) \<and> (\<forall>t. expires = Some t \<longrightarrow> the_or (clock E 0) given < t))"

definition authorizes :: "env \<Rightarrow> HumanApprovalReceipt \<Rightarrow> ActionRequest \<Rightarrow> ts_arg \<Rightarrow> bool" where
  "authorizes E a r now \<longleftrightarrow> dict_get (ap_constraints a) ''test_only'' \<noteq> PBool True \<and> ap_decision a = APPROVED \<and>
     ap_exact_action_approved a = rq_action r \<and> fingerprint_request r = Inr (ap_action_fingerprint a) \<and> in_force E a now"

definition forbidden_request :: "ActionRequest \<Rightarrow> bool" where
  "forbidden_request r \<longleftrightarrow> rq_action r \<in> set (rq_forbidden_actions r) \<or> RISK_FORBIDDEN \<in> set (rq_risk_classes r)"

definition human_gated :: "ActionRequest \<Rightarrow> bool" where
  "human_gated r \<longleftrightarrow> \<not> rq_side_effects_known r \<or> rq_side_effects_ambiguous r \<or> rq_hard_gates r \<noteq> [] \<or>
     (\<exists>k \<in> set (rq_risk_classes r). hard_gate_risk k)"

lemma valid_approval_iff:
  assumes "validate_approval E ap fp (Some act) now = Inr (ok, why)"
  shows "ok \<longleftrightarrow> (\<exists>a. ap = Some a \<and> dict_get (ap_constraints a) ''test_only'' \<noteq> PBool True \<and> ap_decision a = APPROVED \<and>
    ap_exact_action_approved a = act \<and> ap_action_fingerprint a = fp \<and> in_force E a now)"
proof (cases ap)
  case None
  then show ?thesis using assms by (simp add: validate_approval_def)
next
  case (Some a)
  note call = assms[unfolded Some validate_approval_def option.case]
  consider (refused) "dict_get (ap_constraints a) ''test_only'' = PBool True \<or> ap_decision a \<noteq> APPROVED \<or>
      ap_exact_action_approved a \<noteq> act \<or> ap_action_fingerprint a \<noteq> fp"
    | (times) "dict_get (ap_constraints a) ''test_only'' \<noteq> PBool True" "ap_decision a = APPROVED"
      "ap_exact_action_approved a = act" "ap_action_fingerprint a = fp" by blast
  then show ?thesis
  proof cases
    case refused
    then have "\<not> ok" using call by (auto split: if_splits)
    then show ?thesis using refused Some by auto
  next
    case times
    obtain given revoked where g: "policy_coerce_datetime now = Inr given" "policy_coerce_datetime (ap_revoked_at a) = Inr revoked"
      using call times by (auto simp: bindE_eq_Inr Let_def)
    let ?t = "the_or (clock E 0) given"
    show ?thesis
    proof (cases "\<exists>t. revoked = Some t \<and> t \<le> ?t")
      case True
      then show ?thesis using call times g Some by (auto simp: in_force_def Let_def)
    next
      case False
      then obtain expires where "policy_coerce_datetime (ap_expires_at a) = Inr expires"
        using call times g by (auto simp: bindE_eq_Inr Let_def split: option.splits)
      then show ?thesis using call times g Some False
        by (auto simp: in_force_def Let_def not_le split: option.splits if_splits)
    qed
  qed
qed

lemma decide_table:
  assumes "decide E r fp ap now = Inr (d, why, ref)" "fingerprint_request r = Inr fp"
  shows "d = (if forbidden_request r then DENY
      else if human_gated r then (if \<exists>a. ap = Some a \<and> authorizes E a r now then ALLOW else REQUIRE_HUMAN)
      else if \<forall>k \<in> set (rq_risk_classes r). allow_with_receipt_risk k then ALLOW_WITH_RECEIPT else REQUIRE_HUMAN) \<and>
    ref = (if d = ALLOW then map_option ap_approval_id ap else None)"
proof -
  have auth: "ok \<longleftrightarrow> (\<exists>a. ap = Some a \<and> authorizes E a r now)"
    if "validate_approval E ap fp (Some (rq_action r)) now = Inr (ok, w)" for ok w
    using valid_approval_iff[OF that] assms(2) by (auto simp: authorizes_def)
  show ?thesis
  proof (cases "human_gated r \<and> \<not> forbidden_request r")
    case True
    then have h: "human_gated r" and f: "\<not> forbidden_request r" by simp_all
    obtain ok w where v: "validate_approval E ap fp (Some (rq_action r)) now = Inr (ok, w)"
        and d: "d = (if ok then ALLOW else REQUIRE_HUMAN)" "ref = (if ok then map_option ap_approval_id ap else None)"
      using assms(1) h f unfolding decide_def human_gated_def forbidden_request_def
      by (auto simp: bindE_eq_Inr split: if_splits)
    then show ?thesis using auth[OF v] h f by auto
  next
    case False
    then show ?thesis using assms(1) unfolding decide_def human_gated_def forbidden_request_def by (auto split: if_splits)
  qed
qed

lemma evaluate_decides:
  assumes "evaluate E r ap now = Inr g"
  obtains d why where "decide E r (pg_action_fingerprint g) ap now = Inr (d, why, pg_approval_receipt_ref g)"
    "fingerprint_request r = Inr (pg_action_fingerprint g)" "pg_decision g = gate_decision_value d"
    "pg_requested_action g = rq_action r"
  using assms by (auto simp: evaluate_def bindE_eq_Inr)

lemma decision_is_table:
  assumes "evaluate E r ap now = Inr g"
  shows "pg_decision g = gate_decision_value (if forbidden_request r then DENY
      else if human_gated r then (if \<exists>a. ap = Some a \<and> authorizes E a r now then ALLOW else REQUIRE_HUMAN)
      else if \<forall>k \<in> set (rq_risk_classes r). allow_with_receipt_risk k then ALLOW_WITH_RECEIPT else REQUIRE_HUMAN)"
proof -
  obtain d why where "decide E r (pg_action_fingerprint g) ap now = Inr (d, why, pg_approval_receipt_ref g)"
    "fingerprint_request r = Inr (pg_action_fingerprint g)" "pg_decision g = gate_decision_value d"
    using evaluate_decides[OF assms] .
  then show ?thesis using decide_table by blast
qed

section \<open>The properties\<close>

text \<open>
  C22. The policy decision is exactly this table: a forbidden action is denied; an action with
  unknown or ambiguous side effects, a hard gate or a hard-gate risk is allowed if and only if
  the presented approval authorizes it (given for this very fingerprint and action, approved,
  not test-only, neither revoked nor expired at the decision time) and otherwise needs a human;
  any other action is allowed with a receipt when all its risks are safe, else needs a human.
\<close>

theorem policy_decision_table:
  assumes "evaluate E r ap now = Inr g"
  shows "pg_decision g = gate_decision_value (if forbidden_request r then DENY
      else if human_gated r then (if \<exists>a. ap = Some a \<and> authorizes E a r now then ALLOW else REQUIRE_HUMAN)
      else if \<forall>k \<in> set (rq_risk_classes r). allow_with_receipt_risk k then ALLOW_WITH_RECEIPT else REQUIRE_HUMAN) \<and>
    pg_approval_receipt_ref g = (if pg_decision g = ''allow'' then map_option ap_approval_id ap else None) \<and>
    fingerprint_request r = Inr (pg_action_fingerprint g) \<and> pg_requested_action g = rq_action r"
proof -
  obtain d why where call: "decide E r (pg_action_fingerprint g) ap now = Inr (d, why, pg_approval_receipt_ref g)"
    "fingerprint_request r = Inr (pg_action_fingerprint g)" "pg_decision g = gate_decision_value d"
    "pg_requested_action g = rq_action r"
    using evaluate_decides[OF assms] .
  have "gate_decision_value d = ''allow'' \<longleftrightarrow> d = ALLOW" by (cases d) simp_all
  then show ?thesis using decide_table[OF call(1,2)] decision_is_table[OF assms] call by simp
qed

text \<open>A hard-gated deployment and the approval a human gave for it.\<close>

definition demo_request :: ActionRequest where
  "demo_request = \<lparr>rq_action = ''deploy'', rq_target_ref = ''svc'', rq_arguments = [], rq_artifact_hashes = [],
     rq_context_packet_digest = None, rq_risk_classes = [RISK_PRODUCTION_EFFECT], rq_hard_gates = [GATE_DEPLOY],
     rq_workflow_id = ''wf'', rq_instance_id = ''i'', rq_stage_id = ''s'', rq_stage_run_id = Some ''r'',
     rq_workflow_definition_hash = None, rq_allowed_decisions = [], rq_state_constraints = [], rq_expires_at = TsNone,
     rq_actor_ref = None, rq_adapter_ref = None, rq_evidence_refs = [], rq_forbidden_actions = [],
     rq_side_effects_known = True, rq_side_effects_ambiguous = False\<rparr>"

definition demo_approval :: HumanApprovalReceipt where
  "demo_approval = \<lparr>ap_approval_id = ''ap-1'', ap_gate_id = ''g'', ap_human_ref = ''op'', ap_canonical_surface = ''chat'',
     ap_decision = APPROVED, ap_exact_action_approved = ''deploy'',
     ap_action_fingerprint = sha256_hex (json_text (fingerprint_payload demo_request None)), ap_evidence_refs = [],
     ap_constraints = [], ap_created_at = TsNone, ap_expires_at = TsNone, ap_revoked_at = TsNone, ap_message_ref = None\<rparr>"

lemma demo_fingerprint: "fingerprint_request demo_request = Inr (ap_action_fingerprint demo_approval)"
  by (simp add: fingerprint_request_def canonical_timestamp_def policy_coerce_datetime_def demo_request_def demo_approval_def)

lemma demo_authorized: "authorizes E demo_approval demo_request TsNone"
  by (simp add: authorizes_def demo_fingerprint)
    (simp add: in_force_def policy_coerce_datetime_def demo_request_def demo_approval_def)

lemma demo_gated: "human_gated demo_request" "\<not> forbidden_request demo_request"
  by (simp_all add: human_gated_def forbidden_request_def demo_request_def)

lemma demo_decides:
  "ap = None \<or> (\<exists>a. ap = Some a \<and> (a = demo_approval \<or> dict_get (ap_constraints a) ''test_only'' = PBool True)) \<Longrightarrow>
   \<exists>x. decide E demo_request (ap_action_fingerprint demo_approval) ap TsNone = Inr x"
  by (auto simp: decide_def validate_approval_def demo_request_def hard_gate_risk_def demo_approval_def
      policy_coerce_datetime_def Let_def)

lemma demo_evaluates:
  assumes "ap = None \<or> (\<exists>a. ap = Some a \<and> (a = demo_approval \<or> dict_get (ap_constraints a) ''test_only'' = PBool True))"
  shows "\<exists>g. evaluate E demo_request ap TsNone = Inr g"
proof -
  obtain x where "decide E demo_request (ap_action_fingerprint demo_approval) ap TsNone = Inr x"
    using demo_decides[OF assms] by blast
  then show ?thesis by (cases x) (simp add: evaluate_def demo_fingerprint)
qed

lemma policy_decision_table_witness:
  "(\<exists>g. evaluate demo_env demo_request (Some demo_approval) TsNone = Inr g \<and> pg_decision g = ''allow'') \<and>
   (\<exists>g. evaluate demo_env demo_request None TsNone = Inr g \<and> pg_decision g = ''require_human'')"
proof
  obtain g where g: "evaluate demo_env demo_request (Some demo_approval) TsNone = Inr g" using demo_evaluates by blast
  then show "\<exists>g. evaluate demo_env demo_request (Some demo_approval) TsNone = Inr g \<and> pg_decision g = ''allow''"
    using policy_decision_table[OF g] demo_gated demo_authorized by auto
  obtain h where h: "evaluate demo_env demo_request None TsNone = Inr h" using demo_evaluates by blast
  then show "\<exists>g. evaluate demo_env demo_request None TsNone = Inr g \<and> pg_decision g = ''require_human''"
    using policy_decision_table[OF h] demo_gated by auto
qed

text \<open>
  C23. The fingerprint is the SHA-256 digest of a text that identifies the authority asked for:
  two requests have the same digested text exactly when they agree on the action, target,
  arguments and state constraints (up to key order), artifact hashes, context digest,
  risk classes, hard gates and allowed decisions (up to order), workflow, instance, stage, run
  and definition hash, and the expiry instant.
\<close>

theorem fingerprint_binds_authority:
  assumes "unique_keys (PDict (rq_arguments r))" "unique_keys (PDict (rq_state_constraints r))"
    "unique_keys (PDict (rq_arguments s))" "unique_keys (PDict (rq_state_constraints s))"
    "canonical_timestamp (rq_expires_at r) = Inr x" "canonical_timestamp (rq_expires_at s) = Inr y"
  shows "fingerprint_request r = Inr (sha256_hex (json_text (fingerprint_payload r x))) \<and>
    fingerprint_request s = Inr (sha256_hex (json_text (fingerprint_payload s y))) \<and>
    (json_text (fingerprint_payload r x) = json_text (fingerprint_payload s y) \<longleftrightarrow> same_authority r s)"
  using payload_text_eq[OF assms] assms(5,6) by (simp add: fingerprint_request_def)

lemma fingerprint_binds_authority_witness:
  "json_text (fingerprint_payload demo_request None) \<noteq>
   json_text (fingerprint_payload (demo_request\<lparr>rq_stage_run_id := Some ''r2''\<rparr>) None)"
proof -
  let ?s = "demo_request\<lparr>rq_stage_run_id := Some ''r2''\<rparr>"
  have "\<not> same_authority demo_request ?s" by (simp add: same_authority_def demo_request_def)
  then show ?thesis
    using fingerprint_binds_authority[of demo_request ?s None None]
    by (simp add: demo_request_def canonical_timestamp_def policy_coerce_datetime_def)
qed

text \<open>
  C24. A test-only approval authorizes nothing: the approval built by the fixture builder, with
  whatever decision and for whatever request, never turns any request into an allowed one.
\<close>

theorem test_only_never_authorizes:
  assumes "build_test_only_suman_approval r d ev ct key = Inr a" "evaluate E s (Some a) now = Inr g"
  shows "pg_decision g \<noteq> ''allow'' \<and> pg_approval_receipt_ref g = None"
proof -
  obtain fp why ref dec where "fingerprint_request s = Inr fp" and call: "decide E s fp (Some a) now = Inr (dec, why, ref)"
      "pg_decision g = gate_decision_value dec" "pg_approval_receipt_ref g = ref"
    using assms(2) by (auto simp: evaluate_def bindE_eq_Inr)
  then have "dec \<noteq> ALLOW \<and> ref = None"
    using decide_table[OF call(1)] assms(1)
    by (auto simp: build_test_only_suman_approval_def test_only_constraints_def bindE_eq_Inr Let_def authorizes_def)
  then show ?thesis using call by (cases dec) auto
qed

lemma test_only_never_authorizes_witness:
  "\<exists>a g. build_test_only_suman_approval demo_request APPROVED [] TsNone None = Inr a \<and>
     evaluate demo_env demo_request (Some a) TsNone = Inr g \<and> pg_decision g \<noteq> ''allow''"
proof -
  obtain a where a: "build_test_only_suman_approval demo_request APPROVED [] TsNone None = Inr a"
    by (simp add: build_test_only_suman_approval_def demo_fingerprint Let_def)
  then have "dict_get (ap_constraints a) ''test_only'' = PBool True"
    by (auto simp: build_test_only_suman_approval_def test_only_constraints_def bindE_eq_Inr Let_def)
  then obtain g where g: "evaluate demo_env demo_request (Some a) TsNone = Inr g" using demo_evaluates by blast
  show ?thesis using a g test_only_never_authorizes[OF a g] by blast
qed

end
