(* ===== verification/Stage_Policy_Safety.thy ===== *)
theory Stage_Policy_Safety
  imports Stage_Policy Policy_Safety Lease_Policy
begin

text \<open>
  Policies only accumulate: no layer of a stage's effective policy can relax what another one
  demands, and a policy name the kernel does not know never lets an action through without an
  approval that was given for it.
\<close>

section \<open>Merging\<close>

lemma merge_components_simps [simp]:
  "pc_risk_classes (merge_components a c) = pc_risk_classes a @ pc_risk_classes c"
  "pc_hard_gates (merge_components a c) = pc_hard_gates a @ pc_hard_gates c"
  "pc_forbidden_actions (merge_components a c) = pc_forbidden_actions a @ pc_forbidden_actions c"
  "pc_unknown_policy_refs (merge_components a c) = pc_unknown_policy_refs a @ pc_unknown_policy_refs c"
  "pc_side_effects_known (merge_components a c) \<longleftrightarrow> pc_side_effects_known a \<and> pc_side_effects_known c"
  "pc_side_effects_ambiguous (merge_components a c) \<longleftrightarrow> pc_side_effects_ambiguous a \<or> pc_side_effects_ambiguous c"
  by (simp_all add: merge_components_def merge_nested_def)

lemma foldl_merge:
  "pc_risk_classes (foldl merge_components a cs) = pc_risk_classes a @ concat (map pc_risk_classes cs)"
  "pc_hard_gates (foldl merge_components a cs) = pc_hard_gates a @ concat (map pc_hard_gates cs)"
  "pc_forbidden_actions (foldl merge_components a cs) = pc_forbidden_actions a @ concat (map pc_forbidden_actions cs)"
  "pc_unknown_policy_refs (foldl merge_components a cs) = pc_unknown_policy_refs a @ concat (map pc_unknown_policy_refs cs)"
  "pc_side_effects_known (foldl merge_components a cs) \<longleftrightarrow> pc_side_effects_known a \<and> (\<forall>c \<in> set cs. pc_side_effects_known c)"
  "pc_side_effects_ambiguous (foldl merge_components a cs) \<longleftrightarrow> pc_side_effects_ambiguous a \<or> (\<exists>c \<in> set cs. pc_side_effects_ambiguous c)"
  by (induction cs arbitrary: a) auto

lemma no_components_simps [simp]:
  "pc_risk_classes no_components = []" "pc_hard_gates no_components = []" "pc_forbidden_actions no_components = []"
  "pc_unknown_policy_refs no_components = []" "pc_side_effects_known no_components" "\<not> pc_side_effects_ambiguous no_components"
  by (simp_all add: no_components_def)

lemma mapE_id: "mapE id rs = Inr cs \<longleftrightarrow> rs = map Inr cs"
proof (induction rs arbitrary: cs)
  case (Cons r rs)
  then show ?case by (cases cs) (auto simp: bindE_eq_Inr)
qed auto

lemma effective_policy_of_layers:
  assumes "effective_policy_for_stage w s g b = Inr p"
  obtains cs where "policy_layers w s g b = map Inr cs"
    "set (ep_hard_gates p) = (\<Union>c \<in> set cs. set (pc_hard_gates c))"
    "(\<Union>c \<in> set cs. set (pc_risk_classes c)) \<subseteq> set (ep_risk_classes p)"
    "set (ep_forbidden_actions p) = (\<Union>c \<in> set cs. set (pc_forbidden_actions c)) - {[]}"
    "ep_side_effects_known p \<longleftrightarrow> (\<forall>c \<in> set cs. pc_side_effects_known c \<and> pc_unknown_policy_refs c = [])"
    "ep_side_effects_ambiguous p \<longleftrightarrow> (\<exists>c \<in> set cs. pc_side_effects_ambiguous c \<or> pc_unknown_policy_refs c \<noteq> [])"
proof -
  obtain cs where cs: "policy_layers w s g b = map Inr cs"
    using assms by (auto simp: effective_policy_for_stage_def bindE_eq_Inr mapE_id)
  then have "effective_policy_for_stage w s g b = effective_policy_for_stage w s g b \<and> mapE id (policy_layers w s g b) = Inr cs"
    by (simp add: mapE_id)
  then show ?thesis
    using assms by (intro that[OF cs]) (auto simp: effective_policy_for_stage_def Let_def foldl_merge)
qed


text \<open>A stage whose policy names a class the kernel does not know.\<close>

definition mystery_stage :: StageDef where
  "mystery_stage = demo_stage\<lparr>sd_policy := [(''class'', PStr ''mystery'')]\<rparr>"

definition demo_run_record :: StageRun where
  "demo_run_record = \<lparr>run_id = ''i:draft:1'', run_instance_id = ''i'', run_stage_id = ''draft'', run_status = SR_STARTED,
     run_attempt = 1, run_adapter_id = Some ''runtime.x'', run_actor_ref = None, run_lease_token = None,
     run_lease_seconds = None, run_lease_source = None, run_lease_source_ref = None, run_receipt_id = None,
     run_failure_class = None, run_retry_after_at = None, run_idempotency_key = None\<rparr>"

lemma mystery_class: "policy_class_components ''mystery'' = unknown_component ''mystery''"
  by code_simp

lemma unknown_component_refs [simp]: "pc_unknown_policy_refs (unknown_component ref) = [ref]"
  by (simp add: unknown_component_def)

lemma policy_of_class:
  "\<exists>c. policy_components (PDict [(''class'', PStr s)]) = Inr c \<and>
     (s \<noteq> [] \<longrightarrow> set (pc_unknown_policy_refs c) = set (pc_unknown_policy_refs (policy_class_components s)) - {[]})"
  by (simp add: policy_reference_keys_def sub_components_def string_tuple_def merge_hard_gates_def merge_nested_def
      mapping_flags_def external_effect_flags_def dedupe_components_def is_true_def Let_def)

lemma policy_components_None [simp]: "policy_components (PDict []) = Inr no_components"
  by (simp add: policy_reference_keys_def sub_components_def string_tuple_def merge_hard_gates_def merge_nested_def
      mapping_flags_def external_effect_flags_def dedupe_components_def is_true_def Let_def no_components_def
      dedupe_def dedupe_strings_def)

lemma mystery_layer:
  "\<exists>c. Inr c \<in> set (policy_layers demo_workflow mystery_stage None True) \<and> pc_unknown_policy_refs c \<noteq> [] \<and>
     (\<exists>p. effective_policy_for_stage demo_workflow mystery_stage None True = Inr p)"
proof -
  obtain c where c: "policy_components (PDict [(''class'', PStr ''mystery'')]) = Inr c"
      "set (pc_unknown_policy_refs c) = set [''mystery''] - {[]}"
    using policy_of_class[of "''mystery''"] unfolding mystery_class unknown_component_refs by blast
  have layers: "policy_layers demo_workflow mystery_stage None True = map Inr [no_components, no_components, no_components, c]"
    using c(1) by (simp add: policy_layers_def demo_workflow_def mystery_stage_def demo_stage_def
        del: policy_components.simps(3))
  have "\<exists>p. effective_policy_for_stage demo_workflow mystery_stage None True = Inr p"
    unfolding effective_policy_for_stage_def iffD2[OF mapE_id, OF layers] bindE_simps Let_def by blast
  moreover have "pc_unknown_policy_refs c \<noteq> []"
  proof
    assume "pc_unknown_policy_refs c = []"
    then have "set [''mystery''] - {[]} = ({} :: string set)" using c(2) by (simp only: list.set(1))
    then show False by simp
  qed
  moreover have "Inr c \<in> set (policy_layers demo_workflow mystery_stage None True)" unfolding layers by simp
  ultimately show ?thesis by blast
qed

lemma evaluates_without_approval:
  assumes "rq_expires_at r = TsNone"
  shows "\<exists>g. evaluate E r None now = Inr g"
proof -
  obtain fp where fp: "fingerprint_request r = Inr fp"
    using assms by (auto simp: fingerprint_request_def canonical_timestamp_def policy_coerce_datetime_def)
  have "\<exists>x. decide E r fp None now = Inr x" by (simp add: decide_def validate_approval_def)
  then obtain x where "decide E r fp None now = Inr x" by blast
  then show ?thesis using fp by (cases x) (simp add: evaluate_def)
qed


text \<open>
  C27. Unknown policy names fail closed: when any layer refers to a policy the kernel does not
  know, the stage's action is denied or needs a human, whatever its operation, unless an approval
  that authorizes exactly this request is presented.
\<close>

theorem unknown_policy_fails_closed:
  assumes "effective_policy_for_stage w s g b = Inr p" "Inr c \<in> set (policy_layers w s g b)"
    "pc_unknown_policy_refs c \<noteq> []"
    "evaluate E (stage_action_request w s run g oper p target extra refs) approval now = Inr gate"
    "\<not> (\<exists>a. approval = Some a \<and> authorizes E a (stage_action_request w s run g oper p target extra refs) now)"
  shows "pg_decision gate \<in> {''deny'', ''require_human''}"
proof -
  obtain cs where cs: "policy_layers w s g b = map Inr cs"
    "ep_side_effects_ambiguous p \<longleftrightarrow> (\<exists>c \<in> set cs. pc_side_effects_ambiguous c \<or> pc_unknown_policy_refs c \<noteq> [])"
    using effective_policy_of_layers[OF assms(1)] by metis
  have "c \<in> set cs" using assms(2) unfolding cs(1) by auto
  then have "ep_side_effects_ambiguous p" using cs(2) assms(3) by blast
  then have "human_gated (stage_action_request w s run g oper p target extra refs)"
    by (simp add: human_gated_def stage_action_request_def Let_def)
  then show ?thesis using decision_is_table[OF assms(4)] assms(5) by (auto split: if_splits)
qed

lemma unknown_policy_fails_closed_witness:
  "\<exists>p gate. effective_policy_for_stage demo_workflow mystery_stage None True = Inr p \<and>
     evaluate demo_env (stage_action_request demo_workflow mystery_stage demo_run_record None ''invoke'' p None [] []) None TsNone = Inr gate \<and>
     pg_decision gate \<in> {''deny'', ''require_human''}"
proof -
  obtain c p where c: "Inr c \<in> set (policy_layers demo_workflow mystery_stage None True)" "pc_unknown_policy_refs c \<noteq> []"
    "effective_policy_for_stage demo_workflow mystery_stage None True = Inr p" using mystery_layer by blast
  let ?r = "stage_action_request demo_workflow mystery_stage demo_run_record None ''invoke'' p None [] []"
  obtain gate where g: "evaluate demo_env ?r None TsNone = Inr gate"
    using evaluates_without_approval[of ?r] by (auto simp: stage_action_request_def Let_def)
  show ?thesis using unknown_policy_fails_closed[OF c(3,1,2) g] c(3) g by blast
qed

text \<open>
  A forbidden action stated in a nested policy is lost: under any of the keys by which a
  policy mapping refers to another policy (class, policy_class, risk_class, policy_ref, classes,
  risk_classes, side_effects), the nested policy's forbidden actions are dropped, while the same
  policy given directly, or as an element of a list, forbids them.
\<close>

theorem nested_forbidden_actions_dropped:
  assumes "k \<in> set policy_reference_keys" and inner_def: "inner = PDict [(''forbidden_actions'', str_list acts)]"
  shows "\<exists>nested direct listed. policy_components (PDict [(k, inner)]) = Inr nested \<and> policy_components inner = Inr direct \<and>
    policy_components (PList [inner]) = Inr listed \<and> pc_forbidden_actions nested = [] \<and>
    set (pc_forbidden_actions direct) = set acts - {[]} \<and> set (pc_forbidden_actions listed) = set acts - {[]}"
proof -
  let ?d = "\<lparr>pc_risk_classes = [], pc_hard_gates = [], pc_forbidden_actions = dedupe_strings acts,
     pc_side_effects_known = True, pc_side_effects_ambiguous = False, pc_unknown_policy_refs = []\<rparr>"
  note merging = policy_reference_keys_def sub_components_def string_tuple_def merge_hard_gates_def merge_nested_def
      mapping_flags_def external_effect_flags_def dedupe_components_def is_true_def no_components_def
  have inner: "policy_components inner = Inr ?d"
    by (simp add: inner_def merging Let_def str_list_def comp_def dedupe_def[of "[]"] dedupe_strings_def[of "[]"])
  have listed: "policy_components (PList [inner]) = Inr (dedupe_components (merge_components no_components ?d))"
    by (simp add: inner)
  have keys: "k = ''class'' \<or> k = ''policy_class'' \<or> k = ''risk_class'' \<or> k = ''policy_ref'' \<or> k = ''classes'' \<or>
      k = ''risk_classes'' \<or> k = ''side_effects''" using assms(1) by (simp add: policy_reference_keys_def)
  have "\<exists>nested. policy_components (PDict [(k, inner)]) = Inr nested \<and> pc_forbidden_actions nested = []"
    using keys by (elim disjE) (simp_all add: inner merging Let_def dedupe_def[of "[]"] dedupe_strings_def[of "[]"])
  then show ?thesis using inner listed by (auto simp: dedupe_components_def no_components_def)
qed

lemma nested_forbidden_actions_dropped_witness:
  "\<exists>nested. policy_components (PDict [(''policy_ref'', PDict [(''forbidden_actions'', str_list [''publish''])])]) = Inr nested \<and>
     pc_forbidden_actions nested = []"
  using nested_forbidden_actions_dropped[OF _ refl, of "''policy_ref''" "[''publish'']"] by (auto simp: policy_reference_keys_def)

end
