(* ===== verification/Routing_Safety.thy ===== *)
theory Routing_Safety
  imports Kernel_Routing
begin

text \<open>
  Following an outcome: the table of what happens to the instance and to the runs, the guard that
  needs a human, and the budgets that bound loops through the graph.
\<close>

section \<open>Effects of the single calls\<close>

definition at_stage :: "ledger \<Rightarrow> string \<Rightarrow> WorkflowStatus \<Rightarrow> string option \<Rightarrow> bool" where
  "at_stage L i st cs \<longleftrightarrow> (\<forall>x \<in> set (workflow_instances L). wi_instance_id x = i \<longrightarrow> wi_status x = st \<and> wi_current_stage_id x = cs)"

text \<open>The ledger after an instance update: one rewritten instance and one event.\<close>

lemma update_instance_effect:
  assumes "call (\<lambda>E. update_workflow_instance E i st cs now a ty p) Es w = (Inr x, v)"
  shows "at_stage (w_ledger v) i st cs \<and> stage_runs (w_ledger v) = stage_runs (w_ledger w) \<and>
    receipts (w_ledger v) = receipts (w_ledger w) \<and>
    (\<exists>e. events (w_ledger v) = events (w_ledger w) @ [e] \<and> ev_instance_id e = i \<and> ev_type e = ty \<and> ev_payload e = PDict p)"
proof -
  obtain at where ev: "emit (Es (w_calls w)) i None ty a (PDict p) at (update_instances (\<lambda>r. wi_instance_id r = i)
      (\<lambda>r. r\<lparr>wi_status := st, wi_current_stage_id := cs, wi_updated_at := at\<rparr>) (w_ledger w)) = Inr (w_ledger v)"
    using assms unfolding call_Inr update_workflow_instance_def by (auto simp: bindE_eq_Inr)
  define M where "M = update_instances (\<lambda>r. wi_instance_id r = i)
      (\<lambda>r. r\<lparr>wi_status := st, wi_current_stage_id := cs, wi_updated_at := at\<rparr>) (w_ledger w)"
  have M: "stage_runs M = stage_runs (w_ledger w)" "receipts M = receipts (w_ledger w)" "events M = events (w_ledger w)"
    unfolding M_def by (simp_all add: update_instances_def)
  have M4: "at_stage M i st cs" unfolding at_stage_def
  proof (intro ballI impI)
    fix x assume x: "x \<in> set (workflow_instances M)" and i: "wi_instance_id x = i"
    let ?f = "\<lambda>y. if wi_instance_id y = i then y\<lparr>wi_status := st, wi_current_stage_id := cs, wi_updated_at := at\<rparr> else y"
    have "x \<in> ?f ` set (workflow_instances (w_ledger w))"
      using x unfolding M_def update_instances_def update_where_def by simp
    then obtain y where "x = ?f y" by (rule imageE)
    then show "wi_status x = st \<and> wi_current_stage_id x = cs" using i by (cases "wi_instance_id y = i") simp_all
  qed
  have v: "w_ledger v = M\<lparr>uuid_draws := Suc (uuid_draws M), events := events M @ [event_of (Es (w_calls w)) i None ty a (PDict p) at M]\<rparr>"
    using ev unfolding emit_Inr M_def by blast
  show ?thesis unfolding v using M M4 by (simp add: event_of_def at_stage_def)
qed

lemma block_workflow_effect:
  "block_workflow k i s p now Es w = (Inr x, v) \<Longrightarrow> at_stage (w_ledger v) i WF_BLOCKED (Some s) \<and>
    stage_runs (w_ledger v) = stage_runs (w_ledger w)"
  unfolding block_workflow_def using update_instance_effect by blast

lemma append_event_effect:
  assumes "call (\<lambda>E. append_event E i s ty a p c) Es w = (Inr x, v)"
  shows "stage_runs (w_ledger v) = stage_runs (w_ledger w) \<and> workflow_instances (w_ledger v) = workflow_instances (w_ledger w)"
  using assms unfolding call_Inr append_event_def by (auto simp: bindE_eq_Inr emit_Inr)

lemma record_receipt_runs:
  assumes "call (\<lambda>E. record_receipt E c) Es w = (Inr x, v)"
  shows "stage_runs (w_ledger v) = stage_runs (w_ledger w)"
proof -
  have art: "stage_runs M' = stage_runs M" if "record_artifact c a M = Inr M'" for a M M'
    using that unfolding record_artifact_def by (auto simp: insert_artifact_Inr bindE_eq_Inr)
  have loop: "stage_runs M' = stage_runs M" if "foldE (record_artifact c) as M = Inr M'" for as M M'
    using that by (induction as arbitrary: M) (auto simp: bindE_eq_Inr dest: art)
  show ?thesis using assms unfolding call_Inr record_receipt_def
    by (auto simp: bindE_eq_Inr insert_receipt_Inr emit_Inr dest!: loop)
qed

lemma queue_stage_effect:
  assumes "queue_stage s i n inputs c Es w = (Inr x, v)"
  shows "\<exists>row. stage_runs (w_ledger v) = stage_runs (w_ledger w) @ [row] \<and> sr_id row = attempt_id i (sd_id s) n \<and>
    sr_instance_id row = i \<and> sr_stage_id row = sd_id s \<and> sr_attempt row = n \<and> sr_status row = SR_QUEUED \<and> lease_cleared row \<and>
    events (w_ledger v) = events (w_ledger w) \<and> workflow_instances (w_ledger v) = workflow_instances (w_ledger w)"
  using assms unfolding queue_stage_def call_Inr insert_stage_run_def
  by (auto simp: bindE_eq_Inr insert_run_Inr queued_run_def new_run_row_def lease_cleared_def)

lemma budget_guard_not_other: "guard \<in> set budget_transition_guards \<Longrightarrow>
    guard \<in> set allowed_transition_guards \<and> guard \<noteq> ''policy_approved'' \<and> guard \<noteq> ''has_required_artifacts''"
  by (auto simp: budget_transition_guards_def allowed_transition_guards_def implemented_transition_guards_def)

lemma evaluate_budget_guard: "tr_guard t = Some guard \<Longrightarrow> guard \<in> set budget_transition_guards \<Longrightarrow>
    evaluate_transition_guard w run s t result L = Inr (guard_within_budget w run s t guard L)"
  using budget_guard_not_other[of guard] by (simp add: evaluate_transition_guard_def Let_def)

section \<open>A workflow with a revision loop\<close>

definition loop_stage :: "string \<Rightarrow> StageDef" where
  "loop_stage i = \<lparr>sd_id = i, sd_type = ST_AGENT_WORK, sd_adapter = ''runtime.x'', sd_outcomes = [''needs_revision'', ''ok''],
     sd_actors = [], sd_inputs = [], sd_outputs = [], sd_prompt_refs = [], sd_no_prompt_reason = None, sd_policy = [],
     sd_budget = [(''max_revision_turns'', PInt 1)], sd_retry = [], sd_lease = [], sd_timeout_seconds = None, sd_surface = []\<rparr>"

definition loop_transition :: "string \<Rightarrow> string option \<Rightarrow> string option \<Rightarrow> string \<Rightarrow> Transition" where
  "loop_transition on target terminal guard = \<lparr>from_stage = ''s'', tr_on = on, to_stage = target, tr_terminal = terminal,
     tr_guard = Some guard, tr_label = None\<rparr>"

definition loop_workflow :: WorkflowDef where
  "loop_workflow = demo_workflow\<lparr>wd_stages := [loop_stage ''s'', loop_stage ''t''],
     wd_transitions := [loop_transition ''needs_revision'' (Some ''t'') None ''within_revision_budget'',
        loop_transition ''ok'' None (Some ''done'') ''policy_approved'']\<rparr>"

definition loop_kernel :: kernel where
  "loop_kernel = \<lparr>k_workflow = loop_workflow, k_owner = ''o'', k_registry = [], k_prompts = None, k_default_lease_seconds = 300,
     k_worker_platform = None, k_transitions = [((''s'', ''needs_revision''), loop_transition ''needs_revision'' (Some ''t'') None ''within_revision_budget''),
        ((''s'', ''ok''), loop_transition ''ok'' None (Some ''done'') ''policy_approved'')]\<rparr>"

lemma loop_kernel: "new_kernel loop_workflow ''o'' [] None 300 None = Inr loop_kernel"
  by (simp add: new_kernel_def loop_kernel_def loop_workflow_def index_transitions_def index_transition_def loop_transition_def Let_def)

lemma loop_consumes: "budget_guard_consumes_transition ''within_revision_budget'' (loop_transition ''needs_revision'' x y z)"
  by code_simp

lemma loop_limit: "resolve_budget_limit loop_workflow (loop_stage ''s'') (Some (loop_stage ''t'')) ''within_revision_budget'' =
   \<lparr>bl_limit = Some 1, bl_source = Some ''stages.s.budget'', bl_key = Some ''max_revision_turns'', bl_reason = None\<rparr>"
  by code_simp

lemma loop_target: "next_stage_for_transition loop_workflow (loop_transition ''needs_revision'' (Some ''t'') None g) = Some (loop_stage ''t'')"
  by code_simp

lemma loop_found: "find_transition loop_kernel (loop_stage ''s'') ''needs_revision'' = Some (loop_transition ''needs_revision'' (Some ''t'') None ''within_revision_budget'')"
  "find_transition loop_kernel (loop_stage ''s'') ''ok'' = Some (loop_transition ''ok'' None (Some ''done'') ''policy_approved'')"
  by (simp_all add: find_transition_def loop_kernel_def loop_stage_def)

lemma loop_guard: "\<exists>g. evaluate_transition_guard loop_workflow demo_run (loop_stage ''s'') (loop_transition ''needs_revision'' (Some ''t'') None ''within_revision_budget'') None
     queued_ledger = Inr g \<and> gd_allowed g"
proof -
  have "count_stage_runs ''i'' ''t'' queued_ledger = 0" "guard_budgets ''i'' ''within_revision_budget'' queued_ledger = []"
    by (simp_all add: count_stage_runs_def guard_budgets_def list_events_def ledger_eval)
  then have "budget_request ''i'' ''within_revision_budget'' (loop_transition ''needs_revision'' (Some ''t'') None ''within_revision_budget'')
      (Some (loop_stage ''t'')) True queued_ledger = Some (0, 1, ''stage_runs.fallback'')"
    by (simp add: budget_request_def budget_iteration_usage_def loop_transition_def)
  moreover have "tr_guard (loop_transition a b c g) = Some g" "run_instance_id demo_run = ''i''" for a b c g
    by (simp_all add: loop_transition_def demo_run_def)
  ultimately show ?thesis
    by (simp add: evaluate_budget_guard[OF _ ] budget_transition_guards_def guard_within_budget_def loop_target loop_limit loop_consumes
       guard_decision_def Let_def)
qed

lemma iso_timestamp_text [ledger_eval]: "iso_timestamp t (TsText s) = Inr s"
  by (simp add: iso_timestamp_def)

lemma loop_follow: "\<exists>r v. follow_transition loop_kernel demo_run (loop_stage ''s'') (loop_transition ''needs_revision'' (Some ''t'') None gd) g ''needs_revision''
     TsNone (\<lambda>_. demo_env) demo_world = (Inr r, v) \<and> tx_queued_stage_id r = Some ''t''"
proof -
  have "tr_terminal (loop_transition a b c g) = c" "k_workflow loop_kernel = loop_workflow" "k_owner loop_kernel = ''o''"
    "sd_id (loop_stage i) = i" "sd_adapter (loop_stage i) = ''runtime.x''" "actor_ref (loop_stage i) = None" for a b c g i
    by (simp_all add: loop_transition_def loop_kernel_def loop_stage_def actor_ref_def)
  then show ?thesis
    by (simp add: follow_transition_def loop_target stamp_def ask_def queue_stage_def queued_run_def next_attempt_def attempt_id_def
      update_workflow_instance_def demo_world_def ledger_eval show_int_def show_nat_digit digit_char_def)
qed

lemma loop_advance: "\<exists>r v. advance_after_outcome loop_kernel demo_run (loop_stage ''s'') ''needs_revision'' None TsNone (\<lambda>_. demo_env) demo_world = (Inr r, v) \<and>
   tx_queued_stage_id r = Some ''t''"
proof -
  obtain g where g: "evaluate_transition_guard loop_workflow demo_run (loop_stage ''s'') (loop_transition ''needs_revision'' (Some ''t'') None
      ''within_revision_budget'') None queued_ledger = Inr g" "gd_allowed g" using loop_guard by blast
  have "w_ledger demo_world = queued_ledger" "k_workflow loop_kernel = loop_workflow" by (simp_all add: demo_world_def loop_kernel_def)
  then show ?thesis using g loop_follow[of "''within_revision_budget''" g]
    by (simp add: advance_after_outcome_def loop_found bindP_def)
qed

text \<open>The same run with an approving decision recorded.\<close>

definition approval_row :: decision_row where
  "approval_row = \<lparr>hd_id = ''d'', hd_instance_id = ''i'', hd_stage_run_id = ''r'', hd_gate_id = ''g'', hd_decision = ''approved'',
     hd_human_ref = ''h'', hd_canonical_surface = ''c'', hd_exact_action_approved = ''a'', hd_action_fingerprint = ''f'',
     hd_receipt = PDict [], hd_created_at = ''z''\<rparr>"

definition approved_world :: "unit world" where
  "approved_world = demo_world\<lparr>w_ledger := queued_ledger\<lparr>human_decisions := [approval_row]\<rparr>\<rparr>"

lemma approved_advance: "\<exists>r v. advance_after_outcome loop_kernel demo_run (loop_stage ''s'') ''ok'' None TsNone (\<lambda>_. demo_env) approved_world = (Inr r, v) \<and>
   tx_decision r = ''terminal''"
proof -
  let ?t = "loop_transition ''ok'' None (Some ''done'') ''policy_approved''"
  have "\<exists>g. evaluate_transition_guard loop_workflow demo_run (loop_stage ''s'') ?t None (w_ledger approved_world) = Inr g \<and> gd_allowed g"
    by (simp add: evaluate_transition_guard_def loop_transition_def allowed_transition_guards_def implemented_transition_guards_def
       guard_policy_approved_def latest_decision_def approved_world_def approval_row_def demo_run_def fetchlast_def
       approving_human_decisions_def guard_decision_def Let_def)
  moreover have "\<exists>r v. follow_transition loop_kernel demo_run (loop_stage ''s'') ?t g ''ok'' TsNone (\<lambda>_. demo_env) approved_world = (Inr r, v) \<and>
      tx_decision r = ''terminal''" for g
    by (simp add: follow_transition_def loop_transition_def update_workflow_instance_def approved_world_def demo_world_def loop_kernel_def
        Let_def ledger_eval)
  moreover have "k_workflow loop_kernel = loop_workflow" by (simp add: loop_kernel_def)
  ultimately show ?thesis by (auto simp: advance_after_outcome_def loop_found bindP_def)
qed

section \<open>The table of an outcome\<close>

text \<open>Where the result of a transition says the instance is, and which runs it adds.\<close>

definition result_position :: "StageDef \<Rightarrow> TransitionResult \<Rightarrow> WorkflowStatus \<times> string option" where
  "result_position s r = (case tx_queued_stage_id r of Some q \<Rightarrow> (WF_RUNNING, Some q)
     | None \<Rightarrow> (case tx_terminal_status r of Some st \<Rightarrow> (st, None) | None \<Rightarrow> (WF_BLOCKED, Some (sd_id s))))"

definition queued_as :: "string \<Rightarrow> ledger \<Rightarrow> TransitionResult \<Rightarrow> stage_run_row list \<Rightarrow> bool" where
  "queued_as i L r rows \<longleftrightarrow> (case tx_queued_stage_id r of None \<Rightarrow> rows = []
     | Some q \<Rightarrow> (\<exists>row. rows = [row] \<and> sr_instance_id row = i \<and> sr_stage_id row = q \<and> sr_status row = SR_QUEUED \<and>
         sr_attempt row = next_attempt L i q \<and> sr_id row = attempt_id i q (sr_attempt row) \<and> lease_cleared row))"

definition routed :: "string \<Rightarrow> StageDef \<Rightarrow> ledger \<Rightarrow> TransitionResult \<Rightarrow> ledger \<Rightarrow> bool" where
  "routed i s L r L' \<longleftrightarrow> at_stage L' i (fst (result_position s r)) (snd (result_position s r)) \<and>
     (\<exists>rows. stage_runs L' = stage_runs L @ rows \<and> queued_as i L r rows)"

lemma routed_blocked: "at_stage L' i WF_BLOCKED (Some (sd_id s)) \<Longrightarrow> stage_runs L' = stage_runs L \<Longrightarrow>
    routed i s L (blocked_transition reason) L'"
  by (simp add: routed_def result_position_def queued_as_def blocked_transition_def)

lemma stamp_world: "stamp now Es w = (Inr c, v) \<Longrightarrow> w_ledger v = w_ledger w"
  by (auto simp: stamp_def ask_Inr)

lemma block_transition_guard_routed:
  assumes "block_transition_guard k run s t g outcome now Es w = (Inr r, v)"
  shows "routed (run_instance_id run) s (w_ledger w) r (w_ledger v) \<and> r = blocked_transition (gd_reason g)"
proof -
  obtain c w1 where 1: "stamp now Es w = (Inr c, w1)"
    and rest: "(let receipt = guard_receipt k run s t g c; guard_name = the_or [] (gd_guard g) in
     bindP (call (\<lambda>E. record_receipt E receipt)) (\<lambda>_.
     bindP (call (\<lambda>E. append_event E (run_instance_id run) (Some (run_id run)) ''transition_guard_blocked'' (k_owner k)
        [(''from_stage'', PStr (from_stage t)), (''outcome'', PStr (tr_on t)), (''guard'', PStr guard_name),
         (''reason'', PStr (gd_reason g)), (''receipt_id'', PStr (rcpt_id receipt))] (TsText c))) (\<lambda>_.
     bindP (block_workflow k (run_instance_id run) (sd_id s)
        [(''stage_id'', PStr (sd_id s)), (''stage_run_id'', PStr (run_id run)), (''outcome'', PStr outcome),
         (''reason'', PStr ''transition_guard_failed''), (''guard'', PStr guard_name), (''guard_reason'', PStr (gd_reason g)),
         (''receipt_id'', PStr (rcpt_id receipt))] now) (\<lambda>_.
     ret (blocked_transition (gd_reason g)))))) Es w1 = (Inr r, v)"
    using assms unfolding block_transition_guard_def by (auto simp: bindP_Inr)
  obtain x2 w2 x3 w3 x4 p where 2: "call (\<lambda>E. record_receipt E (guard_receipt k run s t g c)) Es w1 = (Inr x2, w2)"
    and 3: "call (\<lambda>E. append_event E (run_instance_id run) (Some (run_id run)) ''transition_guard_blocked'' (k_owner k) p (TsText c)) Es w2 = (Inr x3, w3)"
    and 4: "\<exists>q. block_workflow k (run_instance_id run) (sd_id s) q now Es w3 = (Inr x4, v)" and r: "r = blocked_transition (gd_reason g)"
    using rest unfolding Let_def by (fastforce simp: bindP_Inr)
  have "stage_runs (w_ledger v) = stage_runs (w_ledger w)"
    using stamp_world[OF 1] record_receipt_runs[OF 2] append_event_effect[OF 3] block_workflow_effect 4 by metis
  then show ?thesis using r block_workflow_effect 4 by (metis routed_blocked)
qed

lemma follow_transition_routed:
  assumes "follow_transition k run s t g outcome now Es w = (Inr r, v)"
  shows "routed (run_instance_id run) s (w_ledger w) r (w_ledger v)"
proof (cases "tr_terminal t")
  case (Some terminal)
  then obtain x p where u: "call (\<lambda>E. update_workflow_instance E (run_instance_id run) (workflow_status_for_terminal terminal) None now
        (k_owner k) ''workflow_terminal'' p) Es w = (Inr x, v)"
    and r: "r = \<lparr>tx_decision = ''terminal'', tx_queued_stage_id = None,
      tx_terminal_status = Some (workflow_status_for_terminal terminal), tx_failure_summary = None\<rparr>"
    using assms unfolding follow_transition_def Let_def by (fastforce simp: bindP_Inr)
  show ?thesis using update_instance_effect[OF u] by (simp add: r routed_def result_position_def queued_as_def)
next
  case None
  show ?thesis
  proof (cases "next_stage_for_transition (k_workflow k) t")
    case no: None
    then obtain x p reason where u: "block_workflow k (run_instance_id run) (sd_id s) p now Es w = (Inr x, v)"
      and r: "r = blocked_transition reason"
      using assms None unfolding follow_transition_def by (fastforce simp: bindP_Inr)
    show ?thesis using block_workflow_effect[OF u] by (simp add: r routed_blocked)
  next
    case (Some target)
    let ?n = "next_attempt (w_ledger w) (run_instance_id run) (sd_id target)"
    obtain c w1 x2 w2 where 1: "stamp now Es w = (Inr c, w1)"
      and 2: "queue_stage target (run_instance_id run) ?n [(''from_stage_run_id'', PStr (run_id run)),
         (''transition_outcome'', PStr outcome)] c Es w1 = (Inr x2, w2)"
      and 3: "\<exists>x p. call (\<lambda>E. update_workflow_instance E (run_instance_id run) WF_RUNNING (Some (sd_id target)) now (k_owner k)
         ''workflow_transitioned'' p) Es w2 = (Inr x, v)"
      and r: "r = \<lparr>tx_decision = ''queued'', tx_queued_stage_id = Some (sd_id target), tx_terminal_status = None, tx_failure_summary = None\<rparr>"
      using assms None Some stamp_world unfolding follow_transition_def by (fastforce simp: bindP_Inr)
    show ?thesis using queue_stage_effect[OF 2] update_instance_effect 3 stamp_world[OF 1]
      by (fastforce simp: r routed_def result_position_def queued_as_def)
  qed
qed

lemma advance_routed:
  assumes "advance_after_outcome k run s outcome result now Es w = (Inr r, v)"
  shows "routed (run_instance_id run) s (w_ledger w) r (w_ledger v)"
proof (cases "find_transition k s outcome")
  case None
  then obtain x p reason where u: "block_workflow k (run_instance_id run) (sd_id s) p now Es w = (Inr x, v)"
    and r: "r = blocked_transition reason"
    using assms unfolding advance_after_outcome_def by (fastforce simp: bindP_Inr)
  show ?thesis using block_workflow_effect[OF u] by (simp add: r routed_blocked)
next
  case (Some t)
  then obtain g where "(if gd_allowed g then follow_transition k run s t g outcome now
       else block_transition_guard k run s t g outcome now) Es w = (Inr r, v)"
    using assms unfolding advance_after_outcome_def by (auto simp: bindP_Inr)
  then show ?thesis using follow_transition_routed block_transition_guard_routed by (fastforce split: if_splits)
qed

lemma follow_transition_decides: "follow_transition k run s t g outcome now Es w = (Inr r, v) \<Longrightarrow>
    tx_decision r = ''blocked'' \<longleftrightarrow> tx_queued_stage_id r = None \<and> tx_terminal_status r = None"
  unfolding follow_transition_def blocked_transition_def Let_def by (auto simp: bindP_Inr split: option.splits)

lemma advance_allowed:
  assumes "advance_after_outcome k run s outcome result now Es w = (Inr r, v)" "tx_decision r \<noteq> ''blocked''"
  shows "\<exists>t g. find_transition k s outcome = Some t \<and> evaluate_transition_guard (k_workflow k) run s t result (w_ledger w) = Inr g \<and>
    gd_allowed g \<and> follow_transition k run s t g outcome now Es w = (Inr r, v)"
proof (cases "find_transition k s outcome")
  case None
  then show ?thesis using assms unfolding advance_after_outcome_def blocked_transition_def by (auto simp: bindP_Inr)
next
  case (Some t)
  then obtain g where g: "evaluate_transition_guard (k_workflow k) run s t result (w_ledger w) = Inr g"
    and rest: "(if gd_allowed g then follow_transition k run s t g outcome now
       else block_transition_guard k run s t g outcome now) Es w = (Inr r, v)"
    using assms(1) unfolding advance_after_outcome_def by (auto simp: bindP_Inr)
  have "gd_allowed g"
  proof (rule ccontr)
    assume "\<not> gd_allowed g"
    then have "r = blocked_transition (gd_reason g)" using block_transition_guard_routed[of k run s t g outcome now Es w r v] rest by simp
    then show False using assms(2) by (simp add: blocked_transition_def)
  qed
  then show ?thesis using Some g rest by auto
qed

lemma follow_target:
  assumes "follow_transition k run s t g outcome now Es w = (Inr r, v)"
  shows "case tx_queued_stage_id r of
      Some q \<Rightarrow> to_stage t = Some q \<and> tr_terminal t = None
    | None \<Rightarrow> (case tx_terminal_status r of None \<Rightarrow> True
        | Some st \<Rightarrow> (\<exists>x. tr_terminal t = Some x \<and> st = workflow_status_for_terminal x))"
proof -
  have id: "sd_id x = i" if "stage_by_id wf i = Some x" for wf i x using that by (auto simp: stage_by_id_def find_Some_iff)
  show ?thesis
  proof (cases "tr_terminal t")
    case (Some terminal)
    then show ?thesis using assms unfolding follow_transition_def Let_def by (auto simp: bindP_Inr)
  next
    case None
    show ?thesis
    proof (cases "next_stage_for_transition (k_workflow k) t")
      case no: None
      then show ?thesis using assms None unfolding follow_transition_def blocked_transition_def by (auto simp: bindP_Inr)
    next
      case (Some target)
      then have "to_stage t = Some (sd_id target)" using id by (auto simp: next_stage_for_transition_def split: option.splits)
      moreover have "tx_queued_stage_id r = Some (sd_id target)"
        using assms None Some unfolding follow_transition_def by (auto simp: bindP_Inr)
      ultimately show ?thesis using None by simp
    qed
  qed
qed

text \<open>
  C33. An outcome is routed by the table of transitions: the instance ends blocked at its stage,
  in the terminal status of the transition, or running at the transition's target; one run is
  queued, of the target and with the next attempt number, in the last case only; and it is not
  blocked only by a transition of the stage and outcome whose guard allowed it.
\<close>

theorem outcome_routed:
  assumes "advance_after_outcome k run s outcome result now Es w = (Inr r, v)"
  shows "routed (run_instance_id run) s (w_ledger w) r (w_ledger v) \<and>
    (tx_decision r = ''blocked'' \<or> (\<exists>t g. find_transition k s outcome = Some t \<and>
       evaluate_transition_guard (k_workflow k) run s t result (w_ledger w) = Inr g \<and> gd_allowed g \<and>
       (case tx_queued_stage_id r of Some q \<Rightarrow> to_stage t = Some q \<and> tr_terminal t = None
        | None \<Rightarrow> \<exists>x. tr_terminal t = Some x \<and> tx_terminal_status r = Some (workflow_status_for_terminal x))))"
proof (intro conjI)
  show "routed (run_instance_id run) s (w_ledger w) r (w_ledger v)" by (rule advance_routed[OF assms])
next
  show "tx_decision r = ''blocked'' \<or> (\<exists>t g. find_transition k s outcome = Some t \<and>
       evaluate_transition_guard (k_workflow k) run s t result (w_ledger w) = Inr g \<and> gd_allowed g \<and>
       (case tx_queued_stage_id r of Some q \<Rightarrow> to_stage t = Some q \<and> tr_terminal t = None
        | None \<Rightarrow> \<exists>x. tr_terminal t = Some x \<and> tx_terminal_status r = Some (workflow_status_for_terminal x)))"
  proof (cases "tx_decision r = ''blocked''")
    case False
    obtain t g where t: "find_transition k s outcome = Some t" "evaluate_transition_guard (k_workflow k) run s t result (w_ledger w) = Inr g"
      "gd_allowed g" and f: "follow_transition k run s t g outcome now Es w = (Inr r, v)"
      using advance_allowed[OF assms False] by blast
    have "case tx_queued_stage_id r of Some q \<Rightarrow> to_stage t = Some q \<and> tr_terminal t = None
        | None \<Rightarrow> \<exists>x. tr_terminal t = Some x \<and> tx_terminal_status r = Some (workflow_status_for_terminal x)"
      using follow_target[OF f] follow_transition_decides[OF f] False by (auto split: option.splits)
    then show ?thesis using t by blast
  qed simp
qed

lemma outcome_routed_witness:
  "\<exists>r v. advance_after_outcome loop_kernel demo_run (loop_stage ''s'') ''needs_revision'' None TsNone (\<lambda>_. demo_env) demo_world = (Inr r, v) \<and>
     routed ''i'' (loop_stage ''s'') queued_ledger r (w_ledger v) \<and> tx_queued_stage_id r = Some ''t''"
proof -
  obtain r v where a: "advance_after_outcome loop_kernel demo_run (loop_stage ''s'') ''needs_revision'' None TsNone (\<lambda>_. demo_env) demo_world = (Inr r, v)"
    "tx_queued_stage_id r = Some ''t''" using loop_advance by blast
  show ?thesis using outcome_routed[OF a(1), THEN conjunct1] a by (auto simp: demo_world_def demo_run_def)
qed

section \<open>Human approval\<close>

lemma latest_decision_Some:
  assumes "latest_decision i j L = Some d"
  shows "d \<in> set (human_decisions L) \<and> hd_instance_id d = i \<and> hd_stage_run_id d = j \<and>
    (\<forall>d' \<in> set (human_decisions L). hd_instance_id d' = i \<and> hd_stage_run_id d' = j \<longrightarrow>
       (hd_created_at d', hd_id d') \<le> (hd_created_at d, hd_id d))"
proof -
  let ?key = "\<lambda>d. (hd_created_at d, hd_id d)"
  let ?ds = "sort_key ?key (filter (\<lambda>d. hd_instance_id d = i \<and> hd_stage_run_id d = j) (human_decisions L))"
  have last: "?ds \<noteq> []" "last ?ds = d" using assms unfolding latest_decision_def fetchlast_def fetchone_def
    by (cases "rev ?ds"; simp add: last_rev hd_rev; metis hd_rev list.sel(1) rev_is_Nil_conv)+
  have split: "?ds = butlast ?ds @ [d]" using last by (metis append_butlast_last_id)
  have "sorted (map ?key (butlast ?ds @ [d]))" unfolding split[symmetric] by simp
  then have below: "\<forall>d' \<in> set (butlast ?ds). ?key d' \<le> ?key d" by (simp add: sorted_append)
  have "?key d' \<le> ?key d" if "d' \<in> set ?ds" for d'
  proof -
    have "d' \<in> set (butlast ?ds @ [d])" using that by (simp only: split[symmetric])
    then show ?thesis using below by auto
  qed
  moreover have "d \<in> set ?ds" using last last_in_set by metis
  ultimately show ?thesis by auto
qed

text \<open>
  C34. A transition guarded by \<open>policy_approved\<close> is followed only when the latest recorded human
  decision on this very run approves.
\<close>

theorem policy_approved_needs_human:
  assumes "advance_after_outcome k run s outcome result now Es w = (Inr r, v)" "tx_decision r \<noteq> ''blocked''"
    "find_transition k s outcome = Some t" "tr_guard t = Some ''policy_approved''"
  shows "\<exists>d \<in> set (human_decisions (w_ledger w)). hd_instance_id d = run_instance_id run \<and> hd_stage_run_id d = run_id run \<and>
    hd_decision d \<in> set approving_human_decisions \<and>
    (\<forall>d' \<in> set (human_decisions (w_ledger w)). hd_instance_id d' = run_instance_id run \<and> hd_stage_run_id d' = run_id run \<longrightarrow>
       (hd_created_at d', hd_id d') \<le> (hd_created_at d, hd_id d))"
proof -
  obtain g where g: "evaluate_transition_guard (k_workflow k) run s t result (w_ledger w) = Inr g" "gd_allowed g"
    using advance_allowed[OF assms(1,2)] assms(3) by auto
  then have "gd_allowed (guard_policy_approved run ''policy_approved'' (w_ledger w))"
    using assms(4) by (simp add: evaluate_transition_guard_def allowed_transition_guards_def implemented_transition_guards_def)
  then obtain d where "latest_decision (run_instance_id run) (run_id run) (w_ledger w) = Some d" "hd_decision d \<in> set approving_human_decisions"
    by (auto simp: guard_policy_approved_def guard_decision_def Let_def split: option.splits if_splits)
  then show ?thesis using latest_decision_Some by blast
qed

lemma policy_approved_needs_human_witness:
  "\<exists>r v. advance_after_outcome loop_kernel demo_run (loop_stage ''s'') ''ok'' None TsNone (\<lambda>_. demo_env) approved_world = (Inr r, v) \<and>
     (\<exists>d \<in> set (human_decisions (w_ledger approved_world)). hd_decision d \<in> set approving_human_decisions)"
proof -
  obtain r v where a: "advance_after_outcome loop_kernel demo_run (loop_stage ''s'') ''ok'' None TsNone (\<lambda>_. demo_env) approved_world = (Inr r, v)"
    "tx_decision r = ''terminal''" using approved_advance by blast
  have "tx_decision r \<noteq> ''blocked''" "tr_guard (loop_transition ''ok'' None (Some ''done'') ''policy_approved'') = Some ''policy_approved''"
    using a(2) by (simp_all add: loop_transition_def)
  from policy_approved_needs_human[OF a(1) this(1) loop_found(2) this(2)] show ?thesis using a(1) by blast
qed

section \<open>Budgets\<close>

lemma follow_queued:
  assumes "follow_transition k run s t g outcome now Es w = (Inr r, v)" "tx_queued_stage_id r = Some q"
  shows "\<exists>target row e n. next_stage_for_transition (k_workflow k) t = Some target \<and> sd_id target = q \<and>
    stage_runs (w_ledger v) = stage_runs (w_ledger w) @ [row] \<and> sr_instance_id row = run_instance_id run \<and> sr_stage_id row = q \<and>
    events (w_ledger v) = events (w_ledger w) @ [e] \<and> ev_instance_id e = run_instance_id run \<and> ev_type e = ''workflow_transitioned'' \<and>
    ev_payload e = PDict (transitioned_payload t target n g)"
proof -
  have nt: "tr_terminal t = None" using follow_target[OF assms(1)] assms(2) by simp
  obtain target where target: "next_stage_for_transition (k_workflow k) t = Some target"
    using assms nt unfolding follow_transition_def blocked_transition_def
    by (cases "next_stage_for_transition (k_workflow k) t") (auto simp: bindP_Inr)
  let ?n = "next_attempt (w_ledger w) (run_instance_id run) (sd_id target)"
  obtain c w1 x2 w2 x3 where 1: "stamp now Es w = (Inr c, w1)"
    and 2: "queue_stage target (run_instance_id run) ?n [(''from_stage_run_id'', PStr (run_id run)),
       (''transition_outcome'', PStr outcome)] c Es w1 = (Inr x2, w2)"
    and 3: "call (\<lambda>E. update_workflow_instance E (run_instance_id run) WF_RUNNING (Some (sd_id target)) now (k_owner k)
       ''workflow_transitioned'' (transitioned_payload t target (attempt_id (run_instance_id run) (sd_id target) ?n) g)) Es w2 = (Inr x3, v)"
    and r: "tx_queued_stage_id r = Some (sd_id target)"
    using assms(1) nt target stamp_world unfolding follow_transition_def by (fastforce simp: bindP_Inr)
  obtain row where row: "stage_runs (w_ledger w2) = stage_runs (w_ledger w) @ [row]" "sr_instance_id row = run_instance_id run"
    "sr_stage_id row = sd_id target" "events (w_ledger w2) = events (w_ledger w)"
    using queue_stage_effect[OF 2] stamp_world[OF 1] by auto
  then show ?thesis using update_instance_effect[OF 3] target r assms(2)
    by (intro exI[of _ target] exI[of _ row]) auto
qed

lemma guard_within_budget_allowed:
  assumes "gd_allowed (guard_within_budget w run s t guard L)"
  shows "\<exists>b limit used requested source. b = resolve_budget_limit w s (next_stage_for_transition w t) guard \<and> bl_limit b = Some limit \<and>
    budget_request (run_instance_id run) guard t (next_stage_for_transition w t) (budget_guard_consumes_transition guard t) L =
      Some (used, requested, source) \<and> requested \<le> limit \<and>
    gd_details (guard_within_budget w run s t guard L) =
      budget_details guard limit b used requested (budget_guard_consumes_transition guard t) source \<and>
    gd_guard (guard_within_budget w run s t guard L) = Some guard"
  using assms unfolding guard_within_budget_def guard_decision_def Let_def by (auto split: option.splits prod.splits if_splits)

lemma coerce_limit_nonneg: "bl_limit (coerce_budget_limit v source key) = Some n \<Longrightarrow> 0 \<le> n"
  by (auto simp: coerce_budget_limit_def no_limit_def split: if_splits sum.splits)

lemma first_budget_key_nonneg: "first_budget_key ks source m = Some b \<Longrightarrow> bl_limit b = Some n \<Longrightarrow> 0 \<le> n"
  by (induction ks) (auto dest: coerce_limit_nonneg split: if_splits)

lemma nested_budget_nonneg: "nested_budget keys nks source m = Some b \<Longrightarrow> bl_limit b = Some n \<Longrightarrow> 0 \<le> n"
  by (induction nks) (auto simp: no_limit_def dest: first_budget_key_nonneg split: option.splits if_splits)

lemma resolve_budget_nonneg:
  assumes "bl_limit (resolve_budget_limit w s target guard) = Some n"
  shows "0 \<le> n"
proof -
  let ?bs = "List.map_filter (\<lambda>(source, m). budget_limit_from_mapping source m guard) (budget_sources_for_guard w s target guard)"
  obtain b where b: "fetchone ?bs = Some b" "bl_limit b = Some n"
    using assms unfolding resolve_budget_limit_def by (auto split: option.splits)
  then obtain source m where "budget_limit_from_mapping source m guard = Some b"
    using fetchone_Some[OF b(1)] by (auto simp: List.map_filter_def)
  then show ?thesis using b(2) unfolding budget_limit_from_mapping_def
    by (auto split: option.splits dest: first_budget_key_nonneg nested_budget_nonneg)
qed

text \<open>A transition event under a guard adds its budget metadata to what the next evaluation sees.\<close>

lemma guard_budgets_snoc:
  assumes "events L' = events L @ [e]" "ev_instance_id e = i" "ev_type e = ''workflow_transitioned''"
    "ev_payload e = PDict (transitioned_payload t target n g)" "gd_guard g = Some guard" "guard \<noteq> []"
    "gd_details g = budget_details guard limit b used requested consumes source"
  shows "consumed_budget i guard L' = consumed_budget i guard L + (if consumes then 1 else 0)"
  using assms unfolding consumed_budget_def guard_budgets_def list_events_def
  by (simp add: guard_budget_of_def payload_items_def transitioned_payload_def str_or_def budget_details_def dict_get_or_def
      List.map_filter_def)

text \<open>
  C35. Budgets bound the loops of a workflow.  A transition under a budget guard is followed only
  within a resolved, non-negative limit: for the retry guard the target stage then has at most
  that many runs in the instance, for the others the instance has consumed at most that many
  turns of the guard.
\<close>

theorem budget_bounds_loops:
  assumes "advance_after_outcome k run s outcome result now Es w = (Inr r, v)" "tx_queued_stage_id r = Some q"
    "find_transition k s outcome = Some t" "tr_guard t = Some guard" "guard \<in> set budget_transition_guards"
  shows "\<exists>limit \<ge> 0. bl_limit (resolve_budget_limit (k_workflow k) s (next_stage_for_transition (k_workflow k) t) guard) = Some limit \<and>
    (if guard = ''within_retry_budget'' then int (count_stage_runs (run_instance_id run) q (w_ledger v)) \<le> limit
     else int (consumed_budget (run_instance_id run) guard (w_ledger v)) \<le> limit)"
proof -
  let ?i = "run_instance_id run"
  let ?L = "w_ledger w"
  let ?c = "budget_guard_consumes_transition guard t"
  have "tx_decision r \<noteq> ''blocked''"
  proof
    assume "tx_decision r = ''blocked''"
    then have "tx_queued_stage_id r = None"
      using assms(1) unfolding advance_after_outcome_def
      by (auto simp: bindP_Inr assms(3) dest: follow_transition_decides block_transition_guard_routed
          simp: blocked_transition_def split: if_splits)
    then show False using assms(2) by simp
  qed
  then obtain g where g: "evaluate_transition_guard (k_workflow k) run s t result ?L = Inr g" "gd_allowed g"
    and f: "follow_transition k run s t g outcome now Es w = (Inr r, v)"
    using advance_allowed[OF assms(1)] assms(3) by auto
  have geq: "g = guard_within_budget (k_workflow k) run s t guard ?L" using g(1) evaluate_budget_guard[OF assms(4,5)] by simp
  obtain b limit used requested source where b: "b = resolve_budget_limit (k_workflow k) s (next_stage_for_transition (k_workflow k) t) guard"
    "bl_limit b = Some limit" and req: "budget_request ?i guard t (next_stage_for_transition (k_workflow k) t) ?c ?L = Some (used, requested, source)"
    and le: "requested \<le> limit" and det: "gd_details g = budget_details guard limit b used requested ?c source" "gd_guard g = Some guard"
    using guard_within_budget_allowed[OF g(2)[unfolded geq]] unfolding geq by blast
  obtain target row e n where target: "next_stage_for_transition (k_workflow k) t = Some target" "sd_id target = q"
    and row: "stage_runs (w_ledger v) = stage_runs ?L @ [row]" "sr_instance_id row = ?i" "sr_stage_id row = q"
    and e: "events (w_ledger v) = events ?L @ [e]" "ev_instance_id e = ?i" "ev_type e = ''workflow_transitioned''"
      "ev_payload e = PDict (transitioned_payload t target n g)"
    using follow_queued[OF f assms(2)] by blast
  have nonneg: "0 \<le> limit" using resolve_budget_nonneg b by blast
  show ?thesis
  proof (cases "guard = ''within_retry_budget''")
    case True
    then have "int (count_stage_runs ?i q ?L) + 1 \<le> limit"
      using req target le by (auto simp: budget_request_def Let_def)
    moreover have "count_stage_runs ?i q (w_ledger v) = count_stage_runs ?i q ?L + 1"
      using row by (simp add: count_stage_runs_def)
    ultimately show ?thesis using True b nonneg by auto
  next
    case False
    have "guard \<noteq> []" using assms(5) by (auto simp: budget_transition_guards_def)
    then have after: "consumed_budget ?i guard (w_ledger v) = consumed_budget ?i guard ?L + (if ?c then 1 else 0)"
      by (rule guard_budgets_snoc[OF e det(2) _ det(1)])
    have "int (consumed_budget ?i guard ?L) + (if ?c then 1 else 0) \<le> limit"
    proof (cases "guard_budgets ?i guard ?L = []")
      case True
      then have "consumed_budget ?i guard ?L = 0" by (simp add: consumed_budget_def)
      moreover have "?c \<Longrightarrow> 1 \<le> limit" using req False le
        by (auto simp: budget_request_def budget_iteration_usage_def True Let_def split: option.splits prod.splits)
      ultimately show ?thesis using nonneg by auto
    next
      case met: False
      then show ?thesis using req False le
        by (auto simp: budget_request_def budget_iteration_usage_def Let_def split: if_splits)
    qed
    then show ?thesis using False b nonneg after by auto
  qed
qed

lemma budget_bounds_loops_witness:
  "\<exists>r v. advance_after_outcome loop_kernel demo_run (loop_stage ''s'') ''needs_revision'' None TsNone (\<lambda>_. demo_env) demo_world = (Inr r, v) \<and>
     int (consumed_budget ''i'' ''within_revision_budget'' (w_ledger v)) \<le> 1"
proof -
  let ?t = "loop_transition ''needs_revision'' (Some ''t'') None ''within_revision_budget''"
  obtain r v where a: "advance_after_outcome loop_kernel demo_run (loop_stage ''s'') ''needs_revision'' None TsNone (\<lambda>_. demo_env) demo_world = (Inr r, v)"
    "tx_queued_stage_id r = Some ''t''" using loop_advance by blast
  have "tr_guard ?t = Some ''within_revision_budget''" "''within_revision_budget'' \<in> set budget_transition_guards"
    by (simp_all add: loop_transition_def budget_transition_guards_def)
  note bound = budget_bounds_loops[OF a loop_found(1) this]
  have "k_workflow loop_kernel = loop_workflow" "run_instance_id demo_run = ''i''" by (simp_all add: loop_kernel_def demo_run_def)
  then have "int (consumed_budget ''i'' ''within_revision_budget'' (w_ledger v)) \<le> 1" using bound by (simp add: loop_target loop_limit)
  then show ?thesis using a(1) by blast
qed

text \<open>
  How a turn is measured changes after the first one.  Until the instance has followed a
  transition under the guard, a turn is refused unless the runs the target stage already has
  leave room for one more; afterwards only consumed turns count.  So when the target has already
  run once, a limit of one allows no turn, and a limit of two allows two.
\<close>

theorem budget_turn_measure:
  assumes "guard \<noteq> ''within_retry_budget''" "budget_guard_consumes_transition guard t" "to_stage t = Some q"
    "bl_limit (resolve_budget_limit w s (next_stage_for_transition w t) guard) = Some limit"
  shows "gd_allowed (guard_within_budget w run s t guard L) \<longleftrightarrow>
    (if guard_budgets (run_instance_id run) guard L = [] then int (count_stage_runs (run_instance_id run) q L) + 1 \<le> limit
     else int (consumed_budget (run_instance_id run) guard L) + 1 \<le> limit)"
  using assms by (simp add: guard_within_budget_def budget_request_def budget_iteration_usage_def guard_decision_def Let_def)

text \<open>The target has run once, and no turn has been taken: a budget of one turn is already exhausted.\<close>

lemma budget_turn_measure_witness:
  "\<exists>L. count_stage_runs ''i'' ''t'' L = 1 \<and> guard_budgets ''i'' ''within_revision_budget'' L = [] \<and>
     \<not> gd_allowed (guard_within_budget loop_workflow demo_run (loop_stage ''s'')
         (loop_transition ''needs_revision'' (Some ''t'') None ''within_revision_budget'') ''within_revision_budget'' L)"
proof -
  let ?t = "loop_transition ''needs_revision'' (Some ''t'') None ''within_revision_budget''"
  let ?L = "empty_ledger\<lparr>stage_runs := [new_run_row ''x'' ''i'' ''t'' 1 SR_SUCCEEDED None None None [] None []]\<rparr>"
  have L: "count_stage_runs ''i'' ''t'' ?L = 1" "guard_budgets ''i'' ''within_revision_budget'' ?L = []"
    by (simp_all add: count_stage_runs_def guard_budgets_def list_events_def empty_ledger_def new_run_row_def)
  have "bl_limit (resolve_budget_limit loop_workflow (loop_stage ''s'') (next_stage_for_transition loop_workflow ?t) ''within_revision_budget'') = Some 1"
    "to_stage ?t = Some ''t''"
    by (simp_all add: loop_target loop_limit) (simp add: loop_transition_def)
  from budget_turn_measure[OF _ loop_consumes this(2,1), of demo_run ?L] L show ?thesis
    by (intro exI[of _ ?L]) (auto simp: demo_run_def)
qed

end
