(* ===== verification/Human_Gate_Safety.thy ===== *)
theory Human_Gate_Safety
  imports Program_Frames Ledger_Gate_Safety Stage_Policy_Safety Routing_Safety
begin

text \<open>
  Ingestion of a human decision: what is recorded answers the gate that waits, for the action and
  the fingerprint it was published or evaluated with, and a decided gate no longer waits.
\<close>

section \<open>Running the pieces\<close>

lemma bindP_query [simp]: "bindP (query f) g Es w = (case f (w_ledger w) of Inl e \<Rightarrow> (Inl e, w) | Inr x \<Rightarrow> g x Es w)"
  by (simp add: bindP_def split: sum.splits)

lemma bindP_ret [simp]: "bindP (ret x) g = g x" "bindP (raise e) g = raise e"
  by (simp_all add: bindP_def ret_def raise_def fun_eq_iff)

lemma quietD: "stays same_decisions m \<Longrightarrow> m Es w = (r, v) \<Longrightarrow> human_decisions (w_ledger v) = human_decisions (w_ledger w)"
  by (drule (1) staysD) (simp add: same_decisions_def core_def)

text \<open>The row a decision becomes.\<close>

definition decision_for :: "HumanApprovalReceipt \<Rightarrow> string \<Rightarrow> string \<Rightarrow> decision_row \<Rightarrow> bool" where
  "decision_for d i r row \<longleftrightarrow> hd_id row = ap_approval_id d \<and> hd_instance_id row = i \<and> hd_stage_run_id row = r \<and>
     hd_gate_id row = ap_gate_id d \<and> hd_decision row = approval_decision_value (ap_decision d) \<and>
     hd_human_ref row = ap_human_ref d \<and> hd_action_fingerprint row = ap_action_fingerprint d"

lemma record_human_decision_row:
  assumes "record_human_decision E d i r now a L = Inr (x, L')"
  shows "\<exists>row. human_decisions L' = human_decisions L @ [row] \<and> decision_for d i r row"
  using assms unfolding record_human_decision_def by (auto simp: bindE_eq_Inr insert_decision_Inr emit_Inr decision_for_def)

lemma recorded_then_quiet:
  assumes "bindP (call (\<lambda>E. record_human_decision E d i r now a)) f Es w = (q, v)" "\<And>x. stays same_decisions (f x)"
    "human_decisions (w_ledger v) \<noteq> human_decisions (w_ledger w)"
  shows "\<exists>row. human_decisions (w_ledger v) = human_decisions (w_ledger w) @ [row] \<and> decision_for d i r row"
proof -
  obtain p u where c: "call (\<lambda>E. record_human_decision E d i r now a) Es w = (p, u)" by (metis prod.exhaust)
  show ?thesis
  proof (cases p)
    case (Inl e)
    let ?c = "call (\<lambda>E. record_human_decision E d i r now a)"
    have "?c Es w = (Inl e, u)" unfolding c Inl by (rule refl)
    then have "bindP ?c f Es w = (Inl e, u)" by (rule bindP_raise)
    then have "v = u" unfolding assms(1) by (rule prod.inject[THEN iffD1, THEN conjunct2])
    then show ?thesis using c Inl assms(3) by (simp add: call_Inl)
  next
    case (Inr x)
    let ?c = "call (\<lambda>E. record_human_decision E d i r now a)"
    have called: "?c Es w = (Inr x, u)" unfolding c Inr by (rule refl)
    have "bindP ?c f Es w = f x Es u" using called by (rule bindP_run)
    then have "f x Es u = (q, v)" unfolding assms(1) by (rule sym)
    then have "human_decisions (w_ledger v) = human_decisions (w_ledger u)" using quietD[OF assms(2)] by blast
    moreover have "\<exists>row. human_decisions (w_ledger u) = human_decisions (w_ledger w) @ [row] \<and> decision_for d i r row"
      using called record_human_decision_row[of "Es (w_calls w)" d i r now a "w_ledger w"] unfolding call_Inr by auto
    ultimately show ?thesis by simp
  qed
qed

lemma bound_hash_keeps:
  "\<exists>c. approval_with_bound_hash d s i L = d\<lparr>ap_constraints := c\<rparr>"
  unfolding approval_with_bound_hash_def
  by (auto split: option.splits intro: exI[of _ "ap_constraints d"] simp: Let_def)

lemma accept_records:
  assumes "accept_decision k run s d i now Es w = (q, v)"
    "human_decisions (w_ledger v) \<noteq> human_decisions (w_ledger w)"
  shows "\<exists>row. human_decisions (w_ledger v) = human_decisions (w_ledger w) @ [row] \<and> decision_for d i (run_id run) row"
proof -
  obtain c where c: "approval_with_bound_hash d s i (w_ledger w) = d\<lparr>ap_constraints := c\<rparr>" using bound_hash_keeps by blast
  let ?d = "d\<lparr>ap_constraints := c\<rparr>"
  have same: "decision_for ?d i r row \<longleftrightarrow> decision_for d i r row" for r row by (simp add: decision_for_def)
  show ?thesis
  proof (cases "outcome_for_human_decision k s (approval_decision_value (ap_decision d))")
    case None
    then have "unrouted_decision k run s ?d i now Es w = (q, v)" using assms(1) c by (simp add: accept_decision_def)
    then show ?thesis unfolding unrouted_decision_def Let_def
      using recorded_then_quiet[OF _ _ assms(2)] same by (blast intro: frame_intro)
  next
    case (Some outcome)
    then have "routed_decision k run s ?d outcome i now Es w = (q, v)" using assms(1) c by (simp add: accept_decision_def)
    then show ?thesis unfolding routed_decision_def
      using recorded_then_quiet[OF _ _ assms(2)] same by (blast intro: frame_intro)
  qed
qed

section \<open>What an accepted decision answers\<close>

definition well_formed_decision :: "HumanApprovalReceipt \<Rightarrow> string list \<Rightarrow> bool" where
  "well_formed_decision d allowed \<longleftrightarrow> ap_approval_id d \<noteq> [] \<and> ap_human_ref d \<noteq> [] \<and> ap_canonical_surface d \<noteq> [] \<and>
     (approval_decision_value (ap_decision d) \<in> set known_human_decisions \<or> approval_decision_value (ap_decision d) \<in> set allowed)"

lemma in_force_checked:
  "bindE (policy_coerce_datetime now) (\<lambda>given. bindE (policy_coerce_datetime (ap_revoked_at d)) (\<lambda>revoked.
     if (case revoked of None \<Rightarrow> False | Some t \<Rightarrow> t \<le> the_or (clock E 0) given) then Inr (Some a)
     else bindE (policy_coerce_datetime (ap_expires_at d)) (\<lambda>expires.
       if (case expires of None \<Rightarrow> False | Some t \<Rightarrow> t \<le> the_or (clock E 0) given) then Inr (Some b) else Inr None))) = Inr None
   \<longleftrightarrow> in_force E d now"
  unfolding in_force_def
  by (cases "policy_coerce_datetime now"; cases "policy_coerce_datetime (ap_revoked_at d)";
      cases "policy_coerce_datetime (ap_expires_at d)") (auto simp: not_le split: option.splits)

lemma validation_passes:
  "human_decision_validation_error E (Some d) g now allowed = Inr None \<longleftrightarrow> well_formed_decision d allowed \<and>
     ap_gate_id d = pg_gate_id g \<and> ap_exact_action_approved d = pg_requested_action g \<and>
     ap_action_fingerprint d = pg_action_fingerprint g \<and> in_force E d now"
  unfolding human_decision_validation_error_def well_formed_decision_def Let_def by (simp add: in_force_checked)

text \<open>
  The authority a decision answers: the envelope published for the run, when there is one and it
  fits the pinned workflow, and otherwise the gate as evaluated now.
\<close>

definition answers_gate :: "kernel \<Rightarrow> StageRun \<Rightarrow> StageDef \<Rightarrow> ledger \<Rightarrow> HumanApprovalReceipt \<Rightarrow> bool" where
  "answers_gate k run s L d \<longleftrightarrow> (\<exists>request. human_gate_request k s run L = Inr request \<and>
     (case published_human_gate_authority run L of
        None \<Rightarrow> fingerprint_request request = Inr (ap_action_fingerprint d) \<and> ap_exact_action_approved d = rq_action request
      | Some a \<Rightarrow> (\<exists>allowed. string_items (dict_get a ''allowed_decisions'') = Inr allowed \<and> authority_matches k s run request a allowed) \<and>
          ap_gate_id d = text_field a ''gate_id'' \<and> ap_exact_action_approved d = text_field a ''requested_action'' \<and>
          ap_action_fingerprint d = text_field a ''action_fingerprint''))"

lemma no_decision_error:
  assumes "decision_error k run s (Some d) now Es w = (Inr None, u)"
  shows "answers_gate k run s (w_ledger w) d \<and> well_formed_decision d (sd_outcomes s) \<and> (\<exists>n. in_force (Es n) d now)"
proof -
  obtain request gate vgate where r: "human_gate_request k s run (w_ledger w) = Inr request"
    and g: "evaluate (Es (w_calls w)) request None TsNone = Inr gate"
    and v: "decision_validation_gate k run s gate (w_ledger w) = Inr (vgate, None)"
    and ok: "human_decision_validation_error (Es (Suc (w_calls w))) (Some d) vgate now (sd_outcomes s) = Inr None"
    using assms unfolding decision_error_def human_gate_def
    by (auto simp: prog_simps bindP_def ask_def split: sum.splits option.splits prod.splits)
  have fp: "fingerprint_request request = Inr (pg_action_fingerprint gate)" "pg_requested_action gate = rq_action request"
    using evaluate_decides[OF g] by metis+
  have "answers_gate k run s (w_ledger w) d"
    using v r fp ok unfolding answers_gate_def decision_validation_gate_def validation_passes
    by (auto simp: bindE_eq_Inr Let_def split: option.splits if_splits)
  then show ?thesis using ok unfolding validation_passes by blast
qed

lemma ingest_reaches_accept:
  assumes "ingest_human_decision k i decision now Es w = (q, v)"
    "human_decisions (w_ledger v) \<noteq> human_decisions (w_ledger w)"
  obtains run s d u where "find_waiting_human_stage_run i (w_ledger w) = Inr (Some run)"
    "definition_mismatch_summary k i (w_ledger w) = None" "stage_by_id (k_workflow k) (run_stage_id run) = Some s"
    "sd_type s = ST_HUMAN_GATE" "decision = Some d" "decision_error k run s (Some d) now Es w = (Inr None, u)"
    "accept_decision k run s d i now Es u = (q, v)"
proof -
  have quiet: False if "stays same_decisions m" "m Es w = (q, v)" for m :: "('a, KernelDecisionResult) prog"
    using quietD[OF that] assms(2) by simp
  show thesis
  proof (cases "find_waiting_human_stage_run i (w_ledger w)")
    case (Inl e)
    then show ?thesis using assms by (simp add: ingest_human_decision_def)
  next
    case (Inr waiting)
    then obtain run where run: "waiting = Some run" using assms by (cases waiting) (simp_all add: ingest_human_decision_def)
    have none: "definition_mismatch_summary k i (w_ledger w) = None"
      using assms(1) Inr run quiet[OF quiet_refuse] by (cases "definition_mismatch_summary k i (w_ledger w)") (auto simp: ingest_human_decision_def)
    obtain s where s: "stage_by_id (k_workflow k) (run_stage_id run) = Some s"
      using assms(1) Inr run none quiet[OF quiet_refuse]
      by (cases "stage_by_id (k_workflow k) (run_stage_id run)") (auto simp: ingest_human_decision_def)
    have ty: "sd_type s = ST_HUMAN_GATE"
      using assms(1) Inr run none s quiet[OF quiet_refuse] by (cases "sd_type s = ST_HUMAN_GATE") (auto simp: ingest_human_decision_def)
    obtain p u where e: "decision_error k run s decision now Es w = (p, u)" by (metis prod.exhaust)
    have same: "human_decisions (w_ledger u) = human_decisions (w_ledger w)" by (rule quietD[OF quiet_decision_error e])
    have rest: "(case p of Inl x \<Rightarrow> (Inl x, u) | Inr error \<Rightarrow> (case error of Some reason \<Rightarrow> refuse k run reason now
        | None \<Rightarrow> (case decision of None \<Rightarrow> raise AssertionError | Some d \<Rightarrow> accept_decision k run s d i now)) Es u) = (q, v)"
      using assms(1) Inr run none s ty e by (simp add: ingest_human_decision_def bindP_def split: sum.splits)
    have refused: False if "refuse k run reason now Es u = (q, v)" for reason
      using quietD[OF quiet_refuse that] same assms(2) by simp
    have differs: "v \<noteq> u" using same assms(2) by auto
    obtain error where p: "p = Inr error" using rest differs by (cases p) simp_all
    have "error = None" using rest refused unfolding p by (cases error) simp_all
    moreover have "decision \<noteq> None" using rest differs unfolding p \<open>error = None\<close> by (cases decision) simp_all
    ultimately have "p = Inr None \<and> decision \<noteq> None" using p by simp
    then obtain d where "decision = Some d" "p = Inr None" by blast
    then show ?thesis using that[OF _ none s ty, of d u] Inr run e rest by simp
  qed
qed

section \<open>A gate that waits\<close>

text \<open>The gate of the parked run, and an approval with whatever the gate's evaluation asks for.\<close>

definition gate_stage :: StageDef where
  "gate_stage = loop_stage ''s''\<lparr>sd_type := ST_HUMAN_GATE, sd_adapter := ''surface.notes'', sd_outcomes := [''approved''], sd_budget := []\<rparr>"

definition gate_workflow :: WorkflowDef where
  "gate_workflow = demo_workflow\<lparr>wd_stages := [gate_stage], wd_transitions := []\<rparr>"

definition gate_kernel :: kernel where
  "gate_kernel = loop_kernel\<lparr>k_workflow := gate_workflow, k_transitions := []\<rparr>"

lemmas gate_world_simps = gate_stage_def gate_workflow_def gate_kernel_def loop_stage_def demo_workflow_def

lemma gate_policy: "\<exists>p. effective_policy_for_stage gate_workflow gate_stage None True = Inr p"
  by (simp add: effective_policy_for_stage_def policy_layers_def gate_world_simps Let_def del: policy_components.simps(3))

lemma gate_arguments: "human_gate_action_arguments gate_stage = Inr [(''outcomes'', str_list [''approved''])]"
 "human_gate_evidence_refs gate_stage [] = Inr []" "human_gate_allowed_decisions gate_stage = Inr [''approved'']"
  by code_simp+

lemma gate_request: "\<exists>request. human_gate_request gate_kernel gate_stage run L = Inr request \<and> rq_expires_at request = TsNone"
proof -
  obtain p where "effective_policy_for_stage gate_workflow gate_stage None True = Inr p" using gate_policy by blast
  then show ?thesis by (simp add: human_gate_request_def gate_arguments Let_def)
    (simp add: gate_world_simps dict_get_def py_or_def expiry_arg_def)
qed

lemma domain_blocked_value: "failure_of ''domain_blocked'' = Some FC_DOMAIN_BLOCKED"
  by code_simp

lemma gate_waiting: "\<exists>run. find_waiting_human_stage_run ''i'' waiting_ledger = Inr (Some run) \<and> run_id run = ''r'' \<and> run_stage_id run = ''s''"
  by (simp add: find_waiting_human_stage_run_def stage_run_from_row_def domain_blocked_value gate_eval ledger_eval)

lemma gate_unpublished: "published_human_gate_authority run waiting_ledger = None"
  by (simp add: published_human_gate_authority_def List.map_filter_def published_authority_of_def list_events_def gate_eval ledger_eval)

lemma gate_matches: "definition_mismatch_summary k ''i'' waiting_ledger = None"
  by (simp add: definition_mismatch_summary_def gate_eval ledger_eval)

definition gate_world :: "unit world" where
  "gate_world = \<lparr>w_calls = 0, w_ledger = waiting_ledger, w_effects = [], w_memo = ()\<rparr>"

definition gate_approval :: "PolicyGate \<Rightarrow> HumanApprovalReceipt" where
  "gate_approval g = gate_decision\<lparr>ap_gate_id := pg_gate_id g, ap_exact_action_approved := pg_requested_action g,
     ap_action_fingerprint := pg_action_fingerprint g\<rparr>"

lemma gate_approval_passes: "human_decision_validation_error E (Some (gate_approval g)) g TsNone [''approved''] = Inr None"
  unfolding validation_passes well_formed_decision_def in_force_def gate_approval_def gate_decision_def
  by (simp add: policy_coerce_datetime_def)

lemma gate_approval_records: "\<exists>x L. record_human_decision demo_env (gate_approval g) ''i'' ''r'' TsNone a waiting_ledger = Inr (x, L)"
  by (simp add: gate_approval_def gate_eval ledger_eval)

lemma recorded_changes:
  assumes "bindP (call (\<lambda>E. record_human_decision E d i r now a)) f Es w = (q, v)" "\<And>x. stays same_decisions (f x)"
    "record_human_decision (Es (w_calls w)) d i r now a (w_ledger w) = Inr (x, L)"
  shows "human_decisions (w_ledger v) \<noteq> human_decisions (w_ledger w)"
proof -
  let ?u = "w\<lparr>w_calls := Suc (w_calls w), w_ledger := L\<rparr>"
  have "call (\<lambda>E. record_human_decision E d i r now a) Es w = (Inr x, ?u)" using assms(3) by (simp add: call_Inr)
  then have "bindP (call (\<lambda>E. record_human_decision E d i r now a)) f Es w = f x Es ?u" by (rule bindP_run)
  then have "f x Es ?u = (q, v)" unfolding assms(1) by (rule sym)
  then have "human_decisions (w_ledger v) = human_decisions L" using quietD[OF assms(2)] by fastforce
  then show ?thesis using record_human_decision_row[OF assms(3)] by auto
qed

lemma gate_ingest_records:
  assumes g: "evaluate demo_env request None TsNone = Inr g" and r: "human_gate_request gate_kernel gate_stage run waiting_ledger = Inr request"
    and run: "find_waiting_human_stage_run ''i'' waiting_ledger = Inr (Some run)" "run_id run = ''r''" "run_stage_id run = ''s''"
    and v: "ingest_human_decision gate_kernel ''i'' (Some (gate_approval g)) TsNone (\<lambda>n. demo_env) gate_world = (q, v)"
  shows "human_decisions (w_ledger v) \<noteq> human_decisions waiting_ledger"
proof -
  let ?d = "gate_approval g" and ?Es = "\<lambda>n :: nat. demo_env"
  let ?u = "gate_world\<lparr>w_calls := 2\<rparr>"
  have s: "stage_by_id (k_workflow gate_kernel) ''s'' = Some gate_stage" "sd_type gate_stage = ST_HUMAN_GATE" "sd_outcomes gate_stage = [''approved'']"
    by (simp_all add: stage_by_id_def gate_world_simps)
  have "decision_validation_gate gate_kernel run gate_stage g waiting_ledger = Inr (g, None)"
    by (simp add: decision_validation_gate_def gate_unpublished)
  then have e: "decision_error gate_kernel run gate_stage (Some ?d) TsNone ?Es gate_world = (Inr None, ?u)"
    using g r gate_approval_passes[of demo_env g] s(3)
    by (simp add: decision_error_def human_gate_def bindP_def ask_def gate_world_def numeral_2_eq_2)
  have "accept_decision gate_kernel run gate_stage ?d ''i'' TsNone ?Es ?u = (q, v)"
    using v run gate_matches s e by (simp add: ingest_human_decision_def bindP_def gate_world_def)
  moreover have "approval_with_bound_hash ?d gate_stage ''i'' waiting_ledger = ?d"
    by (simp add: approval_with_bound_hash_def stage_binds_to_def gate_world_simps dict_get_def)
  moreover have "outcome_for_human_decision gate_kernel gate_stage t = None" for t
    by (simp add: outcome_for_human_decision_def find_transition_def gate_kernel_def find_None_iff)
  ultimately have u: "unrouted_decision gate_kernel run gate_stage ?d ''i'' TsNone ?Es ?u = (q, v)"
    by (simp add: accept_decision_def gate_world_def)
  obtain x L where "record_human_decision demo_env ?d ''i'' ''r'' TsNone (k_owner gate_kernel) waiting_ledger = Inr (x, L)"
    using gate_approval_records by blast
  then show ?thesis
    using recorded_changes[OF u[unfolded unrouted_decision_def Let_def], of x L] run(2) by (simp add: gate_world_def frame_intro)
qed

section \<open>The property\<close>

text \<open>
  C5. Whatever a decision's ingestion ends in, it records a decision only for the human gate
  that waits in the instance, under the definition the instance is pinned to, and only one that
  is well formed, in force, and answers exactly that gate: the fingerprint and action published
  to the human, or, without a publication, those of the gate's request.
\<close>

theorem recorded_decision_fits:
  assumes "ingest_human_decision k i decision now Es w = (q, v)"
    "human_decisions (w_ledger v) \<noteq> human_decisions (w_ledger w)"
  shows "\<exists>run s d row. find_waiting_human_stage_run i (w_ledger w) = Inr (Some run) \<and>
    stage_by_id (k_workflow k) (run_stage_id run) = Some s \<and> sd_type s = ST_HUMAN_GATE \<and>
    definition_mismatch_summary k i (w_ledger w) = None \<and> decision = Some d \<and>
    answers_gate k run s (w_ledger w) d \<and> well_formed_decision d (sd_outcomes s) \<and> (\<exists>n. in_force (Es n) d now) \<and>
    human_decisions (w_ledger v) = human_decisions (w_ledger w) @ [row] \<and> decision_for d i (run_id run) row"
proof -
  obtain run s d u where a: "find_waiting_human_stage_run i (w_ledger w) = Inr (Some run)"
    "definition_mismatch_summary k i (w_ledger w) = None" "stage_by_id (k_workflow k) (run_stage_id run) = Some s"
    "sd_type s = ST_HUMAN_GATE" "decision = Some d" and e: "decision_error k run s (Some d) now Es w = (Inr None, u)"
    and acc: "accept_decision k run s d i now Es u = (q, v)"
    using ingest_reaches_accept[OF assms] .
  have same: "human_decisions (w_ledger u) = human_decisions (w_ledger w)" by (rule quietD[OF quiet_decision_error e])
  then have "\<exists>row. human_decisions (w_ledger v) = human_decisions (w_ledger w) @ [row] \<and> decision_for d i (run_id run) row"
    using accept_records[OF acc] assms(2) by simp
  then show ?thesis using a no_decision_error[OF e] by blast
qed

lemma recorded_decision_fits_witness:
  "\<exists>run d q v. ingest_human_decision gate_kernel ''i'' (Some d) TsNone (\<lambda>n. demo_env) gate_world = (q, v) \<and>
     run_id run = ''r'' \<and> answers_gate gate_kernel run gate_stage waiting_ledger d \<and>
     length (human_decisions (w_ledger v)) = Suc (length (human_decisions waiting_ledger))"
proof -
  obtain run where run: "find_waiting_human_stage_run ''i'' waiting_ledger = Inr (Some run)" "run_id run = ''r''" "run_stage_id run = ''s''"
    using gate_waiting by blast
  obtain request where r: "human_gate_request gate_kernel gate_stage run waiting_ledger = Inr request" "rq_expires_at request = TsNone"
    using gate_request by blast
  obtain g where g: "evaluate demo_env request None TsNone = Inr g" using evaluates_without_approval[OF r(2)] by blast
  obtain q v where v: "ingest_human_decision gate_kernel ''i'' (Some (gate_approval g)) TsNone (\<lambda>n. demo_env) gate_world = (q, v)"
    by (metis prod.exhaust)
  have s: "stage_by_id (k_workflow gate_kernel) ''s'' = Some gate_stage" by (simp add: stage_by_id_def gate_world_simps)
  have ledger: "w_ledger gate_world = waiting_ledger" by (simp add: gate_world_def)
  have "human_decisions (w_ledger v) \<noteq> human_decisions (w_ledger gate_world)"
    using gate_ingest_records[OF g r(1) run v] ledger by simp
  from recorded_decision_fits[OF v this] show ?thesis using run s v unfolding ledger by force
qed

end
