(* ===== verification/Stage_Safety.thy ===== *)
theory Stage_Safety
  imports Stage_Step Human_Gate_Safety
begin

text \<open>
  What the stage handler may do outside the kernel: it calls an adapter at most once, only after
  the policy engine allowed the action under the stage's effective policy, and only after the
  invocation was recorded.  Retries stay within the policy's attempts and its safe side effects.
\<close>

section \<open>Programs that call nothing, and programs that make one call\<close>

lemma silent_bind:
  assumes "bindP m f Es w = (q, v)" "stays same_effects m" "w_effects v \<noteq> w_effects w"
  obtains x u where "m Es w = (Inr x, u)" "w_effects u = w_effects w" "f x Es u = (q, v)"
proof -
  obtain p u where m: "m Es w = (p, u)" by (cases "m Es w")
  have same: "w_effects u = w_effects w" using staysD[OF assms(2) m] by (simp add: same_effects_def core_def)
  show thesis
  proof (cases p)
    case (Inl e)
    then show ?thesis using assms(1,3) m same by (simp add: bindP_def)
  next
    case (Inr x)
    then show ?thesis using that m same assms(1) by (simp add: bindP_def)
  qed
qed

lemma silent_run: "stays same_effects m \<Longrightarrow> m Es w = (q, v) \<Longrightarrow> w_effects v = w_effects w"
  using staysD[of same_effects m Es w q v] by (simp add: same_effects_def core_def)

lemma silent_files [frame_intro]: "stays same_effects (read_files out f)" "stays same_effects (inspect h)"
  by (auto intro!: staysI simp: read_files_def inspect_def core_def same_effects_def)

lemma silent_draw [frame_intro]: "stays same_effects draw_hex"
  unfolding draw_hex_def by (rule silent_call)

lemma silent_blocked [frame_intro]: "stays same_effects (blocked fc reason)" "stays same_effects (blocked_with c reason r)"
  unfolding blocked_def blocked_with_def by (intro frame_intro)+

lemma silent_denied [frame_intro]: "stays same_effects (denied k s run reg operation g policy c fallback approval)"
  unfolding denied_def Let_def by (intro frame_intro)

lemma silent_render [frame_intro]: "stays same_effects (render_stage_context k out s run reg g policy)"
  unfolding render_stage_context_def by (intro frame_intro)

lemma silent_with_prompts:
  "(\<And>x. stays same_effects (go x)) \<Longrightarrow> stays same_effects (with_prompts k out s run c reg g policy go)"
  unfolding with_prompts_def by (intro frame_intro) auto

lemma silent_gate [frame_intro]: "stays same_effects (handle_gate k out now s run c)"
  unfolding handle_gate_def Let_def by (intro frame_intro silent_with_prompts)

lemma silent_preflight [frame_intro]: "stays same_effects (preflight s run request now)"
  unfolding preflight_def by (intro frame_intro)

lemma silent_retry [frame_intro]: "stays same_effects (retry_or k s run reg result c receipt h d fc reason)"
  unfolding retry_or_def by (intro frame_intro)

lemma silent_after_exception [frame_intro]: "stays same_effects (after_exception k s run reg i rendered g policy c message)"
  unfolding after_exception_def remember_def Let_def by (intro frame_intro)

lemma silent_after_answer [frame_intro]: "stays same_effects (after_answer k s run reg i rendered g policy c result)"
  unfolding after_answer_def invalid_output_def remember_def Let_def by (intro frame_intro)

text \<open>At most one call, of the invocation \<open>i\<close>, and nothing else.\<close>

definition one_call :: "AdapterInvocation \<Rightarrow> ('m, 'a) prog \<Rightarrow> bool" where
  "one_call i m \<longleftrightarrow> (\<forall>Es w r v. m Es w = (r, v) \<longrightarrow> w_ledger v = w_ledger w \<and>
     (w_effects v = w_effects w \<or> (\<exists>x. w_effects v = w_effects w @ [Adapter_called i x])))"

lemma one_call_asking: "one_call i (asking out i x f)"
  by (auto simp: one_call_def asking_def invoke_adapter_def bindP_def split: sum.splits)

lemma one_call_ret: "one_call i m \<Longrightarrow> one_call i (bindP m (\<lambda>x. ret (f x)))"
  unfolding one_call_def by (auto simp: bindP_def split: sum.splits prod.splits)

lemma one_call_raise: "one_call i (raise e)"
  by (simp add: one_call_def)

lemma one_call_registered: "one_call i (invoke_registered_stage_adapter out reg i w s run x c)"
  unfolding invoke_registered_stage_adapter_def invoke_lane_stage_adapter_def Let_def
  by (auto intro: one_call_asking one_call_ret one_call_raise)

section \<open>Recorded before it is called\<close>

definition keeps_invocations :: "core \<Rightarrow> core \<Rightarrow> bool" where
  "keeps_invocations a b \<longleftrightarrow> (\<forall>r \<in> set (adapter_invocations (fst a)). \<exists>r' \<in> set (adapter_invocations (fst b)).
     ai_id r' = ai_id r \<and> ai_stage_run_id r' = ai_stage_run_id r \<and> ai_adapter_id r' = ai_adapter_id r \<and>
     ai_operation r' = ai_operation r)"

interpretation invocations: frame keeps_invocations
  by unfold_locales (unfold keeps_invocations_def, blast, metis)

lemma completing_keeps [frame_intro]:
  "stays keeps_invocations (call (\<lambda>E. complete_adapter_invocation E i st a rp ex ec es co))"
proof (rule invocations.stays_call)
  fix E L x L' e
  assume "complete_adapter_invocation E i st a rp ex ec es co L = Inr (x, L')"
  then obtain f where f: "adapter_invocations L' = update_where (\<lambda>a. ai_id a = i) f (adapter_invocations L)"
    "\<And>r. ai_id (f r) = ai_id r \<and> ai_stage_run_id (f r) = ai_stage_run_id r \<and> ai_adapter_id (f r) = ai_adapter_id r \<and> ai_operation (f r) = ai_operation r"
    unfolding complete_adapter_invocation_def
    by (fastforce simp: bindE_eq_Inr emit_Inr update_invocations_def split: option.splits)
  show "keeps_invocations (L, e) (L', e)"
    unfolding keeps_invocations_def fst_conv
  proof
    fix r assume r: "r \<in> set (adapter_invocations L)"
    have "(if ai_id r = i then f r else r) \<in> set (adapter_invocations L')"
      using r unfolding f(1) update_where_def set_map by (rule imageI)
    then show "\<exists>r' \<in> set (adapter_invocations L'). ai_id r' = ai_id r \<and> ai_stage_run_id r' = ai_stage_run_id r \<and>
        ai_adapter_id r' = ai_adapter_id r \<and> ai_operation r' = ai_operation r"
      by (rule bexI[rotated]) (simp add: f(2))
  qed
qed

lemma after_keeps [frame_intro]:
  "stays keeps_invocations (after_exception k s run reg i rendered g policy c message)"
  "stays keeps_invocations (after_answer k s run reg i rendered g policy c result)"
  unfolding after_exception_def after_answer_def invalid_output_def remember_def retry_or_def Let_def by (intro frame_intro)+

definition call_recorded :: "StageRun \<Rightarrow> AdapterRegistration \<Rightarrow> string \<Rightarrow> AdapterInvocation \<Rightarrow> ledger \<Rightarrow> bool" where
  "call_recorded run reg operation i L \<longleftrightarrow> inv_stage_run_id i = run_id run \<and> inv_adapter_id i = rg_adapter_id reg \<and>
     inv_operation i = operation \<and>
     (\<exists>r \<in> set (adapter_invocations L). ai_id r = inv_id i \<and> ai_stage_run_id r = run_id run \<and>
        ai_adapter_id r = rg_adapter_id reg \<and> ai_operation r = operation)"

lemma recorded_kept:
  assumes "call_recorded run reg operation i (w_ledger u)" "stays keeps_invocations m" "m Es u = (q, v)"
  shows "call_recorded run reg operation i (w_ledger v)"
  using staysD[OF assms(2,3)] assms(1) unfolding call_recorded_def keeps_invocations_def core_def fst_conv by metis

lemma recording_records:
  assumes "call (\<lambda>E. record_adapter_invocation_started E i rq a sc at) Es w = (Inr x, u)"
  shows "\<exists>r \<in> set (adapter_invocations (w_ledger u)). ai_id r = inv_id i \<and> ai_stage_run_id r = inv_stage_run_id i \<and>
    ai_adapter_id r = inv_adapter_id i \<and> ai_operation r = inv_operation i"
  using assms unfolding record_adapter_invocation_started_def
  by (auto simp: call_Inr bindE_eq_Inr insert_invocation_Inr emit_Inr invocation_row_of_def)

lemma performed_call:
  assumes run: "perform_invocation k out s run reg g policy c rendered i input Es w = (q, v)" and d: "w_effects v \<noteq> w_effects w"
    and i: "inv_stage_run_id i = run_id run" "inv_adapter_id i = rg_adapter_id reg"
  shows "(\<exists>x. w_effects v = w_effects w @ [Adapter_called i x]) \<and> call_recorded run reg (inv_operation i) i (w_ledger v)"
proof -
  obtain x u where 1: "call (\<lambda>E. record_adapter_invocation_started E i (Some (request_digest i input g policy)) (k_owner k)
        (side_effect_scope reg s (inv_operation i) g) (TsText c)) Es w = (Inr x, u)" "w_effects u = w_effects w"
    and rest: "bindP (tried (invoke_registered_stage_adapter out reg i (k_workflow k) s run input c)) (\<lambda>answered. case answered of
        Inl e \<Rightarrow> after_exception k s run reg i rendered g policy c (exception_text e)
      | Inr result \<Rightarrow> after_answer k s run reg i rendered g policy c result) Es u = (q, v)"
    by (rule silent_bind[OF run[unfolded perform_invocation_def] silent_call d]) blast
  obtain p t where 2: "invoke_registered_stage_adapter out reg i (k_workflow k) s run input c Es u = (p, t)" by (metis prod.exhaust)
  have called: "w_ledger t = w_ledger u" "w_effects t = w_effects u \<or> (\<exists>x. w_effects t = w_effects u @ [Adapter_called i x])"
    using one_call_registered 2 unfolding one_call_def by blast+
  define after where "after = (case p of Inl e \<Rightarrow> after_exception k s run reg i rendered g policy c (exception_text e)
      | Inr result \<Rightarrow> after_answer k s run reg i rendered g policy c result)"
  have rest: "after Es t = (q, v)" using rest 2 by (simp add: bindP_def tried_def after_def)
  have "stays same_effects after" "stays keeps_invocations after" unfolding after_def by (intro frame_intro)+
  then have "w_effects v = w_effects t" "call_recorded run reg (inv_operation i) i (w_ledger t) \<Longrightarrow>
      call_recorded run reg (inv_operation i) i (w_ledger v)"
    using silent_run rest recorded_kept rest by blast+
  moreover have "call_recorded run reg (inv_operation i) i (w_ledger t)"
    using recording_records[OF 1(1)] called(1) i unfolding call_recorded_def by simp
  ultimately show ?thesis using called(2) 1(2) d by auto
qed

lemma invoke_stage_calls:
  assumes run: "invoke_stage k out s run reg operation g policy c rendered Es w = (q, v)" and d: "w_effects v \<noteq> w_effects w"
  shows "\<exists>i x. w_effects v = w_effects w @ [Adapter_called i x] \<and> call_recorded run reg operation i (w_ledger v)"
proof -
  obtain hex input u where "w_effects u = w_effects w"
    and p: "perform_invocation k out s run reg g policy c rendered (stage_invocation k s run reg operation rendered hex) input Es u = (q, v)"
    by (rule silent_bind[OF run[unfolded invoke_stage_def] silent_draw d], erule silent_bind[OF _ effects.stays_pure(4)])
      (use d in \<open>auto simp: query_def\<close>)
  then show ?thesis using performed_call[OF p] d by (auto simp: stage_invocation_def)
qed

section \<open>Allowed before it is called\<close>

text \<open>A recorded human decision that approves these very bytes for the instance.\<close>

definition approves_bytes :: "string \<Rightarrow> string \<Rightarrow> decision_row \<Rightarrow> bool" where
  "approves_bytes i h row \<longleftrightarrow> hd_instance_id row = i \<and> hd_decision row \<in> set approving_human_decisions \<and>
     (\<exists>receipt c. mapping_of (hd_receipt row) = Some receipt \<and> mapping_of (dict_get receipt ''constraints'') = Some c \<and>
        text_field c ''approved_content_hash'' = h \<and> dict_get c ''test_only'' \<noteq> PBool True \<and> dict_get c ''non_live'' \<noteq> PBool True)"

text \<open>
  The engine allowed the request: by itself, or with an approval, which then comes from such a
  decision on the content the stage's policy binds to.
\<close>

definition action_allowed :: "StageDef \<Rightarrow> StageRun \<Rightarrow> ActionRequest \<Rightarrow> ts_arg \<Rightarrow> ledger \<Rightarrow> (nat \<Rightarrow> env) \<Rightarrow> PolicyGate \<Rightarrow> bool" where
  "action_allowed s run request now L Es g \<longleftrightarrow>
     pg_decision g \<in> {gate_decision_value ALLOW, gate_decision_value ALLOW_WITH_RECEIPT} \<and>
     (\<exists>n approval. evaluate (Es n) request approval now = Inr g \<and> (approval = None \<or>
        (\<exists>b h row. stage_binds_to s = Some b \<and> resolve_bound_content_hash b L (run_instance_id run) = Some h \<and>
           row \<in> set (human_decisions L) \<and> approves_bytes (run_instance_id run) h row)))"

lemma content_approval_found:
  "content_approval_in now h ds = Inr (Some (d, receipt, c)) \<Longrightarrow> d \<in> set ds \<and> approves_content h d = Some (receipt, c)"
  by (induction ds) (auto simp: bindE_eq_Inr split: option.splits prod.splits if_splits)

lemma approving_row:
  assumes "d \<in> set (prior_human_decisions i L)" "approves_content h d = Some (receipt, c)"
  shows "\<exists>row \<in> set (human_decisions L). approves_bytes i h row"
proof -
  obtain row r where row: "row \<in> set (human_decisions L)" "hd_instance_id row = i" "d = decision_view row r"
    using assms(1) by (auto simp: prior_human_decisions_def joined_decisions_def)
  have "dict_get d ''decision'' = PStr (hd_decision row)" "dict_get d ''receipt'' = hd_receipt row"
    unfolding row(3) decision_view_def Let_def by (simp_all add: dict_get_def)
  then have "approves_bytes i h row" using assms(2) row(2) unfolding approves_content_def approves_bytes_def
    by (auto split: option.splits if_splits)
  then show ?thesis using row(1) by blast
qed

lemma content_bound_sound:
  assumes "content_bound_human_approval s run fp act now E L = Inr (Some a)"
  shows "\<exists>b h row. stage_binds_to s = Some b \<and> resolve_bound_content_hash b L (run_instance_id run) = Some h \<and>
    row \<in> set (human_decisions L) \<and> approves_bytes (run_instance_id run) h row"
proof -
  obtain b h t d receipt c where "stage_binds_to s = Some b" "resolve_bound_content_hash b L (run_instance_id run) = Some h"
    "content_approval_in t h (rev (prior_human_decisions (run_instance_id run) L)) = Inr (Some (d, receipt, c))"
    using assms unfolding content_bound_human_approval_def by (auto simp: bindE_eq_Inr split: option.splits if_splits prod.splits)
  then show ?thesis using approving_row content_approval_found by (metis set_rev)
qed

lemma preflight_allows:
  assumes "preflight s run request now Es w = (Inr g, u)" "pg_decision g \<noteq> gate_decision_value DENY"
    "pg_decision g \<noteq> gate_decision_value REQUIRE_HUMAN"
  shows "action_allowed s run request now (w_ledger w) Es g"
proof -
  have dec: "pg_decision g \<in> {gate_decision_value ALLOW, gate_decision_value ALLOW_WITH_RECEIPT}" if "evaluate E request a now = Inr g" for E a
  proof -
    have "\<exists>d. pg_decision g = gate_decision_value d" by (rule evaluate_decides[OF that]) blast
    then obtain d where "pg_decision g = gate_decision_value d" ..
    then show ?thesis using assms(2,3) by (cases d) auto
  qed
  obtain g1 where g1: "evaluate (Es (w_calls w)) request None now = Inr g1"
    and rest: "(if pg_decision g1 = gate_decision_value REQUIRE_HUMAN
     then bindP (inspect (content_bound_human_approval s run (pg_action_fingerprint g1) (rq_action request) now)) (\<lambda>bound.
       case bound of None \<Rightarrow> ret g1 | Some a \<Rightarrow> ask (\<lambda>E. evaluate E request (Some a) now))
     else ret g1) Es (w\<lparr>w_calls := Suc (w_calls w)\<rparr>) = (Inr g, u)"
    using assms(1) unfolding preflight_def by (auto simp: bindP_Inr ask_Inr)
  show ?thesis
  proof (cases "g1 = g")
    case True
    then show ?thesis unfolding action_allowed_def using dec g1 by blast
  next
    case False
    then obtain a E n where "content_bound_human_approval s run (pg_action_fingerprint g1) (rq_action request) now E (w_ledger w) = Inr (Some a)"
      "evaluate (Es n) request (Some a) now = Inr g"
      using rest by (auto simp: bindP_Inr inspect_def ask_Inr split: if_splits option.splits)
    then show ?thesis unfolding action_allowed_def using dec content_bound_sound by blast
  qed
qed

lemma preflight_ledger: "preflight s run request now Es w = (q, u) \<Longrightarrow> w_ledger u = w_ledger w"
  unfolding preflight_def
  by (auto simp: bindP_def ask_def inspect_def ret_def split: sum.splits option.splits if_splits prod.splits)

lemma with_prompts_calls:
  assumes "with_prompts k out s run c reg g policy go Es w = (q, v)" "w_effects v \<noteq> w_effects w"
  obtains rendered u where "w_effects u = w_effects w" "go rendered Es u = (q, v)"
proof (cases "sd_prompt_refs s = []")
  case True
  then show ?thesis using that assms by (auto simp: with_prompts_def)
next
  case False
  note run = assms(1)[unfolded with_prompts_def if_not_P[OF False]]
  obtain p u where u: "w_effects u = w_effects w" and rest: "(case p of
        Inl e \<Rightarrow> (case prompt_failure_class e of
            None \<Rightarrow> raise e
          | Some fc \<Rightarrow> blocked_with (prompt_failure_receipt k s run (exception_text e) c g fc) (exception_text e)
              (blocked_result fc (exception_text e)))
      | Inr x \<Rightarrow>
          bindP (call (\<lambda>E. record_stage_run_prompt_context (run_id run) (prompt_bundle_digest (rx_prompt_bundle x))
             (cp_context_id (rx_packet x)) (rx_packet_digest x) (rx_rendered_input_digest x))) (\<lambda>_. go (Some x))) Es u = (q, v)"
    by (rule silent_bind[OF run stays_tried[OF silent_render] assms(2)]) blast
  have d: "w_effects v \<noteq> w_effects u" using u assms(2) by simp
  show ?thesis
  proof (cases p)
    case (Inl e)
    have "stays same_effects (case prompt_failure_class e of None \<Rightarrow> raise e
        | Some fc \<Rightarrow> blocked_with (prompt_failure_receipt k s run (exception_text e) c g fc) (exception_text e)
              (blocked_result fc (exception_text e)))" by (intro frame_intro)
    then show ?thesis using silent_run rest d unfolding Inl sum.case by blast
  next
    case (Inr x)
    show ?thesis by (rule silent_bind[OF rest[unfolded Inr sum.case] silent_call d]) (use that u in auto)
  qed
qed

lemma run_stage_calls:
  assumes run: "run_stage k out now s run c reg operation Es w = (q, v)" and d: "w_effects v \<noteq> w_effects w"
  shows "\<exists>policy g i x. effective_policy_for_stage (k_workflow k) s (Some reg) True = Inr policy \<and>
    action_allowed s run (stage_action_request (k_workflow k) s run (Some reg) operation policy None [] []) now (w_ledger w) Es g \<and>
    w_effects v = w_effects w @ [Adapter_called i x] \<and> call_recorded run reg operation i (w_ledger v)"
proof -
  obtain policy where policy: "effective_policy_for_stage (k_workflow k) s (Some reg) True = Inr policy"
    using run d by (cases "effective_policy_for_stage (k_workflow k) s (Some reg) True") (auto simp: run_stage_def bindP_def)
  let ?request = "stage_action_request (k_workflow k) s run (Some reg) operation policy None [] []"
  have run: "bindP (preflight s run ?request now) (\<lambda>g.
     if pg_decision g = gate_decision_value DENY
     then denied k s run reg operation g policy c ''Policy denied action.'' False
     else if pg_decision g = gate_decision_value REQUIRE_HUMAN
     then denied k s run reg operation g policy c ''Policy requires human approval.'' True
     else with_prompts k out s run c (Some reg) g policy (invoke_stage k out s run reg operation g policy c)) Es w = (q, v)"
    using run policy by (simp add: run_stage_def bindP_def)
  obtain g u where g: "preflight s run ?request now Es w = (Inr g, u)" "w_effects u = w_effects w"
    and rest: "(if pg_decision g = gate_decision_value DENY
     then denied k s run reg operation g policy c ''Policy denied action.'' False
     else if pg_decision g = gate_decision_value REQUIRE_HUMAN
     then denied k s run reg operation g policy c ''Policy requires human approval.'' True
     else with_prompts k out s run c (Some reg) g policy (invoke_stage k out s run reg operation g policy c)) Es u = (q, v)"
    by (rule silent_bind[OF run silent_preflight d]) blast
  have d: "w_effects v \<noteq> w_effects u" using d g(2) by simp
  have no: False if "denied k s run reg operation g policy c t b Es u = (q, v)" for t b
    using silent_run[OF silent_denied that] d by simp
  have ok1: "pg_decision g \<noteq> gate_decision_value DENY"
  proof
    assume a: "pg_decision g = gate_decision_value DENY"
    show False by (rule no) (rule rest[unfolded if_P[OF a]])
  qed
  have ok2: "pg_decision g \<noteq> gate_decision_value REQUIRE_HUMAN"
  proof
    assume a: "pg_decision g = gate_decision_value REQUIRE_HUMAN"
    show False by (rule no) (rule rest[unfolded if_not_P[OF ok1] if_P[OF a]])
  qed
  note ok = ok1 ok2
  have "with_prompts k out s run c (Some reg) g policy (invoke_stage k out s run reg operation g policy c) Es u = (q, v)"
    using rest unfolding if_not_P[OF ok(1)] if_not_P[OF ok(2)] .
  then obtain rendered t where t: "w_effects t = w_effects u"
    and i: "invoke_stage k out s run reg operation g policy c rendered Es t = (q, v)" by (rule with_prompts_calls[OF _ d])
  have "\<exists>i x. w_effects v = w_effects t @ [Adapter_called i x] \<and> call_recorded run reg operation i (w_ledger v)"
    by (rule invoke_stage_calls[OF i]) (use t d in simp)
  then show ?thesis using policy preflight_allows[OF g(1) ok] t g(2) by auto
qed

lemma handle_work_calls:
  assumes "handle_work k out now s run c Es w = (q, v)" "w_effects v \<noteq> w_effects w"
  shows "\<exists>reg operation. resolve (k_registry k) (sd_adapter s) (sd_type s) = Inr reg \<and> supports reg operation \<and>
    operation = operation_for_stage s (adapter_family_for_stage (sd_type s) (sd_adapter s)) \<and>
    rg_family reg \<in> {FAMILY_RUNTIME, FAMILY_LANE, FAMILY_HOST} \<and> run_stage k out now s run c reg operation Es w = (q, v)"
  using assms silent_run[OF silent_blocked(1), of _ _ Es w q v] unfolding handle_work_def Let_def
  by (auto split: sum.splits if_splits)

section \<open>A stage that runs\<close>

text \<open>A read-only runtime stage whose adapter is down, and the ledger with its run.\<close>

definition work_kernel :: kernel where
  "work_kernel = loop_kernel\<lparr>k_registry := [demo_registration]\<rparr>"

definition adapter_down :: outside where
  "adapter_down = \<lparr>out_adapters = (\<lambda>es i x. Inl (RuntimeError ''down'')), out_has_invoke = (\<lambda>_. False),
     out_files = (\<lambda>_. \<lparr>hf_realpath = id, hf_read = (\<lambda>_. Inl (OSError ''no file'')), hf_yaml = (\<lambda>_. None)\<rparr>)\<rparr>"

definition work_world :: "step_state world" where
  "work_world = \<lparr>w_calls = 0, w_ledger = run_trace queueing empty_ledger, w_effects = [], w_memo = fresh_state\<rparr>"

lemmas work_simps = work_kernel_def loop_kernel_def loop_workflow_def loop_stage_def demo_workflow_def demo_registration_def from_adapter_def

lemma work_lookup: "stage_by_id (k_workflow work_kernel) ''s'' = Some (loop_stage ''s'')"
  "resolve (k_registry work_kernel) ''runtime.x'' ST_AGENT_WORK = Inr demo_registration"
  "operation_for_stage (loop_stage ''s'') (adapter_family_for_stage ST_AGENT_WORK ''runtime.x'') = ''invoke''"
  "supports demo_registration ''invoke''" "rg_family demo_registration = FAMILY_RUNTIME"
  by (simp_all add: work_simps stage_by_id_def resolve_def registered_def adapter_family_for_stage_def operation_for_stage_def
      supports_def dict_get_def starts_with_def Let_def)

lemma no_surface_contract: "surface_contract_policy_components PNone = Inr no_components"
  by (simp add: surface_contract_policy_components_def)

lemma work_policy: "\<exists>p. effective_policy_for_stage (k_workflow work_kernel) (loop_stage ''s'') (Some demo_registration) True = Inr p \<and>
    ep_risk_classes p = [RISK_READ_ONLY] \<and> ep_hard_gates p = [] \<and> ep_forbidden_actions p = [] \<and> ep_side_effects_known p \<and>
    \<not> ep_side_effects_ambiguous p"
  by (simp add: effective_policy_for_stage_def policy_layers_def work_simps Let_def no_surface_contract del: policy_components.simps(3))
    (simp add: no_components_def merge_components_def merge_nested_def dedupe_def dedupe_strings_def)

lemma work_gate:
  assumes "effective_policy_for_stage (k_workflow work_kernel) (loop_stage ''s'') (Some demo_registration) True = Inr p"
  shows "\<exists>g. evaluate E (stage_action_request (k_workflow work_kernel) (loop_stage ''s'') run (Some demo_registration) ''invoke'' p None [] []) None now = Inr g \<and>
    pg_decision g = ''allow_with_receipt''"
proof -
  let ?r = "stage_action_request (k_workflow work_kernel) (loop_stage ''s'') run (Some demo_registration) ''invoke'' p None [] []"
  have "\<not> human_gated ?r" "\<not> forbidden_request ?r" "\<forall>k \<in> set (rq_risk_classes ?r). allow_with_receipt_risk k"
    using work_policy assms by (auto simp: stage_action_request_def Let_def human_gated_def forbidden_request_def hard_gate_risk_def allow_with_receipt_risk_def)
  moreover obtain g where "evaluate E ?r None now = Inr g" using evaluates_without_approval[of ?r] by (auto simp: stage_action_request_def Let_def)
  ultimately show ?thesis using decision_is_table[of E ?r None now g] by auto
qed

lemma work_invocation_recorded:
  "\<exists>L. record_adapter_invocation_started demo_env (stage_invocation work_kernel s demo_run reg operation x hex) rq a sc (TsText t)
     (w_ledger work_world\<lparr>uuid_draws := n\<rparr>) = Inr ((), L)"
  by (simp add: record_adapter_invocation_started_def iso_timestamp_def invocation_row_of_def stage_invocation_def demo_run_def
      insert_invocation_def work_world_def ledger_eval work_simps emit_def Let_def)

text \<open>An invocation that can be recorded is made.\<close>

lemma recorded_is_called:
  assumes "perform_invocation k out s run reg g policy c rendered i input Es w = (q, v)" "rg_family reg = FAMILY_RUNTIME"
    "record_adapter_invocation_started (Es (w_calls w)) i (Some (request_digest i input g policy)) (k_owner k)
      (side_effect_scope reg s (inv_operation i) g) (TsText c) (w_ledger w) = Inr ((), L)"
  shows "w_effects v = w_effects w @ [Adapter_called i (PDict input)]"
proof -
  obtain p t where a: "asking out i (PDict input) result_of Es (w\<lparr>w_calls := Suc (w_calls w), w_ledger := L\<rparr>) = (p, t)" by (metis prod.exhaust)
  then have t: "w_effects t = w_effects w @ [Adapter_called i (PDict input)]"
    by (auto simp: asking_def invoke_adapter_def bindP_def split: sum.splits)
  define after where "after = (case p of Inl e \<Rightarrow> after_exception k s run reg i rendered g policy c (exception_text e)
      | Inr result \<Rightarrow> after_answer k s run reg i rendered g policy c result)"
  have "after Es t = (q, v)" using assms a
    by (simp add: perform_invocation_def bindP_def call_def tried_def invoke_registered_stage_adapter_def after_def)
  moreover have "stays same_effects after" unfolding after_def by (intro frame_intro)
  ultimately show ?thesis using silent_run t by metis
qed

definition called_world :: "step_state world" where
  "called_world = work_world\<lparr>w_calls := 3, w_ledger := w_ledger work_world\<lparr>uuid_draws := Suc (uuid_draws (w_ledger work_world))\<rparr>\<rparr>"

lemma work_performs:
  assumes "handle_stage work_kernel out TsNone demo_run (\<lambda>n. demo_env) work_world = (q, v)"
  obtains g p t hex input where "iso_timestamp (Utc 0) TsNone = Inr t"
    "perform_invocation work_kernel out (loop_stage ''s'') demo_run demo_registration g p t None
      (stage_invocation work_kernel (loop_stage ''s'') demo_run demo_registration ''invoke'' None hex) input (\<lambda>n. demo_env) called_world = (q, v)"
proof -
  let ?s = "loop_stage ''s''" and ?Es = "\<lambda>n :: nat. demo_env"
  obtain p where p: "effective_policy_for_stage (k_workflow work_kernel) ?s (Some demo_registration) True = Inr p" using work_policy by blast
  obtain g where g: "evaluate demo_env (stage_action_request (k_workflow work_kernel) ?s demo_run (Some demo_registration) ''invoke'' p None [] []) None TsNone = Inr g"
    "pg_decision g = ''allow_with_receipt''" using work_gate[OF p] by blast
  have s: "sd_type ?s = ST_AGENT_WORK" "sd_adapter ?s = ''runtime.x''" "sd_prompt_refs ?s = []" by (simp_all add: loop_stage_def)
  have mismatch: "definition_mismatch_summary work_kernel ''i'' (w_ledger work_world) = None"
    by (simp add: definition_mismatch_summary_def work_world_def ledger_eval demo_instance_def)
  obtain t where t: "iso_timestamp (Utc 0) TsNone = Inr t" by (simp add: iso_timestamp_def)
  have "run_stage work_kernel out TsNone ?s demo_run t demo_registration ''invoke'' ?Es (work_world\<lparr>w_calls := 1\<rparr>) = (q, v)"
    using assms t work_lookup s mismatch
    by (simp add: handle_stage_def handle_work_def bindP_def stamp_def ask_def query_def demo_run_def work_world_def Let_def)
  then have "invoke_stage work_kernel out ?s demo_run demo_registration ''invoke'' g p t None ?Es (work_world\<lparr>w_calls := 2\<rparr>) = (q, v)"
    using p g s by (simp add: run_stage_def preflight_def with_prompts_def bindP_def ask_def work_world_def numeral_2_eq_2)
  then show thesis using that t
    by (auto simp: invoke_stage_def draw_hex_def call_def bindP_def next_uuid_def query_def numeral_3_eq_3 work_world_def called_world_def)
qed

lemma work_handled:
  assumes "handle_stage work_kernel adapter_down TsNone demo_run (\<lambda>n. demo_env) work_world = (q, v)"
  shows "w_effects v \<noteq> []"
proof -
  obtain g p t hex input where i: "perform_invocation work_kernel adapter_down (loop_stage ''s'') demo_run demo_registration g p t None
      (stage_invocation work_kernel (loop_stage ''s'') demo_run demo_registration ''invoke'' None hex) input (\<lambda>n. demo_env) called_world = (q, v)"
    using work_performs[OF assms] .
  let ?i = "stage_invocation work_kernel (loop_stage ''s'') demo_run demo_registration ''invoke'' None hex"
  obtain L where "record_adapter_invocation_started demo_env ?i (Some (request_digest ?i input g p)) (k_owner work_kernel)
      (side_effect_scope demo_registration (loop_stage ''s'') (inv_operation ?i) g) (TsText t) (w_ledger called_world) = Inr ((), L)"
    using work_invocation_recorded[of "loop_stage ''s''" demo_registration] unfolding called_world_def by fastforce
  then show ?thesis using recorded_is_called[OF i work_lookup(5)] by simp
qed

section \<open>The property\<close>

text \<open>
  C4. Whatever handling a run ends in, it makes at most one adapter call, and none unless: the
  stage is known, is not a human gate and belongs to the pinned definition; its adapter is
  registered with the right family and supports the operation; the policy engine allowed the
  action under the stage's effective policy, by itself or by an approval that a recorded human
  decision gives to exactly the content the stage's policy binds to; and the invocation was
  recorded in the ledger for this very run.
\<close>

theorem adapter_call_authorized:
  assumes "handle_stage k out now run Es w = (q, v)" "w_effects v \<noteq> w_effects w"
  shows "\<exists>s reg operation policy g i x. stage_by_id (k_workflow k) (run_stage_id run) = Some s \<and> sd_type s \<noteq> ST_HUMAN_GATE \<and>
    definition_mismatch_summary k (run_instance_id run) (w_ledger w) = None \<and>
    resolve (k_registry k) (sd_adapter s) (sd_type s) = Inr reg \<and> supports reg operation \<and>
    effective_policy_for_stage (k_workflow k) s (Some reg) True = Inr policy \<and>
    action_allowed s run (stage_action_request (k_workflow k) s run (Some reg) operation policy None [] []) now (w_ledger w) Es g \<and>
    w_effects v = w_effects w @ [Adapter_called i x] \<and> call_recorded run reg operation i (w_ledger v)"
proof -
  obtain c u where u: "w_effects u = w_effects w" "stamp now Es w = (Inr c, u)" and rest: "(case stage_by_id (k_workflow k) (run_stage_id run) of
       None \<Rightarrow> blocked FC_DOMAIN_BLOCKED ''Unknown workflow stage.''
     | Some s \<Rightarrow> bindP (query (\<lambda>L. Inr (definition_mismatch_summary k (run_instance_id run) L))) (\<lambda>mismatch. case mismatch of
           Some reason \<Rightarrow> blocked FC_DOMAIN_BLOCKED reason
         | None \<Rightarrow> if sd_type s = ST_HUMAN_GATE then handle_gate k out now s run c
             else handle_work k out now s run c)) Es u = (q, v)"
    by (rule silent_bind[OF assms(1)[unfolded handle_stage_def] _ assms(2)]) (unfold stamp_def, rule frame_intro, blast)
  have ledger: "w_ledger u = w_ledger w" using u(2) by (auto simp: stamp_def ask_Inr)
  have d: "w_effects v \<noteq> w_effects u" using assms(2) u by simp
  obtain s where s: "stage_by_id (k_workflow k) (run_stage_id run) = Some s"
    using rest silent_run[OF silent_blocked(1), of _ _ Es u q v] d by (cases "stage_by_id (k_workflow k) (run_stage_id run)") auto
  have mismatch: "definition_mismatch_summary k (run_instance_id run) (w_ledger u) = None"
    using rest silent_run[OF silent_blocked(1), of _ _ Es u q v] d s
    by (cases "definition_mismatch_summary k (run_instance_id run) (w_ledger u)") (auto simp: bindP_def)
  have gate: "sd_type s \<noteq> ST_HUMAN_GATE"
    using rest silent_run[OF silent_gate, of k out now s run c Es u q v] d s mismatch by (auto simp: bindP_def)
  have "handle_work k out now s run c Es u = (q, v)" using rest s mismatch gate by (simp add: bindP_def)
  from handle_work_calls[OF this d] obtain reg operation where reg: "resolve (k_registry k) (sd_adapter s) (sd_type s) = Inr reg" "supports reg operation"
    and stage: "run_stage k out now s run c reg operation Es u = (q, v)" by blast
  show ?thesis using run_stage_calls[OF stage d] s mismatch gate reg unfolding u(1) ledger by blast
qed

lemma adapter_call_authorized_witness:
  "\<exists>q v i x. handle_stage work_kernel adapter_down TsNone demo_run (\<lambda>n. demo_env) work_world = (q, v) \<and>
     w_effects v = [Adapter_called i x] \<and> inv_stage_run_id i = ''r'' \<and>
     (\<exists>r \<in> set (adapter_invocations (w_ledger v)). ai_id r = inv_id i)"
proof -
  obtain q v where v: "handle_stage work_kernel adapter_down TsNone demo_run (\<lambda>n. demo_env) work_world = (q, v)" by (metis prod.exhaust)
  have "w_effects v \<noteq> w_effects work_world" using work_handled[OF v] by (simp add: work_world_def)
  from adapter_call_authorized[OF v this] show ?thesis using v
    unfolding call_recorded_def by (auto simp: work_world_def demo_run_def)
qed

end
