(* ===== verification/Time_Roundtrip.thy ===== *)
theory Time_Roundtrip
  imports Ledger_Example
begin

text \<open>
  The timestamps the kernel writes: both coercions read back exactly the instant that was
  rendered, and comparing the texts, as the ledger's SQL does, compares the instants.
\<close>

lemma strip_solid: "s \<noteq> [] \<Longrightarrow> \<not> is_space (hd s) \<Longrightarrow> \<not> is_space (last s) \<Longrightarrow> strip s = s"
  by (simp add: strip_def dropWhile_eq_self_iff[THEN iffD2] hd_rev)

lemma digit_not_space: "is_digit c \<Longrightarrow> \<not> is_space c"
  by (auto simp: is_digit_def is_space_def Let_def)

lemma isoformat_ends: "isoformat t \<noteq> []" "is_digit (hd (isoformat t))" "last (isoformat t) = CHR ''0''"
proof -
  obtain y m d where ymd: "day_to_ymd (nat (micros t) div 86400000000) = (y, m, d)" by (metis prod.exhaust)
  obtain r where iso: "isoformat t = pad 4 y @ r @ ''+00:00''" using ymd by (simp add: isoformat_def Let_def del: pad.simps)
  have "length (pad 4 y) = 4" by (simp add: pad_length)
  then obtain c cs where p: "pad 4 y = c # cs" by (cases "pad 4 y") auto
  have "is_digit c" using pad_digits[of 4 y] p by simp
  then show "isoformat t \<noteq> []" "is_digit (hd (isoformat t))" "last (isoformat t) = CHR ''0''" by (simp_all add: iso p)
qed

lemma strip_isoformat [simp]: "strip (isoformat t) = isoformat t"
  using isoformat_ends[of t] digit_not_space by (intro strip_solid) (auto simp: is_space_def)

lemma policy_coerce_isoformat [simp]: "in_range t \<Longrightarrow> policy_coerce_datetime (TsText (isoformat t)) = Inr (Some t)"
  using isoformat_ends[of t] by (simp add: policy_coerce_datetime_def Let_def fromisoformat_isoformat datetime_to_utc_def checked_utc_def)

lemma in_range_epoch [simp]: "in_range (Utc 0)"
  by (simp add: in_range_def max_micros_def)

text \<open>
  C38. A timestamp the kernel renders is read back as the same instant by the ledger's and by the
  policy's coercion, rendering it once more changes nothing, and the order of the texts is the
  order of the instants.
\<close>

theorem timestamps_round_trip:
  assumes "in_range t" "in_range t'" "iso_timestamp now (TsDatetime (PyDatetime (micros t) (Some 0))) = Inr s"
  shows "coerce_datetime E s = Inr t \<and> policy_coerce_datetime (TsText s) = Inr (Some t) \<and>
    iso_timestamp now (TsText s) = Inr s \<and> (s \<le> isoformat t' \<longleftrightarrow> t \<le> t')"
proof -
  have "s = isoformat t" using assms(1,3) by (simp add: iso_timestamp_def datetime_to_utc_def checked_utc_def)
  then show ?thesis using assms(1,2) isoformat_le_iff by (simp add: iso_timestamp_def)
qed

lemma timestamps_round_trip_witness:
  "\<exists>s. iso_timestamp (Utc 0) (TsDatetime (PyDatetime (micros (Utc 5)) (Some 0))) = Inr s \<and>
     coerce_datetime demo_env s = Inr (Utc 5) \<and> s \<le> isoformat (Utc 90000000)"
proof -
  have r: "in_range (Utc 5)" "in_range (Utc 90000000)" by (simp_all add: in_range_def max_micros_def)
  have s: "iso_timestamp (Utc 0) (TsDatetime (PyDatetime (micros (Utc 5)) (Some 0))) = Inr (isoformat (Utc 5))"
    using r by (simp add: iso_timestamp_def datetime_to_utc_def checked_utc_def)
  show ?thesis using timestamps_round_trip[OF r s, of demo_env] s by (simp add: less_eq_utc_def)
qed

end
