(* ===== verification/Stage_Results.thy ===== *)
theory Stage_Results
  imports Stage_Safety Time_Roundtrip
begin

text \<open>
  What the stage handler returns: results of a fixed shape, success only for an output that meets
  the stage's contract, and retries only within the stage's retry policy.
\<close>

section \<open>What every result of a program satisfies\<close>

definition returns :: "('a \<Rightarrow> 'm world \<Rightarrow> bool) \<Rightarrow> ('m, 'a) prog \<Rightarrow> bool" where
  "returns P m \<longleftrightarrow> (\<forall>Es w x v. m Es w = (Inr x, v) \<longrightarrow> P x v)"

lemma returnsI: "(\<And>Es w x v. m Es w = (Inr x, v) \<Longrightarrow> P x v) \<Longrightarrow> returns P m"
  by (simp add: returns_def)

lemma returnsD: "returns P m \<Longrightarrow> m Es w = (Inr x, v) \<Longrightarrow> P x v"
  by (simp add: returns_def)

named_theorems returns_intro \<open>results of programs\<close>

lemma returns_raise [returns_intro]: "returns P (raise e)"
  by (rule returnsI) simp

lemma returns_ret: "(\<And>v. P x v) \<Longrightarrow> returns P (ret x)"
  by (rule returnsI) simp

lemma returns_bind [returns_intro]: "(\<And>x. returns P (f x)) \<Longrightarrow> returns P (bindP m f)"
  by (rule returnsI) (auto simp: bindP_Inr returns_def)

lemma returns_if [returns_intro]: "(b \<Longrightarrow> returns P m) \<Longrightarrow> (\<not> b \<Longrightarrow> returns P n) \<Longrightarrow> returns P (if b then m else n)"
  by simp

lemma returns_option [returns_intro]: "(x = None \<Longrightarrow> returns P m) \<Longrightarrow> (\<And>a. x = Some a \<Longrightarrow> returns P (f a)) \<Longrightarrow>
    returns P (case x of None \<Rightarrow> m | Some a \<Rightarrow> f a)"
  by (cases x) auto

lemma returns_sum [returns_intro]: "(\<And>e. x = Inl e \<Longrightarrow> returns P (g e)) \<Longrightarrow> (\<And>a. x = Inr a \<Longrightarrow> returns P (f a)) \<Longrightarrow>
    returns P (case x of Inl e \<Rightarrow> g e | Inr a \<Rightarrow> f a)"
  by (cases x) auto

section \<open>The results of the handler\<close>

text \<open>The retry policy admits another attempt of the run.\<close>

definition retry_admitted :: "kernel \<Rightarrow> StageRun \<Rightarrow> StageDef \<Rightarrow> AdapterRegistration \<Rightarrow> bool" where
  "retry_admitted k run s reg \<longleftrightarrow> (let policy = effective_retry_policy (k_workflow k) s reg in
     retry_enabled policy \<and> run_attempt run < retry_max_attempts policy \<and> retry_is_safe reg (run_idempotency_key run))"

text \<open>A result as the runner expects one: what each of the five decisions carries.\<close>

definition result_shape :: "RunnerResult \<Rightarrow> bool" where
  "result_shape r \<longleftrightarrow>
     rr_decision r \<in> {''succeeded'', ''failed'', ''blocked'', ''retry'', ''waiting_on_human''} \<and>
     (if rr_decision r = ''succeeded'' then rr_receipt r \<noteq> None \<and> rr_output_hash r \<noteq> None \<and> rr_failure_class r = None
      else rr_failure_summary r \<noteq> None \<and> (\<exists>fc. rr_failure_class r = Some (failure_value fc))) \<and>
     (rr_decision r = ''waiting_on_human'' \<longrightarrow> rr_approval_required r \<and> rr_receipt r = None) \<and>
     (rr_decision r \<in> {''failed'', ''retry''} \<longrightarrow> rr_receipt r \<noteq> None \<and> rr_output_hash r \<noteq> None)"

text \<open>What holds of a result and the state of the step, at a stage \<open>s\<close>.\<close>

definition result_of_stage :: "kernel \<Rightarrow> StageRun \<Rightarrow> StageDef \<Rightarrow> RunnerResult \<Rightarrow> step_state world \<Rightarrow> bool" where
  "result_of_stage k run s r v \<longleftrightarrow> result_shape r \<and>
     (if sd_type s = ST_HUMAN_GATE then rr_decision r \<in> {''waiting_on_human'', ''blocked''} else rr_decision r \<noteq> ''waiting_on_human'') \<and>
     (rr_decision r = ''retry'' \<longrightarrow> (\<exists>reg. resolve (k_registry k) (sd_adapter s) (sd_type s) = Inr reg \<and> retry_admitted k run s reg)) \<and>
     (rr_decision r = ''succeeded'' \<longrightarrow> (\<exists>result. ss_adapter_result (w_memo v) = Some result \<and> res_status result = ''succeeded'' \<and>
        stage_output_contract_errors s result = Inr []))"

lemma failure_names [simp]: "\<exists>fc. ''policy_denial'' = failure_value fc" "\<exists>fc. ''domain_blocked'' = failure_value fc"
  "\<exists>fc. ''runtime_failure'' = failure_value fc" "\<exists>fc. ''invalid_output'' = failure_value fc"
  "\<exists>fc. ''unknown_side_effect_state'' = failure_value fc"
  by (metis failure_value.simps)+

lemma blocked_fits [simp]: "result_shape (blocked_result fc reason)" "rr_decision (blocked_result fc reason) = ''blocked''"
  "result_of_stage k run s (blocked_result fc reason) v"
  by (simp_all add: result_shape_def result_of_stage_def blocked_result_def)

lemma returns_blocked [returns_intro]: "returns (result_of_stage k run s) (blocked fc reason)"
  unfolding blocked_def by (intro returns_intro returns_ret) simp

lemma returns_blocked_with [returns_intro]:
  "rr_decision r = ''blocked'' \<Longrightarrow> result_shape r \<Longrightarrow> returns (result_of_stage k run s) (blocked_with c reason r)"
  unfolding blocked_with_def
  by (intro returns_intro returns_ret) (simp add: result_of_stage_def result_shape_def with_receipt_def)

lemma returns_denied [returns_intro]: "returns (result_of_stage k run s) (denied k s run reg operation g policy c fallback b)"
  unfolding denied_def Let_def by (intro returns_intro) (simp_all add: blocked_result_def result_shape_def)

lemma returns_prompts:
  "(\<And>x. returns (result_of_stage k run s) (go x)) \<Longrightarrow> returns (result_of_stage k run s) (with_prompts k out s run c reg g policy go)"
  unfolding with_prompts_def by (intro returns_intro) simp_all

lemma returns_gate [returns_intro]: "sd_type s = ST_HUMAN_GATE \<Longrightarrow> returns (result_of_stage k run s) (handle_gate k out now s run c)"
  unfolding handle_gate_def Let_def
  by (intro returns_intro returns_prompts returns_ret) (auto simp: result_of_stage_def result_shape_def)

lemma retry_result_shape:
  assumes "retry_result k s run reg result c E = Inr (Some r)"
  shows "rr_decision r = ''blocked'' \<and> result_shape r \<or>
    rr_decision r = ''retry'' \<and> retry_admitted k run s reg \<and> result_shape (with_receipt receipt h r)"
  using assms unfolding retry_result_def Let_def retry_admitted_def
  by (auto simp: bindE_eq_Inr blocked_result_def result_shape_def with_receipt_def split: if_splits)

lemma returns_retry:
  assumes "sd_type s \<noteq> ST_HUMAN_GATE" "resolve (k_registry k) (sd_adapter s) (sd_type s) = Inr reg" "d = ''failed'' \<or> d = ''blocked''"
  shows "returns (result_of_stage k run s) (retry_or k s run reg result c receipt h d fc reason)"
proof (rule returnsI)
  fix Es w r v assume "retry_or k s run reg result c receipt h d fc reason Es w = (Inr r, v)"
  then consider (some) E q where "retry_result k s run reg result c E = Inr (Some q)" "r = with_receipt receipt h q"
    | (none) "r = with_receipt receipt h ((blocked_result fc reason)\<lparr>rr_decision := d\<rparr>)"
    unfolding retry_or_def by (auto simp: bindP_Inr ask_Inr split: option.splits)
  then show "result_of_stage k run s r v"
  proof cases
    case some
    then show ?thesis using retry_result_shape[OF some(1), of receipt h] assms(1,2)
      by (auto simp: result_of_stage_def result_shape_def with_receipt_def)
  next
    case none
    then show ?thesis using assms by (auto simp: result_of_stage_def result_shape_def with_receipt_def blocked_result_def)
  qed
qed

lemma returns_exception:
  assumes "sd_type s \<noteq> ST_HUMAN_GATE" "resolve (k_registry k) (sd_adapter s) (sd_type s) = Inr reg"
  shows "returns (result_of_stage k run s) (after_exception k s run reg i rendered g policy c message)"
  unfolding after_exception_def Let_def by (intro returns_intro returns_retry assms) simp

lemma returns_invalid: "sd_type s \<noteq> ST_HUMAN_GATE \<Longrightarrow> returns (result_of_stage k run s) (invalid_output s run i rendered g c result h errors)"
  unfolding invalid_output_def Let_def
  by (intro returns_intro returns_ret) (simp add: result_of_stage_def result_shape_def with_receipt_def blocked_result_def)

lemma returns_answer:
  assumes "sd_type s \<noteq> ST_HUMAN_GATE" "resolve (k_registry k) (sd_adapter s) (sd_type s) = Inr reg"
  shows "returns (result_of_stage k run s) (after_answer k s run reg i rendered g policy c result)"
proof (rule returnsI)
  fix Es w r v assume run: "after_answer k s run reg i rendered g policy c result Es w = (Inr r, v)"
  define reason where "reason = ''Adapter returned '' @ res_status result @ ''.''"
  let ?h = "digest_data (adapter_result_plain result)"
  obtain u receipt where u: "ss_adapter_result (w_memo u) = Some result" and rest:
    "(if res_status result = ''succeeded'' then bindP (liftP (stage_output_contract_errors s result)) (\<lambda>errors.
          if errors \<noteq> [] then invalid_output s run i rendered g c result ?h errors
          else ret (succeeded_result receipt ?h))
        else retry_or k s run reg result c receipt ?h ''blocked'' FC_DOMAIN_BLOCKED reason) Es u = (Inr r, v)"
    using run unfolding after_answer_def Let_def remember_def reason_def[symmetric] by (force simp: bindP_Inr)
  show "result_of_stage k run s r v"
  proof (cases "res_status result = ''succeeded''")
    case False
    have retry: "retry_or k s run reg result c receipt ?h ''blocked'' FC_DOMAIN_BLOCKED reason Es u = (Inr r, v)"
      using rest unfolding if_not_P[OF False] .
    show ?thesis by (rule returnsD[OF returns_retry[OF assms] retry]) simp
  next
    case True
    then obtain errors where e: "stage_output_contract_errors s result = Inr errors"
      "(if errors \<noteq> [] then invalid_output s run i rendered g c result ?h errors else ret (succeeded_result receipt ?h)) Es u = (Inr r, v)"
      using rest by (auto simp: bindP_Inr)
    show ?thesis
    proof (cases "errors = []")
      case False
      then show ?thesis using e(2) returnsD[OF returns_invalid[OF assms(1)]] by simp
    next
      case Nil: True
      then show ?thesis using e u True assms(1) by (auto simp: result_of_stage_def result_shape_def succeeded_result_def)
    qed
  qed
qed

lemma returns_stage:
  assumes "sd_type s \<noteq> ST_HUMAN_GATE" "resolve (k_registry k) (sd_adapter s) (sd_type s) = Inr reg"
  shows "returns (result_of_stage k run s) (run_stage k out now s run c reg operation)"
  unfolding run_stage_def invoke_stage_def perform_invocation_def
  by (intro returns_intro returns_prompts returns_answer returns_exception assms)

lemma returns_work [returns_intro]: "sd_type s \<noteq> ST_HUMAN_GATE \<Longrightarrow> returns (result_of_stage k run s) (handle_work k out now s run c)"
  unfolding handle_work_def Let_def by (intro returns_intro returns_stage)

lemma handled_known:
  assumes "handle_stage k out now run Es w = (Inr r, v)" "stage_by_id (k_workflow k) (run_stage_id run) = Some s"
  shows "result_of_stage k run s r v"
proof -
  have "returns (result_of_stage k run s) (handle_stage k out now run)"
    unfolding handle_stage_def assms(2) option.case by (intro returns_intro)
  then show ?thesis using assms(1) by (rule returnsD)
qed

lemma handled_unknown:
  assumes "handle_stage k out now run Es w = (Inr r, v)" "stage_by_id (k_workflow k) (run_stage_id run) = None"
  shows "r = blocked_result FC_DOMAIN_BLOCKED ''Unknown workflow stage.''"
  using assms by (auto simp: handle_stage_def blocked_def bindP_Inr)

section \<open>Runs of the handler\<close>

definition adapter_up :: outside where
  "adapter_up = adapter_down\<lparr>out_adapters := (\<lambda>es i x. Inr (Result_answer \<lparr>res_invocation_id = inv_id i, res_status = ''succeeded'',
     res_outputs = [], res_artifact_refs = [], res_receipt_ref = None, res_residual_risk = None, res_next_hint = None\<rparr>))\<rparr>"

lemma work_recorded_completed:
  "\<exists>L. record_adapter_invocation_started demo_env (stage_invocation work_kernel s demo_run reg operation x hex) rq a sc (TsText t)
     (w_ledger called_world) = Inr ((), L) \<and>
     (\<forall>st b rp ec es. \<exists>L'. complete_adapter_invocation demo_env (inv_id (stage_invocation work_kernel s demo_run reg operation x hex)) st b rp
        None ec es (TsText t) L = Inr ((), L'))"
  by (simp add: record_adapter_invocation_started_def complete_adapter_invocation_def iso_timestamp_def invocation_row_of_def
      stage_invocation_def demo_run_def insert_invocation_def called_world_def work_world_def ledger_eval work_simps emit_def
      select_one_def update_invocations_def Let_def)

lemma work_contract: "res_artifact_refs result = [] \<Longrightarrow> stage_output_contract_errors (loop_stage ''s'') result = Inr []"
  by (simp add: stage_output_contract_errors_def required_artifact_roles_def required_output_fields_def artifact_errors_def
      string_tuple_def field_specs_def required_field_names_def dedupe_def loop_stage_def dict_get_def Let_def)

lemma work_retry:
  "effective_retry_policy (k_workflow work_kernel) (loop_stage ''s'') demo_registration =
     [(''enabled'', PBool True), (''max_attempts'', PInt 2), (''backoff_seconds'', PInt 0)]"
  by (simp add: effective_retry_policy_def retry_is_safe_def safe_side_effect_def work_simps dict_get_def)

lemma work_policy_facts: "retry_enabled [(''enabled'', PBool True), (''max_attempts'', PInt 2), (''backoff_seconds'', PInt 0)]"
  "retry_max_attempts [(''enabled'', PBool True), (''max_attempts'', PInt 2), (''backoff_seconds'', PInt 0)] = 2"
  "retry_backoff [(''enabled'', PBool True), (''max_attempts'', PInt 2), (''backoff_seconds'', PInt 0)] = 0"
  "retry_is_safe demo_registration key"
  by (simp_all add: retry_enabled_def retry_max_attempts_def retry_backoff_def dict_get_or_def retry_is_safe_def safe_side_effect_def
      demo_registration_def from_adapter_def)

lemma work_retry_result:
  "\<exists>r. retry_result work_kernel (loop_stage ''s'') demo_run demo_registration result (isoformat (Utc 0)) demo_env = Inr (Some r) \<and> rr_decision r = ''retry''"
proof -
  have "\<exists>at. retry_after_at (isoformat (Utc 0)) [(''enabled'', PBool True), (''max_attempts'', PInt 2), (''backoff_seconds'', PInt 0)] demo_env = Inr at"
    by (simp add: retry_after_at_def work_policy_facts add_seconds_def checked_utc_def)
  then show ?thesis by (auto simp: retry_result_def work_retry work_policy_facts Let_def demo_run_def)
qed

lemma work_succeeds:
  assumes "handle_stage work_kernel adapter_up TsNone demo_run (\<lambda>n. demo_env) work_world = (q, v)"
  shows "\<exists>r. q = Inr r \<and> rr_decision r = ''succeeded''"
proof -
  obtain g p t hex input where i: "perform_invocation work_kernel adapter_up (loop_stage ''s'') demo_run demo_registration g p t None
      (stage_invocation work_kernel (loop_stage ''s'') demo_run demo_registration ''invoke'' None hex) input (\<lambda>n. demo_env) called_world = (q, v)"
    using work_performs[OF assms] .
  define a where "a = stage_invocation work_kernel (loop_stage ''s'') demo_run demo_registration ''invoke'' None hex"
  obtain L where L: "record_adapter_invocation_started demo_env a (Some (request_digest a input g p)) (k_owner work_kernel)
      (side_effect_scope demo_registration (loop_stage ''s'') (inv_operation a) g) (TsText t) (w_ledger called_world) = Inr ((), L)"
    "\<And>st b rp ec es. \<exists>L'. complete_adapter_invocation demo_env (inv_id a) st b rp None ec es (TsText t) L = Inr ((), L')"
    using work_recorded_completed[of "loop_stage ''s''" demo_registration "''invoke''" None hex] unfolding a_def by fastforce
  let ?result = "\<lparr>res_invocation_id = inv_id a, res_status = ''succeeded'', res_outputs = [], res_artifact_refs = [], res_receipt_ref = None,
      res_residual_risk = None, res_next_hint = None\<rparr>"
  obtain L' where L': "complete_adapter_invocation demo_env (inv_id a) ''succeeded'' (k_owner work_kernel)
      (Some (digest_data (adapter_result_plain ?result))) None None None (TsText t) L = Inr ((), L')" using L(2) by blast
  have "\<exists>w. after_answer work_kernel (loop_stage ''s'') demo_run demo_registration a None g p t ?result (\<lambda>n. demo_env) w = (q, v) \<and> w_ledger w = L"
    using i[folded a_def] L(1) work_lookup(5)
    by (simp add: perform_invocation_def bindP_def call_def tried_def invoke_registered_stage_adapter_def asking_def invoke_adapter_def
        adapter_up_def result_of_def) auto
  then show ?thesis using L' work_contract[of ?result]
    by (auto simp: after_answer_def bindP_def call_def remember_def Let_def succeeded_result_def)
qed

lemma work_retried:
  assumes "handle_stage work_kernel adapter_down TsNone demo_run (\<lambda>n. demo_env) work_world = (q, v)"
  shows "\<exists>r. q = Inr r \<and> rr_decision r = ''retry''"
proof -
  obtain g p t hex input where t: "iso_timestamp (Utc 0) TsNone = Inr t" and i: "perform_invocation work_kernel adapter_down (loop_stage ''s'') demo_run demo_registration g p t None
      (stage_invocation work_kernel (loop_stage ''s'') demo_run demo_registration ''invoke'' None hex) input (\<lambda>n. demo_env) called_world = (q, v)"
    using work_performs[OF assms] .
  define a where "a = stage_invocation work_kernel (loop_stage ''s'') demo_run demo_registration ''invoke'' None hex"
  have t: "t = isoformat (Utc 0)" using t by (simp add: iso_timestamp_def)
  obtain L where L: "record_adapter_invocation_started demo_env a (Some (request_digest a input g p)) (k_owner work_kernel)
      (side_effect_scope demo_registration (loop_stage ''s'') (inv_operation a) g) (TsText t) (w_ledger called_world) = Inr ((), L)"
    "\<And>st b rp ec es. \<exists>L'. complete_adapter_invocation demo_env (inv_id a) st b rp None ec es (TsText t) L = Inr ((), L')"
    using work_recorded_completed[of "loop_stage ''s''" demo_registration "''invoke''" None hex] unfolding a_def by fastforce
  obtain L' where L': "complete_adapter_invocation demo_env (inv_id a) ''failed'' (k_owner work_kernel)
      (Some (digest_data (PDict [(''adapter_exception'', PStr ''down'')]))) None (Some ''adapter_exception'') (Some ''down'') (TsText t) L = Inr ((), L')"
    using L(2) by blast
  have "\<exists>w. after_exception work_kernel (loop_stage ''s'') demo_run demo_registration a None g p t ''down'' (\<lambda>n. demo_env) w = (q, v) \<and> w_ledger w = L"
    using i[folded a_def] L(1) work_lookup(5)
    by (simp add: perform_invocation_def bindP_def call_def tried_def invoke_registered_stage_adapter_def asking_def invoke_adapter_def
        adapter_down_def) auto
  then obtain w where w: "after_exception work_kernel (loop_stage ''s'') demo_run demo_registration a None g p t ''down'' (\<lambda>n. demo_env) w = (q, v)"
    "w_ledger w = L" by blast
  let ?result = "\<lparr>res_invocation_id = inv_id a, res_status = ''failed'',
      res_outputs = [(''error_class'', PStr ''adapter_exception''), (''error_summary'', PStr ''down'')], res_artifact_refs = [],
      res_receipt_ref = None, res_residual_risk = Some ''Adapter raised before a trusted output was produced.'',
      res_next_hint = Some ''Retry only through the runner recovery policy.''\<rparr>"
  obtain r where r: "retry_result work_kernel (loop_stage ''s'') demo_run demo_registration ?result t demo_env = Inr (Some r)"
    "rr_decision r = ''retry''" using work_retry_result unfolding t by blast
  show ?thesis using w L' r
    by (auto simp: after_exception_def retry_or_def bindP_def call_def ask_def remember_def with_receipt_def Let_def)
qed

section \<open>The properties\<close>







end
