(* ===== verification/Kernel_Machine.thy ===== *)
theory Kernel_Machine
  imports Surface_Lifecycle Stage_Results
begin

text \<open>
  The kernel as a whole: any sequence of its entry points, raising or not, over one ledger and with
  any adapters.  Every ledger invariant holds along the way, and every adapter call ever made is
  in the ledger.
\<close>

section \<open>Programs whose calls are recorded\<close>

definition calls_recorded :: "core \<Rightarrow> bool" where
  "calls_recorded c \<longleftrightarrow> (\<forall>i x. Adapter_called i x \<in> set (snd c) \<longrightarrow> (\<exists>r \<in> set (adapter_invocations (fst c)). ai_id r = inv_id i))"

definition audited :: "(nat \<Rightarrow> string) \<Rightarrow> ('m, 'a) prog \<Rightarrow> bool" where
  "audited u m \<longleftrightarrow> acts u m \<and> (\<forall>Es w. (\<forall>n. uuid_hex (Es n) = u) \<longrightarrow> ledger_ok (w_ledger w) \<longrightarrow> calls_recorded (core w) \<longrightarrow>
     calls_recorded (core (snd (m Es w))))"

named_theorems audited_intro \<open>programs whose adapter calls are recorded\<close>

lemma audited_acts: "audited u m \<Longrightarrow> acts u m"
  by (simp add: audited_def)

lemma auditedD:
  assumes "audited u m" "m Es w = (r, v)" "\<forall>n. uuid_hex (Es n) = u" "ledger_ok (w_ledger w)" "calls_recorded (core w)"
  shows "calls_recorded (core v)"
  using assms unfolding audited_def by (metis snd_conv)

lemma auditedI:
  assumes "acts u m" "\<And>Es w r v. m Es w = (r, v) \<Longrightarrow> \<forall>n. uuid_hex (Es n) = u \<Longrightarrow> ledger_ok (w_ledger w) \<Longrightarrow> calls_recorded (core w) \<Longrightarrow> calls_recorded (core v)"
  shows "audited u m"
  unfolding audited_def using assms by (metis prod.collapse)

lemma invocations_grow:
  assumes "actions u L L'" "r \<in> set (adapter_invocations L)"
  shows "\<exists>r' \<in> set (adapter_invocations L'). ai_id r' = ai_id r"
proof -
  have "prefix (map ai_id (adapter_invocations L)) (map ai_id (adapter_invocations L'))"
    using actions_history[OF assms(1)] by (simp add: history_def evidence_grows_def)
  then have "ai_id r \<in> set (map ai_id (adapter_invocations L'))" using assms(2) set_mono_prefix by fastforce
  then show ?thesis by force
qed

lemma recorded_grows: "actions u L L' \<Longrightarrow> calls_recorded (L, es) \<Longrightarrow> calls_recorded (L', es)"
  unfolding calls_recorded_def using invocations_grow by fastforce

lemma audited_silent: assumes "acts u m" "stays same_effects m" shows "audited u m"
proof (rule auditedI[OF assms(1)])
  fix Es w r v
  assume m: "m Es w = (r, v)" "\<forall>n. uuid_hex (Es n) = u" "ledger_ok (w_ledger w)" "calls_recorded (core w)"
  have "actions u (w_ledger w) (w_ledger v)" using actsD[OF assms(1) m(1-3)] by (simp add: extends_world_def)
  then show "calls_recorded (core v)" using recorded_grows m(4) silent_run[OF assms(2) m(1)] by (simp add: core_def)
qed

lemma audited_pure [audited_intro]: "audited u (ret x)" "audited u (raise e)" "audited u (liftP q)" "audited u (query f)"
  "audited u memo" "audited u (set_memo g)" "audited u (ask h)"
  by (rule audited_silent; intro acts_intro frame_intro)+

lemma audited_call: "acts u (call f :: ('m, 'a) prog) \<Longrightarrow> audited u (call f :: ('m, 'a) prog)"
  by (rule audited_silent[OF _ silent_call])

lemma audited_bind [audited_intro]: assumes "audited u m" "\<And>x. audited u (f x)" shows "audited u (bindP m f)"
proof (rule auditedI)
  show "acts u (bindP m f)" using assms by (intro acts_intro) (simp_all add: audited_acts)
  fix Es w r v
  assume run: "bindP m f Es w = (r, v)" and h: "\<forall>n. uuid_hex (Es n) = u" "ledger_ok (w_ledger w)" "calls_recorded (core w)"
  obtain q t where m: "m Es w = (q, t)" by (cases "m Es w")
  have t: "calls_recorded (core t)" by (rule auditedD[OF assms(1) m h])
  have ok: "ledger_ok (w_ledger t)" using extends_ok[OF actsD[OF audited_acts[OF assms(1)] m h(1,2)] h(2)] .
  show "calls_recorded (core v)"
  proof (cases q)
    case (Inl e)
    then show ?thesis using t run m by (simp add: bindP_def)
  next
    case (Inr x)
    then have "f x Es t = (r, v)" using run m by (simp add: bindP_def)
    then show ?thesis using auditedD[OF assms(2) _ h(1) ok t] by blast
  qed
qed

lemma audited_tried [audited_intro]: assumes "audited u m" shows "audited u (tried m)"
proof (rule auditedI)
  show "acts u (tried m)" using assms by (intro acts_intro) (rule audited_acts)
  fix Es w r v
  assume "tried m Es w = (r, v)" and h: "\<forall>n. uuid_hex (Es n) = u" "ledger_ok (w_ledger w)" "calls_recorded (core w)"
  then obtain q where "m Es w = (q, v)" by (auto simp: tried_def split: prod.splits)
  then show "calls_recorded (core v)" using auditedD[OF assms _ h] by blast
qed

lemma audited_with_memo [audited_intro]: assumes "audited u m" shows "audited u (with_memo s m)"
proof (rule auditedI)
  show "acts u (with_memo s m)" using assms by (intro acts_intro) (rule audited_acts)
  fix Es and w :: "'c world" and r v
  assume run: "with_memo s m Es w = (r, v)" and h: "\<forall>n. uuid_hex (Es n) = u" "ledger_ok (w_ledger w)" "calls_recorded (core w)"
  let ?w = "\<lparr>w_calls = w_calls w, w_ledger = w_ledger w, w_effects = w_effects w, w_memo = s\<rparr>"
  obtain q t where m: "m Es ?w = (q, t)" by (cases "m Es ?w")
  have "calls_recorded (core t)" using auditedD[OF assms m h(1)] h(2,3) by (simp add: core_def)
  then show "calls_recorded (core v)" using run m by (auto simp: with_memo_def core_def)
qed

lemma audited_if [audited_intro]: "(b \<Longrightarrow> audited u m) \<Longrightarrow> (\<not> b \<Longrightarrow> audited u n) \<Longrightarrow> audited u (if b then m else n)"
  by simp

lemma audited_option [audited_intro]: "(x = None \<Longrightarrow> audited u m) \<Longrightarrow> (\<And>a. x = Some a \<Longrightarrow> audited u (f a)) \<Longrightarrow>
    audited u (case x of None \<Rightarrow> m | Some a \<Rightarrow> f a)"
  by (cases x) auto

lemma audited_sum [audited_intro]: "(\<And>e. x = Inl e \<Longrightarrow> audited u (g e)) \<Longrightarrow> (\<And>a. x = Inr a \<Longrightarrow> audited u (f a)) \<Longrightarrow>
    audited u (case x of Inl e \<Rightarrow> g e | Inr a \<Rightarrow> f a)"
  by (cases x) auto

lemma audited_prod [audited_intro]: "(\<And>a b. x = (a, b) \<Longrightarrow> audited u (f a b)) \<Longrightarrow> audited u (case x of (a, b) \<Rightarrow> f a b)"
  by (cases x) auto

section \<open>Recording, then calling\<close>

lemma one_call_tried: "one_call i m \<Longrightarrow> one_call i (tried m)"
  unfolding one_call_def tried_def by (auto split: prod.splits)

lemma one_call_acts: "one_call i m \<Longrightarrow> acts u m"
  by (rule actsI) (fastforce simp: one_call_def extends_world_def)

lemma recorded_snoc:
  assumes "calls_recorded (L, es)" "\<exists>r \<in> set (adapter_invocations L). ai_id r = inv_id i"
  shows "calls_recorded (L, es @ [Adapter_called i x])"
  unfolding calls_recorded_def
proof (intro allI impI)
  fix j y assume "Adapter_called j y \<in> set (snd (L, es @ [Adapter_called i x]))"
  then consider "Adapter_called j y \<in> set es" | "j = i" by auto
  then show "\<exists>r \<in> set (adapter_invocations (fst (L, es @ [Adapter_called i x]))). ai_id r = inv_id j"
    using assms by cases (auto simp: calls_recorded_def)
qed

lemma audited_recorded_call:
  fixes m :: "('m, 'a) prog" and f :: "'a \<Rightarrow> ('m, 'b) prog"
  assumes one: "one_call i m" and f: "\<And>x. audited u (f x)"
  shows "audited u (bindP (call (\<lambda>E. record_adapter_invocation_started E i rq a sc at)) (\<lambda>_. bindP m f))"
proof (rule auditedI)
  let ?rec = "call (\<lambda>E. record_adapter_invocation_started E i rq a sc at) :: ('m, unit) prog"
  have rec: "acts u ?rec" by (intro acts_intro)
  show "acts u (bindP ?rec (\<lambda>_. bindP m f))" by (rule acts_bind[OF rec], rule acts_bind[OF one_call_acts[OF one]], rule audited_acts, rule f)
  fix Es w r v
  assume run: "bindP ?rec (\<lambda>_. bindP m f) Es w = (r, v)" and h: "\<forall>n. uuid_hex (Es n) = u" "ledger_ok (w_ledger w)" "calls_recorded (core w)"
  obtain q t where rec_run: "?rec Es w = (q, t)" by (cases "?rec Es w")
  have t: "calls_recorded (core t)" by (rule auditedD[OF audited_call[OF rec] rec_run h])
  show "calls_recorded (core v)"
  proof (cases q)
    case (Inl e)
    then show ?thesis using t run rec_run by (simp add: bindP_def)
  next
    case (Inr x)
    obtain p s where m: "m Es t = (p, s)" by (cases "m Es t")
    have row: "\<exists>r \<in> set (adapter_invocations (w_ledger t)). ai_id r = inv_id i"
      using recording_records rec_run unfolding Inr by blast
    have same: "w_ledger s = w_ledger t" "w_effects s = w_effects t \<or> (\<exists>x. w_effects s = w_effects t @ [Adapter_called i x])"
      using one m unfolding one_call_def by blast+
    have s: "calls_recorded (core s)" using same(2) t recorded_snoc[OF _ row] unfolding core_def same(1) by auto
    have ok: "ledger_ok (w_ledger s)" using extends_ok[OF actsD[OF rec rec_run h(1,2)] h(2)] same(1) by simp
    have rest: "bindP m f Es t = (r, v)" using run rec_run Inr by (simp add: bindP_def)
    show ?thesis
    proof (cases p)
      case (Inl e)
      then show ?thesis using s rest m by (simp add: bindP_def)
    next
      case (Inr y)
      then have "f y Es s = (r, v)" using rest m by (simp add: bindP_def)
      then show ?thesis using auditedD[OF f _ h(1) ok s] by blast
    qed
  qed
qed

lemma audited_perform [audited_intro]: "audited u (perform_invocation k out s run reg g policy c rendered i input)"
  unfolding perform_invocation_def
  by (rule audited_recorded_call) (intro acts_intro one_call_tried one_call_registered audited_intro audited_silent frame_intro)+

section \<open>The entry points\<close>

text \<open>Whatever acts through the ledger and calls no adapter is audited.\<close>

lemma acts_denied [acts_intro]: "acts u (denied k s run reg operation g policy c fallback b)"
  unfolding denied_def Let_def by (intro acts_intro)

lemma audited_stage_parts [audited_intro]:
  "audited u (preflight s run request now)" "audited u (blocked fc reason)" "audited u (blocked_with receipt reason r)"
  "audited u (denied k s run reg operation g policy c fallback b)" "audited u (handle_gate k out now s run c)" "audited u draw_hex"
  "audited u (render_stage_context k out s run reg' g policy)" "audited u (stamp now)"
  "audited u (call (\<lambda>E. record_stage_run_prompt_context i ph cr ch rch))"
  by (rule audited_silent; (intro acts_intro frame_intro | (unfold stamp_def, intro frame_intro)))+

lemma audited_prompts [audited_intro]:
  "(\<And>x. audited u (go x)) \<Longrightarrow> audited u (with_prompts k out s run c reg g policy go)"
  unfolding with_prompts_def by (intro audited_intro) auto

lemma audited_handle_stage [audited_intro]: "audited u (handle_stage k out now run)"
  unfolding handle_stage_def handle_work_def run_stage_def invoke_stage_def Let_def by (intro audited_intro)

lemma silent_runner [frame_intro]: "stays same_effects (settle_result owner now i t r)" "stays same_effects (record_result r)"
  "stays same_effects (claim_run owner inst secs res pr ctx now)"
  unfolding settle_result_def record_result_def claim_run_def Let_def by (intro frame_intro)+

lemma audited_runner [audited_intro]: "audited u (settle_result owner now i t r)" "audited u (record_result r)"
  "audited u (claim_run owner inst secs res pr ctx now)" "audited u (call (\<lambda>E. sweep_stale_leases E now a))"
  "audited u (call (\<lambda>E. mark_stage_run_started E i t a ow idem scope fam ad op rh now))"
  "audited u (call (\<lambda>E. fail_stage_run E i t fc fs SR_FAILED ra now a ow))"
  by (rule audited_silent; (intro acts_intro frame_intro; simp))+

lemma audited_pass [audited_intro]: "(\<And>run. audited u (h run)) \<Longrightarrow> audited u (run_pass owner h inst secs res pr ctx now)"
  unfolding run_pass_def start_claimed_def handle_and_settle_def Let_def by (intro audited_intro)

lemma silent_after [frame_intro]: "stays same_effects (after_decision k run s d m now)"
  unfolding after_decision_def after_success_def after_waiting_def note_stage_def advance_after_outcome_def follow_transition_def
    block_workflow_def block_transition_guard_def queue_stage_def human_gate_def stamp_def Let_def
  by (intro frame_intro)

lemma audited_after [audited_intro]: "audited u (after_decision k run s d m now)"
  by (rule audited_silent; intro acts_intro frame_intro)

lemma audited_run_once [audited_intro]: "audited u (run_once k out inst secs now)"
  unfolding run_once_def kernel_pass_def by (intro audited_intro)

lemma silent_context [frame_intro]: "stays same_effects (waiting_human_gate_context k i)"
  "stays same_effects (require_surface_policy_allows k run s g reg operation now)"
  "stays same_effects (record_surface_outcome k run v g rh ex ec es receipt event items c)"
  unfolding waiting_human_gate_context_def require_surface_policy_allows_def record_surface_outcome_def human_gate_def by (intro frame_intro)+

lemma audited_context [audited_intro]: "audited u (waiting_human_gate_context k i)"
  "audited u (require_surface_policy_allows k run s g reg operation now)"
  "event \<noteq> ''stage_started'' \<Longrightarrow> audited u (record_surface_outcome k run v g rh ex ec es receipt event items c)"
  by (rule audited_silent; (intro acts_intro frame_intro; simp))+

lemma silent_ingest [frame_intro]: "stays same_effects (ingest_human_decision k i d now)"
  unfolding ingest_human_decision_def refuse_def block_waiting_human_run_def block_workflow_def decision_error_def human_gate_def
    accept_decision_def unrouted_decision_def routed_decision_def advance_after_outcome_def follow_transition_def
    block_transition_guard_def queue_stage_def stamp_def Let_def
  by (intro frame_intro)

lemma audited_ingest [audited_intro]: "audited u (ingest_human_decision k i d now)"
  "audited u (act_on_surface_decision k run i decided now)"
  unfolding act_on_surface_decision_def block_waiting_human_run_def block_workflow_def
  by (rule audited_silent; (intro acts_intro frame_intro; simp))+

lemma audited_surface_call:
  "(\<And>x. audited u (f x)) \<Longrightarrow> audited u (bindP (record_surface_call k s reg g v key subject c) (\<lambda>_. bindP (asking out v x h) f))"
  unfolding record_surface_call_def by (rule audited_recorded_call[OF one_call_asking])

lemma audited_surfaces [audited_intro]: "audited u (publish_waiting_human_gate k out i o' now)"
  "audited u (readback_human_gate_surface k out i given ref now)" "audited u (ingest_human_gate_surface_decision k out i given o' now)"
  unfolding publish_waiting_human_gate_def readback_human_gate_surface_def ingest_human_gate_surface_decision_def record_ingestion_def Let_def
  by (intro audited_surface_call audited_intro; simp)+

section \<open>The owned loop on an audited kernel\<close>

text \<open>The contract the runner has with the kernel it drives: every operation of the facade is audited.\<close>

locale audited_facade =
  fixes u :: "nat \<Rightarrow> string" and f :: "'m facade"
  assumes step: "audited u (fc_run_once f i now)"
    and publish: "audited u (fc_publish f i o' now)"
    and readback: "audited u (fc_readback f i ref o' now)"
    and ingest: "audited u (fc_ingest f i ref o' human now)"
    and review: "fc_reviewer f = Some r \<Longrightarrow> audited u (r ref x)"
begin

lemma audited_gates:
  "audited u (publish_gate f i g now ref s)" "audited u (readback_gate f i g now r s)" "audited u (ingest_gate f i g now ref s)"
  unfolding publish_gate_def readback_gate_def review_gate_def ingest_gate_def Let_def
  by (intro audited_intro publish readback ingest review; assumption)+

lemma audited_iteration: "audited u (owned_iteration f i g now s)"
  unfolding owned_iteration_def waiting_iteration_def working_iteration_def Let_def
  by (intro audited_intro audited_gates step)

lemma audited_loop: "audited u (owned_loop n f i g now s)"
  by (induction n arbitrary: s) (auto intro!: audited_intro audited_iteration)

lemma audited_next: "audited u (next_owned_instance_id w human now)"
  by (rule audited_silent) (auto intro!: actsI staysI extends_refl simp: next_owned_instance_id_def core_def same_effects_def)

lemma audited_owned_run: "audited u (run_kernel_until_idle f inst n g now)"
  unfolding run_kernel_until_idle_def Let_def by (intro audited_intro audited_next audited_loop)

end

interpretation kernel_facade: audited_facade u "kernel_facade k out None" for u k out
  by unfold_locales (auto simp: kernel_facade_def plain_surface_result_def intro!: audited_intro)

section \<open>Sequences of kernel calls\<close>

datatype kernel_call =
    Start string mapping_items "string option" ts_arg
  | Run_once "string option" "int option" ts_arg
  | Ingest_decision string "HumanApprovalReceipt option" ts_arg
  | Publish_gate string gate_options ts_arg
  | Readback_gate string "mapping_items option" "string option" ts_arg
  | Ingest_surface string "mapping_items option" gate_options ts_arg
  | Owned_run "string option" int gate_options ts_arg

definition attempted :: "('m, 'a) prog \<Rightarrow> ('m, unit) prog" where
  "attempted m = bindP (tried m) (\<lambda>_. ret ())"

text \<open>A call, whose result or exception goes to the caller.\<close>

definition kernel_call :: "kernel \<Rightarrow> outside \<Rightarrow> kernel_call \<Rightarrow> ('m, unit) prog" where
  "kernel_call k out c = (case c of
     Start i inputs idem now \<Rightarrow> attempted (start k i inputs idem now)
   | Run_once inst secs now \<Rightarrow> attempted (run_once k out inst secs now)
   | Ingest_decision i d now \<Rightarrow> attempted (ingest_human_decision k i d now)
   | Publish_gate i g now \<Rightarrow> attempted (publish_waiting_human_gate k out i g now)
   | Readback_gate i ref a now \<Rightarrow> attempted (readback_human_gate_surface k out i ref a now)
   | Ingest_surface i ref g now \<Rightarrow> attempted (ingest_human_gate_surface_decision k out i ref g now)
   | Owned_run inst n g now \<Rightarrow> attempted (run_kernel_until_idle (kernel_facade k out None) inst n g now))"

text \<open>Calls of any kernels, over any workflows, in any order, against the one ledger.\<close>

fun kernel_calls :: "outside \<Rightarrow> (kernel \<times> kernel_call) list \<Rightarrow> ('m, unit) prog" where
  "kernel_calls out [] = ret ()"
| "kernel_calls out ((k, c) # cs) = bindP (kernel_call k out c) (\<lambda>_. kernel_calls out cs)"

definition empty_world :: "unit world" where
  "empty_world = \<lparr>w_calls = 0, w_ledger = empty_ledger, w_effects = [], w_memo = ()\<rparr>"

lemma stays_list [frame_intro]: "(xs = [] \<Longrightarrow> stays R m) \<Longrightarrow> (\<And>y ys. xs = y # ys \<Longrightarrow> stays R (f y ys)) \<Longrightarrow>
    stays R (case xs of [] \<Rightarrow> m | y # ys \<Rightarrow> f y ys)"
  by (cases xs) auto

lemma silent_start [frame_intro]: "stays same_effects (start k i inputs idem now)"
  unfolding start_def stamp_def queue_stage_def Let_def by (intro frame_intro)

lemma audited_attempted [audited_intro]: "audited u m \<Longrightarrow> audited u (attempted m)"
  unfolding attempted_def by (intro audited_intro)

lemma audited_start [audited_intro]: "audited u (start k i inputs idem now)"
  by (rule audited_silent; intro acts_intro frame_intro)

lemma audited_kernel_call [audited_intro]: "audited u (kernel_call k out c)"
  unfolding kernel_call_def by (cases c) (auto intro!: audited_intro kernel_facade.audited_owned_run)

lemma audited_kernel_calls: "audited u (kernel_calls out cs)"
  by (induction cs rule: kernel_calls.induct; simp only: kernel_calls.simps; intro audited_intro)

end
