(* ===== verification/Kernel_Progress.thy ===== *)
theory Kernel_Progress
  imports Kernel_Machine
begin

text \<open>
  The properties of the kernel as a whole: its invariants over any sequence of calls, and that a
  pass takes work whenever there is some.
\<close>

section \<open>Invariants of every history\<close>

definition fixed_uuids :: "(nat \<Rightarrow> string) \<Rightarrow> (nat \<Rightarrow> env) \<Rightarrow> bool" where
  "fixed_uuids u Es \<longleftrightarrow> (\<forall>n. uuid_hex (Es n) = u)"

lemma kernel_calls_keep:
  assumes "kernel_calls out cs Es w = (r, v)" "fixed_uuids u Es" "ledger_inv u (w_ledger w)" "calls_recorded (core w)"
  shows "ledger_inv u (w_ledger v) \<and> history (w_ledger w) (w_ledger v) \<and> prefix (w_effects w) (w_effects v) \<and> calls_recorded (core v)"
proof -
  have u: "\<forall>n. uuid_hex (Es n) = u" using assms(2) by (simp add: fixed_uuids_def)
  have "ledger_ok (w_ledger w)" using assms(3) by (simp add: ledger_inv_def)
  then show ?thesis
    using acts_keeps[OF audited_acts[OF audited_kernel_calls] assms(1) u assms(3)] auditedD[OF audited_kernel_calls assms(1) u _ assms(4)]
    by simp
qed

lemma empty_world_inv: "ledger_inv u (w_ledger empty_world)" "calls_recorded (core empty_world)"
  by (simp_all add: empty_world_def ledger_inv_empty calls_recorded_def core_def)

text \<open>
  C3. Over any sequence of calls of the kernel's entry points (starting instances, passes,
  decisions, surface operations and owned runs of any kernels, with any adapters, raising or not)
  the ledger keeps its keys and references, no run starts twice, leases stay exclusive when the
  uuid supply does not repeat, and every adapter call ever made is an invocation of the ledger.
\<close>

theorem kernel_history_audited:
  assumes "kernel_calls out cs Es empty_world = (r, v)" "fixed_uuids u Es"
  shows "ledger_ok (w_ledger v) \<and> starts_ok (w_ledger v) \<and> (inj u \<longrightarrow> leases_ok u (w_ledger v)) \<and>
    (\<forall>i x. Adapter_called i x \<in> set (w_effects v) \<longrightarrow> (\<exists>row \<in> set (adapter_invocations (w_ledger v)). ai_id row = inv_id i))"
  using kernel_calls_keep[OF assms empty_world_inv] by (simp add: ledger_inv_def calls_recorded_def core_def)

lemma kernel_history_audited_witness:
  "\<exists>v. kernel_calls adapter_up [(work_kernel, Start ''i'' [] None TsNone), (work_kernel, Run_once None None TsNone)] (\<lambda>n. demo_env) empty_world = (Inr (), v) \<and>
     ledger_ok (w_ledger v) \<and> fixed_uuids (uuid_hex demo_env) (\<lambda>n. demo_env)"
proof -
  have u: "fixed_uuids (uuid_hex demo_env) (\<lambda>n. demo_env)" by (simp add: fixed_uuids_def)
  have t: "\<exists>v. attempted m Es w = (Inr (), v)" for m :: "(unit, 'a) prog" and Es w
    by (cases "m Es w") (simp add: attempted_def tried_def bindP_def)
  have c: "\<exists>v. kernel_call k adapter_up c Es w = (Inr (), v)" for k c Es and w :: "unit world"
    unfolding kernel_call_def by (cases c) (simp_all only: kernel_call.case t)
  obtain w1 where 1: "kernel_call work_kernel adapter_up (Start ''i'' [] None TsNone) (\<lambda>n. demo_env) empty_world = (Inr (), w1)" using c by blast
  obtain v where 2: "kernel_call work_kernel adapter_up (Run_once None None TsNone) (\<lambda>n. demo_env) w1 = (Inr (), v)" using c by blast
  have v: "kernel_calls adapter_up [(work_kernel, Start ''i'' [] None TsNone), (work_kernel, Run_once None None TsNone)] (\<lambda>n. demo_env) empty_world = (Inr (), v)"
    using 1 2 by (simp add: bindP_def)
  then show ?thesis using kernel_history_audited[OF v u] u by blast
qed

section \<open>Progress\<close>

lemma queued_survives_sweep:
  assumes "sweep_stale_leases E now a L = Inr (report, L')" "ledger_ok L" "iso_timestamp (clock E 0) now = Inr at" "coerce_datetime E at = Inr m"
    "r \<in> set (stage_runs L)" "sr_status r = SR_QUEUED"
  shows "r \<in> set (stage_runs L')"
proof -
  have "\<not> active_lease (sr_status r)" using assms(6) by (simp add: active_lease_def)
  then have "stale_verdict L r = None" using stale_verdict_active by blast
  then have "sweep_verdict E m L r = None" by (simp add: sweep_verdict_def)
  then have same: "r = (if sr_lease_token r \<noteq> None then swept E m at L r else r)" by (simp add: swept_def)
  have rows: "stage_runs L' = map (\<lambda>r. if sr_lease_token r \<noteq> None then swept E m at L r else r) (stage_runs L)"
    using sweep_effect[OF assms(1-4)] by blast
  show ?thesis unfolding rows set_map by (rule image_eqI[where x = r]) (rule same, rule assms(5))
qed

lemma nothing_claimed:
  assumes "claim_run owner inst secs res pr ctx now Es w = (Inr None, v)" "iso_timestamp (clock (Es (w_calls w)) 0) now = Inr at"
    "r \<in> set (stage_runs (w_ledger w))" "claimable at inst r"
  shows "accepts pr r = Inr False"
proof -
  let ?E = "Es (w_calls w)" and ?L = "w_ledger w\<lparr>uuid_draws := Suc (uuid_draws (w_ledger w))\<rparr>"
  obtain L where c: "claim_next_queued_run ?E owner inst secs res pr ctx now (w_ledger w) = Inr (Inr None, L)"
    using assms(1) unfolding claim_run_def by (auto simp: bindP_Inr call_Inr)
  obtain candidate where candidate: "claim_candidate at inst pr ?L = Inr candidate"
    using c assms(2) unfolding claim_next_queued_run_def by (auto simp: bindE_eq_Inr next_uuid_def Let_def)
  have "candidate = None"
  proof (rule ccontr)
    assume "candidate \<noteq> None"
    then show False using c assms(2) candidate unfolding claim_next_queued_run_def
      by (auto simp: bindE_eq_Inr next_uuid_def Let_def split: option.split_asm)
  qed
  then have "claim_candidate at inst pr ?L = Inr None" using candidate by simp
  then show ?thesis using assms(3,4) unfolding claim_candidate_draws claim_candidate_none by blast
qed

lemma settled_not_idle: "settle_result owner now i t r Es w = (Inr x, v) \<Longrightarrow> rr_decision r \<noteq> ''idle''"
  by (auto simp: settle_result_def Let_def split: if_splits)

lemma handled_not_idle:
  assumes "handle_and_settle owner now t h run Es w = (Inr step, v)"
  shows "rs_stage_run step \<noteq> None \<and> rs_decision step \<noteq> ''idle''"
proof -
  obtain outcome u where "(case outcome of
       Inl exc \<Rightarrow> bindP (call (\<lambda>E. fail_stage_run E (run_id run) t (failure_value FC_RUNTIME_FAILURE) (exception_text exc)
             SR_FAILED TsNone now owner (Some owner))) (\<lambda>_. ret \<lparr>rs_stage_run = Some run, rs_decision = ''failed''\<rparr>)
     | Inr result \<Rightarrow> bindP (record_result result) (\<lambda>_. bindP (settle_result owner now (run_id run) t result) (\<lambda>_.
         ret \<lparr>rs_stage_run = Some run, rs_decision = rr_decision result\<rparr>))) Es u = (Inr step, v)"
    using assms unfolding handle_and_settle_def bindP_Inr[where m = "tried (h run)"] by blast
  then show ?thesis by (cases outcome) (auto simp: bindP_Inr dest: settled_not_idle)
qed

lemma claimed_not_idle:
  assumes "start_claimed owner now h run Es w = (Inr step, v)"
  shows "rs_stage_run step \<noteq> None \<and> rs_decision step \<noteq> ''idle''"
proof -
  have "returns (\<lambda>step v. rs_stage_run step \<noteq> None \<and> rs_decision step \<noteq> ''idle'') (start_claimed owner now h run)"
    unfolding start_claimed_def Let_def by (intro returns_intro) (rule returnsI, erule handled_not_idle)
  then show ?thesis using assms by (rule returnsD)
qed

text \<open>The queued run, a kernel without adapters, and one pass: the stage blocks for want of its adapter.\<close>

definition idle_world :: "unit world" where
  "idle_world = \<lparr>w_calls = 0, w_ledger = run_trace queueing empty_ledger, w_effects = [], w_memo = ()\<rparr>"

lemma loop_stage_found: "stage_by_id (k_workflow loop_kernel) ''s'' = Some (loop_stage ''s'')"
  by (simp add: loop_kernel_def loop_workflow_def stage_by_id_def loop_stage_def)

lemma loop_lease: "run_stage_id run = ''s'' \<Longrightarrow> resolve_lease_for_run loop_kernel (Some 60) run =
    Inr \<lparr>lp_lease_seconds = 60, lp_source = ''runner_override'', lp_source_ref = ''WorkflowKernel.run_once.lease_seconds'', lp_actor_ref = None\<rparr>"
  by (simp add: resolve_lease_for_run_def resolve_stage_lease_policy_def positive_int_def loop_stage_found)
    (simp add: loop_stage_def actor_ref_def)

lemma loop_eligible: "run_stage_id run = ''s'' \<Longrightarrow> stage_claim_is_platform_eligible loop_kernel run"
  by (simp add: stage_claim_is_platform_eligible_def loop_stage_found) (simp add: loop_stage_def dict_get_def none_or_empty_def)

definition no_adapter :: string where
  "no_adapter = ''missing adapter registration: runtime.x''"

lemma loop_handled:
  assumes "run_stage_id run = ''s''" "run_instance_id run = ''i''" "definition_mismatch_summary loop_kernel ''i'' (w_ledger w) = None"
  shows "handle_stage loop_kernel out TsNone run (\<lambda>n. demo_env) w = (Inr (blocked_result FC_ADAPTER_UNAVAILABLE no_adapter),
    w\<lparr>w_calls := Suc (w_calls w), w_memo := (w_memo w)\<lparr>ss_failure_summary := Some no_adapter\<rparr>\<rparr>)"
  using assms loop_stage_found
  by (simp add: handle_stage_def handle_work_def stamp_def ask_def bindP_def iso_timestamp_def blocked_def Let_def)
    (simp add: loop_stage_def loop_kernel_def resolve_def registered_def blocked_def bindP_def no_adapter_def)

lemma no_adapter_ne [simp]: "no_adapter \<noteq> []"
  by (simp add: no_adapter_def)

lemma loop_stage_type: "sd_type (loop_stage ''s'') = ST_AGENT_WORK"
  by (simp add: loop_stage_def)

lemma pass_demo: "\<exists>step v. run_once loop_kernel adapter_up None (Some 60) TsNone (\<lambda>n. demo_env) idle_world = (Inr step, v)"
  by (simp add: run_once_def kernel_pass_def with_memo_def idle_world_def run_pass_def ledger_eval Let_def loop_lease loop_eligible
     loop_handled definition_mismatch_summary_def blocked_result_def block_stage_run_def)
    (simp add: loop_stage_found loop_stage_type after_decision_def note_stage_def update_workflow_instance_def bindP_def call_def ledger_eval Let_def)

text \<open>
  C6. A pass of the kernel makes progress: when a queued run is due, in the pass's scope and
  eligible for this worker, a pass that returns has taken some run and is not idle.
\<close>

theorem pass_takes_eligible_work:
  assumes "run_once k out inst secs now Es w = (Inr step, v)" "ledger_ok (w_ledger w)"
    "iso_timestamp (clock (Es (w_calls w)) 0) now = Inr at" "coerce_datetime (Es (w_calls w)) at = Inr m"
    "iso_timestamp (clock (Es (Suc (w_calls w))) 0) now = Inr at'"
    "r \<in> set (stage_runs (w_ledger w))" "claimable at' inst r" "stage_run_from_row r = Inr run" "stage_claim_is_platform_eligible k run"
  shows "ks_stage_run step \<noteq> None \<and> ks_decision step \<noteq> ''idle''"
proof -
  let ?w = "\<lparr>w_calls = w_calls w, w_ledger = w_ledger w, w_effects = w_effects w, w_memo = fresh_state\<rparr>"
  let ?res = "Some (resolve_lease_for_run k secs)" and ?pr = "Some (\<lambda>run. Inr (stage_claim_is_platform_eligible k run))"
  let ?ctx = "[(''worker_platform'', opt_str (k_worker_platform k))]"
  obtain p m' u where pass: "kernel_pass k out inst secs now Es w = (Inr (p, m'), u)"
    and rest: "(case rs_stage_run p of
       None \<Rightarrow> ret \<lparr>ks_stage_run = None, ks_decision = ''idle'', ks_adapter_result = None, ks_receipt_id = None, ks_failure_summary = None\<rparr>
     | Some run \<Rightarrow> (case stage_by_id (k_workflow k) (run_stage_id run) of
           None \<Rightarrow> ret (kernel_step run (rs_decision p) m' None)
         | Some s \<Rightarrow> bindP (after_decision k run s (rs_decision p) m' now) (\<lambda>block. ret (kernel_step run (rs_decision p) m' block)))) Es u = (Inr step, v)"
    using assms(1) unfolding run_once_def by (auto simp: bindP_Inr)
  obtain u' where run: "run_pass (k_owner k) (handle_stage k out now) inst PNone ?res ?pr ?ctx now Es ?w = (Inr p, u')"
    using pass unfolding kernel_pass_def with_memo_def by (auto simp: bindE_eq_Inr split: prod.splits)
  obtain x w1 c w2 where sweep: "call (\<lambda>E. sweep_stale_leases E now (k_owner k)) Es ?w = (Inr x, w1)"
    and claim: "claim_run (k_owner k) inst PNone ?res ?pr ?ctx now Es w1 = (Inr c, w2)"
    and rest1: "(case c of None \<Rightarrow> ret \<lparr>rs_stage_run = None, rs_decision = ''idle''\<rparr>
      | Some run \<Rightarrow> start_claimed (k_owner k) now (handle_stage k out now) run) Es w2 = (Inr p, u')"
    using run unfolding run_pass_def by (auto simp: bindP_Inr)
  have w1: "w_calls w1 = Suc (w_calls w)" "sweep_stale_leases (Es (w_calls w)) now (k_owner k) (w_ledger w) = Inr (x, w_ledger w1)"
    using sweep by (auto simp: call_Inr)
  have r1: "r \<in> set (stage_runs (w_ledger w1))"
    by (rule queued_survives_sweep[OF w1(2) assms(2-4,6)]) (use assms(7) in \<open>simp add: claimable_def\<close>)
  have "c \<noteq> None"
  proof
    assume "c = None"
    then have "accepts ?pr r = Inr False"
      using nothing_claimed[of "k_owner k" inst PNone ?res ?pr ?ctx now Es w1 w2 at' r] claim assms(5,7) r1 w1(1) by simp
    then show False using assms(8,9) by (simp add: accepts_def)
  qed
  then obtain claimed where "start_claimed (k_owner k) now (handle_stage k out now) claimed Es w2 = (Inr p, u')" using rest1 by auto
  then have p: "rs_stage_run p \<noteq> None" "rs_decision p \<noteq> ''idle''" using claimed_not_idle by blast+
  then obtain taken where taken: "rs_stage_run p = Some taken" by auto
  show ?thesis
  proof (cases "stage_by_id (k_workflow k) (run_stage_id taken)")
    case None
    then show ?thesis using rest p(2) by (auto simp: taken kernel_step_def)
  next
    case (Some s)
    then show ?thesis using rest p(2) by (auto simp: taken bindP_Inr kernel_step_def split: if_splits)
  qed
qed

lemma pass_takes_eligible_work_witness:
  "\<exists>step v r. run_once loop_kernel adapter_up None (Some 60) TsNone (\<lambda>n. demo_env) idle_world = (Inr step, v) \<and>
     r \<in> set (stage_runs (w_ledger idle_world)) \<and> sr_status r = SR_QUEUED \<and> ks_stage_run step \<noteq> None"
proof -
  obtain step v where run: "run_once loop_kernel adapter_up None (Some 60) TsNone (\<lambda>n. demo_env) idle_world = (Inr step, v)"
    using pass_demo by blast
  have ok: "ledger_ok (w_ledger idle_world)" using demo_ledgers_ok by (simp add: idle_world_def queued_ledger_def del: ledger_ok_def)
  have t: "iso_timestamp (clock demo_env 0) TsNone = Inr (isoformat (Utc 0))" by (simp add: iso_timestamp_def)
  have m: "coerce_datetime demo_env (isoformat (Utc 0)) = Inr (Utc 0)" by simp
  obtain r row where r: "r \<in> set (stage_runs (w_ledger idle_world))" "claimable (isoformat (Utc 0)) None r" "stage_run_from_row r = Inr row"
    "run_stage_id row = ''s''" "sr_status r = SR_QUEUED"
    by (simp add: idle_world_def ledger_eval)
  show ?thesis using pass_takes_eligible_work[OF run ok t m t r(1,2,3) loop_eligible[OF r(4)]] run r(1,5) by blast
qed

end
