(* ===== verification/Workflow_Validation.thy ===== *)
theory Workflow_Validation
  imports Kernel_Routing
begin

text \<open>
  The validation of workflow definitions (\<^verbatim>\<open>validation.py\<close>): of the raw mapping a definition file
  parses to, and of an already built definition, which is validated as the mapping it stands for.
\<close>

section \<open>Checks of one value\<close>

definition invalid :: "string \<Rightarrow> kernel_error + 'a" where
  "invalid text = Inl (WorkflowValidationError text)"

definition require_mapping :: "pyval \<Rightarrow> string \<Rightarrow> kernel_error + mapping_items" where
  "require_mapping v label = (case mapping_of v of Some m \<Rightarrow> Inr m | None \<Rightarrow> invalid (label @ '' must be a mapping''))"

definition require_sequence :: "pyval \<Rightarrow> string \<Rightarrow> kernel_error + pyval list" where
  "require_sequence v label = (case v of PList xs \<Rightarrow> Inr xs | _ \<Rightarrow> invalid (label @ '' must be a sequence''))"

definition require_str :: "pyval \<Rightarrow> string \<Rightarrow> kernel_error + string" where
  "require_str v label = (case v of PStr (c # s) \<Rightarrow> Inr (c # s) | _ \<Rightarrow> invalid (label @ '' must be a non-empty string''))"

definition coerce_stage_type :: "pyval \<Rightarrow> string \<Rightarrow> kernel_error + StageType" where
  "coerce_stage_type v label = (case (case v of PStr s \<Rightarrow> stage_type_of s | _ \<Rightarrow> None) of
     Some t \<Rightarrow> Inr t
   | None \<Rightarrow> invalid (''unknown stage type '' @ py_repr v @ '' at '' @ label @ ''; expected one of: '' @
       join_with '', '' (map stage_type_value all_stage_type)))"

definition validate_optional_lease :: "pyval \<Rightarrow> string \<Rightarrow> kernel_error + unit" where
  "validate_optional_lease v label = (if none_or_empty v then Inr () else
     bindE (require_mapping v label) (\<lambda>lease.
     let unknown = filter (\<lambda>k. k \<noteq> ''seconds'') (map fst lease) in
     if unknown \<noteq> [] then invalid (label @ '' has unknown field(s): '' @ join_with '', '' (sort unknown))
     else if \<not> has_key lease ''seconds'' then invalid (label @ ''.seconds is required'')
     else (case dict_get lease ''seconds'' of
         PInt n \<Rightarrow> if 0 < n then Inr () else invalid (label @ ''.seconds must be a positive integer'')
       | _ \<Rightarrow> invalid (label @ ''.seconds must be a positive integer''))))"

section \<open>Stages\<close>

definition required_top_level_sections :: "string list" where
  "required_top_level_sections = [''schema'', ''workflow'', ''inputs'', ''stages'', ''transitions'']"

definition required_workflow_fields :: "string list" where
  "required_workflow_fields = [''id'', ''version'', ''name'']"

definition required_stage_fields :: "string list" where
  "required_stage_fields = [''id'', ''type'', ''adapter'', ''outcomes'']"

definition allowed_terminal_statuses :: "string list" where
  "allowed_terminal_statuses = map workflow_status_value all_workflow_status"

text \<open>\<open>f"{what}[{index}].{field}"\<close>.\<close>

definition entry_label :: "string \<Rightarrow> nat \<Rightarrow> string" where
  "entry_label what index = what @ ''['' @ show_nat index @ '']''"

definition validate_outcome :: "string \<Rightarrow> string \<Rightarrow> nat \<times> pyval \<Rightarrow> string list \<Rightarrow> kernel_error + string list" where
  "validate_outcome label stage_id = (\<lambda>(index, outcome) seen.
     bindE (require_str outcome (entry_label (label @ ''.outcomes'') index)) (\<lambda>name.
     if name \<in> set seen then invalid (''duplicate outcome '' @ repr_str name @ '' on stage '' @ stage_id) else Inr (seen @ [name])))"

definition validate_platform :: "pyval \<Rightarrow> string \<Rightarrow> kernel_error + unit" where
  "validate_platform policy label = (if policy = PNone then Inr () else
     bindE (require_mapping policy (label @ ''.policy'')) (\<lambda>m.
     if none_or_empty (dict_get m ''required_platform'') then Inr ()
     else bindE (require_str (dict_get m ''required_platform'') (label @ ''.policy.required_platform'')) (\<lambda>_. Inr ())))"

text \<open>The state of the loop: the outcomes of the stages seen so far.\<close>

type_synonym outcomes_by_stage = "(string \<times> string list) list"

definition validate_stage :: "nat \<times> pyval \<Rightarrow> outcomes_by_stage \<Rightarrow> kernel_error + outcomes_by_stage" where
  "validate_stage = (\<lambda>(index, raw) known. let label = entry_label ''stages'' index in
     bindE (require_mapping raw label) (\<lambda>stage.
     bindE (foldE (\<lambda>field _. guardE (has_key stage field \<and> \<not> none_or_empty (dict_get stage field))
        (WorkflowValidationError (label @ ''.'' @ field @ '' is required''))) required_stage_fields ()) (\<lambda>_.
     bindE (require_str (dict_get stage ''id'') (label @ ''.id'')) (\<lambda>stage_id.
     if stage_id \<in> set (map fst known) then invalid (''duplicate stage id: '' @ stage_id) else
     bindE (coerce_stage_type (dict_get stage ''type'') (label @ ''.type'')) (\<lambda>_.
     bindE (require_str (dict_get stage ''adapter'') (label @ ''.adapter'')) (\<lambda>_.
     bindE (validate_optional_lease (dict_get stage ''lease'') (label @ ''.lease'')) (\<lambda>_.
     bindE (validate_platform (dict_get stage ''policy'') label) (\<lambda>_.
     bindE (require_sequence (dict_get stage ''outcomes'') (label @ ''.outcomes'')) (\<lambda>outcomes.
     if outcomes = [] then invalid (label @ ''.outcomes must not be empty'') else
     bindE (foldE (validate_outcome label stage_id) (enumerate 0 outcomes) []) (\<lambda>names.
     Inr (known @ [(stage_id, names)])))))))))))"

section \<open>Transitions\<close>

definition validate_guard :: "pyval \<Rightarrow> string \<Rightarrow> kernel_error + unit" where
  "validate_guard v label = (if none_or_empty v then Inr () else
     bindE (require_str v (label @ ''.guard'')) (\<lambda>name.
     if name \<in> set allowed_transition_guards then Inr ()
     else invalid (''unknown transition guard '' @ repr_str name @ ''; expected one of: '' @ join_with '', '' (sort allowed_transition_guards))))"

definition validate_target :: "outcomes_by_stage \<Rightarrow> mapping_items \<Rightarrow> string \<Rightarrow> kernel_error + unit" where
  "validate_target known t label =
     (if truthy (dict_get t ''to'') then bindE (require_str (dict_get t ''to'') (label @ ''.to'')) (\<lambda>target.
        if target \<in> set (map fst known) then Inr () else invalid (''transition references unknown target stage: '' @ target))
      else bindE (require_str (dict_get t ''terminal'') (label @ ''.terminal'')) (\<lambda>terminal.
        if terminal \<in> set allowed_terminal_statuses then Inr ()
        else invalid (''unknown terminal status '' @ repr_str terminal @ ''; expected one of: '' @ join_with '', '' (sort allowed_terminal_statuses))))"

definition validate_transition :: "outcomes_by_stage \<Rightarrow> nat \<times> pyval \<Rightarrow> (string \<times> string) list \<Rightarrow> kernel_error + (string \<times> string) list" where
  "validate_transition known = (\<lambda>(index, raw) seen. let label = entry_label ''transitions'' index in
     bindE (require_mapping raw label) (\<lambda>t.
     bindE (require_str (dict_get t ''from'') (label @ ''.from'')) (\<lambda>source.
     bindE (require_str (dict_get t ''on'') (label @ ''.on'')) (\<lambda>outcome.
     if (source, outcome) \<in> set seen
     then invalid (''duplicate transition for stage '' @ repr_str source @ '' outcome '' @ repr_str outcome)
     else (case map_of known source of
         None \<Rightarrow> invalid (''transition references unknown from stage: '' @ source)
       | Some outcomes \<Rightarrow>
           if outcome \<notin> set outcomes
           then invalid (''transition outcome '' @ repr_str outcome @ '' is not declared by stage '' @ source)
           else if truthy (dict_get t ''to'') = truthy (dict_get t ''terminal'')
           then invalid (label @ '' must define exactly one of '' @ repr_str ''to'' @ '' or '' @ repr_str ''terminal'')
           else bindE (validate_guard (dict_get t ''guard'') label) (\<lambda>_.
             bindE (validate_target known t label) (\<lambda>_. Inr (seen @ [(source, outcome)]))))))))"

section \<open>The definition\<close>

definition validate_defaults :: "mapping_items \<Rightarrow> kernel_error + unit" where
  "validate_defaults data = (if dict_get data ''defaults'' = PNone then Inr () else
     bindE (require_mapping (dict_get data ''defaults'') ''defaults'') (\<lambda>defaults.
     validate_optional_lease (dict_get defaults ''lease'') ''defaults.lease''))"

definition validate_actors :: "mapping_items \<Rightarrow> kernel_error + unit" where
  "validate_actors data = (if dict_get data ''actors'' = PNone then Inr () else
     bindE (require_mapping (dict_get data ''actors'') ''actors'') (\<lambda>actors.
     foldE (\<lambda>(name, actor) _. case mapping_of actor of None \<Rightarrow> Inr ()
       | Some m \<Rightarrow> validate_optional_lease (dict_get m ''lease'') (''actors.'' @ name @ ''.lease'')) actors ()))"

definition validate_workflow_mapping :: "mapping_items \<Rightarrow> kernel_error + unit" where
  "validate_workflow_mapping data =
     bindE (foldE (\<lambda>section _. guardE (has_key data section)
        (WorkflowValidationError (''missing required top-level section: '' @ section))) required_top_level_sections ()) (\<lambda>_.
     bindE (require_mapping (dict_get data ''workflow'') ''workflow'') (\<lambda>workflow.
     bindE (foldE (\<lambda>field _. guardE (truthy (dict_get workflow field))
        (WorkflowValidationError (''workflow.'' @ field @ '' is required''))) required_workflow_fields ()) (\<lambda>_.
     bindE (require_mapping (dict_get data ''inputs'') ''inputs'') (\<lambda>_.
     bindE (validate_defaults data) (\<lambda>_.
     bindE (validate_actors data) (\<lambda>_.
     bindE (require_sequence (dict_get data ''stages'') ''stages'') (\<lambda>stages.
     bindE (require_sequence (dict_get data ''transitions'') ''transitions'') (\<lambda>transitions.
     bindE (foldE validate_stage (enumerate 0 stages) []) (\<lambda>known.
     bindE (foldE (validate_transition known) (enumerate 0 transitions) []) (\<lambda>_. Inr ()))))))))))"

definition raw_stage :: "StageDef \<Rightarrow> pyval" where
  "raw_stage s = PDict ([(''id'', PStr (sd_id s)), (''type'', PStr (stage_type_value (sd_type s))), (''adapter'', PStr (sd_adapter s)),
     (''outcomes'', str_list (sd_outcomes s))] @ (if sd_lease s = [] then [] else [(''lease'', PDict (sd_lease s))]))"

definition raw_option :: "string \<Rightarrow> string option \<Rightarrow> mapping_items" where
  "raw_option key v = (case v of Some (c # s) \<Rightarrow> [(key, PStr (c # s))] | _ \<Rightarrow> [])"

definition raw_transition :: "Transition \<Rightarrow> pyval" where
  "raw_transition t = PDict ([(''from'', PStr (from_stage t)), (''on'', PStr (tr_on t))] @ raw_option ''to'' (to_stage t) @
     raw_option ''terminal'' (tr_terminal t) @ raw_option ''guard'' (tr_guard t))"

definition validate_workflow_def :: "WorkflowDef \<Rightarrow> kernel_error + unit" where
  "validate_workflow_def w = validate_workflow_mapping
     [(''schema'', PStr (wd_schema w)),
      (''workflow'', PDict [(''id'', PStr (wd_id w)), (''version'', PStr (wd_version w)), (''name'', PStr (wd_name w))]),
      (''inputs'', PDict (wd_inputs w)), (''stages'', PList (map raw_stage (wd_stages w))),
      (''transitions'', PList (map raw_transition (wd_transitions w)))]"

end
