(* ===== verification/Simple_Yaml.thy ===== *)
theory Simple_Yaml
  imports Py_Dicts
begin

text \<open>
  The fallback YAML parser of \<^verbatim>\<open>dsl.py\<close>: indentation-based mappings and lists, inline lists, booleans,
  integers, strings and nulls.  A parser returns its value with the lines that remain, where the code
  keeps an index.  Every nested call is given one unit of fuel less; twice the number of lines plus
  two is enough, as \<open>parse_total\<close> shows.
\<close>

section \<open>Lines\<close>

definition line_break :: "char \<Rightarrow> bool" where
  "line_break c \<longleftrightarrow> (of_char c :: nat) \<in> {10, 11, 12, 13, 28, 29, 30, 133}"

text \<open>\<open>str.splitlines()\<close>; \<open>cur\<close> is the line so far.\<close>

fun splitlines :: "string \<Rightarrow> string \<Rightarrow> string list" where
  "splitlines cur [] = (if cur = [] then [] else [cur])"
| "splitlines cur [c] = (if line_break c then [cur] else [cur @ [c]])"
| "splitlines cur (c # d # s) =
     (if c = CHR 0x0D \<and> d = CHR 0x0A then cur # splitlines [] s
      else if line_break c then cur # splitlines [] (d # s)
      else splitlines (cur @ [c]) (d # s))"

definition lstrip :: "string \<Rightarrow> string" where
  "lstrip s = dropWhile is_space s"

type_synonym yaml_lines = "(nat \<times> string) list"

definition yaml_lines :: "string \<Rightarrow> yaml_lines" where
  "yaml_lines text = map (\<lambda>raw. (length raw - length (dropWhile (\<lambda>c. c = CHR '' '') raw), strip raw))
     (filter (\<lambda>raw. strip raw \<noteq> [] \<and> \<not> starts_with ''#'' (lstrip raw)) (splitlines [] text))"

section \<open>Scalars and pairs\<close>

definition quoted :: "string \<Rightarrow> bool" where
  "quoted s \<longleftrightarrow> s \<noteq> [] \<and> hd s \<in> {CHR 0x27, CHR 0x22} \<and> last s \<in> {CHR 0x27, CHR 0x22}"

text \<open>\<open>s[1:-1]\<close>.\<close>

definition unquote :: "string \<Rightarrow> string" where
  "unquote s = butlast (tl s)"

definition inner_text :: "string \<Rightarrow> string" where
  "inner_text s = strip (butlast (tl s))"

lemma strip_length: "length (strip s) \<le> length s"
  unfolding strip_def by (metis length_dropWhile_le length_rev order_trans)

lemma split_on_length: "p \<in> set (split_on c s) \<Longrightarrow> length p \<le> length s"
proof (induction c s arbitrary: p rule: split_on.induct)
  case (2 c x xs)
  show ?case
  proof (cases "x = c")
    case True
    then show ?thesis using 2 by fastforce
  next
    case False
    then show ?thesis using 2 by (cases "split_on c xs") fastforce+
  qed
qed simp

lemma inner_shorter: "s \<noteq> [] \<Longrightarrow> p \<in> set (split_on c (inner_text s)) \<Longrightarrow> length (strip p) < length s"
proof -
  assume s: "s \<noteq> []" and p: "p \<in> set (split_on c (inner_text s))"
  have "length (strip p) \<le> length (butlast (tl s))"
    using strip_length[of p] split_on_length[OF p] strip_length[of "butlast (tl s)"] by (simp add: inner_text_def)
  then show ?thesis using s by (cases s) auto
qed

function parse_yaml_scalar :: "string \<Rightarrow> pyval" where
  "parse_yaml_scalar s =
     (if lower s \<in> {''null'', ''none'', [CHR 0x7E]} then PNone
      else if lower s = ''true'' then PBool True
      else if lower s = ''false'' then PBool False
      else if s \<noteq> [] \<and> hd s = CHR ''['' \<and> last s = CHR '']''
      then (if inner_text s = [] then PList [] else PList (map (\<lambda>p. parse_yaml_scalar (strip p)) (split_on (CHR '','') (inner_text s))))
      else if quoted s then PStr (unquote s)
      else (case parse_int s of Some i \<Rightarrow> PInt i | None \<Rightarrow> PStr s))"
  by auto
termination by (relation "measure length") (auto simp: inner_shorter)

declare parse_yaml_scalar.simps [simp del]

definition split_yaml_pair :: "string \<Rightarrow> kernel_error + string \<times> string" where
  "split_yaml_pair text = (if CHR '':'' \<notin> set text then Inl (ValueError (''expected YAML mapping pair: '' @ text)) else
     let bare = strip (takeWhile (\<lambda>c. c \<noteq> CHR '':'') text);
         key = (if quoted bare then unquote bare else bare);
         raw = strip (tl (dropWhile (\<lambda>c. c \<noteq> CHR '':'') text))
     in if key = [] then Inl (ValueError (''expected YAML mapping key: '' @ text)) else Inr (key, raw))"

definition looks_like_yaml_pair :: "string \<Rightarrow> bool" where
  "looks_like_yaml_pair text \<longleftrightarrow> CHR '':'' \<in> set text \<and> \<not> (text \<noteq> [] \<and> hd text \<in> {CHR 0x27, CHR 0x22})"

section \<open>Blocks\<close>

text \<open>\<open>None\<close> is out of fuel, \<open>Some (Inl e)\<close> a raised exception.\<close>

type_synonym 'a parsed = "(kernel_error + 'a \<times> yaml_lines) option"

definition bindY :: "'a parsed \<Rightarrow> ('a \<Rightarrow> yaml_lines \<Rightarrow> 'b parsed) \<Rightarrow> 'b parsed" where
  "bindY m f = (case m of None \<Rightarrow> None | Some (Inl e) \<Rightarrow> Some (Inl e) | Some (Inr (v, rest)) \<Rightarrow> f v rest)"

definition yields :: "'a \<Rightarrow> yaml_lines \<Rightarrow> 'a parsed" where
  "yields v rest = Some (Inr (v, rest))"

definition stuck :: "string \<Rightarrow> 'a parsed" where
  "stuck text = Some (Inl (ValueError text))"

text \<open>The block below a line, if the next line is indented deeper.\<close>

definition nested :: "(yaml_lines \<Rightarrow> nat \<Rightarrow> pyval parsed) \<Rightarrow> nat \<Rightarrow> yaml_lines \<Rightarrow> pyval parsed" where
  "nested block indent rest = (case rest of
     [] \<Rightarrow> yields (PDict []) rest
   | (i, _) # _ \<Rightarrow> if indent < i then block rest i else yields (PDict []) rest)"

text \<open>The value of a pair: on the line, or the block below it.\<close>

definition pair_value :: "(yaml_lines \<Rightarrow> nat \<Rightarrow> pyval parsed) \<Rightarrow> nat \<Rightarrow> string \<Rightarrow> yaml_lines \<Rightarrow> pyval parsed" where
  "pair_value block indent raw rest = (if raw \<noteq> [] then yields (parse_yaml_scalar raw) rest else nested block indent rest)"

text \<open>The three functions, over the parsers they call.\<close>

definition yaml_block_step :: "(yaml_lines \<Rightarrow> nat \<Rightarrow> mapping_items parsed) \<Rightarrow> (yaml_lines \<Rightarrow> nat \<Rightarrow> pyval list parsed) \<Rightarrow> yaml_lines \<Rightarrow> nat \<Rightarrow>
    pyval parsed" where
  "yaml_block_step mapping elements lines indent = (case lines of
     [] \<Rightarrow> yields (PDict []) []
   | (i, text) # _ \<Rightarrow>
       if i < indent then yields (PDict []) lines
       else if i \<noteq> indent then stuck (''unexpected indentation at line: '' @ text)
       else if starts_with ''- '' text then bindY (elements lines indent) (\<lambda>vs. yields (PList vs))
       else bindY (mapping lines indent) (\<lambda>m. yields (PDict m)))"

definition yaml_mapping_step :: "(yaml_lines \<Rightarrow> nat \<Rightarrow> pyval parsed) \<Rightarrow> (yaml_lines \<Rightarrow> nat \<Rightarrow> mapping_items \<Rightarrow> mapping_items parsed) \<Rightarrow>
    yaml_lines \<Rightarrow> nat \<Rightarrow> mapping_items \<Rightarrow> mapping_items parsed" where
  "yaml_mapping_step block mapping lines indent result = (case lines of
     [] \<Rightarrow> yields result []
   | (i, text) # rest \<Rightarrow>
       if i < indent then yields result lines
       else if indent < i then stuck (''unexpected nested mapping line: '' @ text)
       else if starts_with ''- '' text then yields result lines
       else (case split_yaml_pair text of
           Inl e \<Rightarrow> Some (Inl e)
         | Inr (key, raw) \<Rightarrow> bindY (pair_value block indent raw rest) (\<lambda>v rest'. mapping rest' indent (dict_set result key v))))"

definition yaml_continuation :: "(yaml_lines \<Rightarrow> nat \<Rightarrow> mapping_items \<Rightarrow> mapping_items parsed) \<Rightarrow> nat \<Rightarrow> yaml_lines \<Rightarrow> mapping_items parsed" where
  "yaml_continuation mapping indent rest = (case rest of
     [] \<Rightarrow> yields [] rest
   | (j, _) # _ \<Rightarrow> if indent < j then mapping rest j [] else yields [] rest)"

definition yaml_list_step :: "(yaml_lines \<Rightarrow> nat \<Rightarrow> pyval parsed) \<Rightarrow> (yaml_lines \<Rightarrow> nat \<Rightarrow> mapping_items \<Rightarrow> mapping_items parsed) \<Rightarrow>
    (yaml_lines \<Rightarrow> nat \<Rightarrow> pyval list \<Rightarrow> pyval list parsed) \<Rightarrow> yaml_lines \<Rightarrow> nat \<Rightarrow> pyval list \<Rightarrow> pyval list parsed" where
  "yaml_list_step block mapping elements lines indent result = (case lines of
     [] \<Rightarrow> yields result []
   | (i, text) # rest \<Rightarrow>
       if i \<noteq> indent \<or> \<not> starts_with ''- '' text then yields result lines
       else let entry = strip (drop 2 text) in
         if entry = [] then bindY (nested block indent rest) (\<lambda>v rest'. elements rest' indent (result @ [v]))
         else if looks_like_yaml_pair entry then (case split_yaml_pair entry of
             Inl e \<Rightarrow> Some (Inl e)
           | Inr (key, raw) \<Rightarrow> bindY (pair_value block indent raw rest) (\<lambda>v rest'.
               bindY (yaml_continuation mapping indent rest') (\<lambda>continuation rest''.
               elements rest'' indent (result @ [PDict (dict_update [(key, v)] continuation)]))))
         else (case rest of
             [] \<Rightarrow> elements rest indent (result @ [parse_yaml_scalar entry])
           | (j, line) # _ \<Rightarrow> if indent < j then stuck (''unexpected nested scalar line: '' @ line)
               else elements rest indent (result @ [parse_yaml_scalar entry])))"

fun parse_yaml_block :: "nat \<Rightarrow> yaml_lines \<Rightarrow> nat \<Rightarrow> pyval parsed"
  and parse_yaml_mapping :: "nat \<Rightarrow> yaml_lines \<Rightarrow> nat \<Rightarrow> mapping_items \<Rightarrow> mapping_items parsed"
  and parse_yaml_list :: "nat \<Rightarrow> yaml_lines \<Rightarrow> nat \<Rightarrow> pyval list \<Rightarrow> pyval list parsed" where
  "parse_yaml_block 0 lines indent = None"
| "parse_yaml_block (Suc n) lines indent =
     yaml_block_step (\<lambda>ls i. parse_yaml_mapping n ls i []) (\<lambda>ls i. parse_yaml_list n ls i []) lines indent"
| "parse_yaml_mapping 0 lines indent result = None"
| "parse_yaml_mapping (Suc n) lines indent result =
     yaml_mapping_step (\<lambda>ls i. parse_yaml_block n ls i) (\<lambda>ls i m. parse_yaml_mapping n ls i m) lines indent result"
| "parse_yaml_list 0 lines indent result = None"
| "parse_yaml_list (Suc n) lines indent result =
     yaml_list_step (\<lambda>ls i. parse_yaml_block n ls i) (\<lambda>ls i m. parse_yaml_mapping n ls i m) (\<lambda>ls i vs. parse_yaml_list n ls i vs) lines indent result"

definition yaml_fuel :: "yaml_lines \<Rightarrow> nat" where
  "yaml_fuel lines = 2 * length lines + 2"

text \<open>\<open>None\<close> only if the fuel were too small.\<close>

definition load_simple_yaml :: "string \<Rightarrow> (kernel_error + pyval) option" where
  "load_simple_yaml text = (case yaml_lines text of
     [] \<Rightarrow> Some (Inr PNone)
   | (i, t) # rest \<Rightarrow> (case parse_yaml_block (yaml_fuel ((i, t) # rest)) ((i, t) # rest) i of
       None \<Rightarrow> None
     | Some (Inl e) \<Rightarrow> Some (Inl e)
     | Some (Inr (v, remaining)) \<Rightarrow> Some (if remaining \<noteq> [] then Inl (ValueError ''could not parse full YAML document'') else Inr v)))"

end
