(* ===== verification/Workflow_Loading.thy ===== *)
theory Workflow_Loading
  imports Workflow_Validation Json_Parse Simple_Yaml
begin

text \<open>
  Building a definition (\<^verbatim>\<open>dsl.py\<close>): from the mapping a definition file parses to, and back from the
  canonical JSON text of a definition, as it is stored with every instance.
\<close>

section \<open>Python conversions\<close>

text \<open>\<open>data[key]\<close>.\<close>

definition item :: "mapping_items \<Rightarrow> string \<Rightarrow> kernel_error + pyval" where
  "item m k = (case map_of m k of None \<Rightarrow> Inl (KeyError k) | Some v \<Rightarrow> Inr v)"

text \<open>The elements \<open>for x in v\<close> runs over.\<close>

definition elements_of :: "pyval \<Rightarrow> kernel_error + pyval list" where
  "elements_of v = (case v of
     PList xs \<Rightarrow> Inr xs | PStr s \<Rightarrow> Inr (map (\<lambda>c. PStr [c]) s) | PDict m \<Rightarrow> Inr (map (\<lambda>(k, _). PStr k) m)
   | _ \<Rightarrow> Inl (TypeError (repr_str (type_name v) @ '' object is not iterable'')))"

text \<open>
  \<open>dict(v)\<close>.  Besides mappings it takes sequences of pairs; a key that is not a text is not a key of
  the model and reads as an error.
\<close>

definition bad_element :: "nat \<Rightarrow> nat \<Rightarrow> kernel_error + 'a" where
  "bad_element index len = Inl (ValueError (''dictionary update sequence element #'' @ show_nat index @ '' has length '' @ show_nat len @
     ''; 2 is required''))"

definition dict_entry :: "nat \<times> pyval \<Rightarrow> mapping_items \<Rightarrow> kernel_error + mapping_items" where
  "dict_entry = (\<lambda>(index, v) m. case elements_of v of
     Inl _ \<Rightarrow> Inl (TypeError (''cannot convert dictionary update sequence element #'' @ show_nat index @ '' to a sequence''))
   | Inr [PStr k, x] \<Rightarrow> Inr (dict_set m k x)
   | Inr [k, x] \<Rightarrow> Inl (TypeError (''unhashable type: '' @ repr_str (type_name k)))
   | Inr xs \<Rightarrow> bad_element index (length xs))"

definition dict_of :: "pyval \<Rightarrow> kernel_error + mapping_items" where
  "dict_of v = (case v of PDict m \<Rightarrow> Inr m | _ \<Rightarrow> bindE (elements_of v) (\<lambda>xs. foldE dict_entry (enumerate 0 xs) []))"

text \<open>\<open>dict(data.get(key) or {})\<close>.\<close>

definition dict_field :: "mapping_items \<Rightarrow> string \<Rightarrow> kernel_error + mapping_items" where
  "dict_field m k = dict_of (py_or (dict_get m k) (PDict []))"

definition optional_str :: "pyval \<Rightarrow> string option" where
  "optional_str v = (if none_or_empty v then None else Some (py_str v))"

definition optional_int :: "pyval \<Rightarrow> kernel_error + int option" where
  "optional_int v = (if none_or_empty v then Inr None else bindE (py_int v) (\<lambda>i. Inr (Some i)))"

definition mapping_or_type_error :: "pyval \<Rightarrow> string \<Rightarrow> kernel_error + mapping_items" where
  "mapping_or_type_error v label = (case mapping_of v of Some m \<Rightarrow> Inr m | None \<Rightarrow> Inl (TypeError (label @ '' must be a mapping'')))"

text \<open>\<open>StageType(value)\<close>.\<close>

definition stage_type_call :: "pyval \<Rightarrow> kernel_error + StageType" where
  "stage_type_call v = (case (case v of PStr s \<Rightarrow> stage_type_of s | _ \<Rightarrow> None) of
     Some t \<Rightarrow> Inr t | None \<Rightarrow> Inl (ValueError (py_repr v @ '' is not a valid StageType'')))"

section \<open>The parts of a definition\<close>

definition prompt_ref_from_mapping :: "pyval \<Rightarrow> kernel_error + PromptRef" where
  "prompt_ref_from_mapping v =
     bindE (mapping_or_type_error v ''prompt_ref'') (\<lambda>m.
     bindE (item m ''id'') (\<lambda>i. bindE (item m ''kind'') (\<lambda>kind. bindE (item m ''version'') (\<lambda>version.
     Inr \<lparr>pr_id = py_str i, pr_kind = py_str kind, pr_version = py_str version,
       pr_registry = py_str (dict_get_or m ''registry'' (PStr ''local'')),
       pr_render_mode = py_str (dict_get_or m ''render_mode'' (PStr ''markdown'')),
       pr_required = truthy (dict_get_or m ''required'' (PBool True)), pr_content_hash = optional_str (dict_get m ''content_hash'')\<rparr>))))"

definition stage_from_mapping :: "pyval \<Rightarrow> kernel_error + StageDef" where
  "stage_from_mapping v =
     bindE (mapping_or_type_error v ''stage'') (\<lambda>m.
     bindE (item m ''id'') (\<lambda>i.
     bindE (bindE (item m ''type'') stage_type_call) (\<lambda>type.
     bindE (item m ''adapter'') (\<lambda>adapter.
     bindE (bindE (item m ''outcomes'') elements_of) (\<lambda>outcomes.
     bindE (dict_field m ''actors'') (\<lambda>actors.
     bindE (dict_field m ''inputs'') (\<lambda>inputs.
     bindE (dict_field m ''outputs'') (\<lambda>outputs.
     bindE (bindE (elements_of (py_or (dict_get m ''prompt_refs'') (PList []))) (mapE prompt_ref_from_mapping)) (\<lambda>prompt_refs.
     bindE (dict_field m ''policy'') (\<lambda>policy.
     bindE (dict_field m ''budget'') (\<lambda>budget.
     bindE (dict_field m ''retry'') (\<lambda>retry.
     bindE (dict_field m ''lease'') (\<lambda>lease.
     bindE (optional_int (dict_get m ''timeout_seconds'')) (\<lambda>timeout.
     bindE (dict_field m ''surface'') (\<lambda>surface.
     Inr \<lparr>sd_id = py_str i, sd_type = type, sd_adapter = py_str adapter, sd_outcomes = map py_str outcomes, sd_actors = actors,
       sd_inputs = inputs, sd_outputs = outputs, sd_prompt_refs = prompt_refs,
       sd_no_prompt_reason = optional_str (dict_get m ''no_prompt_reason''), sd_policy = policy, sd_budget = budget, sd_retry = retry,
       sd_lease = lease, sd_timeout_seconds = timeout, sd_surface = surface\<rparr>)))))))))))))))"

text \<open>The two readers of a transition differ in the names of its ends.\<close>

definition read_transition :: "string \<Rightarrow> string \<Rightarrow> pyval \<Rightarrow> kernel_error + Transition" where
  "read_transition source target v =
     bindE (mapping_or_type_error v ''transition'') (\<lambda>m.
     bindE (item m source) (\<lambda>start. bindE (item m ''on'') (\<lambda>on.
     Inr \<lparr>from_stage = py_str start, tr_on = py_str on, to_stage = optional_str (dict_get m target),
       tr_terminal = optional_str (dict_get m ''terminal''), tr_guard = optional_str (dict_get m ''guard''),
       tr_label = optional_str (dict_get m ''label'')\<rparr>)))"

definition transition_from_mapping :: "pyval \<Rightarrow> kernel_error + Transition" where
  "transition_from_mapping = read_transition ''from'' ''to''"

definition canonical_transition_from_mapping :: "pyval \<Rightarrow> kernel_error + Transition" where
  "canonical_transition_from_mapping = read_transition ''from_stage'' ''to_stage''"

section \<open>Definitions\<close>

text \<open>
  The constructor call that both loaders end in: the identity comes from \<open>info\<close>, the schema is
  computed from \<open>data\<close>, the rest are the fields of \<open>data\<close>, read in order.
\<close>

definition build_workflow :: "(pyval \<Rightarrow> kernel_error + Transition) \<Rightarrow> (mapping_items \<Rightarrow> kernel_error + string) \<Rightarrow> mapping_items \<Rightarrow> mapping_items \<Rightarrow>
    kernel_error + WorkflowDef" where
  "build_workflow transition schema_of info data =
     bindE (item info ''id'') (\<lambda>i. bindE (item info ''version'') (\<lambda>version. bindE (item info ''name'') (\<lambda>name.
     bindE (bindE (bindE (item data ''stages'') elements_of) (mapE stage_from_mapping)) (\<lambda>stages.
     bindE (bindE (bindE (item data ''transitions'') elements_of) (mapE transition)) (\<lambda>transitions.
     bindE (schema_of data) (\<lambda>schema.
     bindE (dict_field data ''inputs'') (\<lambda>inputs.
     bindE (dict_field data ''defaults'') (\<lambda>defaults.
     bindE (dict_field data ''actors'') (\<lambda>actors.
     bindE (dict_field data ''artifacts'') (\<lambda>artifacts.
     bindE (dict_field data ''policies'') (\<lambda>policies.
     bindE (dict_field data ''compatibility'') (\<lambda>compatibility.
     let w = \<lparr>wd_id = py_str i, wd_version = py_str version, wd_name = py_str name, wd_stages = stages, wd_transitions = transitions,
       wd_schema = schema, wd_owner = optional_str (dict_get info ''owner''), wd_description = optional_str (dict_get info ''description''),
       wd_inputs = inputs, wd_defaults = defaults, wd_actors = actors, wd_artifacts = artifacts, wd_policies = policies,
       wd_compatibility = compatibility\<rparr>
     in bindE (validate_workflow_def w) (\<lambda>_. Inr w)))))))))))))"

definition workflow_from_mapping :: "mapping_items \<Rightarrow> kernel_error + WorkflowDef" where
  "workflow_from_mapping data =
     bindE (validate_workflow_mapping data) (\<lambda>_.
     bindE (item data ''workflow'') (\<lambda>info. case mapping_of info of
         None \<Rightarrow> Inl AssertionError
       | Some m \<Rightarrow> build_workflow transition_from_mapping (\<lambda>d. bindE (item d ''schema'') (\<lambda>s. Inr (py_str s))) m data))"

definition workflow_from_canonical_mapping :: "mapping_items \<Rightarrow> kernel_error + WorkflowDef" where
  "workflow_from_canonical_mapping data =
     build_workflow canonical_transition_from_mapping (\<lambda>d. Inr (py_str (py_or (dict_get d ''schema'') (PStr ''workflow.kernel.v1'')))) data data"

text \<open>The text of a JSON decoding error is not modelled; it is a \<open>ValueError\<close>.\<close>

definition load_workflow_canonical_json :: "string \<Rightarrow> kernel_error + WorkflowDef" where
  "load_workflow_canonical_json source = (case json_loads source of
     None \<Rightarrow> Inl (ValueError ''JSONDecodeError'')
   | Some (PDict m) \<Rightarrow> workflow_from_canonical_mapping m
   | Some _ \<Rightarrow> Inl (TypeError ''canonical workflow JSON must parse to a mapping''))"

text \<open>
  \<open>load_workflow_yaml\<close> over the YAML parser it finds: PyYAML's \<open>safe_load\<close>, or the fallback.  The repair of
  the key \<open>on\<close>, which YAML 1.1 reads as a boolean, is the identity on dicts whose keys are texts.
\<close>

definition load_workflow_yaml :: "(string \<Rightarrow> kernel_error + pyval) \<Rightarrow> string \<Rightarrow> kernel_error + WorkflowDef" where
  "load_workflow_yaml load_yaml text = bindE (load_yaml text) (\<lambda>loaded.
     case (if loaded = PNone then PDict [] else loaded) of
       PDict m \<Rightarrow> workflow_from_mapping m
     | _ \<Rightarrow> Inl (TypeError ''workflow YAML must parse to a mapping''))"

definition simple_yaml :: "string \<Rightarrow> kernel_error + pyval" where
  "simple_yaml text = (case load_simple_yaml text of Some r \<Rightarrow> r | None \<Rightarrow> Inl (RuntimeError ''out of fuel''))"

end
