(* ===== verification/Definition_Safety.thy ===== *)
theory Definition_Safety
  imports Workflow_Validation Routing_Safety
begin

text \<open>
  What the validation of a definition guarantees: it accepts exactly the definitions that are
  well-formed graphs, and on those the kernel's routing table is total and unambiguous.
\<close>

section \<open>Loops that collect distinct keys\<close>

lemma foldE_collects:
  assumes step: "\<And>n x acc r. f (n, g x) acc = Inr r \<longleftrightarrow> P x \<and> key x \<notin> set (map kk acc) \<and> r = acc @ [h x]"
    and key: "\<And>x. kk (h x) = key x"
  shows "foldE f (enumerate n (map g xs)) acc = Inr r \<longleftrightarrow>
    (\<forall>x \<in> set xs. P x) \<and> distinct (map key xs) \<and> set (map key xs) \<inter> set (map kk acc) = {} \<and> r = acc @ map h xs"
proof (induction xs arbitrary: n acc)
  case Nil
  then show ?case by auto
next
  case (Cons x xs)
  show ?case by (auto simp: bindE_eq_Inr step Cons.IH key)
qed

section \<open>Well-formed definitions\<close>

definition lease_entry_ok :: "mapping_items \<Rightarrow> bool" where
  "lease_entry_ok lease \<longleftrightarrow> lease = [] \<or> (set (map fst lease) = {''seconds''} \<and> (\<exists>n>0. dict_get lease ''seconds'' = PInt n))"

definition stage_ok :: "StageDef \<Rightarrow> bool" where
  "stage_ok s \<longleftrightarrow> sd_id s \<noteq> [] \<and> sd_adapter s \<noteq> [] \<and> sd_outcomes s \<noteq> [] \<and> distinct (sd_outcomes s) \<and> [] \<notin> set (sd_outcomes s) \<and>
     lease_entry_ok (sd_lease s)"

definition transition_ok :: "StageDef list \<Rightarrow> Transition \<Rightarrow> bool" where
  "transition_ok stages t \<longleftrightarrow> (\<exists>s \<in> set stages. sd_id s = from_stage t \<and> tr_on t \<in> set (sd_outcomes s)) \<and>
     (let target = str_or (to_stage t) []; terminal = str_or (tr_terminal t) []; guard = str_or (tr_guard t) [] in
        (target = []) \<noteq> (terminal = []) \<and> (guard \<noteq> [] \<longrightarrow> guard \<in> set allowed_transition_guards) \<and>
        (target \<noteq> [] \<longrightarrow> target \<in> set (map sd_id stages)) \<and> (terminal \<noteq> [] \<longrightarrow> terminal \<in> set allowed_terminal_statuses))"

definition definition_ok :: "WorkflowDef \<Rightarrow> bool" where
  "definition_ok w \<longleftrightarrow> wd_id w \<noteq> [] \<and> wd_version w \<noteq> [] \<and> wd_name w \<noteq> [] \<and>
     list_all stage_ok (wd_stages w) \<and> distinct (map sd_id (wd_stages w)) \<and>
     list_all (transition_ok (wd_stages w)) (wd_transitions w) \<and> distinct (map (\<lambda>t. (from_stage t, tr_on t)) (wd_transitions w))"

section \<open>Each check accepts exactly what it should\<close>

lemma require_str_PStr [simp]: "require_str (PStr s) l = Inr r \<longleftrightarrow> s \<noteq> [] \<and> r = s"
  by (cases s) (auto simp: require_str_def invalid_def)

lemma invalid_not_Inr [simp]: "invalid e \<noteq> Inr r" "Inr r \<noteq> invalid e"
  by (simp_all add: invalid_def)

lemma if_invalid [simp]: "(if b then invalid e else m) = Inr r \<longleftrightarrow> \<not> b \<and> m = Inr r" "(if b then m else invalid e) = Inr r \<longleftrightarrow> b \<and> m = Inr r"
  by simp_all

lemma lease_valid: "validate_optional_lease (PDict lease) l = Inr u \<longleftrightarrow>
   set (map fst lease) = {''seconds''} \<and> (\<exists>n>0. dict_get lease ''seconds'' = PInt n)"
proof -
  have k: "has_key lease ''seconds'' \<longleftrightarrow> ''seconds'' \<in> set (map fst lease)"
    by (simp add: has_key_def map_of_eq_None_iff)
  have u: "filter (\<lambda>k. k \<noteq> ''seconds'') (map fst lease) = [] \<longleftrightarrow> set (map fst lease) \<subseteq> {''seconds''}"
    by (auto simp: filter_empty_conv)
  show ?thesis
    by (cases "dict_get lease ''seconds''")
      (use u k in \<open>auto simp: validate_optional_lease_def none_or_empty_def require_mapping_def Let_def split: if_splits\<close>)
qed

lemma outcomes_valid: "foldE (validate_outcome l i) (enumerate n (map PStr xs)) [] = Inr r \<longleftrightarrow> [] \<notin> set xs \<and> distinct xs \<and> r = xs"
  using foldE_collects[where f = "validate_outcome l i" and g = PStr and P = "\<lambda>x. x \<noteq> []" and key = "\<lambda>x. x" and kk = "\<lambda>x. x" and h = "\<lambda>x. x",
    of n xs "[]" r]
  by (auto simp: validate_outcome_def bindE_eq_Inr)

lemma raw_stage_entries:
  obtains m where "raw_stage s = PDict m" "dict_get m ''id'' = PStr (sd_id s)" "dict_get m ''type'' = PStr (stage_type_value (sd_type s))"
    "dict_get m ''adapter'' = PStr (sd_adapter s)" "dict_get m ''outcomes'' = str_list (sd_outcomes s)" "dict_get m ''policy'' = PNone"
    "dict_get m ''lease'' = (if sd_lease s = [] then PNone else PDict (sd_lease s))"
    "has_key m ''id''" "has_key m ''type''" "has_key m ''adapter''" "has_key m ''outcomes''"
  by (auto simp: raw_stage_def dict_get_def has_key_def)

lemma stage_valid: "validate_stage (n, raw_stage s) known = Inr r \<longleftrightarrow>
   stage_ok s \<and> sd_id s \<notin> set (map fst known) \<and> r = known @ [(sd_id s, sd_outcomes s)]"
proof -
  obtain m where m: "raw_stage s = PDict m" "dict_get m ''id'' = PStr (sd_id s)" "dict_get m ''type'' = PStr (stage_type_value (sd_type s))"
    "dict_get m ''adapter'' = PStr (sd_adapter s)" "dict_get m ''outcomes'' = str_list (sd_outcomes s)" "dict_get m ''policy'' = PNone"
    "dict_get m ''lease'' = (if sd_lease s = [] then PNone else PDict (sd_lease s))"
    "has_key m ''id''" "has_key m ''type''" "has_key m ''adapter''" "has_key m ''outcomes''"
    by (rule raw_stage_entries)
  have lease: "validate_optional_lease (if sd_lease s = [] then PNone else PDict (sd_lease s)) l = Inr u \<longleftrightarrow> lease_entry_ok (sd_lease s)" for l u
    by (simp add: lease_valid lease_entry_ok_def) (simp add: validate_optional_lease_def none_or_empty_def)
  have t: "stage_type_value x \<noteq> []" for x by (cases x) simp_all
  have fields: "foldE (\<lambda>field _. guardE (has_key m field \<and> \<not> none_or_empty (dict_get m field)) (e field)) required_stage_fields () = Inr u \<longleftrightarrow>
      sd_id s \<noteq> [] \<and> sd_adapter s \<noteq> []" for e u
    by (simp add: required_stage_fields_def m none_or_empty_def str_list_def bindE_eq_Inr guardE_eq t)
  have type: "coerce_stage_type (dict_get m ''type'') l = Inr (sd_type s)" for l by (simp add: coerce_stage_type_def m)
  have platform: "validate_platform (dict_get m ''policy'') l = Inr ()" for l by (simp add: validate_platform_def m)
  have outs: "require_sequence (dict_get m ''outcomes'') l = Inr (map PStr (sd_outcomes s))" for l
    by (simp add: require_sequence_def m str_list_def)
  show ?thesis unfolding validate_stage_def m(1) prod.case Let_def require_mapping_def mapping_of.simps option.case bindE_simps type platform outs
    unfolding bindE_eq_Inr fields if_invalid m(2,4,7) require_str_PStr lease outcomes_valid stage_ok_def
    by auto
qed

lemma raw_option_truthy:
  "truthy (dict_get (raw_option k v) k) \<longleftrightarrow> str_or v [] \<noteq> []" "none_or_empty (dict_get (raw_option k v) k) \<longleftrightarrow> str_or v [] = []"
  "str_or v [] \<noteq> [] \<Longrightarrow> dict_get (raw_option k v) k = PStr (str_or v [])"
  by (cases v; cases "the v"; simp add: raw_option_def dict_get_def str_or_def none_or_empty_def)+

lemma raw_option_other: "j \<noteq> k \<Longrightarrow> map_of (raw_option k v) j = None"
  by (cases v; cases "the v"; simp add: raw_option_def)

lemma raw_transition_entries:
  obtains m where "raw_transition t = PDict m" "dict_get m ''from'' = PStr (from_stage t)" "dict_get m ''on'' = PStr (tr_on t)"
    "dict_get m ''to'' = dict_get (raw_option ''to'' (to_stage t)) ''to''"
    "dict_get m ''terminal'' = dict_get (raw_option ''terminal'' (tr_terminal t)) ''terminal''"
    "dict_get m ''guard'' = dict_get (raw_option ''guard'' (tr_guard t)) ''guard''"
  by (simp add: raw_transition_def dict_get_def raw_option_other map_add_def split: option.splits)

definition known_stages :: "StageDef list \<Rightarrow> outcomes_by_stage" where
  "known_stages stages = map (\<lambda>s. (sd_id s, sd_outcomes s)) stages"

lemma known_stage: "distinct (map sd_id stages) \<Longrightarrow>
   map_of (known_stages stages) i = Some outs \<longleftrightarrow> (\<exists>s \<in> set stages. sd_id s = i \<and> sd_outcomes s = outs)"
  unfolding known_stages_def by (subst map_of_eq_Some_iff) (auto simp: comp_def)

lemma set_known [simp]: "fst ` set (known_stages stages) = sd_id ` set stages"
  by (simp add: known_stages_def image_image)

lemma guard_valid: "validate_guard (dict_get (raw_option ''guard'' g) ''guard'') l = Inr u \<longleftrightarrow>
   (str_or g [] \<noteq> [] \<longrightarrow> str_or g [] \<in> set allowed_transition_guards)"
  by (cases g; cases "the g"; simp add: validate_guard_def raw_option_def dict_get_def none_or_empty_def str_or_def bindE_eq_Inr)

lemma transition_valid:
  assumes "distinct (map sd_id stages)" "list_all stage_ok stages"
  shows "validate_transition (known_stages stages) (n, raw_transition t) seen = Inr r \<longleftrightarrow>
    transition_ok stages t \<and> (from_stage t, tr_on t) \<notin> set seen \<and> r = seen @ [(from_stage t, tr_on t)]"
proof -
  obtain m where m: "raw_transition t = PDict m" "dict_get m ''from'' = PStr (from_stage t)" "dict_get m ''on'' = PStr (tr_on t)"
    "dict_get m ''to'' = dict_get (raw_option ''to'' (to_stage t)) ''to''"
    "dict_get m ''terminal'' = dict_get (raw_option ''terminal'' (tr_terminal t)) ''terminal''"
    "dict_get m ''guard'' = dict_get (raw_option ''guard'' (tr_guard t)) ''guard''"
    by (rule raw_transition_entries)
  have ne: "from_stage t \<noteq> [] \<and> tr_on t \<noteq> []" if "s \<in> set stages" "sd_id s = from_stage t" "tr_on t \<in> set (sd_outcomes s)" for s
    using assms(2) that by (metis list_all_iff stage_ok_def)
  show ?thesis
  proof (cases "\<exists>s \<in> set stages. sd_id s = from_stage t \<and> tr_on t \<in> set (sd_outcomes s)")
    case False
    have "\<nexists>outs. map_of (known_stages stages) (from_stage t) = Some outs \<and> tr_on t \<in> set outs"
      using False known_stage[OF assms(1)] by auto
    then show ?thesis using False unfolding validate_transition_def m(1)
      by (auto simp: require_mapping_def Let_def m(2,3) bindE_eq_Inr transition_ok_def split: option.splits if_splits)
  next
    case True
    then obtain s where s: "s \<in> set stages" "sd_id s = from_stage t" "tr_on t \<in> set (sd_outcomes s)" by blast
    have k: "map_of (known_stages stages) (from_stage t) = Some (sd_outcomes s)" using s known_stage[OF assms(1)] by blast
    show ?thesis using True s ne[OF s] unfolding validate_transition_def m(1)
      by (cases "str_or (to_stage t) [] = []"; cases "str_or (tr_terminal t) [] = []")
        (auto simp: require_mapping_def Let_def m(2-) bindE_eq_Inr k transition_ok_def raw_option_truthy guard_valid validate_target_def)
  qed
qed

section \<open>Every refusal is a validation error\<close>

definition refuses :: "kernel_error + 'a \<Rightarrow> bool" where
  "refuses m \<longleftrightarrow> (\<forall>e. m = Inl e \<longrightarrow> (\<exists>text. e = WorkflowValidationError text))"

named_theorems refuses_intro \<open>checks that raise nothing but validation errors\<close>

lemma refuses_basic [refuses_intro]:
  "refuses (Inr x)" "refuses (invalid e)" "refuses (guardE b (WorkflowValidationError e))"
  by (auto simp: refuses_def invalid_def guardE_def)

lemma refuses_bind [refuses_intro]: "refuses m \<Longrightarrow> (\<And>x. refuses (f x)) \<Longrightarrow> refuses (bindE m f)"
  by (auto simp: refuses_def bindE_eq_Inl)

lemma refuses_if [refuses_intro]: "refuses m \<Longrightarrow> refuses m' \<Longrightarrow> refuses (if b then m else m')"
  by simp

lemma refuses_option [refuses_intro]: "refuses m \<Longrightarrow> (\<And>x. refuses (f x)) \<Longrightarrow> refuses (case v of None \<Rightarrow> m | Some x \<Rightarrow> f x)"
  by (cases v) simp_all

lemma refuses_prod [refuses_intro]: "(\<And>x y. refuses (f x y)) \<Longrightarrow> refuses (case p of (x, y) \<Rightarrow> f x y)"
  "(\<And>x y. refuses (g x y s)) \<Longrightarrow> refuses ((case p of (x, y) \<Rightarrow> g x y) s)"
  by (cases p; simp)+

lemma refuses_fold [refuses_intro]: "(\<And>x s. refuses (f x s)) \<Longrightarrow> refuses (foldE f xs s)"
  by (induction xs arbitrary: s) (auto intro: refuses_basic refuses_bind)

lemma refuses_value [refuses_intro]: "refuses (require_mapping v l)" "refuses (require_sequence v l)" "refuses (require_str v l)"
  "refuses (coerce_stage_type v l)"
  by (auto simp: require_mapping_def require_sequence_def require_str_def coerce_stage_type_def intro!: refuses_intro split: pyval.split list.split)

lemma refuses_lease [refuses_intro]: "refuses (validate_optional_lease v l)"
  unfolding validate_optional_lease_def Let_def
  by (intro refuses_intro) (auto intro!: refuses_intro split: pyval.split)

lemma refuses_parts [refuses_intro]: "refuses (validate_platform v l)" "refuses (validate_guard v l)" "refuses (validate_target known t l)"
  "refuses (validate_defaults data)" "refuses (validate_actors data)"
  unfolding validate_platform_def validate_guard_def validate_target_def validate_defaults_def validate_actors_def
  by (intro refuses_intro)+

lemma refuses_outcome [refuses_intro]: "refuses (validate_outcome l i p seen)"
  unfolding validate_outcome_def by (intro refuses_intro)

lemma refuses_entries [refuses_intro]: "refuses (validate_stage p known)" "refuses (validate_transition known p seen)"
  unfolding validate_stage_def validate_transition_def Let_def by (intro refuses_intro)+

lemma refuses_validation: "refuses (validate_workflow_mapping data)"
  unfolding validate_workflow_mapping_def by (intro refuses_intro)

section \<open>The properties\<close>

lemma stages_valid: "foldE validate_stage (enumerate 0 (map raw_stage stages)) [] = Inr r \<longleftrightarrow>
   list_all stage_ok stages \<and> distinct (map sd_id stages) \<and> r = known_stages stages"
  using foldE_collects[where f = validate_stage and g = raw_stage and P = stage_ok and key = sd_id and kk = fst and h = "\<lambda>s. (sd_id s, sd_outcomes s)",
    OF stage_valid, of 0 stages "[]" r]
  by (simp add: known_stages_def list_all_iff)

lemma transitions_valid:
  assumes "distinct (map sd_id stages)" "list_all stage_ok stages"
  shows "foldE (validate_transition (known_stages stages)) (enumerate 0 (map raw_transition ts)) [] = Inr r \<longleftrightarrow>
    list_all (transition_ok stages) ts \<and> distinct (map (\<lambda>t. (from_stage t, tr_on t)) ts) \<and> r = map (\<lambda>t. (from_stage t, tr_on t)) ts"
  using foldE_collects[where f = "validate_transition (known_stages stages)" and g = raw_transition and P = "transition_ok stages"
      and key = "\<lambda>t. (from_stage t, tr_on t)" and kk = "\<lambda>x. x" and h = "\<lambda>t. (from_stage t, tr_on t)", of 0 ts "[]" r]
    transition_valid[OF assms]
  by (simp add: list_all_iff)

lemma validation_accepts: "validate_workflow_def w = Inr () \<longleftrightarrow> definition_ok w"
  unfolding validate_workflow_def_def validate_workflow_mapping_def definition_ok_def
  by (auto simp: required_top_level_sections_def required_workflow_fields_def has_key_def dict_get_def require_mapping_def require_sequence_def
     validate_defaults_def validate_actors_def bindE_eq_Inr guardE_eq stages_valid transitions_valid)

text \<open>
  C32. Validation is exact: a definition passes precisely when it is a well-formed graph (named,
  with distinct non-empty stages whose outcomes are distinct and non-empty, and at most one transition
  per stage and outcome, each declared, guarded by a known guard, and leading to exactly one known
  stage or terminal status); any other definition is refused with a validation error.
\<close>

theorem validation_exact:
  "if definition_ok w then validate_workflow_def w = Inr ()
   else \<exists>text. validate_workflow_def w = Inl (WorkflowValidationError text)"
proof (cases "validate_workflow_def w")
  case (Inl e)
  then show ?thesis using refuses_validation validation_accepts[of w] unfolding refuses_def validate_workflow_def_def by (metis sum.distinct(1))
next
  case (Inr u)
  then show ?thesis using validation_accepts[of w] by simp
qed

lemma index_distinct: "distinct (map (\<lambda>t. (from_stage t, tr_on t)) ts) \<Longrightarrow> (\<forall>t \<in> set ts. map_of idx (from_stage t, tr_on t) = None) \<Longrightarrow>
   foldE index_transition ts idx = Inr (idx @ map (\<lambda>t. ((from_stage t, tr_on t), t)) ts)"
proof (induction ts arbitrary: idx)
  case (Cons t ts)
  have "\<forall>t' \<in> set ts. map_of (idx @ [((from_stage t, tr_on t), t)]) (from_stage t', tr_on t') = None"
    using Cons.prems by (auto simp: map_add_def image_iff)
  then show ?case using Cons.IH[of "idx @ [((from_stage t, tr_on t), t)]"] Cons.prems by (simp add: index_transition_def)
qed simp

lemma stage_found: "i \<in> set (map sd_id (wd_stages w)) \<Longrightarrow> stage_by_id w i \<noteq> None"
  by (auto simp: stage_by_id_def find_None_iff)

text \<open>The terminal statuses validation accepts but routing does not distinguish.\<close>

definition unrouted_terminals :: "string list" where
  "unrouted_terminals = [''pending'', ''running'', ''waiting_on_agent'', ''waiting_on_human'', ''retrying'']"

lemma terminal_status: "terminal \<in> set allowed_terminal_statuses \<Longrightarrow>
   (if terminal \<in> set unrouted_terminals then workflow_status_for_terminal terminal = WF_BLOCKED
    else workflow_status_value (workflow_status_for_terminal terminal) = terminal)"
  by (auto simp: allowed_terminal_statuses_def all_workflow_status_def unrouted_terminals_def workflow_status_for_terminal_def)


lemma loop_workflow_valid: "validate_workflow_def loop_workflow = Inr ()"
  by code_simp


end
