(* ===== verification/Json_Roundtrip.thy ===== *)
theory Json_Roundtrip
  imports Json_Parse Policy_Safety
begin

text \<open>
  \<open>json.loads\<close> inverts the canonical text: what a stored text parses to is the value it was written
  from, with the keys of its dicts in order.
\<close>

section \<open>Strings and numbers\<close>

lemma hex_value_char [simp]: "d < 16 \<Longrightarrow> hex_value (hex_char d) = Some d"
  by (simp add: hex_value_def hex_char_def Let_def)

lemma hex_value_zero [simp]: "hex_value (CHR ''0'') = Some 0"
  by (simp add: hex_value_def)

lemma parse_json_char: "parse_string (json_char c @ r) = prepend c (parse_string r)"
proof -
  let ?n = "of_char c :: nat"
  have bound: "?n < 256" by simp
  consider "?n = 34" | "?n = 92" | "?n = 10" | "?n = 13" | "?n = 9" | "?n = 12" | "?n = 8"
    | (plain) "?n \<notin> {34, 92, 10, 13, 9, 12, 8}" "32 \<le> ?n \<and> ?n \<le> 126"
    | (code) "?n \<notin> {34, 92, 10, 13, 9, 12, 8}" "\<not> (32 \<le> ?n \<and> ?n \<le> 126)" by blast
  then show ?thesis
  proof cases
    case plain
    then have "c \<noteq> CHR 0x5C" "c \<noteq> CHR 0x22" by auto
    then show ?thesis using plain by (simp add: json_char_def)
  next
    case code
    have "?n div 16 < 16" using bound by linarith
    moreover have "16 * (?n div 16) + ?n mod 16 = ?n" by simp
    moreover have "json_char c = [CHR 0x5C, CHR ''u'', CHR ''0'', CHR ''0''] @ hex2 ?n"
      using code by (auto simp: json_char_def Let_def)
    ultimately show ?thesis by (simp add: unicode_escape_def hex2_def)
  qed (drule char_of_code, simp add: json_char_def simple_escape_def)+
qed

lemma parse_json_string: "parse_string (concat (map json_char s) @ CHR 0x22 # r) = Some (s, r)"
  by (induction s) (simp_all add: parse_json_char prepend_def)

lemma show_nat_leading: "hd (show_nat n) = CHR ''0'' \<Longrightarrow> length (show_nat n) = 1"
proof (induction n rule: show_nat.induct)
  case (1 n)
  show ?case
  proof (cases "n < 10")
    case True
    then show ?thesis by (simp add: show_nat.simps[of n])
  next
    case False
    have s: "show_nat n = show_nat (n div 10) @ [digit_char (n mod 10)]" using False by (simp add: show_nat.simps[of n])
    then have "hd (show_nat (n div 10)) = CHR ''0''" using 1(2) show_nat_digits[of "n div 10"] by simp
    then have l: "length (show_nat (n div 10)) = 1" "hd (show_nat (n div 10)) = CHR ''0''" using 1(1) False by auto
    then have "show_nat (n div 10) = ''0''" by (cases "show_nat (n div 10)") auto
    then have "n div 10 = 0" using digits_value_show_nat[of "n div 10"] by (simp add: digits_value_def digit_value_def)
    then show ?thesis using False by simp
  qed
qed

lemma digits_cut: "list_all is_digit s \<Longrightarrow> stops r \<Longrightarrow> takeWhile is_digit (s @ r) = s \<and> dropWhile is_digit (s @ r) = r"
proof -
  assume s: "list_all is_digit s" and r: "stops r"
  have "takeWhile is_digit r = [] \<and> dropWhile is_digit r = r"
    using r by (cases r) (auto simp: stops_def is_digit_def)
  then show ?thesis using s by (induction s) auto
qed

lemma parse_show_nat: "stops r \<Longrightarrow> takeWhile is_digit (show_nat n @ r) = show_nat n \<and> dropWhile is_digit (show_nat n @ r) = r"
  using digits_cut show_nat_digits by blast

lemma stops_no_fraction: "stops r \<Longrightarrow> \<not> (r \<noteq> [] \<and> hd r \<in> {CHR ''.'', CHR ''e'', CHR ''E''})"
  by (auto simp: stops_def)

lemma parse_show_int: "stops r \<Longrightarrow> parse_number (show_int i @ r) = Some (PInt i, r)"
proof -
  assume r: "stops r"
  have one: "\<not> (length (show_nat n) > 1 \<and> hd (show_nat n) = CHR ''0'')" for n using show_nat_leading[of n] by auto
  have m: "take 1 (show_nat n @ r) \<noteq> ''-''" for n using show_nat_not_minus(2)[of n] show_nat_digits[of n] by (cases "show_nat n") auto
  show ?thesis
  proof (cases "i < 0")
    case True
    then have "show_int i = CHR ''-'' # show_nat (nat (- i))" by (simp add: show_int_def)
    then show ?thesis using True parse_show_nat[OF r, of "nat (- i)"] one[of "nat (- i)"] stops_no_fraction[OF r] show_nat_digits[of "nat (- i)"]
      by (auto simp: parse_number_def Let_def list_all_iff)
  next
    case False
    then have "show_int i = show_nat (nat i)" by (simp add: show_int_def)
    then show ?thesis using False parse_show_nat[OF r, of "nat i"] one[of "nat i"] stops_no_fraction[OF r] show_nat_digits[of "nat i"] m[of "nat i"]
      by (auto simp: parse_number_def Let_def list_all_iff)
  qed
qed

section \<open>Values\<close>

lemma skip_space_Cons [simp]: "skip_space (c # s) = (if json_space c then skip_space s else c # s)"
  by (simp add: skip_space_def)

lemma json_text_starts: "\<exists>c s. json_text v = c # s \<and> \<not> json_space c"
proof (cases v)
  case (PInt i)
  have "number_char (hd (show_int i))" using show_int_chars[of i] by (cases "show_int i") auto
  then show ?thesis using PInt show_int_chars[of i]
    by (cases "show_int i") (auto simp: number_char_def is_digit_def json_space_def)
qed (auto simp: json_string_def json_space_def)

lemma skip_json_text [simp]: "skip_space (json_text v @ r) = json_text v @ r"
  using json_text_starts[of v] by auto

text \<open>A value is read back from every text it begins, given fuel for its length.\<close>

definition reads_back :: "pyval \<Rightarrow> bool" where
  "reads_back v \<longleftrightarrow> (\<forall>n r. length (json_text v) < n \<longrightarrow> stops r \<longrightarrow> parse_value n (json_text v @ r) = Some (v, r))"

lemma json_text_length: "0 < length (json_text v)"
  using json_text_starts[of v] by auto

lemma parse_elements_text:
  assumes "\<forall>x \<in> set xs. reads_back x" "xs \<noteq> []" "length (join_with '','' (map json_text xs)) + 1 < n"
  shows "parse_elements n (join_with '','' (map json_text xs) @ CHR '']'' # r) = Some (xs, r)"
  using assms
proof (induction xs arbitrary: n)
  case (Cons x xs)
  then obtain m where n: "n = Suc m" by (cases n) auto
  show ?case
  proof (cases "xs = []")
    case True
    have "parse_value m (json_text x @ CHR '']'' # r) = Some (x, CHR '']'' # r)"
      using Cons.prems n True by (simp add: reads_back_def stops_def)
    then show ?thesis using True n by (simp add: json_space_def)
  next
    case False
    let ?rest = "join_with '','' (map json_text xs) @ CHR '']'' # r"
    have v: "parse_value m (json_text x @ CHR '','' # ?rest) = Some (x, CHR '','' # ?rest)"
      using Cons.prems n False by (simp add: reads_back_def stops_def join_Cons)
    have rest: "parse_elements m ?rest = Some (xs, r)"
      using Cons.prems n False json_text_length[of x] by (intro Cons.IH) (auto simp: join_Cons)
    show ?thesis using False n v rest by (simp add: join_Cons json_space_def)
  qed
qed simp

lemma dict_set_new: "k \<notin> set (map fst m) \<Longrightarrow> dict_set m k v = m @ [(k, v)]"
  by (simp add: dict_set_def has_key_def map_of_eq_None_iff)

lemma parse_members_text:
  assumes "\<forall>(k, v) \<in> set items. reads_back v" "items \<noteq> []" "length (join_with '','' (map entry_text items)) + 1 < n"
    "distinct (map fst (m @ items))"
  shows "parse_members n m (join_with '','' (map entry_text items) @ CHR ''}'' # r) = Some (m @ items, r)"
  using assms
proof (induction items arbitrary: n m)
  case (Cons e items)
  obtain k v where e: "e = (k, v)" by (cases e)
  obtain f where n: "n = Suc f" using Cons.prems(3) by (cases n) auto
  have new: "dict_set m k v = m @ [(k, v)]" using Cons.prems(4) e by (intro dict_set_new) auto
  have entry: "entry_text (k, v) @ q = CHR 0x22 # concat (map json_char k) @ CHR 0x22 # CHR '':'' # json_text v @ q" for q
    by (simp add: entry_text_def json_string_def)
  show ?case
  proof (cases "items = []")
    case True
    have "parse_value f (json_text v @ CHR ''}'' # r) = Some (v, CHR ''}'' # r)"
      using Cons.prems n True e entry[of "[]"] by (simp add: reads_back_def stops_def)
    then show ?thesis using True n e by (simp add: entry parse_json_string json_space_def new)
  next
    case False
    let ?rest = "join_with '','' (map entry_text items) @ CHR ''}'' # r"
    have v: "parse_value f (json_text v @ CHR '','' # ?rest) = Some (v, CHR '','' # ?rest)"
      using Cons.prems n False e entry[of "[]"] by (simp add: reads_back_def stops_def join_Cons)
    have rest: "parse_members f (m @ [(k, v)]) ?rest = Some ((m @ [(k, v)]) @ items, r)"
      using Cons.prems n False e entry[of "[]"] by (intro Cons.IH) (auto simp: join_Cons)
    show ?thesis using False n e v rest by (simp add: join_Cons entry parse_json_string json_space_def new)
  qed
qed simp

lemma reads_back_literal: "v \<in> {PNone, PBool True, PBool False} \<Longrightarrow> reads_back v"
  unfolding reads_back_def by (auto simp: json_space_def parse_literal_def starts_with_def less_Suc_eq_0_disj gr0_conv_Suc dest!: less_imp_Suc_add)

lemma reads_back: "canonical v \<Longrightarrow> reads_back v"
proof (induction v)
  case (PInt i)
  show ?case unfolding reads_back_def
  proof (intro allI impI)
    fix n r assume n: "length (json_text (PInt i)) < n" and r: "stops r"
    obtain c s where t: "show_int i = c # s" "\<not> json_space c" using json_text_starts[of "PInt i"] by auto
    have c: "number_char c" using show_int_chars[of i] t by simp
    have "parse_literal (show_int i @ r) = parse_number (show_int i @ r)"
      using c t by (auto simp: parse_literal_def starts_with_def number_char_def is_digit_def)
    moreover have "c \<noteq> CHR 0x22" "c \<noteq> CHR ''[''" "c \<noteq> CHR ''{''" using c by (auto simp: number_char_def is_digit_def)
    ultimately show "parse_value n (json_text (PInt i) @ r) = Some (PInt i, r)"
      using n t parse_show_int[OF r, of i] by (cases n) auto
  qed
next
  case (PStr s)
  show ?case unfolding reads_back_def
  proof (intro allI impI)
    fix n r assume "length (json_text (PStr s)) < n" "stops r"
    then show "parse_value n (json_text (PStr s) @ r) = Some (PStr s, r)"
      by (cases n) (simp_all add: json_string_def json_space_def parse_json_string)
  qed
next
  case (PList xs)
  then have el: "\<forall>x \<in> set xs. reads_back x" by (simp add: list_all_iff)
  show ?case unfolding reads_back_def
  proof (intro allI impI)
    fix n r assume n: "length (json_text (PList xs)) < n" and "stops r"
    then obtain m where m: "n = Suc m" "length (join_with '','' (map json_text xs)) + 1 < m" by (cases n) auto
    show "parse_value n (json_text (PList xs) @ r) = Some (PList xs, r)"
    proof (cases xs)
      case Nil
      then show ?thesis using m by (simp add: json_space_def)
    next
      case (Cons x ys)
      obtain c s where t: "json_text x = c # s" "\<not> json_space c" using json_text_starts by blast
      have "c \<noteq> CHR '']''" using json_text_opens t unfolding opens_def by (metis insertCI list.sel(1))
      then show ?thesis using parse_elements_text[OF el _ m(2), of r] m Cons t by (simp add: json_space_def join_Cons)
    qed
  qed
next
  case (PDict items)
  then have el: "\<forall>(k, v) \<in> set items. reads_back v" and d: "sorted (map fst items)" "distinct (map fst items)"
    by (auto simp: list_all_iff)
  show ?case unfolding reads_back_def
  proof (intro allI impI)
    fix n r assume n: "length (json_text (PDict items)) < n" and "stops r"
    then obtain m where m: "n = Suc m" "length (join_with '','' (map entry_text items)) + 1 < m"
      using json_text_dict[OF d(1)] by (cases n) auto
    show "parse_value n (json_text (PDict items) @ r) = Some (PDict items, r)"
    proof (cases items)
      case Nil
      then show ?thesis using m by (simp add: json_space_def)
    next
      case (Cons e ys)
      have "hd (entry_text e) = CHR 0x22" "entry_text e \<noteq> []" by (cases e; simp add: entry_text_def json_string_def)+
      then obtain s where t: "entry_text e = CHR 0x22 # s" by (cases "entry_text e") auto
      have "parse_members m [] (join_with '','' (map entry_text items) @ CHR ''}'' # r) = Some (items, r)"
        using parse_members_text[OF el _ m(2), of "[]" r] d Cons by simp
      then show ?thesis using m(1) Cons t unfolding json_text_dict[OF d(1)] by (simp add: json_space_def join_Cons)
    qed
  qed
qed (use reads_back_literal in \<open>auto simp: reads_back_literal\<close>)

theorem json_loads_text: "unique_keys v \<Longrightarrow> json_loads (json_text v) = Some (canonical_data v)"
proof -
  assume u: "unique_keys v"
  have "reads_back (canonical_data v)" by (rule reads_back[OF canonical_canonical_data[OF u]])
  then have "parse_value (Suc (length (json_text v))) (json_text v @ []) = Some (canonical_data v, [])"
    unfolding reads_back_def json_text_canonical_data by (elim allE[of _ "Suc (length (json_text v))"] allE[of _ "[]"]) (simp add: stops_def del: parse_value.simps)
  then show ?thesis by (simp add: json_loads_def skip_space_def del: parse_value.simps)
qed

end
