(* ===== verification/Definition_Restore.thy ===== *)
theory Definition_Restore
  imports Workflow_Loading Definition_Safety Json_Roundtrip
begin

text \<open>
  The canonical text of a definition determines it: what a snapshot is restored to is the definition
  it was taken of, with the keys of its mappings in order, and the digest an instance is pinned to is
  the same.
\<close>

section \<open>Canonical mappings\<close>

definition sorted_items :: "mapping_items \<Rightarrow> mapping_items" where
  "sorted_items m = sort_key fst (map (\<lambda>(k, v). (k, canonical_data v)) m)"

lemma canonical_PDict: "canonical_data (PDict m) = PDict (sorted_items m)"
  by (simp add: sorted_items_def)

lemma sorted_items_Nil [simp]: "sorted_items m = [] \<longleftrightarrow> m = []"
  by (simp only: sorted_items_def set_empty[symmetric] set_sort set_map image_is_empty)

lemma map_of_canonical: "distinct (map fst m) \<Longrightarrow> map_of (sorted_items m) k = map_option canonical_data (map_of m k)"
proof -
  assume d: "distinct (map fst m)"
  let ?c = "map (\<lambda>(k, v). (k, canonical_data v)) m"
  have "distinct (map fst ?c)" using d by (simp add: comp_def case_prod_unfold)
  moreover have "distinct (map fst (sorted_items m))"
    using d unfolding sorted_items_def by (metis (no_types, lifting) \<open>distinct (map fst ?c)\<close> distinct_map set_sort distinct_sort)
  moreover have "set (sorted_items m) = set ?c" by (simp add: sorted_items_def)
  ultimately have "map_of (sorted_items m) = map_of ?c" by (intro map_of_inject_set[THEN iffD2]) simp_all
  then show ?thesis by (simp add: map_of_map)
qed

lemma sorted_items_idem [simp]: "sorted_items (sorted_items m) = sorted_items m"
  using canonical_data_idem[of "PDict m"] by (simp only: canonical_PDict pyval.inject)

lemma canonical_data_cong: "map (\<lambda>(k, v). (k, canonical_data v)) m = map (\<lambda>(k, v). (k, canonical_data v)) m' \<Longrightarrow>
   canonical_data (PDict m) = canonical_data (PDict m')"
  by simp

lemma canonical_opt_int [simp]: "canonical_data (opt_int x) = opt_int x"
  by (cases x) (simp_all add: opt_int_def)

lemma elements_str_list [simp]: "elements_of (str_list xs) = Inr (map PStr xs)"
  by (simp add: elements_of_def str_list_def)

lemma elements_canonical_list [simp]: "elements_of (canonical_data (PList xs)) = Inr (map canonical_data xs)"
  by (simp add: elements_of_def)

section \<open>Readers on canonical data\<close>

lemma canonical_readers:
  assumes "distinct (map fst m)"
  shows "map_of m k = Some v \<Longrightarrow> item (sorted_items m) k = Inr (canonical_data v)"
    "map_of m k = Some v \<Longrightarrow> dict_get (sorted_items m) k = canonical_data v"
    "map_of m k = Some v \<Longrightarrow> dict_get_or (sorted_items m) k d = canonical_data v"
    "map_of m k = Some (PDict x) \<Longrightarrow> dict_field (sorted_items m) k = Inr (sorted_items x)"
proof -
  note get = map_of_canonical[OF assms, of k]
  show "map_of m k = Some v \<Longrightarrow> item (sorted_items m) k = Inr (canonical_data v)" by (simp add: item_def get)
  show d: "map_of m k = Some v \<Longrightarrow> dict_get (sorted_items m) k = canonical_data v" for v by (simp add: dict_get_def get)
  show "map_of m k = Some v \<Longrightarrow> dict_get_or (sorted_items m) k d = canonical_data v" by (simp add: dict_get_or_def get)
  show "map_of m k = Some (PDict x) \<Longrightarrow> dict_field (sorted_items m) k = Inr (sorted_items x)"
    using d[of "PDict x"] by (cases "sorted_items x = []") (simp_all add: dict_field_def py_or_def canonical_PDict dict_of_def del: canonical_data.simps sorted_items_Nil)
qed

lemma optional_str_opt [simp]: "v \<noteq> Some [] \<Longrightarrow> optional_str (opt_str v) = v"
  by (cases v) (auto simp: optional_str_def none_or_empty_def)

lemma optional_int_opt [simp]: "optional_int (opt_int v) = Inr v"
  by (cases v) (auto simp: optional_int_def none_or_empty_def opt_int_def)

lemma mapE_map: "(\<And>x. x \<in> set xs \<Longrightarrow> f (g x) = Inr (h x)) \<Longrightarrow> mapE f (map g xs) = Inr (map h xs)"
  by (induction xs) auto

section \<open>The definition a snapshot restores\<close>

definition canonical_stage :: "StageDef \<Rightarrow> StageDef" where
  "canonical_stage s = s\<lparr>sd_actors := sorted_items (sd_actors s), sd_inputs := sorted_items (sd_inputs s),
     sd_outputs := sorted_items (sd_outputs s), sd_policy := sorted_items (sd_policy s), sd_budget := sorted_items (sd_budget s),
     sd_retry := sorted_items (sd_retry s), sd_lease := sorted_items (sd_lease s), sd_surface := sorted_items (sd_surface s)\<rparr>"

definition canonical_definition :: "WorkflowDef \<Rightarrow> WorkflowDef" where
  "canonical_definition w = w\<lparr>wd_stages := map canonical_stage (wd_stages w), wd_inputs := sorted_items (wd_inputs w),
     wd_defaults := sorted_items (wd_defaults w), wd_actors := sorted_items (wd_actors w), wd_artifacts := sorted_items (wd_artifacts w),
     wd_policies := sorted_items (wd_policies w), wd_compatibility := sorted_items (wd_compatibility w)\<rparr>"

text \<open>An absent text is \<open>None\<close>, as both loaders leave it.\<close>

definition stage_texts_ok :: "StageDef \<Rightarrow> bool" where
  "stage_texts_ok s \<longleftrightarrow> sd_no_prompt_reason s \<noteq> Some [] \<and> (\<forall>p \<in> set (sd_prompt_refs s). pr_content_hash p \<noteq> Some [])"

definition transition_texts_ok :: "Transition \<Rightarrow> bool" where
  "transition_texts_ok t \<longleftrightarrow> to_stage t \<noteq> Some [] \<and> tr_terminal t \<noteq> Some [] \<and> tr_guard t \<noteq> Some [] \<and> tr_label t \<noteq> Some []"

definition texts_ok :: "WorkflowDef \<Rightarrow> bool" where
  "texts_ok w \<longleftrightarrow> wd_schema w \<noteq> [] \<and> wd_owner w \<noteq> Some [] \<and> wd_description w \<noteq> Some [] \<and> list_all stage_texts_ok (wd_stages w) \<and>
     list_all transition_texts_ok (wd_transitions w)"

lemma prompt_ref_restores:
  assumes "pr_content_hash p \<noteq> Some []"
  shows "prompt_ref_from_mapping (canonical_data (prompt_ref_plain p)) = Inr p"
proof -
  let ?m = "[(''id'', PStr (pr_id p)), (''kind'', PStr (pr_kind p)), (''version'', PStr (pr_version p)),
      (''registry'', PStr (pr_registry p)), (''render_mode'', PStr (pr_render_mode p)),
      (''required'', PBool (pr_required p)), (''content_hash'', opt_str (pr_content_hash p))]"
  have d: "distinct (map fst ?m)" by simp
  show ?thesis using assms unfolding prompt_ref_plain_def canonical_PDict prompt_ref_from_mapping_def
    by (simp add: mapping_or_type_error_def canonical_readers[OF d])
qed

lemma transition_restores:
  assumes "transition_texts_ok t"
  shows "canonical_transition_from_mapping (canonical_data (transition_plain t)) = Inr t"
proof -
  let ?m = "[(''from_stage'', PStr (from_stage t)), (''on'', PStr (tr_on t)), (''to_stage'', opt_str (to_stage t)),
      (''terminal'', opt_str (tr_terminal t)), (''guard'', opt_str (tr_guard t)), (''label'', opt_str (tr_label t))]"
  have d: "distinct (map fst ?m)" by simp
  show ?thesis using assms unfolding transition_plain_def canonical_PDict canonical_transition_from_mapping_def read_transition_def transition_texts_ok_def
    by (simp add: mapping_or_type_error_def canonical_readers[OF d])
qed

lemma stage_restores:
  assumes "stage_texts_ok s"
  shows "stage_from_mapping (canonical_data (stage_plain s)) = Inr (canonical_stage s)"
proof -
  let ?m = "[(''id'', PStr (sd_id s)), (''type'', PStr (stage_type_value (sd_type s))),
      (''adapter'', PStr (sd_adapter s)), (''outcomes'', str_list (sd_outcomes s)),
      (''actors'', PDict (sd_actors s)), (''inputs'', PDict (sd_inputs s)),
      (''outputs'', PDict (sd_outputs s)), (''prompt_refs'', PList (map prompt_ref_plain (sd_prompt_refs s))),
      (''no_prompt_reason'', opt_str (sd_no_prompt_reason s)), (''policy'', PDict (sd_policy s)),
      (''budget'', PDict (sd_budget s)), (''retry'', PDict (sd_retry s)), (''lease'', PDict (sd_lease s)),
      (''timeout_seconds'', opt_int (sd_timeout_seconds s)), (''surface'', PDict (sd_surface s))]"
  have d: "distinct (map fst ?m)" by simp
  have prompts: "mapE prompt_ref_from_mapping (map (\<lambda>p. canonical_data (prompt_ref_plain p)) (sd_prompt_refs s)) = Inr (sd_prompt_refs s)"
    using mapE_map[of "sd_prompt_refs s" prompt_ref_from_mapping "\<lambda>p. canonical_data (prompt_ref_plain p)" "\<lambda>p. p"] assms prompt_ref_restores
    by (simp add: stage_texts_ok_def)
  have refs: "bindE (elements_of (py_or (canonical_data (PList (map prompt_ref_plain (sd_prompt_refs s)))) (PList []))) (mapE prompt_ref_from_mapping) =
      Inr (sd_prompt_refs s)"
    using prompts by (simp add: py_or_def elements_of_def comp_def)
  show ?thesis using assms unfolding stage_plain_def canonical_PDict stage_from_mapping_def stage_texts_ok_def
    by (simp add: mapping_or_type_error_def canonical_readers[OF d] stage_type_call_def comp_def refs canonical_stage_def del: canonical_data.simps)
      (simp add: stage_type_call_def)
qed

section \<open>The restored definition is valid\<close>

lemma sorted_items_keys [simp]: "set (map fst (sorted_items m)) = set (map fst m)"
  by (force simp: sorted_items_def image_image)

lemma lease_entry_sorted: "distinct (map fst l) \<Longrightarrow> lease_entry_ok l \<Longrightarrow> lease_entry_ok (sorted_items l)"
proof -
  assume d: "distinct (map fst l)" and ok: "lease_entry_ok l"
  show ?thesis
  proof (cases "l = []")
    case False
    then obtain n where n: "set (map fst l) = {''seconds''}" "n > 0" "dict_get l ''seconds'' = PInt n" using ok by (auto simp: lease_entry_ok_def)
    then have "map_of l ''seconds'' = Some (PInt n)" by (auto simp: dict_get_def split: option.splits)
    then have "dict_get (sorted_items l) ''seconds'' = PInt n" by (simp add: dict_get_def map_of_canonical[OF d])
    then show ?thesis using n unfolding lease_entry_ok_def sorted_items_keys by blast
  qed (simp add: lease_entry_ok_def)
qed

lemma stage_ok_canonical: "distinct (map fst (sd_lease s)) \<Longrightarrow> stage_ok s \<Longrightarrow> stage_ok (canonical_stage s)"
  using lease_entry_sorted[of "sd_lease s"] by (simp add: stage_ok_def canonical_stage_def)

lemma canonical_stage_sel [simp]: "sd_id (canonical_stage s) = sd_id s" "sd_outcomes (canonical_stage s) = sd_outcomes s"
  by (simp_all add: canonical_stage_def)

lemma transition_ok_canonical: "transition_ok (map canonical_stage stages) t \<longleftrightarrow> transition_ok stages t"
  by (simp add: transition_ok_def comp_def image_image)

lemma lease_keys: "unique_keys (workflow_plain w) \<Longrightarrow> s \<in> set (wd_stages w) \<Longrightarrow> distinct (map fst (sd_lease s))"
  by (auto simp: workflow_plain_def stage_plain_def list_all_iff)

lemma definition_ok_canonical: "unique_keys (workflow_plain w) \<Longrightarrow> definition_ok w \<Longrightarrow> definition_ok (canonical_definition w)"
  using lease_keys[of w] stage_ok_canonical
  by (auto simp: definition_ok_def canonical_definition_def list_all_iff transition_ok_canonical comp_def simp del: unique_keys.simps)

section \<open>The text of the restored definition\<close>

lemma stage_plain_canonical: "canonical_data (stage_plain (canonical_stage s)) = canonical_data (stage_plain s)"
  unfolding stage_plain_def by (rule canonical_data_cong) (simp add: canonical_stage_def canonical_PDict del: canonical_data.simps)

lemma workflow_plain_canonical: "canonical_data (workflow_plain (canonical_definition w)) = canonical_data (workflow_plain w)"
  unfolding workflow_plain_def
  by (rule canonical_data_cong) (simp add: canonical_definition_def canonical_PDict comp_def stage_plain_canonical del: canonical_data.simps(2))

section \<open>The property\<close>

lemma workflow_restores:
  assumes "unique_keys (workflow_plain w)" "definition_ok w" "texts_ok w"
  shows "canonical_data (workflow_plain w) = PDict m \<Longrightarrow> workflow_from_canonical_mapping m = Inr (canonical_definition w)"
proof -
  let ?m = "[(''id'', PStr (wd_id w)), (''version'', PStr (wd_version w)), (''name'', PStr (wd_name w)),
      (''stages'', PList (map stage_plain (wd_stages w))),
      (''transitions'', PList (map transition_plain (wd_transitions w))), (''schema'', PStr (wd_schema w)),
      (''owner'', opt_str (wd_owner w)), (''description'', opt_str (wd_description w)),
      (''inputs'', PDict (wd_inputs w)), (''defaults'', PDict (wd_defaults w)),
      (''actors'', PDict (wd_actors w)), (''artifacts'', PDict (wd_artifacts w)),
      (''policies'', PDict (wd_policies w)), (''compatibility'', PDict (wd_compatibility w))]"
  assume "canonical_data (workflow_plain w) = PDict m"
  then have m: "m = sorted_items ?m" unfolding workflow_plain_def canonical_PDict by simp
  have d: "distinct (map fst ?m)" by simp
  have stages: "mapE stage_from_mapping (map canonical_data (map stage_plain (wd_stages w))) = Inr (map canonical_stage (wd_stages w))"
    using assms(3) mapE_map[of "wd_stages w" stage_from_mapping "\<lambda>s. canonical_data (stage_plain s)" canonical_stage] stage_restores
    by (simp add: texts_ok_def list_all_iff comp_def)
  have transitions: "mapE canonical_transition_from_mapping (map canonical_data (map transition_plain (wd_transitions w))) = Inr (wd_transitions w)"
    using assms(3) mapE_map[of "wd_transitions w" canonical_transition_from_mapping "\<lambda>t. canonical_data (transition_plain t)" "\<lambda>t. t"] transition_restores
    by (simp add: texts_ok_def list_all_iff comp_def)
  have valid: "validate_workflow_def (canonical_definition w) = Inr ()"
    using definition_ok_canonical[OF assms(1,2)] validation_accepts by blast
  have texts: "wd_schema w \<noteq> []" "wd_owner w \<noteq> Some []" "wd_description w \<noteq> Some []" using assms(3) by (simp_all add: texts_ok_def)
  have c: "canonical_definition w = \<lparr>wd_id = wd_id w, wd_version = wd_version w, wd_name = wd_name w,
      wd_stages = map canonical_stage (wd_stages w), wd_transitions = wd_transitions w, wd_schema = wd_schema w, wd_owner = wd_owner w,
      wd_description = wd_description w, wd_inputs = sorted_items (wd_inputs w), wd_defaults = sorted_items (wd_defaults w),
      wd_actors = sorted_items (wd_actors w), wd_artifacts = sorted_items (wd_artifacts w), wd_policies = sorted_items (wd_policies w),
      wd_compatibility = sorted_items (wd_compatibility w)\<rparr>"
    by (cases w) (simp add: canonical_definition_def)
  show "workflow_from_canonical_mapping m = Inr (canonical_definition w)"
    unfolding m workflow_from_canonical_mapping_def build_workflow_def
    using valid[unfolded c] texts
    by (simp add: canonical_readers[OF d] stages[simplified] transitions[simplified] py_or_def Let_def c del: canonical_data.simps(1,2))
qed

lemma snapshot_restores:
  assumes "definition_ok w" "texts_ok w" "unique_keys (workflow_plain w)"
  shows "load_workflow_canonical_json (workflow_to_canonical_json w) = Inr (canonical_definition w) \<and>
    validate_workflow_def (canonical_definition w) = Inr () \<and>
    workflow_to_canonical_json (canonical_definition w) = workflow_to_canonical_json w \<and>
    definition_hash (canonical_definition w) = definition_hash w"
proof (intro conjI)
  obtain m where m: "canonical_data (workflow_plain w) = PDict m" unfolding workflow_plain_def canonical_PDict by blast
  show "load_workflow_canonical_json (workflow_to_canonical_json w) = Inr (canonical_definition w)"
    using json_loads_text[OF assms(3)] m workflow_restores[OF assms(3,1,2) m]
    by (simp add: load_workflow_canonical_json_def workflow_to_canonical_json_def)
  show "validate_workflow_def (canonical_definition w) = Inr ()"
    using definition_ok_canonical[OF assms(3,1)] validation_accepts by blast
  show "workflow_to_canonical_json (canonical_definition w) = workflow_to_canonical_json w"
    unfolding workflow_to_canonical_json_def using workflow_plain_canonical json_text_canonical_data by metis
  show "definition_hash (canonical_definition w) = definition_hash w"
    by (simp add: definition_hash_def digest_data_def workflow_plain_canonical)
qed

end
