(* ===== verification/Yaml_Safety.thy ===== *)
theory Yaml_Safety
  imports Definition_Restore
begin

text \<open>
  The fallback parser always ends: the fuel it is given suffices for every text, and what it
  returns is a value whose dicts have distinct keys.  A definition loaded from a file therefore
  survives its snapshot.
\<close>

section \<open>Settled parses\<close>

definition settled :: "('a \<Rightarrow> bool) \<Rightarrow> nat \<Rightarrow> 'a parsed \<Rightarrow> bool" where
  "settled P len m \<longleftrightarrow> m \<noteq> None \<and> (\<forall>v rest. m = Some (Inr (v, rest)) \<longrightarrow> length rest \<le> len \<and> P v)"

named_theorems settled_intro \<open>parses that settle\<close>

lemma settled_yields [settled_intro]: "length rest \<le> len \<Longrightarrow> P v \<Longrightarrow> settled P len (yields v rest)"
  by (simp add: settled_def yields_def)

lemma settled_raise [settled_intro]: "settled P len (stuck e)" "settled P len (Some (Inl x))"
  by (simp_all add: settled_def stuck_def)

lemma settled_bind [settled_intro]:
  "settled P len m \<Longrightarrow> (\<And>v rest. P v \<Longrightarrow> length rest \<le> len \<Longrightarrow> settled Q len (f v rest)) \<Longrightarrow> settled Q len (bindY m f)"
  by (auto simp: settled_def bindY_def split: option.splits sum.splits)

lemma settled_step:
  "settled P l m \<Longrightarrow> l \<le> len \<Longrightarrow> (\<And>v rest. P v \<Longrightarrow> length rest \<le> l \<Longrightarrow> settled Q len (f v rest)) \<Longrightarrow> settled Q len (bindY m f)"
  by (auto simp: settled_def bindY_def split: option.splits sum.splits)

lemma settled_mono: "settled P l m \<Longrightarrow> l \<le> len \<Longrightarrow> settled P len m"
  by (auto simp: settled_def)

lemma settled_if [settled_intro]: "(b \<Longrightarrow> settled P l m) \<Longrightarrow> (\<not> b \<Longrightarrow> settled P l m') \<Longrightarrow> settled P l (if b then m else m')"
  by simp

section \<open>Distinct keys\<close>

definition unique_items :: "mapping_items \<Rightarrow> bool" where
  "unique_items m \<longleftrightarrow> distinct (map fst m) \<and> (\<forall>e \<in> set m. unique_keys (snd e))"

lemma unique_PDict [simp]: "unique_keys (PDict m) = unique_items m"
  by (auto simp: unique_items_def list_all_iff)

declare unique_keys.simps(2) [simp del]

lemma unique_Nil [simp]: "unique_items []"
  by (simp add: unique_items_def)

lemma unique_dict_set:
  assumes "unique_items m" "unique_keys v"
  shows "unique_items (dict_set m k v)"
proof (cases "has_key m k")
  case True
  let ?f = "\<lambda>(k', v'). (k', if k' = k then v else v')"
  have "map fst (map ?f m) = map fst m" by (simp add: comp_def case_prod_unfold)
  moreover have "\<forall>e \<in> set (map ?f m). unique_keys (snd e)" using assms by (auto simp: unique_items_def)
  ultimately show ?thesis using True assms(1) by (simp only: dict_set_def if_True unique_items_def)
next
  case False
  then show ?thesis using assms by (auto simp: dict_set_def has_key_def map_of_eq_None_iff unique_items_def)
qed

lemma unique_dict_update: "unique_items m \<Longrightarrow> unique_items items \<Longrightarrow> unique_items (dict_update m items)"
  unfolding dict_update_def
proof (induction items arbitrary: m)
  case (Cons e items)
  have "unique_items (dict_set m (fst e) (snd e))" using Cons.prems by (intro unique_dict_set) (auto simp: unique_items_def)
  moreover have "unique_items items" using Cons.prems(2) by (simp add: unique_items_def)
  ultimately have "unique_items (fold (\<lambda>(k, v) d. dict_set d k v) items (dict_set m (fst e) (snd e)))" by (rule Cons.IH)
  then show ?case by (simp add: case_prod_unfold)
qed simp

lemma unique_scalar: "unique_keys (parse_yaml_scalar s)"
proof (induction s rule: parse_yaml_scalar.induct)
  case (1 s)
  show ?case
  proof (cases "lower s \<in> {''null'', ''none'', [CHR 0x7E]} \<or> lower s = ''true'' \<or> lower s = ''false'' \<or>
      \<not> (s \<noteq> [] \<and> hd s = CHR ''['' \<and> last s = CHR '']'') \<or> inner_text s = []")
    case True
    then show ?thesis by (cases "parse_int s") (auto simp: parse_yaml_scalar.simps[of s])
  next
    case False
    then have "\<forall>p \<in> set (split_on (CHR '','') (inner_text s)). unique_keys (parse_yaml_scalar (strip p))" using 1 by blast
    then show ?thesis using False by (simp add: parse_yaml_scalar.simps[of s] list_all_iff)
  qed
qed

section \<open>The parser settles\<close>

lemma settled_nested [settled_intro]:
  "(\<And>i. settled unique_keys (length rest) (block rest i)) \<Longrightarrow> settled unique_keys (length rest) (nested block indent rest)"
  by (auto simp: nested_def intro!: settled_intro split: list.splits)

lemma settled_pair [settled_intro]:
  "(\<And>i. settled unique_keys (length rest) (block rest i)) \<Longrightarrow> settled unique_keys (length rest) (pair_value block indent raw rest)"
  by (auto simp: pair_value_def unique_scalar intro!: settled_intro)

lemma settled_parsers:
  "(2 * length lines + 2 \<le> n \<longrightarrow> settled unique_keys (length lines) (parse_yaml_block n lines indent)) \<and>
   (2 * length lines + 1 \<le> n \<longrightarrow> unique_items m \<longrightarrow> settled unique_items (length lines) (parse_yaml_mapping n lines indent m)) \<and>
   (2 * length lines + 1 \<le> n \<longrightarrow> list_all unique_keys vs \<longrightarrow> settled (list_all unique_keys) (length lines) (parse_yaml_list n lines indent vs))"
proof (induction n arbitrary: lines indent m vs)
  case (Suc n)
  note block = Suc.IH[THEN conjunct1, rule_format] and mapping = Suc.IH[THEN conjunct2, THEN conjunct1, rule_format]
    and elements = Suc.IH[THEN conjunct2, THEN conjunct2, rule_format]
  have 1: "settled unique_keys (length lines) (parse_yaml_block (Suc n) lines indent)" if "2 * length lines + 2 \<le> Suc n"
  proof (cases lines)
    case (Cons l rest)
    have "settled unique_items (length lines) (parse_yaml_mapping n lines indent [])"
      "settled (list_all unique_keys) (length lines) (parse_yaml_list n lines indent [])"
      using that by (auto intro!: mapping elements)
    then show ?thesis using Cons by (cases l) (auto simp: yaml_block_step_def intro!: settled_intro)
  qed (auto simp: yaml_block_step_def intro!: settled_intro)
  have 2: "settled unique_items (length lines) (parse_yaml_mapping (Suc n) lines indent m)"
    if f: "2 * length lines + 1 \<le> Suc n" and m: "unique_items m"
  proof (cases lines)
    case (Cons l rest)
    have len: "length rest \<le> length lines" using Cons by simp
    have b: "settled unique_keys (length rest) (parse_yaml_block n rest i)" for i using f Cons by (intro block) simp
    have r: "settled unique_items (length lines) (parse_yaml_mapping n rest' indent (dict_set m k v))"
      if "length rest' \<le> length rest" "unique_keys v" for rest' k v
      using that f Cons m unique_dict_set[OF m, of v k] by (intro settled_mono[OF mapping]) auto
    have "settled unique_items (length lines) (bindY (pair_value (parse_yaml_block n) indent raw rest) (\<lambda>v rest'.
        parse_yaml_mapping n rest' indent (dict_set m key v)))" for raw key
      by (rule settled_step[OF settled_pair[where block = "parse_yaml_block n" and rest = rest, OF b] len]) (rule r)
    then show ?thesis using m Cons by (cases l) (auto simp: yaml_mapping_step_def intro!: settled_intro split: sum.splits)
  qed (use m in \<open>auto simp: yaml_mapping_step_def intro!: settled_intro\<close>)
  have 3: "settled (list_all unique_keys) (length lines) (parse_yaml_list (Suc n) lines indent vs)"
    if f: "2 * length lines + 1 \<le> Suc n" and vs: "list_all unique_keys vs"
  proof (cases lines)
    case (Cons l rest)
    have len: "length rest \<le> length lines" using Cons by simp
    have b: "settled unique_keys (length rest) (parse_yaml_block n rest i)" for i using f Cons by (intro block) simp
    have r: "settled (list_all unique_keys) (length lines) (parse_yaml_list n rest' indent (vs @ [v]))"
      if "unique_keys v" "length rest' \<le> length rest" for rest' v
      using that f Cons vs by (intro settled_mono[OF elements]) auto
    have c: "settled unique_items (length rest') (yaml_continuation (parse_yaml_mapping n) indent rest')" if "length rest' \<le> length rest" for rest'
    proof -
      have "settled unique_items (length rest') (parse_yaml_mapping n rest' j [])" for j using that f Cons by (intro mapping) auto
      then show ?thesis by (auto simp: yaml_continuation_def intro!: settled_intro split: list.split)
    qed
    have pair: "settled (list_all unique_keys) (length lines) (bindY (pair_value (parse_yaml_block n) indent raw rest) (\<lambda>v rest'.
        bindY (yaml_continuation (parse_yaml_mapping n) indent rest') (\<lambda>continuation rest''.
        parse_yaml_list n rest'' indent (vs @ [PDict (dict_update [(key, v)] continuation)]))))" for raw key
    proof (rule settled_step[OF settled_pair[where block = "parse_yaml_block n" and rest = rest, OF b] len])
      fix v and rest' :: yaml_lines assume v: "unique_keys v" and rest': "length rest' \<le> length rest"
      have u: "unique_items [(key, v)]" using v by (simp add: unique_items_def)
      show "settled (list_all unique_keys) (length lines) (bindY (yaml_continuation (parse_yaml_mapping n) indent rest') (\<lambda>continuation rest''.
          parse_yaml_list n rest'' indent (vs @ [PDict (dict_update [(key, v)] continuation)])))"
        using rest' len unique_dict_update[OF u] by (intro settled_step[OF c[OF rest']] r) auto
    qed
    have entry: "settled (list_all unique_keys) (length lines) (bindY (nested (parse_yaml_block n) indent rest) (\<lambda>v rest'.
        parse_yaml_list n rest' indent (vs @ [v])))"
      by (rule settled_step[OF settled_nested[where block = "parse_yaml_block n" and rest = rest, OF b] len]) (rule r)
    have scalar: "settled (list_all unique_keys) (length lines) (parse_yaml_list n rest indent (vs @ [parse_yaml_scalar s]))" for s
      by (rule r[OF unique_scalar]) simp
    show ?thesis using vs Cons pair entry scalar
      by (cases l) (auto simp: yaml_list_step_def Let_def intro!: settled_intro split: sum.split list.split)
  qed (use vs in \<open>auto simp: yaml_list_step_def intro!: settled_intro\<close>)
  show ?case using 1 2 3 by blast
qed simp

section \<open>The parser as a total function\<close>

lemma load_simple_yaml_settles: "\<exists>r. load_simple_yaml text = Some r \<and> (\<forall>v. r = Inr v \<longrightarrow> unique_keys v)"
proof (cases "yaml_lines text")
  case (Cons l rest)
  obtain i t where l: "l = (i, t)" by (cases l)
  have "settled unique_keys (length (l # rest)) (parse_yaml_block (yaml_fuel (l # rest)) (l # rest) i)"
    using settled_parsers[of "l # rest" "yaml_fuel (l # rest)" i "[]" "[]"] by (simp add: yaml_fuel_def)
  then show ?thesis using Cons l
    by (cases "parse_yaml_block (yaml_fuel (l # rest)) (l # rest) i") (auto simp: load_simple_yaml_def settled_def split: sum.split)
qed (simp add: load_simple_yaml_def)

section \<open>What the loader builds\<close>

lemma mapE_elements: "mapE f xs = Inr ys \<Longrightarrow> y \<in> set ys \<Longrightarrow> \<exists>x \<in> set xs. f x = Inr y"
  by (induction xs arbitrary: ys) (auto simp: bindE_eq_Inr)

lemma unique_get: "unique_items m \<Longrightarrow> unique_keys (dict_get m k)"
  by (auto simp: dict_get_def unique_items_def split: option.split dest!: map_of_SomeD)

lemma unique_item: "unique_items m \<Longrightarrow> item m k = Inr v \<Longrightarrow> unique_keys v"
  using unique_get[of m k] by (simp add: item_def dict_get_def split: option.splits)

lemma unique_elements: "unique_keys v \<Longrightarrow> elements_of v = Inr xs \<Longrightarrow> x \<in> set xs \<Longrightarrow> unique_keys x"
  by (cases v) (auto simp: elements_of_def list_all_iff)

lemma unique_dict_entry:
  assumes "dict_entry (n, v) m = Inr m'" "unique_items m" "unique_keys v"
  shows "unique_items m'"
proof -
  obtain k x where "elements_of v = Inr [PStr k, x]" "m' = dict_set m k x"
    using assms(1) by (auto simp: dict_entry_def bad_element_def split: sum.splits list.splits pyval.splits)
  then show ?thesis using unique_dict_set[OF assms(2)] unique_elements[OF assms(3)] by simp
qed

lemma unique_dict_of:
  assumes "dict_of v = Inr m" "unique_keys v"
  shows "unique_items m"
proof (cases "mapping_of v")
  case None
  then obtain xs where xs: "elements_of v = Inr xs" "foldE dict_entry (enumerate 0 xs) [] = Inr m"
    using assms(1) by (cases v) (auto simp: dict_of_def bindE_eq_Inr)
  show ?thesis
  proof (rule foldE_invariant[OF xs(2)])
    fix p t t' assume "p \<in> set (enumerate 0 xs)" "unique_items t" "dict_entry p t = Inr t'"
    moreover then have "snd p \<in> set xs" by (auto simp: in_set_enumerate_eq) (metis nth_mem)
    ultimately show "unique_items t'"
      using unique_dict_entry[of "fst p" "snd p" t t'] unique_elements[OF assms(2) xs(1), of "snd p"] by simp
  qed simp
next
  case (Some d)
  then show ?thesis using assms by (cases v) (auto simp: dict_of_def)
qed

lemma unique_field: "unique_items m \<Longrightarrow> dict_field m k = Inr d \<Longrightarrow> unique_items d"
  using unique_dict_of[of "py_or (dict_get m k) (PDict [])" d] unique_get[of m k] by (auto simp: dict_field_def py_or_def split: if_splits)

lemma py_str_empty: "py_str v = [] \<Longrightarrow> v = PStr []"
  using show_nat_digits by (cases v) (auto simp: py_str_def show_int_def split: if_splits)

lemma optional_str_text [simp]: "optional_str v \<noteq> Some []"
  using py_str_empty[of v] by (auto simp: optional_str_def none_or_empty_def)

lemma unique_leaf [simp]: "unique_keys (opt_str x)" "unique_keys (opt_int y)" "unique_keys (str_list xs)"
  by (auto simp: opt_str_def opt_int_def str_list_def list_all_iff split: option.split)

lemma unique_refs [simp]: "unique_keys (prompt_ref_plain p)" "unique_keys (transition_plain t)"
  by (simp_all add: prompt_ref_plain_def transition_plain_def unique_items_def)

lemma unique_Cons [simp]: "unique_items ((k, v) # m) \<longleftrightarrow> k \<notin> fst ` set m \<and> unique_keys v \<and> unique_items m"
  by (auto simp: unique_items_def)

lemma loaded_stage:
  assumes "stage_from_mapping v = Inr s" "unique_keys v"
  shows "stage_texts_ok s \<and> unique_keys (stage_plain s)"
proof -
  obtain m where v: "v = PDict m" and m: "unique_items m"
    using assms by (cases v) (auto simp: stage_from_mapping_def mapping_or_type_error_def)
  have refs: "pr_content_hash p \<noteq> Some []" if "prompt_ref_from_mapping x = Inr p" for x p
    using that by (auto simp: prompt_ref_from_mapping_def bindE_eq_Inr)
  have hashes: "\<forall>p \<in> set ps. pr_content_hash p \<noteq> Some []" if "mapE prompt_ref_from_mapping xs = Inr ps" for xs ps
    using mapE_elements[OF that] refs by blast
  show ?thesis using assms(1) unique_field[OF m] hashes unfolding v stage_from_mapping_def
    by (auto simp: mapping_or_type_error_def bindE_eq_Inr stage_texts_ok_def stage_plain_def list_all_iff)
qed

lemma loaded_transition: "read_transition a b v = Inr t \<Longrightarrow> transition_texts_ok t"
  by (auto simp: read_transition_def bindE_eq_Inr transition_texts_ok_def)

lemma loaded_workflow:
  assumes "workflow_from_mapping data = Inr w" "unique_items data" "wd_schema w \<noteq> []"
  shows "definition_ok w \<and> texts_ok w \<and> unique_keys (workflow_plain w)"
proof -
  obtain schema_of info where build: "build_workflow transition_from_mapping schema_of info data = Inr w"
    using assms(1) by (auto simp: workflow_from_mapping_def bindE_eq_Inr split: option.splits)
  then have "definition_ok w" using validation_accepts by (auto simp: build_workflow_def bindE_eq_Inr Let_def)
  moreover have stages: "stage_texts_ok s \<and> unique_keys (stage_plain s)" if s: "s \<in> set (wd_stages w)" for s
  proof -
    obtain v xs where v: "item data ''stages'' = Inr v" "elements_of v = Inr xs" "mapE stage_from_mapping xs = Inr (wd_stages w)"
      using build by (auto simp: build_workflow_def bindE_eq_Inr Let_def)
    obtain x where "x \<in> set xs" "stage_from_mapping x = Inr s" using mapE_elements[OF v(3) s] by blast
    then show ?thesis using loaded_stage unique_elements[OF unique_item[OF assms(2) v(1)] v(2)] by blast
  qed
  moreover have "transition_texts_ok t" if t: "t \<in> set (wd_transitions w)" for t
  proof -
    obtain xs where "mapE transition_from_mapping xs = Inr (wd_transitions w)"
      using build by (auto simp: build_workflow_def bindE_eq_Inr Let_def)
    then obtain x where "transition_from_mapping x = Inr t" using mapE_elements[OF _ t] by blast
    then show ?thesis using loaded_transition by (simp add: transition_from_mapping_def)
  qed
  moreover have "wd_owner w \<noteq> Some []" "wd_description w \<noteq> Some []" "unique_items (wd_inputs w)" "unique_items (wd_defaults w)"
    "unique_items (wd_actors w)" "unique_items (wd_artifacts w)" "unique_items (wd_policies w)" "unique_items (wd_compatibility w)"
    using build unique_field[OF assms(2)] by (auto simp: build_workflow_def bindE_eq_Inr Let_def)
  ultimately show ?thesis using assms(3) by (simp add: texts_ok_def list_all_iff workflow_plain_def)
qed

section \<open>The properties\<close>

text \<open>
  C39. The fallback YAML parser ends on every text: the fuel it is given is never used up, so its
  result is a value, with distinct keys in every dict, or the exception the code raises.
\<close>

theorem fallback_parser_total:
  "load_simple_yaml source = Some (simple_yaml source) \<and> (case simple_yaml source of Inl e \<Rightarrow> True | Inr v \<Rightarrow> unique_keys v)"
  using load_simple_yaml_settles[of source] by (auto simp: simple_yaml_def split: sum.split)


text \<open>A file with one stage and one transition.\<close>

definition demo_source :: string where
  "demo_source = join_with [CHR 0x0A] [''schema: v'', ''workflow:'', ''  id: w'', ''  version: 1'', ''  name: n'', ''inputs:'',
     ''stages:'', ''  - id: s'', ''    type: agent_work'', ''    adapter: runtime.x'', ''    outcomes: [ok]'', ''transitions:'', ''  - from: s'',
     ''    on: ok'', ''    terminal: done'']"


end
