(* ===== verification/Sessions.thy ===== *)
theory Sessions
  imports Py_Dicts Policy_Safety
begin

text \<open>
  Sessions (\<^verbatim>\<open>sessions.py\<close>): the caps of a bounded conversation and the durable key of an actor's
  session.  Elapsed seconds are any ordered ring the integers embed in, such as the rationals that
  finite floats are.
\<close>

section \<open>The budget\<close>

record SessionBudget =
  sb_max_turns :: "int option"
  sb_max_total_tokens :: "int option"
  sb_max_wall_seconds :: "int option"

definition coerce_session_limit :: "pyval \<Rightarrow> string \<Rightarrow> kernel_error + int option" where
  "coerce_session_limit v label = (case v of
     PNone \<Rightarrow> Inr None
   | PBool _ \<Rightarrow> Inl (ValueError (''session budget '' @ repr_str label @ '' must be an integer, not boolean''))
   | _ \<Rightarrow> (case py_int v of
       Inl _ \<Rightarrow> Inl (ValueError (''session budget '' @ repr_str label @ '' must be an integer''))
     | Inr limit \<Rightarrow> if limit < 0 then Inl (ValueError (''session budget '' @ repr_str label @ '' must be non-negative''))
         else Inr (Some limit)))"

text \<open>The constructor, which coerces every field.\<close>

definition session_budget :: "pyval \<Rightarrow> pyval \<Rightarrow> pyval \<Rightarrow> kernel_error + SessionBudget" where
  "session_budget turns tokens seconds =
     bindE (coerce_session_limit turns ''max_turns'') (\<lambda>t.
     bindE (coerce_session_limit tokens ''max_total_tokens'') (\<lambda>k.
     bindE (coerce_session_limit seconds ''max_wall_seconds'') (\<lambda>s.
     Inr \<lparr>sb_max_turns = t, sb_max_total_tokens = k, sb_max_wall_seconds = s\<rparr>)))"

definition max_turns_aliases :: "string list" where
  "max_turns_aliases = [''max_turns'', ''max_turn'', ''turn_cap'']"

definition max_tokens_aliases :: "string list" where
  "max_tokens_aliases = [''max_total_tokens'', ''max_tokens'', ''token_cap'']"

definition max_seconds_aliases :: "string list" where
  "max_seconds_aliases = [''max_wall_seconds'', ''max_seconds'', ''time_cap_seconds'']"

definition pick_alias :: "mapping_items \<Rightarrow> string list \<Rightarrow> pyval" where
  "pick_alias m aliases = (case find (has_key m) aliases of None \<Rightarrow> PNone | Some a \<Rightarrow> dict_get m a)"

definition budget_from_mapping :: "pyval \<Rightarrow> kernel_error + SessionBudget" where
  "budget_from_mapping v = (case v of
     PNone \<Rightarrow> session_budget PNone PNone PNone
   | PDict m \<Rightarrow> session_budget (pick_alias m max_turns_aliases) (pick_alias m max_tokens_aliases) (pick_alias m max_seconds_aliases)
   | _ \<Rightarrow> Inl (ValueError ''session budget must be a mapping''))"

definition is_capped :: "SessionBudget \<Rightarrow> bool" where
  "is_capped b \<longleftrightarrow> sb_max_turns b \<noteq> None \<or> sb_max_total_tokens b \<noteq> None \<or> sb_max_wall_seconds b \<noteq> None"

definition has_hard_backstop :: "SessionBudget \<Rightarrow> bool" where
  "has_hard_backstop b \<longleftrightarrow> sb_max_turns b \<noteq> None \<or> sb_max_wall_seconds b \<noteq> None"

definition with_hard_backstop :: "SessionBudget \<Rightarrow> pyval \<Rightarrow> kernel_error + SessionBudget" where
  "with_hard_backstop b default_max_turns = (if has_hard_backstop b then Inr b else
     (case default_max_turns of
        PInt n \<Rightarrow> if n \<le> 0 then Inl (ValueError ''default_max_turns backstop must be a positive integer'')
          else session_budget (PInt n) (opt_int (sb_max_total_tokens b)) (opt_int (sb_max_wall_seconds b))
      | _ \<Rightarrow> Inl (ValueError ''default_max_turns must be an integer'')))"

definition reached :: "int option \<Rightarrow> ('s::linordered_idom) \<Rightarrow> bool" where
  "reached cap used \<longleftrightarrow> (case cap of None \<Rightarrow> False | Some c \<Rightarrow> of_int c \<le> used)"

definition cap_hit :: "SessionBudget \<Rightarrow> int \<Rightarrow> int \<Rightarrow> ('s::linordered_idom) \<Rightarrow> string option" where
  "cap_hit b turns total_tokens elapsed_seconds =
     (if reached (sb_max_turns b) turns then Some ''max_turns''
      else if reached (sb_max_total_tokens b) total_tokens then Some ''max_total_tokens''
      else if reached (sb_max_wall_seconds b) elapsed_seconds then Some ''max_wall_seconds''
      else None)"

definition budget_dict :: "SessionBudget \<Rightarrow> mapping_items" where
  "budget_dict b = [(''max_turns'', opt_int (sb_max_turns b)), (''max_total_tokens'', opt_int (sb_max_total_tokens b)),
     (''max_wall_seconds'', opt_int (sb_max_wall_seconds b))]"

section \<open>The session key\<close>

definition session_scopes :: "string list" where
  "session_scopes = [''workflow_instance'', ''program_instance'']"

text \<open>\<open>_digest_data\<close>: the line ends of the text are not normalised here.\<close>

definition session_digest :: "pyval \<Rightarrow> string" where
  "session_digest v = ''sha256:'' @ sha256_hex (json_text (canonical_data v))"

definition digest_actor_session_profile :: "mapping_items \<Rightarrow> string" where
  "digest_actor_session_profile profile =
     session_digest (PDict [(''schema_version'', PStr ''actor-session-profile.v1''), (''profile'', PDict profile)])"

definition session_text :: "pyval \<Rightarrow> string option" where
  "session_text v = (if none_or_empty v then None else Some (py_str v))"

definition required_text :: "pyval \<Rightarrow> string \<Rightarrow> kernel_error + string" where
  "required_text v label = (if str_or (session_text v) [] = [] then Inl (ValueError (label @ '' is required''))
     else Inr (str_or (session_text v) []))"

definition hex_digit :: "char \<Rightarrow> bool" where
  "hex_digit c \<longleftrightarrow> (let n = (of_char c :: nat) in (48 \<le> n \<and> n \<le> 57) \<or> (97 \<le> n \<and> n \<le> 102))"

text \<open>\<open>^sha256:[0-9a-f]{64}$\<close>: the dollar also matches before a final line feed.\<close>

definition matches_sha256 :: "string \<Rightarrow> bool" where
  "matches_sha256 s \<longleftrightarrow> starts_with ''sha256:'' s \<and>
     (let h = drop 7 s in length (take 64 h) = 64 \<and> list_all hex_digit (take 64 h) \<and> drop 64 h \<in> {[], [CHR 0x0A]})"

definition required_digest :: "pyval \<Rightarrow> string \<Rightarrow> kernel_error + string" where
  "required_digest v label = bindE (required_text v label) (\<lambda>s.
     if matches_sha256 s then Inr s else Inl (ValueError (label @ '' must be a sha256:<64-hex> digest'')))"

text \<open>The argument is the binding's plain data.\<close>

definition canonical_actor_session_binding :: "pyval \<Rightarrow> kernel_error + pyval" where
  "canonical_actor_session_binding binding = (case mapping_of binding of
     None \<Rightarrow> Inl (TypeError ''actor session binding must be a dataclass or mapping'')
   | Some raw \<Rightarrow> let scope = (if truthy (dict_get raw ''scope'') then py_str (dict_get raw ''scope'') else []) in
       if scope \<notin> set session_scopes then Inl (ValueError (''scope must be one of: '' @ join_with '', '' session_scopes))
       else
         bindE (required_text (dict_get raw ''scope_id'') ''scope_id'') (\<lambda>scope_id.
         bindE (required_text (dict_get raw ''workflow_id'') ''workflow_id'') (\<lambda>workflow_id.
         bindE (required_text (dict_get raw ''actor_ref'') ''actor_ref'') (\<lambda>actor_ref.
         bindE (required_text (dict_get raw ''adapter_id'') ''adapter_id'') (\<lambda>adapter_id.
         bindE (required_digest (dict_get raw ''profile_binding_digest'') ''profile_binding_digest'') (\<lambda>profile.
         let version = session_text (dict_get raw ''workflow_version''); program = session_text (dict_get raw ''program_id'') in
         if scope = ''workflow_instance'' \<and> str_or version [] = []
         then Inl (ValueError ''workflow_instance actor sessions require workflow_version'')
         else if scope = ''program_instance'' \<and> str_or program [] = []
         then Inl (ValueError ''program_instance actor sessions require program_id'')
         else Inr (canonical_data (PDict
           [(''schema_version'', PStr ''actor-session-key.v1''), (''scope'', PStr scope), (''scope_id'', PStr scope_id),
            (''workflow_id'', PStr workflow_id), (''workflow_version'', opt_str version), (''program_id'', opt_str program),
            (''actor_ref'', PStr actor_ref), (''adapter_id'', PStr adapter_id),
            (''runtime_namespace'', PStr (str_or (session_text (dict_get raw ''runtime_namespace'')) ''default'')),
            (''profile_binding_digest'', PStr profile)]))))))))"

definition canonical_actor_session_key :: "pyval \<Rightarrow> kernel_error + string" where
  "canonical_actor_session_key binding = bindE (canonical_actor_session_binding binding) (\<lambda>b.
     Inr (''ask:v1:'' @ remove_prefix ''sha256:'' (session_digest b)))"

section \<open>Caps that cannot be lost\<close>

lemma session_limit_kept: "coerce_session_limit (opt_int x) l = Inr y \<longleftrightarrow> y = x \<and> (\<forall>i. x = Some i \<longrightarrow> 0 \<le> i)"
  by (cases x) (auto simp: coerce_session_limit_def opt_int_def)

lemma session_limits_valid: "session_budget a b c = Inr s \<Longrightarrow>
   (\<forall>i. sb_max_turns s = Some i \<or> sb_max_total_tokens s = Some i \<or> sb_max_wall_seconds s = Some i \<longrightarrow> 0 \<le> i)"
  by (auto simp: session_budget_def coerce_session_limit_def bindE_eq_Inr split: pyval.splits sum.splits if_splits)

lemma reached_mono: "reached c x \<Longrightarrow> x \<le> y \<Longrightarrow> reached c y"
  by (auto simp: reached_def split: option.splits)

text \<open>
  C40. No configuration of a session removes its hard cap: \<open>with_hard_backstop\<close> keeps the token and
  wall-clock caps, and under the budget it returns some turn or wall-clock limit stops the session
  whatever usage the provider reports; a cap once hit stays hit.
\<close>

theorem session_backstop_holds:
  assumes "with_hard_backstop b (PInt n) = Inr b'"
  shows "sb_max_total_tokens b' = sb_max_total_tokens b \<and> sb_max_wall_seconds b' = sb_max_wall_seconds b \<and>
    (\<exists>limit. sb_max_turns b' = Some limit \<and> (\<forall>turns tokens. \<forall>elapsed::'s::linordered_idom. limit \<le> turns \<longrightarrow> cap_hit b' turns tokens elapsed \<noteq> None) \<or>
       sb_max_wall_seconds b' = Some limit \<and> (\<forall>turns tokens. \<forall>elapsed::'s. of_int limit \<le> elapsed \<longrightarrow> cap_hit b' turns tokens elapsed \<noteq> None)) \<and>
    (\<forall>turns tokens turns' tokens'. \<forall>elapsed elapsed'::'s. cap_hit b' turns tokens elapsed \<noteq> None \<longrightarrow> turns \<le> turns' \<longrightarrow> tokens \<le> tokens' \<longrightarrow>
       elapsed \<le> elapsed' \<longrightarrow> cap_hit b' turns' tokens' elapsed' \<noteq> None)"
proof (intro conjI)
  show "sb_max_total_tokens b' = sb_max_total_tokens b" "sb_max_wall_seconds b' = sb_max_wall_seconds b"
    using assms by (auto simp: with_hard_backstop_def session_budget_def bindE_eq_Inr session_limit_kept split: if_splits)
  have "has_hard_backstop b'"
    using assms by (auto simp: with_hard_backstop_def session_budget_def bindE_eq_Inr has_hard_backstop_def coerce_session_limit_def split: if_splits)
  then show "\<exists>limit. sb_max_turns b' = Some limit \<and> (\<forall>turns tokens. \<forall>elapsed::'s. limit \<le> turns \<longrightarrow> cap_hit b' turns tokens elapsed \<noteq> None) \<or>
       sb_max_wall_seconds b' = Some limit \<and> (\<forall>turns tokens. \<forall>elapsed::'s. of_int limit \<le> elapsed \<longrightarrow> cap_hit b' turns tokens elapsed \<noteq> None)"
    by (auto simp: has_hard_backstop_def cap_hit_def reached_def)
  show "\<forall>turns tokens turns' tokens'. \<forall>elapsed elapsed'::'s. cap_hit b' turns tokens elapsed \<noteq> None \<longrightarrow> turns \<le> turns' \<longrightarrow> tokens \<le> tokens' \<longrightarrow>
       elapsed \<le> elapsed' \<longrightarrow> cap_hit b' turns' tokens' elapsed' \<noteq> None"
    by (auto simp: cap_hit_def split: if_splits dest: reached_mono)
qed

lemma session_backstop_holds_witness:
  "\<exists>b'. with_hard_backstop \<lparr>sb_max_turns = None, sb_max_total_tokens = Some 10, sb_max_wall_seconds = None\<rparr> (PInt 3) = Inr b' \<and>
     sb_max_total_tokens b' = Some 10 \<and> cap_hit b' 3 0 (0::int) = Some ''max_turns''"
proof -
  let ?b = "\<lparr>sb_max_turns = None, sb_max_total_tokens = Some 10, sb_max_wall_seconds = None\<rparr>"
  have w: "with_hard_backstop ?b (PInt 3) = Inr (?b\<lparr>sb_max_turns := Some 3\<rparr>)"
    by (simp add: with_hard_backstop_def has_hard_backstop_def session_budget_def coerce_session_limit_def opt_int_def)
  have "sb_max_total_tokens (?b\<lparr>sb_max_turns := Some 3\<rparr>) = sb_max_total_tokens ?b" by (rule session_backstop_holds[OF w, THEN conjunct1])
  then show ?thesis using w by (simp add: cap_hit_def reached_def)
qed

end
