(* ===== verification/Ledger_Evidence_Safety.thy ===== *)
theory Ledger_Evidence_Safety
  imports Ledger_Gate_Safety
begin

text \<open>
  What a recovery may not cross (durable artifacts, decisions, runtime or host work), what a late
  result may not change, and what the repair of stranded instances does with older attempts.
\<close>

section \<open>Retrying a failed stage\<close>

lemma retry_stage_guards:
  assumes "retry_blocked_stage_without_effect E i rs v oa ev a now L = Inr (x, L')"
  shows "\<exists>w row at. v \<and> strip rs \<noteq> [] \<and> find_instance i L = Some w \<and> wi_status w = WF_BLOCKED \<and>
    latest_attempt i (the_or [] (wi_current_stage_id w)) L = Some row \<and> retryable_status (sr_status row) \<and>
    (sr_approval_required row \<longrightarrow> oa) \<and>
    (filter (\<lambda>c. ar_stage_run_id c = Some (sr_id row)) (artifact_refs L) = [] \<or>
      (\<exists>source. find_receipt (if has_key ev ''source_receipt_id'' then dict_get ev ''source_receipt_id'' else PStr []) L = Inr source \<and>
         diagnostic_evidence_valid oa row ev (filter (\<lambda>c. ar_stage_run_id c = Some (sr_id row)) (artifact_refs L)) source)) \<and>
    append_attempt E i (the_or [] (wi_current_stage_id w)) row (str_or (sr_idempotency_key row)) ''blocked_stage_retry_authorized''
       ''blocked_stage_retry_queued''
       (\<lambda>n. [(''failed_stage_run_id'', PStr (sr_id row)), (''new_stage_run_id'', PStr n),
          (''reason'', PStr (strip rs)), (''verified_no_external_effect'', PBool True),
          (''operator_reauthorized'', PBool oa),
          (''diagnostic_artifact_evidence'', PDict ev)]) a (strip rs) at L = Inr (x, L')"
proof -
  obtain at s latest row where g: "v" "strip rs \<noteq> []" "parked_stage i WF_BLOCKED '' is not blocked'' L = Inr (s, latest)"
    and latest: "latest = Some row" "retryable_status (sr_status row)" and oa: "sr_approval_required row \<longrightarrow> oa"
    and evd: "(if filter (\<lambda>a. ar_stage_run_id a = Some (sr_id row)) (artifact_refs L) = [] then Inr ()
        else bindE (find_receipt (if has_key ev ''source_receipt_id''
                 then dict_get ev ''source_receipt_id'' else PStr []) L) (\<lambda>source.
          guardE (diagnostic_evidence_valid oa row ev (filter (\<lambda>a. ar_stage_run_id a = Some (sr_id row)) (artifact_refs L)) source)
            (LedgerConflict ''failed stage has a durable artifact; use effect-aware recovery with exact diagnostic evidence''))) = Inr ()"
    and app: "append_attempt E i s row (str_or (sr_idempotency_key row)) ''blocked_stage_retry_authorized''
       ''blocked_stage_retry_queued''
       (\<lambda>n. [(''failed_stage_run_id'', PStr (sr_id row)), (''new_stage_run_id'', PStr n),
          (''reason'', PStr (strip rs)), (''verified_no_external_effect'', PBool True),
          (''operator_reauthorized'', PBool oa),
          (''diagnostic_artifact_evidence'', PDict ev)]) a (strip rs) at L = Inr (x, L')"
    using assms unfolding retry_blocked_stage_without_effect_def Let_def
    by (auto simp: bindE_eq_Inr guardE_eq simp del: if_split split: option.splits if_split_asm)
  obtain w where "find_instance i L = Some w" "wi_status w = WF_BLOCKED" "s = the_or [] (wi_current_stage_id w)"
    "latest = latest_attempt i s L"
    using g(3) by (auto simp: parked_stage_Inr)
  then show ?thesis using g latest oa evd app
    by (intro exI[of _ w] exI[of _ row] exI[of _ at]) (auto simp: bindE_eq_Inr guardE_eq split: if_splits)
qed


text \<open>The started run of the example, failed by its runner, with its instance blocked.\<close>

definition failed_stage_ledger :: ledger where
  "failed_stage_ledger = run_trace (queueing @ claiming @ starting @
     [(demo_env, On_lease (Fail_stage_run ''r'' ''u'' ''runtime_failure'' ''x'' SR_FAILED TsNone TsNone ''o'' None)),
      (demo_env, On_instance (Update_workflow_instance ''i'' WF_BLOCKED (Some ''s'') TsNone ''k'' ''blocked'' []))]) empty_ledger"


section \<open>Repairing a local preparation\<close>

lemma queue_repair_cases:
  assumes "queue_local_preparation_repair E i h b cp rs v oa a now L = Inr (x, L')"
  shows "\<exists>checkpoint at new L1. v \<and> oa \<and> strip rs \<noteq> [] \<and> repair_subject i h b cp L = Inr checkpoint \<and>
    new = new_run_row (attempt_id i (sr_stage_id checkpoint) (next_attempt L i (sr_stage_id checkpoint))) i
        (sr_stage_id checkpoint) (next_attempt L i (sr_stage_id checkpoint)) SR_QUEUED
        (sr_adapter_id checkpoint) (sr_actor_ref checkpoint)
        (Some (attempt_id i (sr_stage_id checkpoint) (next_attempt L i (sr_stage_id checkpoint)))) (sr_input_hash checkpoint)
        (Some cp) at \<and>
    insert_run new L = Inr L1 \<and>
    emit E i (Some (sr_id new)) ''local_preparation_repair_queued'' a x at (update_instances (\<lambda>r. wi_instance_id r = i)
       (\<lambda>r. r\<lparr>wi_status := WF_RUNNING, wi_current_stage_id := Some (sr_stage_id checkpoint),
          wi_recovery_epoch := wi_recovery_epoch r + 1, wi_updated_at := at\<rparr>) L1) = Inr L'"
  using assms unfolding queue_local_preparation_repair_def Let_def
  by (auto simp: bindE_eq_Inr guardE_eq new_run_row_def)

lemma repair_subject_guards:
  assumes "repair_subject i h b cp L = Inr checkpoint"
  shows "\<exists>inst blocked. find_instance i L = Some inst \<and> wi_status inst = WF_BLOCKED \<and> wi_definition_hash inst = Some h \<and>
    run_of_instance b i L = Some blocked \<and> run_of_instance cp i L = Some checkpoint \<and> repairable inst blocked checkpoint L \<and>
    (\<forall>r \<in> set (drop (run_position cp L) (stage_runs L)). sr_instance_id r = i \<longrightarrow>
       local_adapter r \<and> (sr_lease_token r = None \<or> sr_lease_token r = Some [])) \<and>
    \<not> (\<exists>d \<in> set (human_decisions L). hd_instance_id d = i \<and>
       hd_stage_run_id d \<in> sr_id ` set (drop (run_position cp L) (stage_runs L))) \<and>
    \<not> (\<exists>r \<in> set (stage_runs L). sr_instance_id r = i \<and> in_flight_status (sr_status r))"
proof (cases "find_instance i L")
  case None
  then show ?thesis using assms by (simp add: repair_subject_def)
next
  case inst: (Some inst)
  show ?thesis
  proof (cases "run_of_instance b i L")
    case None
    then show ?thesis using assms inst by (auto simp: repair_subject_def bindE_eq_Inr split: if_split_asm)
  next
    case b: (Some blocked)
    show ?thesis
    proof (cases "run_of_instance cp i L")
      case None
      then show ?thesis using assms inst b by (auto simp: repair_subject_def bindE_eq_Inr split: if_split_asm)
    next
      case cp: (Some point)
      show ?thesis using assms inst b cp
        by (simp add: repair_subject_def Let_def bindE_eq_Inr guardE_eq split: if_split_asm)
    qed
  qed
qed

text \<open>
  C21. A local-preparation repair crosses nothing it must not: from the checkpoint onwards every
  run of the instance is a lane or surface run without a lease and none has a human decision,
  nothing of the instance is in flight, and the blocked workflow snapshot is the expected one.  It
  appends one queued attempt of the checkpoint's stage, numbered above every earlier attempt of
  that stage, and keeps all rows, receipts, artifacts and decisions.
\<close>

theorem local_repair_crosses_no_authority:
  assumes "queue_local_preparation_repair E i h b cp rs v oa a now L = Inr (x, L')"
  shows "v \<and> oa \<and> (\<exists>inst new. find_instance i L = Some inst \<and> wi_status inst = WF_BLOCKED \<and> wi_definition_hash inst = Some h \<and>
    (\<forall>r \<in> set (drop (run_position cp L) (stage_runs L)). sr_instance_id r = i \<longrightarrow>
       local_adapter r \<and> (sr_lease_token r = None \<or> sr_lease_token r = Some []) \<and>
       \<not> (\<exists>d \<in> set (human_decisions L). hd_instance_id d = i \<and> hd_stage_run_id d = sr_id r)) \<and>
    (\<forall>r \<in> set (stage_runs L). sr_instance_id r = i \<longrightarrow> \<not> in_flight_status (sr_status r)) \<and>
    stage_runs L' = stage_runs L @ [new] \<and> sr_status new = SR_QUEUED \<and> sr_parent new = Some cp \<and> sr_instance_id new = i \<and>
    (\<forall>r \<in> set (stage_runs L). sr_instance_id r = i \<and> sr_stage_id r = sr_stage_id new \<longrightarrow> sr_attempt r < sr_attempt new) \<and>
    receipts L' = receipts L \<and> artifact_refs L' = artifact_refs L \<and> human_decisions L' = human_decisions L)"
proof -
  obtain checkpoint at new L1 where g: "v" "oa" and subj: "repair_subject i h b cp L = Inr checkpoint"
    and new: "new = new_run_row (attempt_id i (sr_stage_id checkpoint) (next_attempt L i (sr_stage_id checkpoint))) i
        (sr_stage_id checkpoint) (next_attempt L i (sr_stage_id checkpoint)) SR_QUEUED
        (sr_adapter_id checkpoint) (sr_actor_ref checkpoint)
        (Some (attempt_id i (sr_stage_id checkpoint) (next_attempt L i (sr_stage_id checkpoint)))) (sr_input_hash checkpoint)
        (Some cp) at"
    and ins: "insert_run new L = Inr L1"
    and log: "emit E i (Some (sr_id new)) ''local_preparation_repair_queued'' a x at (update_instances (\<lambda>r. wi_instance_id r = i)
       (\<lambda>r. r\<lparr>wi_status := WF_RUNNING, wi_current_stage_id := Some (sr_stage_id checkpoint),
          wi_recovery_epoch := wi_recovery_epoch r + 1, wi_updated_at := at\<rparr>) L1) = Inr L'"
    using queue_repair_cases[OF assms] by (elim exE conjE)
  obtain inst where inst: "find_instance i L = Some inst" "wi_status inst = WF_BLOCKED" "wi_definition_hash inst = Some h"
    and crossed: "\<forall>r \<in> set (drop (run_position cp L) (stage_runs L)). sr_instance_id r = i \<longrightarrow>
       local_adapter r \<and> (sr_lease_token r = None \<or> sr_lease_token r = Some [])"
      "\<not> (\<exists>d \<in> set (human_decisions L). hd_instance_id d = i \<and>
       hd_stage_run_id d \<in> sr_id ` set (drop (run_position cp L) (stage_runs L)))"
      "\<not> (\<exists>r \<in> set (stage_runs L). sr_instance_id r = i \<and> in_flight_status (sr_status r))"
    using repair_subject_guards[OF subj] by (elim exE conjE)
  have rows: "stage_runs L' = stage_runs L @ [new]" "receipts L' = receipts L" "artifact_refs L' = artifact_refs L"
    "human_decisions L' = human_decisions L"
    using ins log by (auto simp: insert_run_Inr emit_Inr update_instances_def)
  have cols: "sr_status new = SR_QUEUED" "sr_parent new = Some cp" "sr_instance_id new = i"
    "sr_stage_id new = sr_stage_id checkpoint" "sr_attempt new = next_attempt L i (sr_stage_id checkpoint)"
    by (simp_all add: new new_run_row_def)
  have above: "\<forall>r \<in> set (stage_runs L). sr_instance_id r = i \<and> sr_stage_id r = sr_stage_id new \<longrightarrow> sr_attempt r < sr_attempt new"
    unfolding cols(4,5) using next_attempt_above by blast
  have "\<forall>r \<in> set (drop (run_position cp L) (stage_runs L)). sr_instance_id r = i \<longrightarrow>
       local_adapter r \<and> (sr_lease_token r = None \<or> sr_lease_token r = Some []) \<and>
       \<not> (\<exists>d \<in> set (human_decisions L). hd_instance_id d = i \<and> hd_stage_run_id d = sr_id r)"
    using crossed(1,2) by blast
  moreover have "\<forall>r \<in> set (stage_runs L). sr_instance_id r = i \<longrightarrow> \<not> in_flight_status (sr_status r)"
    using crossed(3) by blast
  ultimately show ?thesis using g inst rows cols(1-3) above by (intro conjI exI[of _ inst] exI[of _ new])
qed

definition repair_trace :: "(env \<times> ledger_op) list" where
  "repair_trace = [(demo_env, On_instance (Insert_workflow_instance (demo_instance\<lparr>inst_status := WF_BLOCKED\<rparr>) TsNone PNone None (Some ''h'') None)),
     (demo_env, On_lease (Insert_stage_run (demo_run\<lparr>run_id := ''c'', run_stage_id := ''p'', run_status := SR_SUCCEEDED,
        run_adapter_id := Some ''lane.x''\<rparr>) ''h'' None None TsNone)),
     (demo_env, On_lease (Insert_stage_run (demo_run\<lparr>run_status := SR_BLOCKED, run_adapter_id := Some ''surface.x'',
        run_failure_class := Some FC_INVALID_OUTPUT\<rparr>) ''h'' None None TsNone))]"

lemma local_repair_crosses_no_authority_witness:
  "\<exists>x L' new. queue_local_preparation_repair demo_env ''i'' ''h'' ''r'' ''c'' ''why'' True True ''op'' TsNone
      (run_trace repair_trace empty_ledger) = Inr (x, L') \<and>
     stage_runs L' = stage_runs (run_trace repair_trace empty_ledger) @ [new] \<and> sr_parent new = Some ''c''"
proof -
  obtain x L' where r: "queue_local_preparation_repair demo_env ''i'' ''h'' ''r'' ''c'' ''why'' True True ''op'' TsNone
      (run_trace repair_trace empty_ledger) = Inr (x, L')"
    by (simp add: queue_local_preparation_repair_def repair_subject_def repair_trace_def run_of_instance_def repairable_def
        starts_with_def adapter_text_def run_position_def local_adapter_def in_flight_status_def fetchlast_def next_attempt_def
        strip_def is_space_def Let_def attempt_eval ledger_eval)
  show ?thesis using local_repair_crosses_no_authority[OF r] r by (elim exE conjE) (intro exI conjI)
qed

section \<open>Late results\<close>

text \<open>
  A late result is evidence and nothing else: recording one, under whatever token and owner
  it claims, changes no run, no instance, no receipt and no decision; it appends one late-result
  row about an existing run and one event marked as non-authoritative.
\<close>

theorem late_result_is_inert:
  assumes "record_late_result E i k ev tk w rh ex ob a L = Inr (lid, L')"
  shows "stage_runs L' = stage_runs L \<and> workflow_instances L' = workflow_instances L \<and> receipts L' = receipts L \<and>
    human_decisions L' = human_decisions L \<and> artifact_refs L' = artifact_refs L \<and> has_run L i \<and>
    (\<exists>row e. late_results L' = late_results L @ [row] \<and> lr_id row = lid \<and> lr_stage_run_id row = i \<and> lr_evidence row = ev \<and>
       events L' = events L @ [e] \<and> ev_type e = ''late_result_recorded'' \<and>
       (\<exists>items. ev_payload e = PDict items \<and> dict_get items ''non_authoritative'' = PBool True))"
proof -
  let ?M = "L\<lparr>uuid_draws := Suc (uuid_draws L)\<rparr>"
  obtain row observed recorded L1 c where run: "find_run i ?M = Some row"
    and ins: "insert_late \<lparr>lr_id = lid, lr_instance_id = sr_instance_id row,
               lr_stage_run_id = i, lr_reported_lease_token = tk,
               lr_reported_owner = w, lr_result_kind = k,
               lr_result_hash = rh, lr_external_ref = ex, lr_evidence = ev,
               lr_observed_at = observed, lr_recorded_at = recorded\<rparr> ?M = Inr L1"
    and log: "emit E (sr_instance_id row) (Some i) ''late_result_recorded'' a (PDict c) recorded L1 = Inr L'"
    and c: "dict_get c ''non_authoritative'' = PBool True"
    using assms unfolding record_late_result_def next_uuid_def Let_def
    by (auto simp: bindE_eq_Inr split: option.splits)
  have "has_run L i" using ins by (simp add: insert_late_Inr has_run_def)
  then show ?thesis using ins log c by (auto simp: insert_late_Inr emit_Inr event_of_def)
qed

lemma late_result_is_inert_witness:
  "\<exists>lid L'. record_late_result demo_env ''r'' ''output'' PNone (Some ''u'') (Some ''o'') None None TsNone ''o'' completed_ledger = Inr (lid, L') \<and>
     stage_runs L' = stage_runs completed_ledger"
proof -
  obtain lid L' where r: "record_late_result demo_env ''r'' ''output'' PNone (Some ''u'') (Some ''o'') None None TsNone ''o'' completed_ledger = Inr (lid, L')"
    by (simp add: record_late_result_def Let_def ledger_eval)
  then show ?thesis using late_result_is_inert[OF r] by blast
qed

section \<open>The repair of stranded instances\<close>

definition blocked_only :: "string set \<Rightarrow> ledger \<Rightarrow> bool" where
  "blocked_only ids L \<longleftrightarrow> (\<forall>w \<in> set (workflow_instances L). wi_instance_id w \<in> ids \<longrightarrow> wi_status w = WF_BLOCKED)"

lemma terminalize_rows_effect:
  assumes "foldE (terminalize_row E a at) wrs (ids, L) = Inr (ids', L')" "blocked_only S L"
  shows "stage_runs L' = stage_runs L \<and> ids' = ids @ map (\<lambda>(w, r). wi_instance_id w) wrs \<and>
    blocked_only (S \<union> (\<lambda>(w, r). wi_instance_id w) ` set wrs) L' \<and>
    map wi_instance_id (workflow_instances L') = map wi_instance_id (workflow_instances L)"
  using assms
proof (induction wrs arbitrary: ids L S)
  case (Cons wr wrs)
  obtain w r where wr: "wr = (w, r)" by (cases wr)
  obtain ids1 L1 where row: "terminalize_row E a at (w, r) (ids, L) = Inr (ids1, L1)"
    and rest: "foldE (terminalize_row E a at) wrs (ids1, L1) = Inr (ids', L')"
    using Cons.prems(1) by (auto simp: bindE_eq_Inr wr)
  have one: "stage_runs L1 = stage_runs L" "ids1 = ids @ [wi_instance_id w]"
    "workflow_instances L1 = update_where (\<lambda>x. wi_instance_id x = wi_instance_id w)
        (\<lambda>x. x\<lparr>wi_status := WF_BLOCKED, wi_updated_at := at\<rparr>) (workflow_instances L)"
    using row by (auto simp: terminalize_row_def bindE_eq_Inr emit_Inr update_instances_def)
  have keys: "map wi_instance_id (workflow_instances L1) = map wi_instance_id (workflow_instances L)"
    unfolding one(3) by (simp add: update_where_map_key)
  have "blocked_only (insert (wi_instance_id w) S) L1"
    unfolding blocked_only_def
  proof (intro ballI impI)
    fix v assume "v \<in> set (workflow_instances L1)" and v: "wi_instance_id v \<in> insert (wi_instance_id w) S"
    then have "v \<in> (\<lambda>x. if wi_instance_id x = wi_instance_id w then x\<lparr>wi_status := WF_BLOCKED, wi_updated_at := at\<rparr> else x) `
        set (workflow_instances L)"
      by (simp add: one(3) update_where_def)
    then obtain x where x: "v = (if wi_instance_id x = wi_instance_id w then x\<lparr>wi_status := WF_BLOCKED, wi_updated_at := at\<rparr> else x)"
      "x \<in> set (workflow_instances L)" by (rule imageE)
    show "wi_status v = WF_BLOCKED"
    proof (cases "wi_instance_id x = wi_instance_id w")
      case True
      then show ?thesis unfolding x(1) by simp
    next
      case False
      then show ?thesis using x v Cons.prems(2) by (auto simp: blocked_only_def)
    qed
  qed
  note rec = Cons.IH[OF rest this]
  have sets: "insert (wi_instance_id w) S \<union> (\<lambda>(w, r). wi_instance_id w) ` set wrs = S \<union> (\<lambda>(w, r). wi_instance_id w) ` set (wr # wrs)"
    by (auto simp: wr)
  show ?case using rec one(1,2) keys unfolding sets by (simp add: wr)
qed simp

text \<open>
  The repair of stranded instances looks at every attempt of the current stage, not only the
  latest: an instance with one failed attempt of its current stage is blocked although a newer
  attempt of that stage is queued and can still be claimed.
\<close>

theorem terminalize_ignores_newer_attempts:
  assumes "terminalize_blocked_current_stages E now a L = Inr (ids, L')"
    "w \<in> set (workflow_instances L)" "\<not> sweep_closed (wi_status w)"
    "old \<in> set (stage_runs L)" "sr_instance_id old = wi_instance_id w" "wi_current_stage_id w = Some (sr_stage_id old)"
    "stage_settled_blocked (sr_status old)"
    "new \<in> set (stage_runs L)" "sr_instance_id new = wi_instance_id w" "sr_stage_id new = sr_stage_id old"
    "sr_attempt old < sr_attempt new" "claimable at (Some (wi_instance_id w)) new"
  shows "(\<forall>v \<in> set (workflow_instances L'). wi_instance_id v = wi_instance_id w \<longrightarrow> wi_status v = WF_BLOCKED) \<and>
    wi_instance_id w \<in> set ids \<and> new \<in> set (stage_runs L') \<and> claimable at (Some (wi_instance_id w)) new"
proof -
  obtain t where fold: "foldE (terminalize_row E a t) (limbo_rows L) ([], L) = Inr (ids, L')"
    using assms(1) by (auto simp: terminalize_blocked_current_stages_def bindE_eq_Inr)
  have "blocked_only {} L" by (simp add: blocked_only_def)
  note eff = terminalize_rows_effect[OF fold this]
  have "(w, old) \<in> set (limbo_rows L)" using assms(2-7) by (auto simp: limbo_rows_def)
  then have "wi_instance_id w \<in> (\<lambda>(w, r). wi_instance_id w) ` set (limbo_rows L)" by force
  then show ?thesis using eff assms(8,12) by (auto simp: blocked_only_def)
qed

definition retried_ledger :: ledger where
  "retried_ledger = run_trace (queueing @ claiming @ starting @
     [(demo_env, On_lease (Schedule_retry ''r'' ''u'' ''runtime_failure'' ''x'' TsNone TsNone ''o'' None))]) empty_ledger"

lemma terminalize_ignores_newer_attempts_witness:
  "\<exists>ids L' new. terminalize_blocked_current_stages demo_env TsNone ''rec'' retried_ledger = Inr (ids, L') \<and>
     (\<forall>v \<in> set (workflow_instances L'). wi_instance_id v = ''i'' \<longrightarrow> wi_status v = WF_BLOCKED) \<and>
     new \<in> set (stage_runs L') \<and> claimable (isoformat (Utc 0)) (Some ''i'') new"
proof -
  obtain ids L' where t: "terminalize_blocked_current_stages demo_env TsNone ''rec'' retried_ledger = Inr (ids, L')"
    by (simp add: terminalize_blocked_current_stages_def limbo_rows_def terminalize_row_def retried_ledger_def schedule_retry_def
        retry_child_def retried_row_def stage_status_for_failure_def next_attempt_def sweep_closed_def stage_settled_blocked_def
        updated_order_def attempt_eval ledger_eval)
  have "map (\<lambda>w. (wi_instance_id w, wi_current_stage_id w, wi_status w)) (workflow_instances retried_ledger) = [(''i'', Some ''s'', WF_RUNNING)]"
    "map (\<lambda>r. (sr_instance_id r, sr_stage_id r, sr_attempt r, sr_status r, sr_retry_after_at r)) (stage_runs retried_ledger) =
       [(''i'', ''s'', 1, SR_FAILED, Some (isoformat (Utc 0))), (''i'', ''s'', 2, SR_QUEUED, Some (isoformat (Utc 0)))]"
    by (simp_all add: retried_ledger_def schedule_retry_def retry_child_def retried_row_def stage_status_for_failure_def
        next_attempt_def attempt_eval ledger_eval)
  then obtain w old new where rows: "workflow_instances retried_ledger = [w]" "stage_runs retried_ledger = [old, new]"
    and cols: "wi_instance_id w = ''i''" "wi_current_stage_id w = Some ''s''" "wi_status w = WF_RUNNING"
      "sr_instance_id old = ''i''" "sr_stage_id old = ''s''" "sr_attempt old = 1" "sr_status old = SR_FAILED"
      "sr_instance_id new = ''i''" "sr_stage_id new = ''s''" "sr_attempt new = 2" "sr_status new = SR_QUEUED"
      "sr_retry_after_at new = Some (isoformat (Utc 0))"
    by (auto simp: map_eq_Cons_conv)
  have "(\<forall>v \<in> set (workflow_instances L'). wi_instance_id v = wi_instance_id w \<longrightarrow> wi_status v = WF_BLOCKED) \<and>
    wi_instance_id w \<in> set ids \<and> new \<in> set (stage_runs L') \<and> claimable (isoformat (Utc 0)) (Some (wi_instance_id w)) new"
    by (rule terminalize_ignores_newer_attempts[OF t, where old = old])
      (simp_all add: rows cols sweep_closed_def stage_settled_blocked_def claimable_def due_def)
  then show ?thesis using t cols(1) by (intro exI conjI) auto
qed

end
