(* ===== verification/Spec2Isabelle.thy ===== *)
theory Spec2Isabelle
  imports Kernel_Progress Yaml_Safety Sessions Runner_Safety Routing_Safety Ledger_Example Ledger_Contract Ledger_Scheduling Ledger_Settling Ledger_Sweep Ledger_Recovery
    Ledger_Gate_Safety Ledger_Evidence_Safety Policy_Safety Lease_Policy Stage_Policy_Safety
begin

text \<open>
  A verification library for the agent workflow kernel (\<^verbatim>\<open>packages/kernel/agent_workflow_kernel\<close>).
  The kernel runs workflow instances through the stages of a definition.  Everything durable is in
  one SQLite ledger (\<^verbatim>\<open>storage.py\<close>): instances, stage runs with their leases, receipts, artifacts,
  adapter invocations, events, child sessions, human decisions, late results.  A runner
  (\<^verbatim>\<open>runner.py\<close>) sweeps lapsed leases, claims the oldest queued run, hands it to a stage handler and
  settles it; the kernel (\<^verbatim>\<open>kernel.py\<close>, \<^verbatim>\<open>_helpers.py\<close>) evaluates policy, invokes adapters and routes the
  result over guarded transitions; human gates park a run until a decision is ingested.

  \<^bold>\<open>Theories and the code they model.\<close>  Paths are relative to the kernel package.
  \<^item> \<^verbatim>\<open>Prelude\<close>, \<^verbatim>\<open>Py_Values\<close>, \<^verbatim>\<open>Py_Dicts\<close>: the errors as a datatype and the error monad (\<open>Inl\<close> is a raised
    exception), table rows, Python values with \<open>str\<close>, \<open>repr\<close>, \<open>int\<close> and canonical JSON, and the untyped
    helpers of \<^verbatim>\<open>_helpers.py\<close>.  \<^verbatim>\<open>Json_Injective\<close>: the canonical JSON text identifies the value.
  \<^item> \<^verbatim>\<open>Timestamps\<close>: \<^verbatim>\<open>iso_timestamp\<close> and the two \<^verbatim>\<open>_coerce_datetime\<close>, with CPython's calendar; text order is time
    order and parsing inverts rendering.  \<^verbatim>\<open>Sha256\<close>: FIPS 180-4 on 32-bit words, for the digests.
  \<^item> \<^verbatim>\<open>Contracts\<close> (\<^verbatim>\<open>contracts.py\<close>), \<^verbatim>\<open>Workflow_Text\<close> (\<^verbatim>\<open>to_plain_data\<close>, \<^verbatim>\<open>dsl.canonical_json\<close>, the digests of
    \<^verbatim>\<open>prompts.py\<close>), \<^verbatim>\<open>Lease_Policy\<close> (\<^verbatim>\<open>lease.py\<close>), \<^verbatim>\<open>Adapter_Registry\<close> (\<^verbatim>\<open>adapter_registry.py\<close>), \<^verbatim>\<open>Policy\<close> (\<^verbatim>\<open>policy.py\<close>),
    \<^verbatim>\<open>Stage_Policy\<close> (the policy layers of \<^verbatim>\<open>_helpers.py\<close>).
  \<^item> \<^verbatim>\<open>Ledger_State\<close>, \<^verbatim>\<open>Ledger_Leases\<close>, \<^verbatim>\<open>Ledger_Instances\<close>, \<^verbatim>\<open>Ledger_Gates\<close>, \<^verbatim>\<open>Ledger_Records\<close>: \<^verbatim>\<open>storage.py\<close>, one
    definition per operation of \<^verbatim>\<open>WorkflowLedger\<close>.
  \<^item> \<^verbatim>\<open>Runner\<close>: \<^verbatim>\<open>runner.py\<close>, one pass and the bounded owned loop over a kernel facade.
  \<^item> \<^verbatim>\<open>Kernel_Routing\<close>, \<^verbatim>\<open>Transition_Guards\<close>, \<^verbatim>\<open>Stage_Outcomes\<close>: starting, queueing and routing in \<^verbatim>\<open>kernel.py\<close>, the
    guards with their budgets, output contracts and retry policies of \<^verbatim>\<open>_helpers.py\<close>.
  \<^item> \<^verbatim>\<open>Prompts\<close> (\<^verbatim>\<open>prompts.py\<close>), \<^verbatim>\<open>Stage_Inputs\<close> (the runtime input), \<^verbatim>\<open>Json_Parse\<close> (\<^verbatim>\<open>json.loads\<close> of the stored texts),
    \<^verbatim>\<open>Adapter_Receipts\<close> (the receipt builders), \<^verbatim>\<open>Human_Gates\<close> (requests, decisions and their ingestion).
  \<^item> \<^verbatim>\<open>Stage_Step\<close>: \<^verbatim>\<open>WorkflowKernel._handle_stage\<close> and \<^verbatim>\<open>WorkflowKernel.run_once\<close>, every branch in the order of the code.
    \<^verbatim>\<open>Surface_Lifecycle\<close>: publishing, reading back and ingesting a waiting gate on its surface, and the kernel
    as the facade that the owned loop drives.
  \<^item> \<^verbatim>\<open>Workflow_Validation\<close> (\<^verbatim>\<open>validation.py\<close>), \<^verbatim>\<open>Workflow_Loading\<close> and \<^verbatim>\<open>Simple_Yaml\<close> (\<^verbatim>\<open>dsl.py\<close>): a definition from its file, with
    the fallback YAML parser, and back from its canonical snapshot.  \<^verbatim>\<open>Sessions\<close>: \<^verbatim>\<open>sessions.py\<close>.

  \<^bold>\<open>The program model.\<close>  \<^verbatim>\<open>Kernel_Program\<close> gives the code above the ledger its meaning: a program takes
  one environment per ledger call or clock reading and a world (the ledger, the count of calls made, the
  effects so far, a memo for the Python locals a handler's closure keeps), and returns the raised
  exception or the result, with the world it leaves.  A raised exception does not undo committed ledger
  transactions.  What lies outside is the parameter \<^verbatim>\<open>outside\<close>: the registered adapters, as a function
  from the effects so far, the invocation and the argument to an answer or an exception, and the files of
  the prompt registry.  Nothing is assumed of the adapters; an answer of the wrong type reads as a raised
  \<^verbatim>\<open>TypeError\<close>.  The deterministic reviewer of the owned loop is an argument.

  \<^bold>\<open>The ledger model.\<close>  A table is the list of its rows in rowid order; \<open>event_sequence\<close> is the position
  in \<open>events\<close>; a JSON column holds the value whose canonical text is stored.  An operation takes its
  environment (two clock readings, the uuid supply, the host's zone), its arguments and the ledger; a
  raised exception rolls the transaction back (\<open>Inl\<close>), except that a claim commits before it reads the
  row back (the inner \<open>Inl\<close>).

  \<^bold>\<open>The lemmas.\<close>  \<^verbatim>\<open>Ledger_Integrity\<close> has the key and reference invariant; \<^verbatim>\<open>Ledger_Actions\<close> an abstract
  specification of what any operation may do (six kinds of action) with its invariants and history
  preorder; \<^verbatim>\<open>Ledger_Refinement\<close> shows that every operation is a sequence of such actions; \<^verbatim>\<open>Ledger_Machine\<close>
  lifts this to all traces of operations, through the locales \<open>invariant_machine\<close> and \<open>history_machine\<close>.
  \<^verbatim>\<open>Ledger_Contract\<close> states the contract of the four settling operations as a locale.  \<^verbatim>\<open>Ledger_Scheduling\<close>,
  \<^verbatim>\<open>Ledger_Settling\<close>, \<^verbatim>\<open>Ledger_Sweep\<close>, \<^verbatim>\<open>Ledger_Recovery\<close>, \<^verbatim>\<open>Ledger_Gate_Safety\<close>, \<^verbatim>\<open>Ledger_Evidence_Safety\<close>,
  \<^verbatim>\<open>Policy_Safety\<close>, \<^verbatim>\<open>Stage_Policy_Safety\<close>, \<^verbatim>\<open>Runner_Safety\<close> and \<^verbatim>\<open>Routing_Safety\<close> hold the properties of single
  operations; \<^verbatim>\<open>Ledger_Example\<close> is the concrete run the witnesses use.  \<^verbatim>\<open>Time_Roundtrip\<close> has the round trip
  of timestamps, \<^verbatim>\<open>Json_Roundtrip\<close> that of the stored JSON texts; \<^verbatim>\<open>Definition_Safety\<close>, \<^verbatim>\<open>Definition_Restore\<close> and
  \<^verbatim>\<open>Yaml_Safety\<close> show that validation is exact, that a valid definition routes totally, that the fallback
  parser ends (its fuel, twice the lines plus two, is never used up) and that a loaded definition
  survives its snapshot.  Above the ledger, \<^verbatim>\<open>Program_Frames\<close> has the rules that say which programs leave which part
  of the world alone; \<^verbatim>\<open>Human_Gate_Safety\<close>, \<^verbatim>\<open>Stage_Safety\<close> and \<^verbatim>\<open>Stage_Results\<close> use them for what a recorded
  decision, an adapter call and a handler's result presuppose.  \<^verbatim>\<open>Kernel_Machine\<close> proves that every entry
  point records the adapter calls it makes (\<open>audited\<close>, through the locale \<open>audited_facade\<close> interpreted on
  the kernel's own facade), and \<^verbatim>\<open>Kernel_Progress\<close> concludes with the invariants of any sequence of kernel
  calls and with progress.  This theory holds the properties of whole traces of the ledger.

  \<^bold>\<open>Bounds of the model.\<close>  Strings are sequences of code points below 256.  Python values have no floats
  and dict keys are strings.  Status arguments are members of their enumerations; integers stay within
  SQLite's 64 bits.  The ISO week and basic formats of timestamps read as malformed.  Callers pass a
  verdict status when they fail or decide a run and do not forge \<open>stage_started\<close> events
  (\<open>well_called\<close>); every call inside the kernel does so.

  \<^bold>\<open>Not modelled.\<close>  Schema migration, backup and restore, file permissions and the audit exports of
  \<^verbatim>\<open>storage.py\<close>: DDL and file work.  PyYAML, which is a parameter of the loader;
  the reviewers, parity reports and surface profiles, which only build texts; the file store of
  \<^verbatim>\<open>receipts.py\<close>.  Local and host adapters drive processes, files and services outside the kernel.  The
  command line and the one-off scripts.
\<close>

section \<open>The ledger over any sequence of operations\<close>

text \<open>
  C1. After any sequence of ledger operations, failed calls included, every primary and unique
  key of the nine tables is distinct and every foreign key names an existing row.
\<close>

theorem reachable_ledger_ok:
  assumes "legal_trace u tr"
  shows "ledger_ok (run_trace tr empty_ledger)"
  using run_trace_inv[OF assms] by (simp add: ledger_inv_def)

lemma reachable_ledger_ok_witness:
  "ledger_ok (run_trace demo_trace empty_ledger) \<and>
   map sr_status (stage_runs (run_trace demo_trace empty_ledger)) = [SR_SUCCEEDED]"
proof
  show "ledger_ok (run_trace demo_trace empty_ledger)" by (rule reachable_ledger_ok[OF legal_demo(1)])
  show "map sr_status (stage_runs (run_trace demo_trace empty_ledger)) = [SR_SUCCEEDED]"
    using completed_demo by auto
qed

text \<open>
  C2. What the ledger has recorded stays recorded: continuing any sequence of operations only
  appends to the events, receipts, artifacts, decisions and late results, keeps the identity of
  every run and instance, and moves each run along its lifecycle.
\<close>

theorem ledger_history_kept:
  assumes "legal_trace u (tr @ tr')"
  shows "history (run_trace tr empty_ledger) (run_trace (tr @ tr') empty_ledger)"
proof -
  have "legal_trace u tr" "legal_trace u tr'" using assms by (simp_all add: legal_trace_append)
  then show ?thesis unfolding run_trace_append
    by (intro ledger_machine.extends_steps run_trace_steps run_trace_inv)
qed

lemma ledger_history_kept_witness:
  "history (run_trace queueing empty_ledger) (run_trace (queueing @ claiming @ starting @ completing) empty_ledger) \<and>
   length (stage_runs (run_trace queueing empty_ledger)) = 1"
proof
  show "history (run_trace queueing empty_ledger) (run_trace (queueing @ claiming @ starting @ completing) empty_ledger)"
    by (rule ledger_history_kept[OF legal_demo(1)[unfolded demo_trace_def]])
  show "length (stage_runs (run_trace queueing empty_ledger)) = 1"
    using arg_cong[OF queued_demo, of length] by simp
qed

text \<open>
  C8. A stage run starts at most once: over any sequence of operations at most one
  \<open>stage_started\<close> event names a run, and a run that has one is never again queued or claimed.
\<close>

theorem run_starts_once:
  assumes "legal_trace u tr"
  shows "length (start_events (run_trace tr empty_ledger) i) \<le> 1 \<and>
    (\<forall>r \<in> set (stage_runs (run_trace tr empty_ledger)). start_events (run_trace tr empty_ledger) (sr_id r) \<noteq> [] \<longrightarrow>
      sr_status r \<noteq> SR_QUEUED \<and> sr_status r \<noteq> SR_CLAIMED)"
  using run_trace_inv[OF assms] unfolding ledger_inv_def starts_ok_def by blast

lemma run_starts_once_witness:
  "length (start_events (run_trace demo_trace empty_ledger) ''r'') \<le> 1 \<and>
   length (start_events (run_trace demo_trace empty_ledger) ''r'') = 1"
proof
  show "length (start_events (run_trace demo_trace empty_ledger) ''r'') \<le> 1"
    by (rule run_starts_once[OF legal_demo(1), THEN conjunct1])
  show "length (start_events (run_trace demo_trace empty_ledger) ''r'') = 1"
    by (simp add: start_events_def ledger_eval)
qed

text \<open>
  C9. Leases are exclusive: if the uuid supply never repeats, every held lease belongs to a run
  in an active status, carries an expiry and a token the kernel drew, and no two runs hold
  the same token.
\<close>

theorem lease_tokens_exclusive:
  assumes "inj u" "legal_trace u tr"
  shows "leases_ok u (run_trace tr empty_ledger)"
  using run_trace_inv[OF assms(2)] assms(1) by (simp add: ledger_inv_def)

lemma lease_tokens_exclusive_witness:
  "leases_ok (uuid_hex demo_env) (run_trace (queueing @ claiming) empty_ledger) \<and>
   map sr_lease_token (stage_runs (run_trace (queueing @ claiming) empty_ledger)) = [Some ''u'']"
proof
  show "leases_ok (uuid_hex demo_env) (run_trace (queueing @ claiming) empty_ledger)"
    by (rule lease_tokens_exclusive[OF inj_demo_uuid legal_demo(2)])
  show "map sr_lease_token (stage_runs (run_trace (queueing @ claiming) empty_ledger)) = [Some ''u'']"
    using claimed_demo by auto
qed

text \<open>
  C10. A verdict is final: a run that has succeeded, failed, timed out, been denied or been
  superseded keeps that status through every later sequence of operations.
\<close>

theorem final_status_kept:
  assumes "legal_trace u (tr @ tr')" "r \<in> set (stage_runs (run_trace tr empty_ledger))" "final_status (sr_status r)"
  shows "\<exists>s \<in> set (stage_runs (run_trace (tr @ tr') empty_ledger)). sr_id s = sr_id r \<and> sr_status s = sr_status r"
proof -
  have parts: "legal_trace u tr" "legal_trace u tr'" using assms(1) by (simp_all add: legal_trace_append)
  then have "history (run_trace tr empty_ledger) (run_trace (tr @ tr') empty_ledger)"
    unfolding run_trace_append by (intro ledger_machine.extends_steps run_trace_steps run_trace_inv)
  then obtain s where s: "s \<in> set (stage_runs (run_trace (tr @ tr') empty_ledger))" "same_run r s"
    "lifecycle\<^sup>*\<^sup>* (sr_status r) (sr_status s)"
    using assms(2) unfolding history_def runs_continue_def by blast
  then have "sr_status s = sr_status r" using final_status_closed[OF s(3) assms(3)] by simp
  with s show ?thesis by (auto simp: same_run_def same_run_keys_def)
qed

lemma final_status_kept_witness:
  "\<exists>r \<in> set (stage_runs (run_trace demo_trace empty_ledger)).
     \<exists>s \<in> set (stage_runs (run_trace (demo_trace @ queueing) empty_ledger)). sr_id s = sr_id r \<and> sr_status s = SR_SUCCEEDED"
proof -
  obtain r where r: "r \<in> set (stage_runs (run_trace demo_trace empty_ledger))" "sr_status r = SR_SUCCEEDED"
    using completed_demo by auto
  have "legal_trace (uuid_hex demo_env) (demo_trace @ queueing)" using legal_demo by (simp add: legal_trace_append)
  then show ?thesis
    using final_status_kept[OF _ r(1), of "uuid_hex demo_env" queueing] r by (auto simp: final_status_def)
qed

end
